(* ===== verification/Py_Prelude.thy ===== *)
theory Py_Prelude
  imports Main "HOL-Library.Word"
begin

text \<open>
  Shared vocabulary of the development: Python's exceptions as values, the
  Python built-ins that the modelled code calls on strings, lists and
  dictionaries (\<open>str.startswith\<close>, \<open>str.find\<close>, \<open>str.split(' ')\<close>,
  \<open>str.strip\<close>, \<open>readlines\<close>, \<open>str(int)\<close>, \<open>int(str)\<close>, list indexing with
  negative indices, insertion-ordered dictionaries), and the generic lemmas
  about them that the component theories share.  A Python \<open>str\<close> is an
  Isabelle \<open>string\<close>: the model covers code points below 256.
\<close>

unbundle bit_operations_syntax

named_theorems py_simps "executable equations of the Python built-ins"

section \<open>Exceptions\<close>

text \<open>
  Every \<open>raise\<close> of the source is a value \<open>Inl e\<close>; the message is kept so
  that two raises of the same class stay apart.  \<open>ArgumentError\<close> is
  \<open>ctypes.ArgumentError\<close>, raised when a foreign function is passed an
  argument its declared \<open>argtypes\<close> cannot convert; \<open>NameError\<close> is the
  use of a name no module defines.
\<close>

datatype py_error =
    ValueError string
  | RuntimeError string
  | TypeError string
  | IndexError
  | KeyError
  | AttributeError string
  | ArgumentError string
  | NameError string

type_synonym 'a py_result = "py_error + 'a"

abbreviation is_error :: "'a py_result \<Rightarrow> bool" where
  "is_error r \<equiv> isl r"

section \<open>Strings\<close>

definition is_py_space :: "char \<Rightarrow> bool" where
  "is_py_space c \<longleftrightarrow>
     c \<in> set [CHR 0x09, CHR 0x0A, CHR 0x0B, CHR 0x0C, CHR 0x0D, CHR 0x1C, CHR 0x1D,
              CHR 0x1E, CHR 0x1F, CHR 0x20, CHR 0x85, CHR 0xA0]"

text \<open>\<open>s.strip()\<close>: whitespace removed at both ends.\<close>

definition py_strip :: "string \<Rightarrow> string" where
  "py_strip s = rev (dropWhile is_py_space (rev (dropWhile is_py_space s)))"

text \<open>\<open>s.startswith(p)\<close>.\<close>

definition starts_with :: "string \<Rightarrow> string \<Rightarrow> bool" where
  "starts_with p s \<longleftrightarrow> take (length p) s = p"

text \<open>First position of \<open>sub\<close> in a list, if any.\<close>

fun first_occ :: "'a list \<Rightarrow> 'a list \<Rightarrow> nat option" where
  "first_occ sub [] = (if sub = [] then Some 0 else None)"
| "first_occ sub (x # xs) =
     (if take (length sub) (x # xs) = sub then Some 0 else map_option Suc (first_occ sub xs))"

text \<open>\<open>s.find(sub, start)\<close>: the index of the first occurrence at or after
  \<open>start\<close>, or \<open>-1\<close>.\<close>

definition py_find :: "string \<Rightarrow> string \<Rightarrow> nat \<Rightarrow> int" where
  "py_find s sub start =
     (if length s < start then -1
      else case first_occ sub (drop start s) of
             None \<Rightarrow> -1
           | Some i \<Rightarrow> int (start + i))"

text \<open>Python slices \<open>s[:i]\<close> and \<open>s[i:]\<close> for an integer \<open>i\<close> (a negative
  index counts from the end).\<close>

definition py_slice_idx :: "'a list \<Rightarrow> int \<Rightarrow> nat" where
  "py_slice_idx xs i = (if i < 0 then nat (max 0 (int (length xs) + i)) else nat i)"

definition py_upto :: "'a list \<Rightarrow> int \<Rightarrow> 'a list" where
  "py_upto xs i = take (py_slice_idx xs i) xs"

definition py_from :: "'a list \<Rightarrow> int \<Rightarrow> 'a list" where
  "py_from xs i = drop (py_slice_idx xs i) xs"

text \<open>\<open>s.split(c)\<close> with an explicit one-character separator: empty fields
  are kept, and the result is never empty.\<close>

fun split_on :: "'a \<Rightarrow> 'a list \<Rightarrow> 'a list list" where
  "split_on c [] = [[]]"
| "split_on c (x # xs) =
     (if x = c then [] # split_on c xs
      else (let r = split_on c xs in (x # hd r) # tl r))"

fun join_on :: "'a \<Rightarrow> 'a list list \<Rightarrow> 'a list" where
  "join_on c [] = []"
| "join_on c [w] = w"
| "join_on c (w # ws) = w @ c # join_on c ws"

text \<open>\<open>StringIO(s).readlines()\<close>: lines split after each newline, which
  stays at the end of its line.\<close>

fun py_readlines :: "string \<Rightarrow> string list" where
  "py_readlines [] = []"
| "py_readlines (c # cs) =
     (if c = CHR ''\<newline>'' then [c] # py_readlines cs
      else (case py_readlines cs of [] \<Rightarrow> [[c]] | l # ls \<Rightarrow> (c # l) # ls))"

section \<open>Integers and their decimal text\<close>

definition digit_char :: "nat \<Rightarrow> char" where
  "digit_char d = char_of (48 + d)"

fun nat_str :: "nat \<Rightarrow> string" where
  "nat_str n = (if n < 10 then [digit_char n] else nat_str (n div 10) @ [digit_char (n mod 10)])"

declare nat_str.simps [simp del]

text \<open>\<open>str(i)\<close> for a Python \<open>int\<close>.\<close>

definition int_str :: "int \<Rightarrow> string" where
  "int_str i = (if i < 0 then CHR ''-'' # nat_str (nat (- i)) else nat_str (nat i))"

definition digit_val :: "char \<Rightarrow> nat option" where
  "digit_val c = (let k = (of_char c :: nat) in if 48 \<le> k \<and> k \<le> 57 then Some (k - 48) else None)"

fun digits_acc :: "nat \<Rightarrow> string \<Rightarrow> nat option" where
  "digits_acc acc [] = Some acc"
| "digits_acc acc (c # cs) =
     (case digit_val c of None \<Rightarrow> None | Some d \<Rightarrow> digits_acc (10 * acc + d) cs)"

definition digits_nat :: "string \<Rightarrow> nat option" where
  "digits_nat s = (if s = [] then None else digits_acc 0 s)"

text \<open>\<open>int(s)\<close> on a string: surrounding whitespace, an optional sign, then
  decimal digits; anything else raises \<open>ValueError\<close>.\<close>

definition py_int :: "string \<Rightarrow> int py_result" where
  "py_int s =
     (let t = py_strip s;
          r = (case t of
                 c # ds \<Rightarrow>
                   if c = CHR ''-'' then map_option (\<lambda>n. - int n) (digits_nat ds)
                   else if c = CHR ''+'' then map_option int (digits_nat ds)
                   else map_option int (digits_nat t)
               | [] \<Rightarrow> None)
      in case r of None \<Rightarrow> Inl (ValueError ''invalid literal for int()'') | Some i \<Rightarrow> Inr i)"

section \<open>Lists and dictionaries\<close>

text \<open>\<open>xs[i]\<close>: negative indices count from the end; out of range raises.\<close>

definition py_index :: "'a list \<Rightarrow> int \<Rightarrow> 'a py_result" where
  "py_index xs i =
     (if - int (length xs) \<le> i \<and> i < int (length xs)
      then Inr (xs ! nat (if i < 0 then int (length xs) + i else i))
      else Inl IndexError)"

text \<open>A Python \<open>dict\<close> (insertion ordered) as an association list without
  duplicate keys: assignment replaces in place or appends.\<close>

fun dict_set :: "('k \<times> 'v) list \<Rightarrow> 'k \<Rightarrow> 'v \<Rightarrow> ('k \<times> 'v) list" where
  "dict_set [] k v = [(k, v)]"
| "dict_set ((k', v') # ps) k v =
     (if k' = k then (k, v) # ps else (k', v') # dict_set ps k v)"

definition dict_get :: "('k \<times> 'v) list \<Rightarrow> 'k \<Rightarrow> 'v py_result" where
  "dict_get ps k = (case map_of ps k of None \<Rightarrow> Inl KeyError | Some v \<Rightarrow> Inr v)"

section \<open>Lemmas on the string built-ins\<close>

lemma starts_with_iff [py_simps]: "starts_with p s \<longleftrightarrow> (\<exists>t. s = p @ t)"
proof
  assume "starts_with p s"
  then have "s = p @ drop (length p) s"
    by (metis append_take_drop_id starts_with_def)
  then show "\<exists>t. s = p @ t" ..
qed (auto simp: starts_with_def)

lemma first_occ_Some:
  "first_occ sub xs = Some i \<Longrightarrow>
     i + length sub \<le> length xs \<and> take (length sub) (drop i xs) = sub"
proof (induction sub xs arbitrary: i rule: first_occ.induct)
  case (1 sub)
  then show ?case by (simp split: if_splits)
next
  case (2 sub x xs)
  show ?case
  proof (cases "take (length sub) (x # xs) = sub")
    case True
    with "2.prems" have "i = 0" by simp
    with True show ?thesis by (metis add_0 drop_0 length_take min.absorb_iff2)
  next
    case False
    with "2.prems" obtain j where j: "first_occ sub xs = Some j" and "i = Suc j" by auto
    with "2.IH" False show ?thesis by simp
  qed
qed

lemma first_occ_None:
  "first_occ sub xs = None \<Longrightarrow> take (length sub) (drop i xs) \<noteq> sub"
proof (induction sub xs arbitrary: i rule: first_occ.induct)
  case (1 sub)
  then show ?case by (simp split: if_splits)
next
  case (2 sub x xs)
  then show ?case by (cases i) (auto split: if_splits)
qed

lemma first_occ_least:
  "first_occ sub xs = Some i \<Longrightarrow> j < i \<Longrightarrow> take (length sub) (drop j xs) \<noteq> sub"
proof (induction sub xs arbitrary: i j rule: first_occ.induct)
  case (1 sub)
  then show ?case by (simp split: if_splits)
next
  case (2 sub x xs)
  then show ?case by (cases j) (auto split: if_splits)
qed

lemma py_find_ge [py_simps]: "-1 \<le> py_find s sub start"
  by (simp add: py_find_def split: option.splits)

lemma py_find_found:
  assumes "py_find s sub start = int k"
  shows "start \<le> k \<and> k + length sub \<le> length s \<and> take (length sub) (drop k s) = sub"
proof -
  have ns: "\<not> length s < start" using assms by (auto simp: py_find_def)
  then obtain i where i: "first_occ sub (drop start s) = Some i"
    using assms by (auto simp: py_find_def split: option.splits)
  with ns assms have "int (start + i) = int k" by (simp add: py_find_def)
  then have k: "k = start + i" by simp
  from first_occ_Some [OF i] have a: "i + length sub \<le> length s - start"
    and b: "take (length sub) (drop i (drop start s)) = sub" by simp_all
  from a k ns have "k + length sub \<le> length s" by arith
  with b k show ?thesis by (simp add: add.commute)
qed

lemma py_find_missing:
  assumes "py_find s sub start = -1" and "start \<le> length s" and "start \<le> k"
  shows "take (length sub) (drop k s) \<noteq> sub"
proof -
  from assms(1,2) have "first_occ sub (drop start s) = None"
    by (auto simp: py_find_def split: option.splits)
  from first_occ_None [OF this, of "k - start"] assms(3) show ?thesis
    by simp
qed

lemma py_find_drop:
  "start \<le> length s \<Longrightarrow>
     py_find s sub start = (case first_occ sub (drop start s) of None \<Rightarrow> -1 | Some i \<Rightarrow> int (start + i))"
  by (simp add: py_find_def)

lemma py_slice_idx_nonneg [simp]: "0 \<le> i \<Longrightarrow> py_slice_idx xs i = nat i"
  by (simp add: py_slice_idx_def)

lemma first_occ_le_length: "first_occ sub xs = Some i \<Longrightarrow> i \<le> length xs"
  using first_occ_Some by fastforce

lemma split_on_not_Nil [simp]: "split_on c s \<noteq> []"
  by (induction c s rule: split_on.induct) (simp_all add: Let_def)

lemma join_on_Cons_split_on:
  "ws \<noteq> [] \<Longrightarrow> join_on c ((x # hd ws) # tl ws) = x # join_on c ws"
  by (cases ws; cases "tl ws") auto

lemma join_on_split_on [py_simps]: "join_on c (split_on c s) = s"
proof (induction c s rule: split_on.induct)
  case (1 c)
  then show ?case by simp
next
  case (2 c x xs)
  show ?case
  proof (cases "x = c")
    case True
    with "2.IH"(1) show ?thesis
      by (cases "split_on c xs") auto
  next
    case False
    with "2.IH"(2) show ?thesis
      by (simp add: Let_def join_on_Cons_split_on)
  qed
qed

lemma split_on_fields: "w \<in> set (split_on c s) \<Longrightarrow> c \<notin> set w"
proof (induction c s arbitrary: w rule: split_on.induct)
  case (1 c)
  then show ?case by simp
next
  case (2 c x xs)
  then show ?case
    by (cases "split_on c xs") (auto simp: Let_def split: if_splits)
qed

lemma concat_py_readlines [py_simps]: "concat (py_readlines s) = s"
  by (induction s rule: py_readlines.induct) (auto split: list.splits)

lemma py_readlines_lines:
  "l \<in> set (py_readlines s) \<Longrightarrow> l \<noteq> [] \<and> CHR ''\<newline>'' \<notin> set (butlast l)"
proof (induction s arbitrary: l rule: py_readlines.induct)
  case 1
  then show ?case by simp
next
  case (2 c cs)
  then show ?case
    by (cases "py_readlines cs") (auto split: if_splits)
qed

section \<open>Lemmas on integers and their text\<close>

lemma nat_str_not_Nil [simp]: "nat_str n \<noteq> []"
  by (subst nat_str.simps) simp

lemma digit_val_digit_char [simp]: "d < 10 \<Longrightarrow> digit_val (digit_char d) = Some d"
  by (simp add: digit_val_def digit_char_def)

lemma digits_acc_append:
  "digits_acc acc (xs @ ys) =
     (case digits_acc acc xs of None \<Rightarrow> None | Some a \<Rightarrow> digits_acc a ys)"
  by (induction acc xs rule: digits_acc.induct) (simp_all split: option.splits)

lemma digits_acc_nat_str:
  "digits_acc acc (nat_str n) = Some (acc * 10 ^ length (nat_str n) + n)"
proof (induction n arbitrary: acc rule: nat_str.induct)
  case (1 n)
  show ?case
  proof (cases "n < 10")
    case True
    then show ?thesis by (subst (1 2) nat_str.simps) simp
  next
    case False
    then have "nat_str n = nat_str (n div 10) @ [digit_char (n mod 10)]"
      by (subst nat_str.simps) simp
    moreover have "acc * 10 ^ length (nat_str (n div 10)) * 10 + (n div 10) * 10 + n mod 10
        = acc * (10 ^ length (nat_str (n div 10)) * 10) + n"
      by (simp add: algebra_simps)
    ultimately show ?thesis
      using "1.IH" False by (simp add: digits_acc_append algebra_simps)
  qed
qed

lemma digits_nat_nat_str [simp]: "digits_nat (nat_str n) = Some n"
  by (simp add: digits_nat_def digits_acc_nat_str)

lemma digit_char_range:
  "d < 10 \<Longrightarrow> 48 \<le> (of_char (digit_char d) :: nat) \<and> (of_char (digit_char d) :: nat) \<le> 57"
  by (simp add: digit_char_def)

lemma nat_str_chars: "c \<in> set (nat_str n) \<Longrightarrow> 48 \<le> (of_char c :: nat) \<and> (of_char c :: nat) \<le> 57"
proof (induction n rule: nat_str.induct)
  case (1 n)
  show ?case
  proof (cases "n < 10")
    case True
    with "1.prems" have "c = digit_char n" by (subst (asm) nat_str.simps) simp
    with True show ?thesis by (simp add: digit_char_range)
  next
    case False
    with "1.prems" have "c \<in> set (nat_str (n div 10)) \<or> c = digit_char (n mod 10)"
      by (subst (asm) nat_str.simps) auto
    with False "1.IH" show ?thesis by (auto simp: digit_char_range)
  qed
qed

lemma nat_str_no_space: "c \<in> set (nat_str n) \<Longrightarrow> \<not> is_py_space c"
  by (auto simp: is_py_space_def dest!: nat_str_chars)

lemma py_strip_id:
  assumes "s \<noteq> []" and "\<not> is_py_space (hd s)" and "\<not> is_py_space (last s)"
  shows "py_strip s = s"
proof -
  from assms have "dropWhile is_py_space s = s" by (simp add: dropWhile_eq_self_iff)
  moreover from assms have "dropWhile is_py_space (rev s) = rev s"
    by (simp add: dropWhile_eq_self_iff hd_rev)
  ultimately show ?thesis by (simp add: py_strip_def)
qed

lemma py_strip_nat_str [simp]: "py_strip (nat_str n) = nat_str n"
  by (rule py_strip_id)
    (simp_all add: nat_str_no_space [OF hd_in_set] nat_str_no_space [OF last_in_set])

lemma py_int_int_str [py_simps]: "py_int (int_str i) = Inr i"
proof (cases "i < 0")
  case True
  have "py_strip (CHR ''-'' # nat_str (nat (- i))) = CHR ''-'' # nat_str (nat (- i))"
  proof (rule py_strip_id)
    show "\<not> is_py_space (hd (CHR ''-'' # nat_str (nat (- i))))"
      by (simp add: is_py_space_def)
    show "\<not> is_py_space (last (CHR ''-'' # nat_str (nat (- i))))"
      by (simp add: nat_str_no_space [OF last_in_set])
  qed simp
  with True show ?thesis by (simp add: py_int_def int_str_def)
next
  case False
  obtain c cs where cs: "nat_str (nat i) = c # cs"
    by (cases "nat_str (nat i)") auto
  then have "48 \<le> (of_char c :: nat) \<and> (of_char c :: nat) \<le> 57"
    by (metis list.set_intros(1) nat_str_chars)
  then have "c \<noteq> CHR ''-'' \<and> c \<noteq> CHR ''+''"
    by auto
  moreover have "py_strip (c # cs) = c # cs" using py_strip_nat_str cs by metis
  moreover have "digits_nat (c # cs) = Some (nat i)" using digits_nat_nat_str cs by metis
  ultimately show ?thesis using False cs
    by (simp add: py_int_def int_str_def Let_def)
qed

section \<open>Lemmas on lists and dictionaries\<close>

lemma py_index_Inr: "py_index xs i = Inr x \<Longrightarrow> x \<in> set xs"
  by (auto simp: py_index_def Let_def split: if_splits)

lemma py_index_error:
  "py_index xs i = Inl e \<longleftrightarrow> e = IndexError \<and> (i < - int (length xs) \<or> int (length xs) \<le> i)"
  by (auto simp: py_index_def Let_def)

lemma py_index_nonneg [py_simps]:
  "0 \<le> i \<Longrightarrow> i < int (length xs) \<Longrightarrow> py_index xs i = Inr (xs ! nat i)"
  by (simp add: py_index_def)

lemma py_index_neg [py_simps]:
  "i < 0 \<Longrightarrow> - int (length xs) \<le> i \<Longrightarrow> py_index xs i = Inr (xs ! nat (int (length xs) + i))"
  by (simp add: py_index_def)

lemma map_of_dict_set [simp]: "map_of (dict_set ps k v) = (map_of ps)(k \<mapsto> v)"
  by (induction ps k v rule: dict_set.induct) (auto simp: fun_eq_iff)

lemma dict_set_keys:
  "map fst (dict_set ps k v) = (if k \<in> set (map fst ps) then map fst ps else map fst ps @ [k])"
  by (induction ps k v rule: dict_set.induct) auto

lemma dict_set_new: "k \<notin> set (map fst ps) \<Longrightarrow> dict_set ps k v = ps @ [(k, v)]"
  by (induction ps k v rule: dict_set.induct) auto

lemma set_dict_set: "set (dict_set ps k v) \<subseteq> insert (k, v) (set ps)"
  by (induction ps k v rule: dict_set.induct) auto

lemma distinct_dict_set [simp]:
  "distinct (map fst ps) \<Longrightarrow> distinct (map fst (dict_set ps k v))"
  by (simp add: dict_set_keys)

lemma dict_get_dict_set [simp]: "dict_get (dict_set ps k v) k = Inr v"
  by (simp add: dict_get_def)

section \<open>Bits\<close>

text \<open>The usual power-of-two test: \<open>m AND (m - 1) = 0\<close> exactly for the powers
  of two among the positive numbers.\<close>

lemma nat_and_pred_pow2:
  "0 < (m::nat) \<Longrightarrow> m AND (m - 1) = 0 \<longleftrightarrow> (\<exists>k. m = 2 ^ k)"
proof (induction m rule: less_induct)
  case (less m)
  show ?case
  proof (cases "m = 1")
    case True
    then show ?thesis by (auto intro: exI [of _ 0])
  next
    case False
    with less.prems have m2: "2 \<le> m" by simp
    show ?thesis
    proof (cases "even m")
      case True
      then obtain q where q: "m = 2 * q" by blast
      with m2 have q0: "0 < q" by simp
      have d: "(m - 1) div 2 = q - 1" using q q0 by simp
      have "m AND (m - 1) = of_bool (odd m \<and> odd (m - 1)) + 2 * (m div 2 AND (m - 1) div 2)"
        by (rule and_nat_rec)
      then have "m AND (m - 1) = 2 * (q AND (q - 1))" using q d by simp
      moreover have "(\<exists>k. m = 2 ^ k) \<longleftrightarrow> (\<exists>k. q = 2 ^ k)"
      proof
        assume "\<exists>k. m = 2 ^ k"
        then obtain k where k: "m = 2 ^ k" by blast
        with m2 obtain j where "k = Suc j" by (cases k) auto
        with k q show "\<exists>k. q = 2 ^ k" by auto
      next
        assume "\<exists>k. q = 2 ^ k"
        with q show "\<exists>k. m = 2 ^ k" by (metis power_Suc)
      qed
      ultimately show ?thesis using less.IH [of q] q q0 by simp
    next
      case False
      then obtain q where q: "m = 1 + 2 * q" by (metis oddE add.commute)
      with m2 have q0: "0 < q" by simp
      have "m AND (m - 1) = of_bool (odd m \<and> odd (m - 1)) + 2 * (m div 2 AND (m - 1) div 2)"
        by (rule and_nat_rec)
      then have "m AND (m - 1) = 2 * q" using q by simp
      moreover have "\<not> (\<exists>k. m = 2 ^ k)"
      proof
        assume "\<exists>k. m = 2 ^ k"
        then obtain k where "m = 2 ^ k" by blast
        with False m2 show False by (cases k) auto
      qed
      ultimately show ?thesis using q0 by simp
    qed
  qed
qed

end
