(* ===== verification/GL_Context.thy ===== *)
theory GL_Context
  imports Py_Prelude
begin

text \<open>
  The OpenGL context that \<open>psychopy/tools/gltools.py\<close> drives through
  \<open>pyglet.gl\<close>.  The driver is not code of the repository: this theory models
  the part of the OpenGL 3.3 specification that the wrappers rely on, as
  explicit state (object tables, bindings, the sticky error flag) and one
  function per GL entry point.  What the specification leaves to the
  implementation (whether a shader compiles, what a link produces, the
  implementation limits) is a parameter, the record \<open>gl_driver\<close>; name
  allocation takes the next unused name from a counter.

  A GL call never raises in Python: a misuse sets the error flag (the first
  one sticks until \<open>glGetError\<close>) and leaves the objects unchanged, except
  where the specification says otherwise.
\<close>

section \<open>Enumerants\<close>

text \<open>The values \<open>pyglet.gl\<close> exports (the OpenGL registry's).\<close>

definition GL_FALSE :: int where "GL_FALSE = 0"
definition GL_TRUE :: int where "GL_TRUE = 1"
definition GL_FRAGMENT_SHADER :: int where "GL_FRAGMENT_SHADER = 0x8B30"
definition GL_VERTEX_SHADER :: int where "GL_VERTEX_SHADER = 0x8B31"
definition GL_GEOMETRY_SHADER :: int where "GL_GEOMETRY_SHADER = 0x8DD9"
definition GL_TESS_EVALUATION_SHADER :: int where "GL_TESS_EVALUATION_SHADER = 0x8E87"
definition GL_TESS_CONTROL_SHADER :: int where "GL_TESS_CONTROL_SHADER = 0x8E88"
definition GL_COMPUTE_SHADER :: int where "GL_COMPUTE_SHADER = 0x91B9"

named_theorems gl_enum_defs "values of the GL enumerants"
declare GL_FALSE_def [gl_enum_defs] GL_TRUE_def [gl_enum_defs]
  GL_FRAGMENT_SHADER_def [gl_enum_defs] GL_VERTEX_SHADER_def [gl_enum_defs]
  GL_GEOMETRY_SHADER_def [gl_enum_defs] GL_TESS_EVALUATION_SHADER_def [gl_enum_defs]
  GL_TESS_CONTROL_SHADER_def [gl_enum_defs] GL_COMPUTE_SHADER_def [gl_enum_defs]

section \<open>Objects, driver and context state\<close>

datatype gl_error = GL_INVALID_ENUM | GL_INVALID_VALUE | GL_INVALID_OPERATION | GL_INVALID_FRAMEBUFFER_OPERATION

record shader_obj =
  sh_type :: int
  sh_source :: "string list"
  sh_compiled :: bool
  sh_log :: string
  sh_delete :: bool

text \<open>\<open>pr_uniforms\<close> and \<open>pr_attribs\<close> are the active uniforms and attributes
  of the last successful link, in the driver's index order, with the location
  \<open>glGetUniformLocation\<close> gives for each name (\<open>-1\<close> for built-ins).\<close>

record program_obj =
  pr_attached :: "nat list"
  pr_linked :: bool
  pr_validated :: bool
  pr_log :: string
  pr_delete :: bool
  pr_uniforms :: "(string \<times> int) list"
  pr_attribs :: "(string \<times> int) list"

record link_result =
  lk_ok :: bool
  lk_log :: string
  lk_uniforms :: "(string \<times> int) list"
  lk_attribs :: "(string \<times> int) list"

record gl_driver =
  drv_compile :: "int \<Rightarrow> string list \<Rightarrow> bool \<times> string"
  drv_link :: "shader_obj list \<Rightarrow> link_result"
  drv_validate :: "program_obj \<Rightarrow> bool"
  drv_max_samples :: int
  drv_max_lights :: int
  drv_max_tex_units :: int

record gl_state =
  next_name :: nat
  shaders :: "nat \<rightharpoonup> shader_obj"
  programs :: "nat \<rightharpoonup> program_obj"
  cur_program :: nat
  gl_err :: "gl_error option"
  stderr :: string

definition gl_init :: gl_state where
  "gl_init = \<lparr>next_name = 1, shaders = Map.empty, programs = Map.empty, cur_program = 0,
              gl_err = None, stderr = []\<rparr>"

section \<open>Primitives shared by the entry points\<close>

definition gl_raise :: "gl_error \<Rightarrow> gl_state \<Rightarrow> gl_state" where
  "gl_raise e s = (if gl_err s = None then s\<lparr>gl_err := Some e\<rparr> else s)"

definition gen_name :: "gl_state \<Rightarrow> nat \<times> gl_state" where
  "gen_name s = (next_name s, s\<lparr>next_name := Suc (next_name s)\<rparr>)"

definition glIsShader :: "nat \<Rightarrow> gl_state \<Rightarrow> bool" where
  "glIsShader n s \<longleftrightarrow> shaders s n \<noteq> None"

definition glIsProgram :: "nat \<Rightarrow> gl_state \<Rightarrow> bool" where
  "glIsProgram n s \<longleftrightarrow> programs s n \<noteq> None"

text \<open>The error for a name that should denote a shader (resp. a program):
  \<open>GL_INVALID_OPERATION\<close> for an object of the other kind,
  \<open>GL_INVALID_VALUE\<close> for a name that is no object.\<close>

definition shader_name_error :: "nat \<Rightarrow> gl_state \<Rightarrow> gl_error" where
  "shader_name_error n s = (if glIsProgram n s then GL_INVALID_OPERATION else GL_INVALID_VALUE)"

definition program_name_error :: "nat \<Rightarrow> gl_state \<Rightarrow> gl_error" where
  "program_name_error n s = (if glIsShader n s then GL_INVALID_OPERATION else GL_INVALID_VALUE)"

text \<open>The programs a shader is attached to, found by a scan of the names
  handed out so far.\<close>

definition attached_to :: "nat \<Rightarrow> gl_state \<Rightarrow> nat list" where
  "attached_to n s =
     filter (\<lambda>p. case programs s p of None \<Rightarrow> False | Some po \<Rightarrow> n \<in> set (pr_attached po))
       [0..<next_name s]"

text \<open>A shader flagged for deletion goes once no program holds it.\<close>

definition reap_shader :: "nat \<Rightarrow> gl_state \<Rightarrow> gl_state" where
  "reap_shader n s =
     (case shaders s n of
        None \<Rightarrow> s
      | Some sh \<Rightarrow> if sh_delete sh \<and> attached_to n s = [] then s\<lparr>shaders := (shaders s)(n := None)\<rparr> else s)"

text \<open>Freeing a program detaches its shaders, which may free them too.\<close>

definition free_program :: "nat \<Rightarrow> gl_state \<Rightarrow> gl_state" where
  "free_program p s =
     (case programs s p of
        None \<Rightarrow> s
      | Some po \<Rightarrow> fold reap_shader (pr_attached po) (s\<lparr>programs := (programs s)(p := None)\<rparr>))"

section \<open>Shader entry points\<close>

definition is_shader_type :: "int \<Rightarrow> bool" where
  "is_shader_type t \<longleftrightarrow>
     t \<in> {GL_VERTEX_SHADER, GL_FRAGMENT_SHADER, GL_GEOMETRY_SHADER, GL_TESS_CONTROL_SHADER,
          GL_TESS_EVALUATION_SHADER, GL_COMPUTE_SHADER}"

definition new_shader :: "int \<Rightarrow> shader_obj" where
  "new_shader t = \<lparr>sh_type = t, sh_source = [], sh_compiled = False, sh_log = [], sh_delete = False\<rparr>"

definition new_program :: program_obj where
  "new_program = \<lparr>pr_attached = [], pr_linked = False, pr_validated = False, pr_log = [],
                  pr_delete = False, pr_uniforms = [], pr_attribs = []\<rparr>"

definition glCreateShader :: "int \<Rightarrow> gl_state \<Rightarrow> nat \<times> gl_state" where
  "glCreateShader t s =
     (if is_shader_type t then
        (let (n, s1) = gen_name s in (n, s1\<lparr>shaders := (shaders s1)(n \<mapsto> new_shader t)\<rparr>))
      else (0, gl_raise GL_INVALID_ENUM s))"

definition glCreateProgram :: "gl_state \<Rightarrow> nat \<times> gl_state" where
  "glCreateProgram s =
     (let (n, s1) = gen_name s in (n, s1\<lparr>programs := (programs s1)(n \<mapsto> new_program)\<rparr>))"

definition glShaderSource :: "nat \<Rightarrow> string list \<Rightarrow> gl_state \<Rightarrow> gl_state" where
  "glShaderSource n src s =
     (case shaders s n of
        None \<Rightarrow> gl_raise (shader_name_error n s) s
      | Some sh \<Rightarrow> s\<lparr>shaders := (shaders s)(n \<mapsto> sh\<lparr>sh_source := src\<rparr>)\<rparr>)"

definition glCompileShader :: "gl_driver \<Rightarrow> nat \<Rightarrow> gl_state \<Rightarrow> gl_state" where
  "glCompileShader drv n s =
     (case shaders s n of
        None \<Rightarrow> gl_raise (shader_name_error n s) s
      | Some sh \<Rightarrow>
          (let (ok, log) = drv_compile drv (sh_type sh) (sh_source sh)
           in s\<lparr>shaders := (shaders s)(n \<mapsto> sh\<lparr>sh_compiled := ok, sh_log := log\<rparr>)\<rparr>))"

text \<open>\<open>glGetShaderiv(n, GL_COMPILE_STATUS, byref(result))\<close> into a \<open>GLint\<close>
  that starts at 0: on a bad name the variable is left at \<open>GL_FALSE\<close>.\<close>

definition glGetShaderCompileStatus :: "nat \<Rightarrow> gl_state \<Rightarrow> bool \<times> gl_state" where
  "glGetShaderCompileStatus n s =
     (case shaders s n of
        None \<Rightarrow> (False, gl_raise (shader_name_error n s) s)
      | Some sh \<Rightarrow> (sh_compiled sh, s))"

text \<open>\<open>GL_INFO_LOG_LENGTH\<close> counts the terminating NUL; an empty log has
  length 0.\<close>

definition log_length :: "string \<Rightarrow> int" where
  "log_length l = (if l = [] then 0 else int (length l) + 1)"

definition glGetShaderInfoLogLength :: "nat \<Rightarrow> gl_state \<Rightarrow> int \<times> gl_state" where
  "glGetShaderInfoLogLength n s =
     (case shaders s n of
        None \<Rightarrow> (0, gl_raise (shader_name_error n s) s)
      | Some sh \<Rightarrow> (log_length (sh_log sh), s))"

text \<open>\<open>glGetShaderInfoLog(n, bufSize, None, buf)\<close> writes at most
  \<open>bufSize - 1\<close> characters; on a name that is not a shader nothing is written,
  and the buffer keeps the empty string it was created with.\<close>

definition glGetShaderInfoLog :: "nat \<Rightarrow> int \<Rightarrow> gl_state \<Rightarrow> string \<times> gl_state" where
  "glGetShaderInfoLog n bufsize s =
     (case shaders s n of
        None \<Rightarrow> ([], gl_raise (shader_name_error n s) s)
      | Some sh \<Rightarrow> (take (nat (bufsize - 1)) (sh_log sh), s))"

definition glDeleteShader :: "nat \<Rightarrow> gl_state \<Rightarrow> gl_state" where
  "glDeleteShader n s =
     (if n = 0 then s
      else case shaders s n of
             None \<Rightarrow> gl_raise (shader_name_error n s) s
           | Some sh \<Rightarrow>
               if attached_to n s \<noteq> [] then s\<lparr>shaders := (shaders s)(n \<mapsto> sh\<lparr>sh_delete := True\<rparr>)\<rparr>
               else s\<lparr>shaders := (shaders s)(n := None)\<rparr>)"

section \<open>Program entry points\<close>

definition glAttachShader :: "nat \<Rightarrow> nat \<Rightarrow> gl_state \<Rightarrow> gl_state" where
  "glAttachShader p n s =
     (case programs s p of
        None \<Rightarrow> gl_raise (program_name_error p s) s
      | Some po \<Rightarrow>
          if \<not> glIsShader n s then gl_raise (shader_name_error n s) s
          else if n \<in> set (pr_attached po) then gl_raise GL_INVALID_OPERATION s
          else s\<lparr>programs := (programs s)(p \<mapsto> po\<lparr>pr_attached := pr_attached po @ [n]\<rparr>)\<rparr>)"

definition glDetachShader :: "nat \<Rightarrow> nat \<Rightarrow> gl_state \<Rightarrow> gl_state" where
  "glDetachShader p n s =
     (case programs s p of
        None \<Rightarrow> gl_raise (program_name_error p s) s
      | Some po \<Rightarrow>
          if \<not> glIsShader n s then gl_raise (shader_name_error n s) s
          else if n \<notin> set (pr_attached po) then gl_raise GL_INVALID_OPERATION s
          else reap_shader n
                 (s\<lparr>programs := (programs s)(p \<mapsto> po\<lparr>pr_attached := removeAll n (pr_attached po)\<rparr>)\<rparr>))"

definition glLinkProgram :: "gl_driver \<Rightarrow> nat \<Rightarrow> gl_state \<Rightarrow> gl_state" where
  "glLinkProgram drv p s =
     (case programs s p of
        None \<Rightarrow> gl_raise (program_name_error p s) s
      | Some po \<Rightarrow>
          (let r = drv_link drv (List.map_filter (shaders s) (pr_attached po))
           in s\<lparr>programs := (programs s)(p \<mapsto>
                 po\<lparr>pr_linked := lk_ok r, pr_log := lk_log r,
                    pr_uniforms := (if lk_ok r then lk_uniforms r else []),
                    pr_attribs := (if lk_ok r then lk_attribs r else [])\<rparr>)\<rparr>))"

definition glValidateProgram :: "gl_driver \<Rightarrow> nat \<Rightarrow> gl_state \<Rightarrow> gl_state" where
  "glValidateProgram drv p s =
     (case programs s p of
        None \<Rightarrow> gl_raise (program_name_error p s) s
      | Some po \<Rightarrow> s\<lparr>programs := (programs s)(p \<mapsto> po\<lparr>pr_validated := drv_validate drv po\<rparr>)\<rparr>)"

text \<open>Reading a program parameter into a \<open>GLint\<close> that starts at 0.\<close>

definition glGetProgramParam :: "(program_obj \<Rightarrow> int) \<Rightarrow> nat \<Rightarrow> gl_state \<Rightarrow> int \<times> gl_state" where
  "glGetProgramParam f p s =
     (case programs s p of
        None \<Rightarrow> (0, gl_raise (program_name_error p s) s)
      | Some po \<Rightarrow> (f po, s))"

definition link_status :: "program_obj \<Rightarrow> int" where
  "link_status po = (if pr_linked po then GL_TRUE else GL_FALSE)"

definition validate_status :: "program_obj \<Rightarrow> int" where
  "validate_status po = (if pr_validated po then GL_TRUE else GL_FALSE)"

definition program_log_length :: "program_obj \<Rightarrow> int" where
  "program_log_length po = log_length (pr_log po)"

text \<open>\<open>GL_ACTIVE_UNIFORMS\<close>, \<open>GL_ACTIVE_UNIFORM_MAX_LENGTH\<close> (longest name
  plus the NUL) and their attribute counterparts.\<close>

definition max_name_length :: "(string \<times> int) list \<Rightarrow> int" where
  "max_name_length vs = (if vs = [] then 0 else int (Max (set (map (length \<circ> fst) vs))) + 1)"

definition active_uniforms :: "program_obj \<Rightarrow> int" where
  "active_uniforms po = int (length (pr_uniforms po))"

definition active_uniform_max_length :: "program_obj \<Rightarrow> int" where
  "active_uniform_max_length po = max_name_length (pr_uniforms po)"

definition active_attributes :: "program_obj \<Rightarrow> int" where
  "active_attributes po = int (length (pr_attribs po))"

definition active_attribute_max_length :: "program_obj \<Rightarrow> int" where
  "active_attribute_max_length po = max_name_length (pr_attribs po)"

text \<open>\<open>glGetActiveUniform(p, i, bufSize, ...)\<close>: the name of the \<open>i\<close>-th
  active uniform, cut to \<open>bufSize - 1\<close> characters.\<close>

definition glGetActiveName :: "(program_obj \<Rightarrow> (string \<times> int) list) \<Rightarrow> nat \<Rightarrow> nat \<Rightarrow> int \<Rightarrow>
    gl_state \<Rightarrow> string \<times> gl_state" where
  "glGetActiveName f p i bufsize s =
     (case programs s p of
        None \<Rightarrow> ([], gl_raise (program_name_error p s) s)
      | Some po \<Rightarrow>
          if i < length (f po) then (take (nat (bufsize - 1)) (fst (f po ! i)), s)
          else ([], gl_raise GL_INVALID_VALUE s))"

definition glGetLocation :: "(program_obj \<Rightarrow> (string \<times> int) list) \<Rightarrow> nat \<Rightarrow> string \<Rightarrow>
    gl_state \<Rightarrow> int \<times> gl_state" where
  "glGetLocation f p name s =
     (case programs s p of
        None \<Rightarrow> (-1, gl_raise (program_name_error p s) s)
      | Some po \<Rightarrow> (case map_of (f po) name of None \<Rightarrow> -1 | Some l \<Rightarrow> l, s))"

text \<open>\<open>glGetProgramInfoLog\<close> is never called by the wrappers; the program log
  is only reachable through \<open>glGetProgramiv(GL_INFO_LOG_LENGTH)\<close>.\<close>

text \<open>Installing a program: a program flagged for deletion is freed when it
  stops being current.\<close>

definition switch_program :: "nat \<Rightarrow> gl_state \<Rightarrow> gl_state" where
  "switch_program q s =
     (let old = cur_program s; s1 = s\<lparr>cur_program := q\<rparr>
      in case programs s old of
           Some po \<Rightarrow> if old \<noteq> q \<and> pr_delete po then free_program old s1 else s1
         | None \<Rightarrow> s1)"

definition glUseProgram :: "nat \<Rightarrow> gl_state \<Rightarrow> gl_state" where
  "glUseProgram p s =
     (if p = 0 then switch_program 0 s
      else case programs s p of
             None \<Rightarrow> gl_raise (program_name_error p s) s
           | Some po \<Rightarrow> if pr_linked po then switch_program p s else gl_raise GL_INVALID_OPERATION s)"

definition glDeleteProgram :: "nat \<Rightarrow> gl_state \<Rightarrow> gl_state" where
  "glDeleteProgram p s =
     (if p = 0 then s
      else case programs s p of
             None \<Rightarrow> gl_raise (program_name_error p s) s
           | Some po \<Rightarrow>
               if p = cur_program s then s\<lparr>programs := (programs s)(p \<mapsto> po\<lparr>pr_delete := True\<rparr>)\<rparr>
               else free_program p s)"

text \<open>\<open>glDeleteObjectARB\<close> deletes either kind of object.\<close>

definition glDeleteObjectARB :: "nat \<Rightarrow> gl_state \<Rightarrow> gl_state" where
  "glDeleteObjectARB n s =
     (if glIsShader n s then glDeleteShader n s
      else if glIsProgram n s then glDeleteProgram n s
      else if n = 0 then s else gl_raise GL_INVALID_VALUE s)"

section \<open>Well-formed contexts\<close>

text \<open>What the specification guarantees about the object tables between two
  calls, in three parts: the object tables proper (names are nonzero and below
  the counter, shaders and programs share one name space, attachments name
  live shaders once each); the deletion flags (a shader flagged for deletion is
  still held by some program, except for the names in \<open>X\<close>, which a deletion
  in progress is about to reap); and the current program (live, and the only
  program that can be flagged).\<close>

definition held :: "nat \<Rightarrow> gl_state \<Rightarrow> bool" where
  "held n s \<longleftrightarrow> (\<exists>p po. programs s p = Some po \<and> n \<in> set (pr_attached po))"

definition gl_objs_ok :: "gl_state \<Rightarrow> bool" where
  "gl_objs_ok s \<longleftrightarrow>
     0 < next_name s \<and>
     (\<forall>n \<in> dom (shaders s). 0 < n \<and> n < next_name s) \<and>
     (\<forall>n \<in> dom (programs s). 0 < n \<and> n < next_name s) \<and>
     dom (shaders s) \<inter> dom (programs s) = {} \<and>
     (\<forall>p po. programs s p = Some po \<longrightarrow> set (pr_attached po) \<subseteq> dom (shaders s) \<and> distinct (pr_attached po))"

definition gl_flags_ok :: "nat set \<Rightarrow> gl_state \<Rightarrow> bool" where
  "gl_flags_ok X s \<longleftrightarrow> (\<forall>n sh. shaders s n = Some sh \<longrightarrow> sh_delete sh \<longrightarrow> n \<notin> X \<longrightarrow> held n s)"

definition gl_current_ok :: "gl_state \<Rightarrow> bool" where
  "gl_current_ok s \<longleftrightarrow>
     (cur_program s = 0 \<or> cur_program s \<in> dom (programs s)) \<and>
     (\<forall>p po. programs s p = Some po \<longrightarrow> pr_delete po \<longrightarrow> p = cur_program s)"

definition gl_wf :: "gl_state \<Rightarrow> bool" where
  "gl_wf s \<longleftrightarrow> gl_objs_ok s \<and> gl_flags_ok {} s \<and> gl_current_ok s"

named_theorems gl_wf_defs "the parts of the context invariant"
declare gl_objs_ok_def [gl_wf_defs] gl_flags_ok_def [gl_wf_defs] gl_current_ok_def [gl_wf_defs]
  gl_wf_def [gl_wf_defs] held_def [gl_wf_defs]

named_theorems gl_wf_intros "entry points that keep the context invariant"

section \<open>The scan for attachments\<close>

lemma attached_to_iff:
  "p \<in> set (attached_to n s) \<longleftrightarrow>
     p < next_name s \<and> (\<exists>po. programs s p = Some po \<and> n \<in> set (pr_attached po))"
  by (auto simp: attached_to_def split: option.splits)

lemma attached_to_held:
  assumes "gl_objs_ok s"
  shows "attached_to n s \<noteq> [] \<longleftrightarrow> held n s"
proof
  assume "attached_to n s \<noteq> []"
  then obtain p where "p \<in> set (attached_to n s)" by (cases "attached_to n s") auto
  then show "held n s" by (auto simp: attached_to_iff held_def)
next
  assume "held n s"
  then obtain p po where p: "programs s p = Some po" "n \<in> set (pr_attached po)"
    by (auto simp: held_def)
  with assms have "p < next_name s" by (auto simp: gl_objs_ok_def)
  with p have "p \<in> set (attached_to n s)" by (simp add: attached_to_iff)
  then show "attached_to n s \<noteq> []" by auto
qed

lemma held_upd [simp]:
  "held n (s\<lparr>shaders := x\<rparr>) = held n s" "held n (s\<lparr>gl_err := e\<rparr>) = held n s"
  "held n (s\<lparr>cur_program := c\<rparr>) = held n s" "held n (s\<lparr>next_name := k\<rparr>) = held n s"
  "held n (s\<lparr>stderr := out\<rparr>) = held n s"
  "held n (s\<lparr>next_name := k, programs := pm\<rparr>) = held n (s\<lparr>programs := pm\<rparr>)"
  by (simp_all add: held_def)

lemma gl_wf_init [gl_wf_intros]: "gl_wf gl_init"
  by (simp add: gl_wf_defs gl_init_def)

section \<open>Deferred deletion keeps the invariant\<close>

lemma objs_ok_delete_shader:
  assumes objs: "gl_objs_ok s" and free: "\<not> held n s"
  shows "gl_objs_ok (s\<lparr>shaders := (shaders s)(n := None)\<rparr>)"
proof -
  have "set (pr_attached po) \<subseteq> dom (shaders s) - {n}" if po: "programs s p = Some po" for p po
  proof -
    have "set (pr_attached po) \<subseteq> dom (shaders s)" using objs po by (simp add: gl_objs_ok_def)
    moreover have "n \<notin> set (pr_attached po)" using free po by (auto simp: held_def)
    ultimately show ?thesis by blast
  qed
  with objs show ?thesis by (auto simp: gl_objs_ok_def)
qed

lemma reap_shader_objs:
  assumes objs: "gl_objs_ok s"
  shows "gl_objs_ok (reap_shader n s)"
proof (cases "\<exists>sh. shaders s n = Some sh \<and> sh_delete sh \<and> attached_to n s = []")
  case True
  then have "reap_shader n s = s\<lparr>shaders := (shaders s)(n := None)\<rparr>"
    by (auto simp: reap_shader_def)
  moreover from True attached_to_held [OF objs, of n] have "\<not> held n s" by blast
  ultimately show ?thesis using objs objs_ok_delete_shader by simp
next
  case False
  then have "reap_shader n s = s"
    by (auto simp: reap_shader_def split: option.splits)
  with objs show ?thesis by simp
qed

lemma reap_shader_flags:
  assumes objs: "gl_objs_ok s" and flags: "gl_flags_ok X s"
  shows "gl_flags_ok (X - {n}) (reap_shader n s)"
  unfolding gl_flags_ok_def
proof (intro allI impI)
  fix m sh'
  assume m: "shaders (reap_shader n s) m = Some sh'" and del: "sh_delete sh'"
    and mX: "m \<notin> X - {n}"
  show "held m (reap_shader n s)"
  proof (cases "m = n")
    case True
    with m obtain sh where sh: "shaders s n = Some sh"
      by (auto simp: reap_shader_def split: option.splits if_splits)
    with m True have "\<not> (sh_delete sh \<and> attached_to n s = [])" and "reap_shader n s = s"
      by (auto simp: reap_shader_def split: if_splits)
    with sh m True del have "attached_to n s \<noteq> []" by simp
    with objs True \<open>reap_shader n s = s\<close> show ?thesis by (simp add: attached_to_held)
  next
    case False
    with m have "shaders s m = Some sh'"
      by (auto simp: reap_shader_def split: option.splits if_splits)
    with flags del mX False have "held m s" by (auto simp: gl_flags_ok_def)
    then show ?thesis by (auto simp: reap_shader_def split: option.splits)
  qed
qed

lemma reap_shader_current [simp]:
  "cur_program (reap_shader n s) = cur_program s" "programs (reap_shader n s) = programs s"
  "next_name (reap_shader n s) = next_name s"
  by (simp_all add: reap_shader_def split: option.splits)

lemma fold_reap_shader:
  assumes "gl_objs_ok s" and "gl_flags_ok X s"
  shows "gl_objs_ok (fold reap_shader ns s) \<and> gl_flags_ok (X - set ns) (fold reap_shader ns s)"
  using assms
proof (induction ns arbitrary: s X)
  case Nil
  then show ?case by simp
next
  case (Cons n ns)
  from Cons.prems have "gl_objs_ok (reap_shader n s)" "gl_flags_ok (X - {n}) (reap_shader n s)"
    by (simp_all add: reap_shader_objs reap_shader_flags)
  then have "gl_objs_ok (fold reap_shader ns (reap_shader n s)) \<and>
      gl_flags_ok (X - {n} - set ns) (fold reap_shader ns (reap_shader n s))"
    by (rule Cons.IH)
  moreover have "X - {n} - set ns = X - set (n # ns)" by auto
  ultimately show ?case by simp
qed

lemma fold_reap_shader_programs [simp]:
  "programs (fold reap_shader ns s) = programs s"
  "cur_program (fold reap_shader ns s) = cur_program s"
  by (induction ns arbitrary: s) simp_all

lemma remove_program_flags:
  assumes flags: "gl_flags_ok {} s" and p: "programs s p = Some po"
  shows "gl_flags_ok (set (pr_attached po)) (s\<lparr>programs := (programs s)(p := None)\<rparr>)"
  unfolding gl_flags_ok_def
proof (intro allI impI)
  fix n sh
  assume "shaders (s\<lparr>programs := (programs s)(p := None)\<rparr>) n = Some sh" and "sh_delete sh"
    and n: "n \<notin> set (pr_attached po)"
  then have "held n s" using flags n by (auto simp: gl_flags_ok_def)
  then obtain q qo where q: "programs s q = Some qo" "n \<in> set (pr_attached qo)"
    by (auto simp: held_def)
  with p n have "q \<noteq> p" by auto
  with q show "held n (s\<lparr>programs := (programs s)(p := None)\<rparr>)"
    by (auto simp: held_def)
qed

lemma free_program_wf:
  assumes objs: "gl_objs_ok s" and flags: "gl_flags_ok {} s" and cur: "cur_program s \<noteq> p"
    and live: "cur_program s = 0 \<or> cur_program s \<in> dom (programs s)"
    and flagged: "\<forall>q po. programs s q = Some po \<longrightarrow> pr_delete po \<longrightarrow> q = cur_program s \<or> q = p"
  shows "gl_wf (free_program p s)"
proof (cases "programs s p")
  case None
  have "gl_current_ok s"
    unfolding gl_current_ok_def
  proof (intro conjI allI impI)
    fix q qo
    assume "programs s q = Some qo" and "pr_delete qo"
    with flagged have "q = cur_program s \<or> q = p" by blast
    with None \<open>programs s q = Some qo\<close> show "q = cur_program s" by auto
  qed (use live in auto)
  with objs flags None show ?thesis by (simp add: free_program_def gl_wf_def)
next
  case (Some po)
  let ?s1 = "s\<lparr>programs := (programs s)(p := None)\<rparr>"
  from objs have "gl_objs_ok ?s1" by (auto simp: gl_objs_ok_def)
  moreover from flags Some have "gl_flags_ok (set (pr_attached po)) ?s1"
    by (rule remove_program_flags)
  ultimately have "gl_objs_ok (fold reap_shader (pr_attached po) ?s1) \<and>
      gl_flags_ok {} (fold reap_shader (pr_attached po) ?s1)"
    using fold_reap_shader [of ?s1 "set (pr_attached po)" "pr_attached po"] by simp
  moreover from cur live flagged have "gl_current_ok (fold reap_shader (pr_attached po) ?s1)"
    by (auto simp: gl_current_ok_def)
  ultimately show ?thesis using Some by (simp add: free_program_def gl_wf_def)
qed

section \<open>Rules for the invariant's parts\<close>

lemma objs_okD:
  assumes "gl_objs_ok s"
  shows "0 < next_name s"
    and "shaders s n = Some sh \<Longrightarrow> 0 < n" and "shaders s n = Some sh \<Longrightarrow> n < next_name s"
    and "programs s n = Some po \<Longrightarrow> 0 < n" and "programs s n = Some po \<Longrightarrow> n < next_name s"
    and "shaders s n = Some sh \<Longrightarrow> programs s n = None"
    and "programs s p = Some po \<Longrightarrow> m \<in> set (pr_attached po) \<Longrightarrow> shaders s m \<noteq> None"
    and "programs s p = Some po \<Longrightarrow> distinct (pr_attached po)"
  using assms by (auto simp: gl_objs_ok_def dom_def subset_iff)

lemma objs_okI:
  assumes "0 < next_name s"
    and "\<And>n sh. shaders s n = Some sh \<Longrightarrow> 0 < n \<and> n < next_name s"
    and "\<And>n po. programs s n = Some po \<Longrightarrow> 0 < n \<and> n < next_name s"
    and "\<And>n sh. shaders s n = Some sh \<Longrightarrow> programs s n = None"
    and "\<And>p po m. programs s p = Some po \<Longrightarrow> m \<in> set (pr_attached po) \<Longrightarrow> shaders s m \<noteq> None"
    and "\<And>p po. programs s p = Some po \<Longrightarrow> distinct (pr_attached po)"
  shows "gl_objs_ok s"
  using assms unfolding gl_objs_ok_def by (auto simp: dom_def subset_iff)

lemma free_shader_not_held:
  assumes "gl_objs_ok s" and "shaders s n = None"
  shows "\<not> held n s"
  using objs_okD(7) [OF assms(1)] assms(2) unfolding held_def by blast

lemma held_other:
  "held n s \<longleftrightarrow>
     (case programs s p of None \<Rightarrow> False | Some po \<Rightarrow> n \<in> set (pr_attached po)) \<or>
     (\<exists>q qo. q \<noteq> p \<and> programs s q = Some qo \<and> n \<in> set (pr_attached qo))"
  by (cases "programs s p") (auto simp: held_def, metis option.distinct(1), metis option.inject)

lemma held_prog_upd:
  "held n (s\<lparr>programs := (programs s)(p \<mapsto> po')\<rparr>) \<longleftrightarrow>
     n \<in> set (pr_attached po') \<or> (\<exists>q qo. q \<noteq> p \<and> programs s q = Some qo \<and> n \<in> set (pr_attached qo))"
  by (auto simp: held_def)

lemma held_prog_upd_same:
  assumes "programs s p = Some po" and "pr_attached po' = pr_attached po"
  shows "held n (s\<lparr>programs := (programs s)(p \<mapsto> po')\<rparr>) = held n s"
  using assms by (simp add: held_prog_upd held_other [of n s p])

lemma held_new_program:
  assumes "programs s p = None"
  shows "held n (s\<lparr>programs := (programs s)(p \<mapsto> po')\<rparr>) \<longleftrightarrow> n \<in> set (pr_attached po') \<or> held n s"
  using assms by (auto simp: held_prog_upd held_other [of n s p])

lemma current_okI:
  assumes "cur_program s = 0 \<or> programs s (cur_program s) \<noteq> None"
    and "\<And>p po. programs s p = Some po \<Longrightarrow> pr_delete po \<Longrightarrow> p = cur_program s"
  shows "gl_current_ok s"
  using assms by (auto simp: gl_current_ok_def)

lemma gl_wfD:
  assumes "gl_wf s"
  shows "gl_objs_ok s" "gl_flags_ok {} s" "gl_current_ok s"
  using assms by (simp_all add: gl_wf_def)

section \<open>Every entry point keeps the invariant\<close>

lemma gl_wf_upd_err [simp]:
  "gl_wf (s\<lparr>gl_err := e\<rparr>) = gl_wf s" "gl_wf (s\<lparr>stderr := out\<rparr>) = gl_wf s"
  by (simp_all add: gl_wf_defs)

lemma gl_raise_wf [simp]: "gl_wf (gl_raise e s) = gl_wf s"
  by (simp add: gl_raise_def)

lemma gl_raise_fields [simp]:
  "shaders (gl_raise e s) = shaders s" "programs (gl_raise e s) = programs s"
  "cur_program (gl_raise e s) = cur_program s" "next_name (gl_raise e s) = next_name s"
  "stderr (gl_raise e s) = stderr s"
  by (simp_all add: gl_raise_def)

lemma gl_wf_shader_upd:
  assumes wf: "gl_wf s" and sh: "shaders s n = Some sh" and flag: "sh_delete sh' = sh_delete sh"
  shows "gl_wf (s\<lparr>shaders := (shaders s)(n \<mapsto> sh')\<rparr>)"
proof -
  note objs = objs_okD [OF gl_wfD(1) [OF wf]]
  have "gl_objs_ok (s\<lparr>shaders := (shaders s)(n \<mapsto> sh')\<rparr>)"
    by (rule objs_okI) (use objs sh in \<open>auto split: if_splits\<close>)
  moreover have "gl_flags_ok {} (s\<lparr>shaders := (shaders s)(n \<mapsto> sh')\<rparr>)"
    using gl_wfD(2) [OF wf] sh flag by (auto simp: gl_flags_ok_def)
  moreover have "gl_current_ok (s\<lparr>shaders := (shaders s)(n \<mapsto> sh')\<rparr>)"
    using gl_wfD(3) [OF wf] by (simp add: gl_current_ok_def)
  ultimately show ?thesis by (simp add: gl_wf_def)
qed

lemma gl_wf_program_upd:
  assumes wf: "gl_wf s" and po: "programs s p = Some po"
    and att: "pr_attached po' = pr_attached po" and flag: "pr_delete po' = pr_delete po"
  shows "gl_wf (s\<lparr>programs := (programs s)(p \<mapsto> po')\<rparr>)"
proof -
  note objs = objs_okD [OF gl_wfD(1) [OF wf]]
  have "gl_objs_ok (s\<lparr>programs := (programs s)(p \<mapsto> po')\<rparr>)"
    by (rule objs_okI) (use objs po att in \<open>auto split: if_splits\<close>)
  moreover have "gl_flags_ok {} (s\<lparr>programs := (programs s)(p \<mapsto> po')\<rparr>)"
    using gl_wfD(2) [OF wf] held_prog_upd_same [OF po att]
    by (simp add: gl_flags_ok_def)
  moreover have "gl_current_ok (s\<lparr>programs := (programs s)(p \<mapsto> po')\<rparr>)"
    using gl_wfD(3) [OF wf] po flag by (auto simp: gl_current_ok_def split: if_splits)
  ultimately show ?thesis by (simp add: gl_wf_def)
qed

lemma glCreateShader_wf [gl_wf_intros]:
  assumes wf: "gl_wf s"
  shows "gl_wf (snd (glCreateShader t s))"
proof (cases "is_shader_type t")
  case True
  note objs = objs_okD [OF gl_wfD(1) [OF wf]]
  let ?sh = "new_shader t"
  let ?s' = "s\<lparr>next_name := Suc (next_name s), shaders := (shaders s)(next_name s \<mapsto> ?sh)\<rparr>"
  have fresh: "programs s (next_name s) = None" "shaders s (next_name s) = None"
    using objs(3,5) by (meson less_irrefl not_None_eq)+
  have "gl_objs_ok ?s'"
    by (rule objs_okI) (use objs fresh in \<open>auto split: if_splits simp: less_Suc_eq\<close>)
  moreover have "gl_flags_ok {} ?s'"
    using gl_wfD(2) [OF wf] by (auto simp: gl_flags_ok_def new_shader_def)
  moreover have "gl_current_ok ?s'"
    using gl_wfD(3) [OF wf] by (simp add: gl_current_ok_def)
  ultimately show ?thesis using True by (simp add: glCreateShader_def gen_name_def gl_wf_def)
next
  case False
  with wf show ?thesis by (simp add: glCreateShader_def)
qed

lemma glCreateProgram_wf [gl_wf_intros]:
  assumes wf: "gl_wf s"
  shows "gl_wf (snd (glCreateProgram s))"
proof -
  note objs = objs_okD [OF gl_wfD(1) [OF wf]]
  let ?po = "new_program"
  let ?s' = "s\<lparr>next_name := Suc (next_name s), programs := (programs s)(next_name s \<mapsto> ?po)\<rparr>"
  have fresh: "programs s (next_name s) = None" "shaders s (next_name s) = None"
    using objs(3,5) by (meson less_irrefl not_None_eq)+
  have "gl_objs_ok ?s'"
    by (rule objs_okI) (use objs fresh in \<open>auto split: if_splits simp: less_Suc_eq new_program_def\<close>)
  moreover have "gl_flags_ok {} ?s'"
    using gl_wfD(2) [OF wf] held_new_program [OF fresh(1), of _ ?po]
    by (simp add: gl_flags_ok_def new_program_def)
  moreover have "gl_current_ok ?s'"
    using gl_wfD(3) [OF wf] fresh by (auto simp: gl_current_ok_def new_program_def)
  ultimately show ?thesis by (simp add: glCreateProgram_def gen_name_def gl_wf_def)
qed

lemma glShaderSource_wf [gl_wf_intros]: "gl_wf s \<Longrightarrow> gl_wf (glShaderSource n src s)"
  by (auto simp: glShaderSource_def gl_wf_shader_upd split: option.splits)

lemma glCompileShader_wf [gl_wf_intros]: "gl_wf s \<Longrightarrow> gl_wf (glCompileShader drv n s)"
  by (auto simp: glCompileShader_def gl_wf_shader_upd split: option.splits prod.splits)

lemma glDeleteShader_wf [gl_wf_intros]:
  assumes wf: "gl_wf s"
  shows "gl_wf (glDeleteShader n s)"
proof (cases "n \<noteq> 0 \<and> shaders s n \<noteq> None")
  case False
  with wf show ?thesis by (auto simp: glDeleteShader_def)
next
  case True
  then obtain sh where sh: "shaders s n = Some sh" by auto
  note objs = gl_wfD(1) [OF wf]
  show ?thesis
  proof (cases "attached_to n s = []")
    case False
    with attached_to_held [OF objs] have "held n s" by simp
    have "gl_wf (s\<lparr>shaders := (shaders s)(n \<mapsto> sh\<lparr>sh_delete := True\<rparr>)\<rparr>)"
    proof -
      have "gl_objs_ok (s\<lparr>shaders := (shaders s)(n \<mapsto> sh\<lparr>sh_delete := True\<rparr>)\<rparr>)"
        by (rule objs_okI) (use objs_okD [OF objs] sh in \<open>auto split: if_splits\<close>)
      moreover have "gl_flags_ok {} (s\<lparr>shaders := (shaders s)(n \<mapsto> sh\<lparr>sh_delete := True\<rparr>)\<rparr>)"
        using gl_wfD(2) [OF wf] \<open>held n s\<close> by (auto simp: gl_flags_ok_def)
      moreover have "gl_current_ok (s\<lparr>shaders := (shaders s)(n \<mapsto> sh\<lparr>sh_delete := True\<rparr>)\<rparr>)"
        using gl_wfD(3) [OF wf] by (simp add: gl_current_ok_def)
      ultimately show ?thesis by (simp add: gl_wf_def)
    qed
    with True sh False show ?thesis by (simp add: glDeleteShader_def)
  next
    case nil: True
    with attached_to_held [OF objs, of n] have "\<not> held n s" by blast
    with objs have "gl_objs_ok (s\<lparr>shaders := (shaders s)(n := None)\<rparr>)"
      by (rule objs_ok_delete_shader)
    moreover have "gl_flags_ok {} (s\<lparr>shaders := (shaders s)(n := None)\<rparr>)"
      using gl_wfD(2) [OF wf] by (auto simp: gl_flags_ok_def)
    moreover have "gl_current_ok (s\<lparr>shaders := (shaders s)(n := None)\<rparr>)"
      using gl_wfD(3) [OF wf] by (simp add: gl_current_ok_def)
    ultimately show ?thesis using True sh nil by (simp add: glDeleteShader_def gl_wf_def)
  qed
qed

lemma glAttachShader_wf [gl_wf_intros]:
  assumes wf: "gl_wf s"
  shows "gl_wf (glAttachShader p n s)"
proof (cases "\<exists>po. programs s p = Some po \<and> glIsShader n s \<and> n \<notin> set (pr_attached po)")
  case False
  with wf show ?thesis by (auto simp: glAttachShader_def split: option.splits)
next
  case True
  then obtain po where po: "programs s p = Some po" and n: "glIsShader n s"
    and new: "n \<notin> set (pr_attached po)" by blast
  note objs = objs_okD [OF gl_wfD(1) [OF wf]]
  let ?po' = "po\<lparr>pr_attached := pr_attached po @ [n]\<rparr>"
  let ?s' = "s\<lparr>programs := (programs s)(p \<mapsto> ?po')\<rparr>"
  have "gl_objs_ok ?s'"
    by (rule objs_okI) (use objs po n new in \<open>auto split: if_splits simp: glIsShader_def\<close>)
  moreover have "held m s \<Longrightarrow> held m ?s'" for m
    using po by (auto simp: held_prog_upd held_other [of m s p])
  then have "gl_flags_ok {} ?s'"
    using gl_wfD(2) [OF wf] by (auto simp: gl_flags_ok_def)
  moreover have "gl_current_ok ?s'"
    using gl_wfD(3) [OF wf] po by (auto simp: gl_current_ok_def split: if_splits)
  ultimately show ?thesis using po n new by (simp add: glAttachShader_def gl_wf_def)
qed

lemma glDetachShader_wf [gl_wf_intros]:
  assumes wf: "gl_wf s"
  shows "gl_wf (glDetachShader p n s)"
proof (cases "\<exists>po. programs s p = Some po \<and> glIsShader n s \<and> n \<in> set (pr_attached po)")
  case False
  with wf show ?thesis by (auto simp: glDetachShader_def split: option.splits)
next
  case True
  then obtain po where po: "programs s p = Some po" and n: "glIsShader n s"
    and old: "n \<in> set (pr_attached po)" by blast
  note objs = objs_okD [OF gl_wfD(1) [OF wf]]
  let ?po' = "po\<lparr>pr_attached := removeAll n (pr_attached po)\<rparr>"
  let ?s' = "s\<lparr>programs := (programs s)(p \<mapsto> ?po')\<rparr>"
  have "gl_objs_ok ?s'"
    by (rule objs_okI) (use objs po in \<open>auto split: if_splits simp: distinct_removeAll\<close>)
  moreover have "held m s \<Longrightarrow> m \<noteq> n \<Longrightarrow> held m ?s'" for m
    using po by (auto simp: held_prog_upd held_other [of m s p])
  then have "gl_flags_ok {n} ?s'"
    using gl_wfD(2) [OF wf] by (auto simp: gl_flags_ok_def)
  ultimately have "gl_objs_ok (reap_shader n ?s') \<and> gl_flags_ok {} (reap_shader n ?s')"
    using reap_shader_objs reap_shader_flags [of ?s' "{n}" n] by simp
  moreover have "gl_current_ok (reap_shader n ?s')"
    using gl_wfD(3) [OF wf] po by (auto simp: gl_current_ok_def split: if_splits)
  ultimately show ?thesis using po n old by (simp add: glDetachShader_def gl_wf_def)
qed

lemma glLinkProgram_wf [gl_wf_intros]: "gl_wf s \<Longrightarrow> gl_wf (glLinkProgram drv p s)"
  by (auto simp: glLinkProgram_def Let_def gl_wf_program_upd split: option.splits)

lemma glValidateProgram_wf [gl_wf_intros]: "gl_wf s \<Longrightarrow> gl_wf (glValidateProgram drv p s)"
  by (auto simp: glValidateProgram_def gl_wf_program_upd split: option.splits)

lemma switch_program_wf:
  assumes wf: "gl_wf s" and q: "q = 0 \<or> q \<in> dom (programs s)"
  shows "gl_wf (switch_program q s)"
proof -
  let ?old = "cur_program s"
  let ?s1 = "s\<lparr>cur_program := q\<rparr>"
  from wf have objs: "gl_objs_ok ?s1" and flags: "gl_flags_ok {} ?s1"
    by (simp_all add: gl_wf_defs)
  from gl_wfD(3) [OF wf] have flagged:
    "\<forall>p po. programs ?s1 p = Some po \<longrightarrow> pr_delete po \<longrightarrow> p = cur_program ?s1 \<or> p = ?old"
    by (auto simp: gl_current_ok_def)
  show ?thesis
  proof (cases "\<exists>po. programs s ?old = Some po \<and> ?old \<noteq> q \<and> pr_delete po")
    case True
    then have "switch_program q s = free_program ?old ?s1"
      by (auto simp: switch_program_def Let_def)
    moreover have "gl_wf (free_program ?old ?s1)"
      using objs flags flagged q True by (intro free_program_wf) auto
    ultimately show ?thesis by simp
  next
    case False
    then have eq: "switch_program q s = ?s1"
      by (auto simp: switch_program_def Let_def split: option.splits)
    have "gl_current_ok ?s1"
    proof (rule current_okI)
      show "cur_program ?s1 = 0 \<or> programs ?s1 (cur_program ?s1) \<noteq> None" using q by auto
    next
      fix p po
      assume "programs ?s1 p = Some po" and "pr_delete po"
      with flagged False show "p = cur_program ?s1" by auto
    qed
    with eq objs flags show ?thesis by (simp add: gl_wf_def)
  qed
qed

lemma glUseProgram_wf [gl_wf_intros]: "gl_wf s \<Longrightarrow> gl_wf (glUseProgram p s)"
  by (auto simp: glUseProgram_def intro!: switch_program_wf split: option.splits)

lemma glDeleteProgram_wf [gl_wf_intros]:
  assumes wf: "gl_wf s"
  shows "gl_wf (glDeleteProgram p s)"
proof (cases "p \<noteq> 0 \<and> programs s p \<noteq> None")
  case False
  with wf show ?thesis by (auto simp: glDeleteProgram_def)
next
  case live: True
  then obtain po where po: "programs s p = Some po" by auto
  show ?thesis
  proof (cases "p = cur_program s")
    case True
    with wf po have "gl_wf (s\<lparr>programs := (programs s)(p \<mapsto> po\<lparr>pr_delete := True\<rparr>)\<rparr>)"
    proof -
      note objs = objs_okD [OF gl_wfD(1) [OF wf]]
      let ?s' = "s\<lparr>programs := (programs s)(p \<mapsto> po\<lparr>pr_delete := True\<rparr>)\<rparr>"
      have "gl_objs_ok ?s'"
        by (rule objs_okI) (use objs po in \<open>auto split: if_splits\<close>)
      moreover have "gl_flags_ok {} ?s'"
        using gl_wfD(2) [OF wf] held_prog_upd_same [OF po, of "po\<lparr>pr_delete := True\<rparr>"]
        by (simp add: gl_flags_ok_def)
      moreover have "gl_current_ok ?s'"
        using gl_wfD(3) [OF wf] po True by (auto simp: gl_current_ok_def split: if_splits)
      ultimately show ?thesis by (simp add: gl_wf_def)
    qed
    with True po live show ?thesis by (simp add: glDeleteProgram_def)
  next
    case False
    from wf have "gl_wf (free_program p s)"
      using False by (intro free_program_wf) (auto simp: gl_wf_def gl_current_ok_def)
    with False po live show ?thesis by (simp add: glDeleteProgram_def)
  qed
qed

lemma glDeleteObjectARB_wf [gl_wf_intros]: "gl_wf s \<Longrightarrow> gl_wf (glDeleteObjectARB n s)"
  by (simp add: glDeleteObjectARB_def glDeleteShader_wf glDeleteProgram_wf)

end
