(* ===== verification/Shaders.thy ===== *)
theory Shaders
  imports GL_Context
begin

text \<open>
  The shader-program helpers of \<open>psychopy/tools/gltools.py\<close> (lines 50-864):
  one definition per Python function, over the context of \<open>GL_Context\<close>.
  A wrapper takes the context and returns its result, \<open>Inl\<close> of the exception
  it raises, together with the context at the point of return or raise (GL
  calls made before a raise stay made).  \<open>sys.stderr.write\<close> appends to the
  \<open>stderr\<close> field.  The \<open>*ARB\<close> entry points of \<open>pyglet.gl\<close> act on the same
  objects as the core ones and are modelled by them.
\<close>

type_synonym 'a gl_call = "gl_state \<Rightarrow> 'a py_result \<times> gl_state"

section \<open>Program and shader objects\<close>

definition createProgram :: "nat gl_call" where
  "createProgram s = (let (n, s1) = glCreateProgram s in (Inr n, s1))"

definition createProgramObjectARB :: "nat gl_call" where
  "createProgramObjectARB s = (let (n, s1) = glCreateProgram s in (Inr n, s1))"

text \<open>\<open>shaderSrc\<close> is a \<open>str\<close> or a list (or tuple) of \<open>str\<close>.\<close>

datatype shader_src = SrcStr string | SrcList "string list"

fun src_strings :: "shader_src \<Rightarrow> string list" where
  "src_strings (SrcStr t) = [t]"
| "src_strings (SrcList ts) = ts"

definition write_stderr :: "string \<Rightarrow> gl_state \<Rightarrow> gl_state" where
  "write_stderr txt s = s\<lparr>stderr := stderr s @ txt\<rparr>"

definition deleteObject :: "nat \<Rightarrow> unit gl_call" where
  "deleteObject obj s =
     (if glIsShader obj s then (Inr (), glDeleteShader obj s)
      else if glIsProgram obj s then (Inr (), glDeleteProgram obj s)
      else (Inl (ValueError ''Cannot delete, not a program or shader object.''), s))"

definition deleteObjectARB :: "nat \<Rightarrow> unit gl_call" where
  "deleteObjectARB obj s = (Inr (), glDeleteObjectARB obj s)"

text \<open>\<open>getInfoLog\<close> reads the log length with the query for the object's
  kind, but reads the log itself with \<open>glGetShaderInfoLog\<close> in both cases.\<close>

definition getInfoLog :: "nat \<Rightarrow> string gl_call" where
  "getInfoLog obj s =
     (if glIsShader obj s then
        (let (len, s1) = glGetShaderInfoLogLength obj s;
             (log, s2) = glGetShaderInfoLog obj len s1
         in (Inr log, s2))
      else if glIsProgram obj s then
        (let (len, s1) = glGetProgramParam program_log_length obj s;
             (log, s2) = glGetShaderInfoLog obj len s1
         in (Inr log, s2))
      else (Inl (ValueError ''Specified value of `obj` is not a shader or program.''), s))"

text \<open>The failure branch of \<open>compileShader\<close>: the log is written, the shader
  deleted, and \<open>RuntimeError\<close> raised; \<open>getInfoLog\<close> and \<open>deleteObject\<close> may
  raise first.\<close>

definition compile_failed :: "(nat \<Rightarrow> unit gl_call) \<Rightarrow> nat \<Rightarrow> nat gl_call" where
  "compile_failed del sid s =
     (case getInfoLog sid s of
        (Inl e, s1) \<Rightarrow> (Inl e, s1)
      | (Inr log, s1) \<Rightarrow>
          (case del sid (write_stderr (log @ ''\<newline>'') s1) of
             (Inl e, s2) \<Rightarrow> (Inl e, s2)
           | (Inr _, s2) \<Rightarrow> (Inl (RuntimeError ''Shader compilation failed, check log output.''), s2)))"

definition compileShader :: "gl_driver \<Rightarrow> shader_src \<Rightarrow> int \<Rightarrow> nat gl_call" where
  "compileShader drv src ty s =
     (let (sid, s1) = glCreateShader ty s;
          s2 = glShaderSource sid (src_strings src) s1;
          s3 = glCompileShader drv sid s2;
          (ok, s4) = glGetShaderCompileStatus sid s3
      in if ok then (Inr sid, s4) else compile_failed deleteObject sid s4)"

definition compileShaderObjectARB :: "gl_driver \<Rightarrow> shader_src \<Rightarrow> int \<Rightarrow> nat gl_call" where
  "compileShaderObjectARB drv src ty s =
     (let (sid, s1) = glCreateShader ty s;
          s2 = glShaderSource sid (src_strings src) s1;
          s3 = glCompileShader drv sid s2;
          (ok, s4) = glGetShaderCompileStatus sid s3
      in if ok then (Inr sid, s4) else compile_failed deleteObjectARB sid s4)"

section \<open>Attaching, linking, validating, installing\<close>

definition attachShader :: "nat \<Rightarrow> nat \<Rightarrow> unit gl_call" where
  "attachShader program shader s =
     (if \<not> glIsProgram program s then (Inl (ValueError ''Value `program` is not a program object.''), s)
      else if \<not> glIsShader shader s then (Inl (ValueError ''Value `shader` is not a shader object.''), s)
      else (Inr (), glAttachShader program shader s))"

definition attachObjectARB :: "nat \<Rightarrow> nat \<Rightarrow> unit gl_call" where
  "attachObjectARB program shader s =
     (if \<not> glIsProgram program s then (Inl (ValueError ''Value `program` is not a program object.''), s)
      else if \<not> glIsShader shader s then (Inl (ValueError ''Value `shader` is not a shader object.''), s)
      else (Inr (), glAttachShader program shader s))"

definition detachShader :: "nat \<Rightarrow> nat \<Rightarrow> unit gl_call" where
  "detachShader program shader s =
     (if \<not> glIsProgram program s then (Inl (ValueError ''Value `program` is not a program.''), s)
      else if \<not> glIsShader shader s then (Inl (ValueError ''Value `shader` is not a shader object.''), s)
      else (Inr (), glDetachShader program shader s))"

definition detachObjectARB :: "nat \<Rightarrow> nat \<Rightarrow> unit gl_call" where
  "detachObjectARB program shader s =
     (if \<not> glIsProgram program s then (Inl (ValueError ''Value `program` is not a program.''), s)
      else if \<not> glIsShader shader s then (Inl (ValueError ''Value `shader` is not a shader object.''), s)
      else (Inr (), glDetachShader program shader s))"

text \<open>After a link or validation the status is read into a \<open>GLint\<close>; on
  \<open>GL_FALSE\<close> the log is written and \<open>RuntimeError\<close> raised.\<close>

definition status_failed :: "string \<Rightarrow> nat \<Rightarrow> unit gl_call" where
  "status_failed msg program s =
     (case getInfoLog program s of
        (Inl e, s1) \<Rightarrow> (Inl e, s1)
      | (Inr log, s1) \<Rightarrow> (Inl (RuntimeError msg), write_stderr (log @ ''\<newline>'') s1))"

definition linkProgram :: "gl_driver \<Rightarrow> nat \<Rightarrow> unit gl_call" where
  "linkProgram drv program s =
     (if \<not> glIsProgram program s then (Inl (ValueError ''Value `program` is not a shader program.''), s)
      else
        (let s1 = glLinkProgram drv program s;
             (result, s2) = glGetProgramParam link_status program s1
         in if result = GL_FALSE
            then status_failed ''Failed to link shader program. Check log output.'' program s2
            else (Inr (), s2)))"

definition linkProgramObjectARB :: "gl_driver \<Rightarrow> nat \<Rightarrow> unit gl_call" where
  "linkProgramObjectARB drv program s =
     (if \<not> glIsProgram program s then (Inl (ValueError ''Value `program` is not a shader program.''), s)
      else
        (let s1 = glLinkProgram drv program s;
             (result, s2) = glGetProgramParam link_status program s1
         in if result = GL_FALSE
            then status_failed ''Failed to link shader program. Check log output.'' program s2
            else (Inr (), s2)))"

definition validateProgram :: "gl_driver \<Rightarrow> nat \<Rightarrow> unit gl_call" where
  "validateProgram drv program s =
     (let s1 = glValidateProgram drv program s;
          (result, s2) = glGetProgramParam validate_status program s1
      in if result = GL_FALSE then status_failed ''Shader program validation failed.'' program s2
         else (Inr (), s2))"

definition validateProgramARB :: "gl_driver \<Rightarrow> nat \<Rightarrow> unit gl_call" where
  "validateProgramARB drv program s =
     (let s1 = glValidateProgram drv program s;
          (result, s2) = glGetProgramParam validate_status program s1
      in if result = GL_FALSE then status_failed ''Shader program validation failed.'' program s2
         else (Inr (), s2))"

text \<open>\<open>program\<close> may be \<open>None\<close>, which means 0 (no program).\<close>

definition useProgram :: "nat option \<Rightarrow> unit gl_call" where
  "useProgram program s =
     (let p = (case program of None \<Rightarrow> 0 | Some n \<Rightarrow> n)
      in if glIsProgram p s \<or> p = 0 then (Inr (), glUseProgram p s)
         else (Inl (ValueError ''Specified `program` is not a program object.''), s))"

definition useProgramObjectARB :: "nat option \<Rightarrow> unit gl_call" where
  "useProgramObjectARB program s =
     (let p = (case program of None \<Rightarrow> 0 | Some n \<Rightarrow> n)
      in if glIsProgram p s \<or> p = 0 then (Inr (), glUseProgram p s)
         else (Inl (ValueError ''Specified `program` is not a program object.''), s))"

section \<open>Uniform and attribute locations\<close>

text \<open>The loop of \<open>getUniformLocations\<close> and \<open>getAttribLocations\<close> over the
  active indices: read the name, look its location up, store it unless it is
  \<open>-1\<close> and built-ins are not wanted.\<close>

fun collect_locations :: "(program_obj \<Rightarrow> (string \<times> int) list) \<Rightarrow> nat \<Rightarrow> int \<Rightarrow> bool \<Rightarrow>
    nat list \<Rightarrow> (string \<times> int) list \<Rightarrow> gl_state \<Rightarrow> (string \<times> int) list \<times> gl_state" where
  "collect_locations f program maxlen builtins [] d s = (d, s)"
| "collect_locations f program maxlen builtins (i # idxs) d s =
     (let (name, s1) = glGetActiveName f program i maxlen s;
          (loc, s2) = glGetLocation f program name s1;
          d' = (if \<not> builtins then (if loc \<noteq> -1 then dict_set d name loc else d)
                else dict_set d name loc)
      in collect_locations f program maxlen builtins idxs d' s2)"

definition get_locations :: "(program_obj \<Rightarrow> int) \<Rightarrow> (program_obj \<Rightarrow> int) \<Rightarrow>
    (program_obj \<Rightarrow> (string \<times> int) list) \<Rightarrow> nat \<Rightarrow> bool \<Rightarrow> (string \<times> int) list option gl_call" where
  "get_locations count maxlen f program builtins s =
     (if \<not> glIsProgram program s then
        (Inl (ValueError ''Specified value of `program` is not a program object handle.''), s)
      else
        (let (n, s1) = glGetProgramParam count program s
         in if 0 < n then
              (let (ml, s2) = glGetProgramParam maxlen program s1;
                   (d, s3) = collect_locations f program ml builtins [0..<nat n] [] s2
               in (Inr (Some d), s3))
            else (Inr None, s1)))"

definition getUniformLocations :: "nat \<Rightarrow> bool \<Rightarrow> (string \<times> int) list option gl_call" where
  "getUniformLocations program builtins =
     get_locations active_uniforms active_uniform_max_length pr_uniforms program builtins"

definition getAttribLocations :: "nat \<Rightarrow> bool \<Rightarrow> (string \<times> int) list option gl_call" where
  "getAttribLocations program builtins =
     get_locations active_attributes active_attribute_max_length pr_attribs program builtins"

section \<open>API calls as steps\<close>

text \<open>Every public shader helper as one step of the context.  A caller may
  catch the exception and go on, so the step keeps the context reached at the
  raise as well.\<close>

datatype shader_call =
    CreateProgram | CreateProgramObjectARB
  | CompileShader shader_src int | CompileShaderObjectARB shader_src int
  | DeleteObject nat | DeleteObjectARB nat
  | AttachShader nat nat | AttachObjectARB nat nat
  | DetachShader nat nat | DetachObjectARB nat nat
  | LinkProgram nat | LinkProgramObjectARB nat
  | ValidateProgram nat | ValidateProgramARB nat
  | UseProgram "nat option" | UseProgramObjectARB "nat option"
  | GetInfoLog nat | GetUniformLocations nat bool | GetAttribLocations nat bool

fun run_shader_call :: "gl_driver \<Rightarrow> shader_call \<Rightarrow> gl_state \<Rightarrow> gl_state" where
  "run_shader_call drv CreateProgram s = snd (createProgram s)"
| "run_shader_call drv CreateProgramObjectARB s = snd (createProgramObjectARB s)"
| "run_shader_call drv (CompileShader src t) s = snd (compileShader drv src t s)"
| "run_shader_call drv (CompileShaderObjectARB src t) s = snd (compileShaderObjectARB drv src t s)"
| "run_shader_call drv (DeleteObject n) s = snd (deleteObject n s)"
| "run_shader_call drv (DeleteObjectARB n) s = snd (deleteObjectARB n s)"
| "run_shader_call drv (AttachShader p n) s = snd (attachShader p n s)"
| "run_shader_call drv (AttachObjectARB p n) s = snd (attachObjectARB p n s)"
| "run_shader_call drv (DetachShader p n) s = snd (detachShader p n s)"
| "run_shader_call drv (DetachObjectARB p n) s = snd (detachObjectARB p n s)"
| "run_shader_call drv (LinkProgram p) s = snd (linkProgram drv p s)"
| "run_shader_call drv (LinkProgramObjectARB p) s = snd (linkProgramObjectARB drv p s)"
| "run_shader_call drv (ValidateProgram p) s = snd (validateProgram drv p s)"
| "run_shader_call drv (ValidateProgramARB p) s = snd (validateProgramARB drv p s)"
| "run_shader_call drv (UseProgram p) s = snd (useProgram p s)"
| "run_shader_call drv (UseProgramObjectARB p) s = snd (useProgramObjectARB p s)"
| "run_shader_call drv (GetInfoLog n) s = snd (getInfoLog n s)"
| "run_shader_call drv (GetUniformLocations p b) s = snd (getUniformLocations p b s)"
| "run_shader_call drv (GetAttribLocations p b) s = snd (getAttribLocations p b s)"

inductive shader_reachable :: "gl_driver \<Rightarrow> gl_state \<Rightarrow> bool" for drv where
  init: "shader_reachable drv gl_init"
| step: "shader_reachable drv s \<Longrightarrow> shader_reachable drv (run_shader_call drv c s)"

text \<open>The objects of a context, and the name a creating helper hands to its
  caller: the value it returns (nothing when it raises).\<close>

definition gl_objects :: "gl_state \<Rightarrow> nat set" where
  "gl_objects s = dom (shaders s) \<union> dom (programs s)"

definition result_name :: "nat py_result \<times> gl_state \<Rightarrow> nat set" where
  "result_name r = (case fst r of Inr n \<Rightarrow> {n} | Inl _ \<Rightarrow> {})"

fun handed_name :: "gl_driver \<Rightarrow> shader_call \<Rightarrow> gl_state \<Rightarrow> nat set" where
  "handed_name drv CreateProgram s = result_name (createProgram s)"
| "handed_name drv CreateProgramObjectARB s = result_name (createProgramObjectARB s)"
| "handed_name drv (CompileShader src t) s = result_name (compileShader drv src t s)"
| "handed_name drv (CompileShaderObjectARB src t) s = result_name (compileShaderObjectARB drv src t s)"
| "handed_name drv c s = {}"

text \<open>A run of helper calls together with the names handed to the caller so
  far.\<close>

inductive shader_run :: "gl_driver \<Rightarrow> gl_state \<Rightarrow> nat set \<Rightarrow> bool" for drv where
  init: "shader_run drv gl_init {}"
| step: "shader_run drv s N \<Longrightarrow> shader_run drv (run_shader_call drv c s) (N \<union> handed_name drv c s)"

text \<open>\<open>s'\<close> differs from \<open>s\<close> at most in the error flag.\<close>

definition same_objects :: "gl_state \<Rightarrow> gl_state \<Rightarrow> bool" where
  "same_objects s' s \<longleftrightarrow>
     shaders s' = shaders s \<and> programs s' = programs s \<and> cur_program s' = cur_program s \<and>
     next_name s' = next_name s \<and> stderr s' = stderr s"

text \<open>The reference behaviour of the location queries: the active entries in
  index order, without the \<open>-1\<close> ones unless built-ins are wanted.\<close>

definition locations_spec :: "bool \<Rightarrow> (string \<times> int) list \<Rightarrow> (string \<times> int) list option" where
  "locations_spec builtins vs =
     (if vs = [] then None else Some (filter (\<lambda>(n, l). builtins \<or> l \<noteq> -1) vs))"

text \<open>One round of that loop on the driver's table, for the proofs.\<close>

definition location_step :: "bool \<Rightarrow> (string \<times> int) list \<Rightarrow> (string \<times> int) list \<Rightarrow> nat \<Rightarrow>
    (string \<times> int) list" where
  "location_step b vs d i = (let (nm, l) = vs ! i in if \<not> b \<and> l = -1 then d else dict_set d nm l)"

text \<open>A driver for the examples: a shader compiles when it has source text, a
  program links when it has shaders, and a link reports one built-in and one
  user uniform.\<close>

definition demo_driver :: gl_driver where
  "demo_driver =
     \<lparr>drv_compile = (\<lambda>t src. (src \<noteq> [], if src = [] then ''error: no source'' else [])),
      drv_link = (\<lambda>shs. \<lparr>lk_ok = (shs \<noteq> []), lk_log = (if shs = [] then ''error: nothing attached'' else []),
                         lk_uniforms = [(''gl_ModelViewMatrix'', -1), (''tint'', 0)],
                         lk_attribs = [(''position'', 0)]\<rparr>),
      drv_validate = pr_linked, drv_max_samples = 8, drv_max_lights = 8, drv_max_tex_units = 16\<rparr>"

section \<open>Queries leave the objects alone\<close>

lemma same_objects_wf: "same_objects s' s \<Longrightarrow> gl_wf s' = gl_wf s"
  by (simp add: same_objects_def gl_wf_defs attached_to_def)

lemma same_objects_refl [simp]: "same_objects s s"
  by (simp add: same_objects_def)

lemma same_objects_raise [simp]: "same_objects (gl_raise e s) s"
  by (simp add: same_objects_def)

lemma same_objects_trans: "same_objects s2 s1 \<Longrightarrow> same_objects s1 s \<Longrightarrow> same_objects s2 s"
  by (simp add: same_objects_def)

lemmas query_defs = glGetShaderInfoLogLength_def glGetShaderInfoLog_def glGetProgramParam_def
  glGetShaderCompileStatus_def glGetActiveName_def glGetLocation_def

lemma queries_same_objects [simp]:
  "same_objects (snd (glGetShaderInfoLogLength n s)) s"
  "same_objects (snd (glGetShaderInfoLog n k s)) s"
  "same_objects (snd (glGetProgramParam f p s)) s"
  "same_objects (snd (glGetShaderCompileStatus n s)) s"
  "same_objects (snd (glGetActiveName g p i k s)) s"
  "same_objects (snd (glGetLocation g p nm s)) s"
  by (simp_all add: query_defs split: option.splits)

lemma getInfoLog_same_objects: "same_objects (snd (getInfoLog obj s)) s"
proof -
  have "same_objects (snd (glGetShaderInfoLog obj k s1)) s"
    if "same_objects s1 s" for k s1
    using that queries_same_objects(2) same_objects_trans by blast
  then show ?thesis
    by (auto simp: getInfoLog_def split: prod.splits)
      (metis queries_same_objects(1,3) snd_conv same_objects_trans)+
qed

lemma collect_locations_same_objects:
  "same_objects (snd (collect_locations f p ml b idxs d s)) s"
proof (induction idxs arbitrary: d s)
  case Nil
  then show ?case by simp
next
  case (Cons i idxs)
  obtain name s1 where a: "glGetActiveName f p i ml s = (name, s1)" by fastforce
  obtain loc s2 where l: "glGetLocation f p name s1 = (loc, s2)" by fastforce
  have "same_objects s2 s"
    using queries_same_objects(5) [of f p i ml s] queries_same_objects(6) [of f p name s1] a l
    by (auto intro: same_objects_trans)
  then have "same_objects (snd (collect_locations f p ml b idxs d' s2)) s" for d'
    using Cons.IH same_objects_trans by blast
  then show ?case by (simp add: a l Let_def)
qed

lemma get_locations_same_objects:
  "same_objects (snd (get_locations c m f p b s)) s"
  by (auto simp: get_locations_def Let_def split: prod.splits)
    (metis collect_locations_same_objects queries_same_objects(3) snd_conv same_objects_trans)+

section \<open>Every helper keeps the context well formed\<close>

lemma write_stderr_wf [simp]: "gl_wf (write_stderr t s) = gl_wf s"
  by (simp add: write_stderr_def)

lemma getInfoLog_wf [gl_wf_intros]: "gl_wf s \<Longrightarrow> gl_wf (snd (getInfoLog obj s))"
  using getInfoLog_same_objects same_objects_wf by blast

lemma deleteObject_wf [gl_wf_intros]: "gl_wf s \<Longrightarrow> gl_wf (snd (deleteObject n s))"
  by (simp add: deleteObject_def glDeleteShader_wf glDeleteProgram_wf)

lemma deleteObjectARB_wf [gl_wf_intros]: "gl_wf s \<Longrightarrow> gl_wf (snd (deleteObjectARB n s))"
  by (simp add: deleteObjectARB_def glDeleteObjectARB_wf)

lemma compile_failed_wf:
  assumes "\<And>n s. gl_wf s \<Longrightarrow> gl_wf (snd (del n s))" and "gl_wf s"
  shows "gl_wf (snd (compile_failed del sid s))"
proof -
  from assms(2) have wf1: "gl_wf (snd (getInfoLog sid s))" by (rule getInfoLog_wf)
  show ?thesis
    using assms(1) wf1 by (auto simp: compile_failed_def split: prod.splits sum.splits)
      (metis snd_conv write_stderr_wf)+
qed

lemma compile_front_wf:
  assumes "gl_wf s" and "glCreateShader ty s = (sid, s1)"
    and "glGetShaderCompileStatus sid (glCompileShader drv sid (glShaderSource sid src s1)) = (ok, s4)"
  shows "gl_wf s4"
proof -
  from assms(1,2) have "gl_wf s1" using glCreateShader_wf [of s ty] by simp
  then have "gl_wf (glCompileShader drv sid (glShaderSource sid src s1))"
    by (intro glCompileShader_wf glShaderSource_wf)
  with assms(3) show ?thesis
    using queries_same_objects(4) same_objects_wf by (metis snd_conv)
qed

lemma compileShader_wf [gl_wf_intros]:
  "gl_wf s \<Longrightarrow> gl_wf (snd (compileShader drv src ty s))"
  by (auto simp: compileShader_def Let_def split: prod.splits
      intro: compile_front_wf compile_failed_wf [OF deleteObject_wf] dest: compile_front_wf)

lemma compileShaderObjectARB_wf [gl_wf_intros]:
  "gl_wf s \<Longrightarrow> gl_wf (snd (compileShaderObjectARB drv src ty s))"
  by (auto simp: compileShaderObjectARB_def Let_def split: prod.splits
      intro: compile_front_wf compile_failed_wf [OF deleteObjectARB_wf] dest: compile_front_wf)

lemma attach_detach_wf [gl_wf_intros]:
  "gl_wf s \<Longrightarrow> gl_wf (snd (attachShader p n s))"
  "gl_wf s \<Longrightarrow> gl_wf (snd (attachObjectARB p n s))"
  "gl_wf s \<Longrightarrow> gl_wf (snd (detachShader p n s))"
  "gl_wf s \<Longrightarrow> gl_wf (snd (detachObjectARB p n s))"
  by (simp_all add: attachShader_def attachObjectARB_def detachShader_def detachObjectARB_def
      glAttachShader_wf glDetachShader_wf)

lemma status_failed_wf [gl_wf_intros]: "gl_wf s \<Longrightarrow> gl_wf (snd (status_failed msg p s))"
  using getInfoLog_wf [of s p]
  by (auto simp: status_failed_def split: prod.splits sum.splits)

lemma status_check_wf:
  assumes "gl_wf s1" and "glGetProgramParam f p s1 = (r, s2)"
  shows "gl_wf s2"
  using assms queries_same_objects(3) [of f p s1] same_objects_wf by (metis snd_conv)

lemma link_validate_wf [gl_wf_intros]:
  "gl_wf s \<Longrightarrow> gl_wf (snd (linkProgram drv p s))"
  "gl_wf s \<Longrightarrow> gl_wf (snd (linkProgramObjectARB drv p s))"
  "gl_wf s \<Longrightarrow> gl_wf (snd (validateProgram drv p s))"
  "gl_wf s \<Longrightarrow> gl_wf (snd (validateProgramARB drv p s))"
  by (auto simp: linkProgram_def linkProgramObjectARB_def validateProgram_def validateProgramARB_def
      Let_def split: prod.splits
      intro: status_failed_wf status_check_wf glLinkProgram_wf glValidateProgram_wf
      dest: status_check_wf [OF glLinkProgram_wf] status_check_wf [OF glValidateProgram_wf])

lemma use_wf [gl_wf_intros]:
  "gl_wf s \<Longrightarrow> gl_wf (snd (useProgram p s))"
  "gl_wf s \<Longrightarrow> gl_wf (snd (useProgramObjectARB p s))"
  by (simp_all add: useProgram_def useProgramObjectARB_def Let_def glUseProgram_wf)

lemma locations_wf [gl_wf_intros]:
  "gl_wf s \<Longrightarrow> gl_wf (snd (getUniformLocations p b s))"
  "gl_wf s \<Longrightarrow> gl_wf (snd (getAttribLocations p b s))"
  unfolding getUniformLocations_def getAttribLocations_def
  using get_locations_same_objects same_objects_wf by blast+

lemma create_wf [gl_wf_intros]:
  "gl_wf s \<Longrightarrow> gl_wf (snd (createProgram s))"
  "gl_wf s \<Longrightarrow> gl_wf (snd (createProgramObjectARB s))"
  using glCreateProgram_wf [of s]
  by (simp_all add: createProgram_def createProgramObjectARB_def case_prod_beta)

lemma run_shader_call_wf: "gl_wf s \<Longrightarrow> gl_wf (run_shader_call drv c s)"
  by (cases c) (simp_all add: gl_wf_intros)

section \<open>Compiling shaders\<close>

lemmas compile_defs = compileShader_def compileShaderObjectARB_def glCreateShader_def gen_name_def new_shader_def
  glShaderSource_def glCompileShader_def glGetShaderCompileStatus_def compile_failed_def
  getInfoLog_def glIsShader_def glIsProgram_def glGetShaderInfoLogLength_def glGetShaderInfoLog_def
  deleteObject_def write_stderr_def

lemma take_log_length [simp]: "take (nat (log_length l - 1)) l = l"
  by (simp add: log_length_def)

lemma fresh_not_held:
  assumes "gl_objs_ok s" and "shaders s n = None"
  shows "attached_to n s = []"
  using free_shader_not_held [OF assms] attached_to_held [OF assms(1)] by blast

lemma fresh_name:
  assumes "gl_wf s"
  shows "shaders s (next_name s) = None" "programs s (next_name s) = None" "next_name s \<noteq> 0"
  using objs_okD(1,3,5) [OF gl_wfD(1) [OF assms]] by (meson less_irrefl not_None_eq, meson less_irrefl not_None_eq, simp)

lemma zero_no_object:
  assumes "gl_wf s"
  shows "shaders s 0 = None" "programs s 0 = None"
  using objs_okD(2,4) [OF gl_wfD(1) [OF assms]] by (meson less_irrefl not_None_eq)+

lemma fresh_unattached:
  assumes "gl_wf s"
  shows "attached_to (next_name s) (s\<lparr>next_name := Suc (next_name s), shaders := X, stderr := out\<rparr>) = []"
proof -
  let ?n = "next_name s"
  have "\<not> held ?n s" using free_shader_not_held [OF gl_wfD(1) [OF assms] fresh_name(1) [OF assms]] .
  moreover have "p \<in> set (attached_to ?n (s\<lparr>next_name := Suc ?n, shaders := X, stderr := out\<rparr>))
      \<Longrightarrow> held ?n s" for p
    by (auto simp: attached_to_iff held_def)
  ultimately show ?thesis by (metis list.set_intros(1) neq_Nil_conv)
qed

text \<open>C2: a source that compiles yields the fresh name of a compiled shader of
  the requested type holding that source and the driver's log; nothing else in
  the context changes.\<close>

theorem compileShader_ok:
  assumes "is_shader_type ty" and "drv_compile drv ty (src_strings src) = (True, log)"
  shows "compileShader drv src ty s =
     (Inr (next_name s),
      s\<lparr>next_name := Suc (next_name s),
        shaders := (shaders s)(next_name s \<mapsto>
          \<lparr>sh_type = ty, sh_source = src_strings src, sh_compiled = True, sh_log = log,
           sh_delete = False\<rparr>)\<rparr>)"
  using assms by (simp add: compile_defs)

text \<open>C3: a source that does not compile makes \<open>compileShader\<close> write the
  driver's log and a newline to stderr and raise \<open>RuntimeError\<close>; the shader it
  created is deleted again, so no shader object leaks.\<close>

theorem compileShader_fails:
  assumes "gl_wf s" and "is_shader_type ty" and "drv_compile drv ty (src_strings src) = (False, log)"
  shows "compileShader drv src ty s =
     (Inl (RuntimeError ''Shader compilation failed, check log output.''),
      s\<lparr>next_name := Suc (next_name s), stderr := stderr s @ log @ ''\<newline>''\<rparr>)"
  using assms fresh_name [OF assms(1)] fresh_unattached [OF assms(1)]
  by (simp add: compile_defs glDeleteShader_def fun_upd_idem)

text \<open>C4: for an enumerant that is no shader type, \<open>glCreateShader\<close> returns 0
  and records \<open>GL_INVALID_ENUM\<close>; the compile status then reads \<open>GL_FALSE\<close>, and
  the error path's \<open>getInfoLog(0)\<close> raises \<open>ValueError\<close>, not the
  \<open>RuntimeError\<close> of a failed compilation.\<close>

theorem compileShader_bad_type:
  assumes "gl_wf s" and "\<not> is_shader_type ty"
  shows "compileShader drv src ty s =
     (Inl (ValueError ''Specified value of `obj` is not a shader or program.''),
      gl_raise GL_INVALID_ENUM s)"
  using assms zero_no_object [OF assms(1)] by (simp add: compile_defs gl_raise_def)

text \<open>The ARB error path deletes with the unchecked \<open>deleteObjectARB\<close>,
  which it only reaches for a name that is a shader or a program.\<close>

lemma deleteObjectARB_eq:
  "glIsShader n s \<or> glIsProgram n s \<Longrightarrow> deleteObjectARB n s = deleteObject n s"
  by (auto simp: deleteObjectARB_def deleteObject_def glDeleteObjectARB_def)

lemma getInfoLog_Inr_object:
  "getInfoLog obj s = (Inr l, s1) \<Longrightarrow> glIsShader obj s \<or> glIsProgram obj s"
  by (auto simp: getInfoLog_def split: if_splits)

lemma compile_failed_ARB: "compile_failed deleteObjectARB sid s = compile_failed deleteObject sid s"
proof -
  have "deleteObjectARB sid (write_stderr t s1) = deleteObject sid (write_stderr t s1)"
    if "getInfoLog sid s = (Inr l, s1)" for l s1 t
  proof (rule deleteObjectARB_eq)
    from that have "glIsShader sid s \<or> glIsProgram sid s" by (rule getInfoLog_Inr_object)
    moreover from that getInfoLog_same_objects [of sid s] have "same_objects s1 s" by simp
    ultimately show "glIsShader sid (write_stderr t s1) \<or> glIsProgram sid (write_stderr t s1)"
      by (simp add: same_objects_def write_stderr_def glIsShader_def glIsProgram_def)
  qed
  then show ?thesis by (simp add: compile_failed_def split: prod.splits sum.splits)
qed

text \<open>C5: the ARB variant, which deletes the failed shader with the unchecked
  \<open>deleteObjectARB\<close>, behaves exactly as \<open>compileShader\<close>: the error path
  only reaches the deletion for a name that is a shader or a program.\<close>

theorem compileShaderObjectARB_eq:
  "compileShaderObjectARB drv src ty s = compileShader drv src ty s"
  unfolding compileShaderObjectARB_def compileShader_def compile_failed_ARB ..

section \<open>Logs, deletion and installation\<close>

lemma program_not_shader: "gl_wf s \<Longrightarrow> glIsProgram p s \<Longrightarrow> \<not> glIsShader p s"
  using objs_okD(6) [OF gl_wfD(1)] by (fastforce simp: glIsShader_def glIsProgram_def)

text \<open>The log of a program, read with \<open>glGetShaderInfoLog\<close>.\<close>

lemma program_info_log:
  assumes "gl_wf s" and "glIsProgram p s"
  shows "getInfoLog p s = (Inr [], gl_raise GL_INVALID_OPERATION s)"
  using assms program_not_shader [OF assms]
  by (auto simp: getInfoLog_def glGetProgramParam_def glGetShaderInfoLog_def shader_name_error_def
      glIsProgram_def glIsShader_def)

text \<open>C6: \<open>getInfoLog\<close> of a program object returns the empty string (and
  leaves \<open>GL_INVALID_OPERATION\<close> behind), whatever the program's log holds:
  the log is read with \<open>glGetShaderInfoLog\<close>, which only accepts shaders.\<close>

theorem getInfoLog_program:
  assumes "gl_wf s" and "glIsProgram p s"
  shows "getInfoLog p s = (Inr [], gl_raise GL_INVALID_OPERATION s)"
  using assms by (rule program_info_log)

text \<open>C7: when a program fails to link, \<open>linkProgram\<close> raises
  \<open>RuntimeError\<close> but writes only a newline to stderr: the driver's link log
  never reaches the user.\<close>

theorem linkProgram_fails:
  assumes "gl_wf s" and "programs s p = Some po"
    and "\<not> lk_ok (drv_link drv (List.map_filter (shaders s) (pr_attached po)))"
  shows "linkProgram drv p s =
     (Inl (RuntimeError ''Failed to link shader program. Check log output.''),
      write_stderr ''\<newline>'' (gl_raise GL_INVALID_OPERATION (glLinkProgram drv p s)))"
proof -
  let ?s1 = "glLinkProgram drv p s"
  have wf1: "gl_wf ?s1" using assms(1) by (rule glLinkProgram_wf)
  from assms(2,3) obtain po1 where po1: "programs ?s1 p = Some po1" "\<not> pr_linked po1"
    by (simp add: glLinkProgram_def Let_def)
  then have prog: "glIsProgram p ?s1" by (simp add: glIsProgram_def)
  from po1 have "glGetProgramParam link_status p ?s1 = (GL_FALSE, ?s1)"
    by (simp add: glGetProgramParam_def link_status_def)
  moreover from program_info_log [OF wf1 prog]
  have "status_failed ''Failed to link shader program. Check log output.'' p ?s1 =
      (Inl (RuntimeError ''Failed to link shader program. Check log output.''),
       write_stderr ''\<newline>'' (gl_raise GL_INVALID_OPERATION ?s1))"
    by (simp add: status_failed_def)
  ultimately show ?thesis using assms(2) by (simp add: linkProgram_def glIsProgram_def)
qed

text \<open>Deleting a live shader removes it when no program holds it, and
  otherwise only flags it, as the GL specification requires.\<close>

theorem deleteObject_shader:
  assumes "gl_wf s" and "shaders s n = Some sh"
  shows "deleteObject n s =
     (Inr (), s\<lparr>shaders := (if held n s then (shaders s)(n \<mapsto> sh\<lparr>sh_delete := True\<rparr>)
                            else (shaders s)(n := None))\<rparr>)"
proof -
  have "n \<noteq> 0" using zero_no_object(1) [OF assms(1)] assms(2) by (cases "n = 0") auto
  with assms attached_to_held [OF gl_wfD(1) [OF assms(1)], of n] show ?thesis
    by (simp add: deleteObject_def glDeleteShader_def glIsShader_def)
qed

text \<open>\<open>deleteObject\<close> raises \<open>ValueError\<close> exactly for a name that is
  neither a shader nor a program.\<close>

theorem deleteObject_error:
  "is_error (fst (deleteObject n s)) \<longleftrightarrow> \<not> glIsShader n s \<and> \<not> glIsProgram n s"
  by (simp add: deleteObject_def)

text \<open>\<open>useProgram(None)\<close> succeeds and leaves no program installed.\<close>

theorem useProgram_None:
  "fst (useProgram None s) = Inr () \<and> cur_program (snd (useProgram None s)) = 0"
  by (simp add: useProgram_def glUseProgram_def switch_program_def Let_def free_program_def
      split: option.splits)

text \<open>C11: \<open>useProgram\<close> on a program that has not been linked returns
  normally: the wrapper only checks that the name is a program, and the driver
  refuses the program with \<open>GL_INVALID_OPERATION\<close>, leaving the current program
  as it was.\<close>

theorem useProgram_unlinked:
  assumes "programs s p = Some po" and "p \<noteq> 0" and "\<not> pr_linked po"
  shows "useProgram (Some p) s = (Inr (), gl_raise GL_INVALID_OPERATION s)"
  using assms by (simp add: useProgram_def glUseProgram_def glIsProgram_def)

section \<open>Uniform and attribute locations\<close>

lemma take_max_name_length:
  assumes "x \<in> set vs"
  shows "take (nat (max_name_length vs - 1)) (fst x) = fst x"
proof -
  have "length (fst x) \<le> Max (set (map (length \<circ> fst) vs))"
    using assms by (intro Max_ge) auto
  with assms show ?thesis by (auto simp: max_name_length_def)
qed

lemma collect_locations_valid:
  assumes po: "programs s p = Some po" and dist: "distinct (map fst (f po))"
    and rng: "\<forall>i \<in> set idxs. i < length (f po)"
  shows "collect_locations f p (max_name_length (f po)) b idxs d s =
           (foldl (location_step b (f po)) d idxs, s)"
  using rng
proof (induction idxs arbitrary: d)
  case Nil
  then show ?case by simp
next
  case (Cons i idxs)
  then have i: "i < length (f po)" by simp
  obtain nm l where nl: "f po ! i = (nm, l)" by fastforce
  with i have mem: "(nm, l) \<in> set (f po)" by (metis nth_mem)
  then have "glGetActiveName f p i (max_name_length (f po)) s = (nm, s)"
    using po i nl take_max_name_length [OF mem] by (simp add: glGetActiveName_def)
  moreover have "glGetLocation f p nm s = (l, s)"
    using po dist mem by (simp add: glGetLocation_def)
  ultimately show ?case using Cons nl by (simp add: location_step_def Let_def)
qed

lemma foldl_location_step:
  assumes "distinct (map fst vs)" and "k \<le> length vs"
  shows "foldl (location_step b vs) [] [0..<k] = filter (\<lambda>(n, l). b \<or> l \<noteq> -1) (take k vs)"
  using assms(2)
proof (induction k)
  case 0
  then show ?case by simp
next
  case (Suc k)
  then have k: "k < length vs" by simp
  obtain nm l where nl: "vs ! k = (nm, l)" by fastforce
  have "nm \<in> set (drop k (map fst vs))"
    using k nl by (metis Cons_nth_drop_Suc fst_conv length_map list.set_intros(1) nth_map)
  then have "nm \<notin> set (take k (map fst vs))"
    using set_take_disj_set_drop_if_distinct [OF assms(1), of k k] by blast
  then have "nm \<notin> set (map fst (take k vs))" by (simp add: take_map)
  then have fresh: "nm \<notin> set (map fst (filter (\<lambda>(n, l). b \<or> l \<noteq> -1) (take k vs)))"
    by auto
  have "take (Suc k) vs = take k vs @ [(nm, l)]" using k nl by (simp add: take_Suc_conv_app_nth)
  then have "location_step b vs (filter (\<lambda>(n, l). b \<or> l \<noteq> -1) (take k vs)) k =
      filter (\<lambda>(n, l). b \<or> l \<noteq> -1) (take (Suc k) vs)"
    using nl fresh by (simp add: location_step_def dict_set_new)
  with Suc show ?case by simp
qed

lemma get_locations_valid:
  assumes "programs s p = Some po" and "distinct (map fst (f po))"
    and "\<And>po. count po = int (length (f po))" and "\<And>po. maxlen po = max_name_length (f po)"
  shows "get_locations count maxlen f p builtins s = (Inr (locations_spec builtins (f po)), s)"
proof (cases "f po = []")
  case True
  with assms show ?thesis
    by (simp add: get_locations_def glIsProgram_def glGetProgramParam_def locations_spec_def)
next
  case False
  have "collect_locations f p (max_name_length (f po)) builtins [0..<length (f po)] [] s =
      (filter (\<lambda>(n, l). builtins \<or> l \<noteq> -1) (f po), s)"
    using collect_locations_valid [where f = f, OF assms(1,2)] foldl_location_step [OF assms(2) order_refl]
    by simp
  with assms False show ?thesis
    by (simp add: get_locations_def glIsProgram_def glGetProgramParam_def locations_spec_def)
qed

text \<open>C12: on a live program whose active uniforms have distinct names,
  \<open>getUniformLocations\<close> returns the reference \<open>locations_spec\<close>: \<open>None\<close> when
  there are no active uniforms (not the empty dict the docstring promises),
  otherwise the uniforms in index order, built-ins (location \<open>-1\<close>) only on
  request; the context is untouched.\<close>

theorem getUniformLocations_spec:
  assumes "programs s p = Some po" and "distinct (map fst (pr_uniforms po))"
  shows "getUniformLocations p builtins s = (Inr (locations_spec builtins (pr_uniforms po)), s)"
  unfolding getUniformLocations_def
  by (rule get_locations_valid [where f = pr_uniforms, OF assms]) (simp_all add: active_uniforms_def active_uniform_max_length_def)

lemma getAttribLocations_spec:
  assumes "programs s p = Some po" and "distinct (map fst (pr_attribs po))"
  shows "getAttribLocations p builtins s = (Inr (locations_spec builtins (pr_attribs po)), s)"
  unfolding getAttribLocations_def
  by (rule get_locations_valid [where f = pr_attribs, OF assms]) (simp_all add: active_attributes_def active_attribute_max_length_def)

section \<open>No helper leaks an object\<close>

lemma gl_objects_upd [simp]:
  "gl_objects (gl_raise e s) = gl_objects s" "gl_objects (write_stderr t s) = gl_objects s"
  "gl_objects (s\<lparr>cur_program := c\<rparr>) = gl_objects s"
  by (simp_all add: gl_objects_def gl_raise_def write_stderr_def)

lemma same_objects_objects: "same_objects s' s \<Longrightarrow> gl_objects s' = gl_objects s"
  by (simp add: same_objects_def gl_objects_def)

lemma reap_shader_objects: "gl_objects (reap_shader n s) \<subseteq> gl_objects s"
  by (auto simp: reap_shader_def gl_objects_def split: option.split)

lemma fold_reap_shader_objects: "gl_objects (fold reap_shader ns s) \<subseteq> gl_objects s"
proof (induction ns arbitrary: s)
  case (Cons a ns)
  then show ?case using reap_shader_objects [of a s] by (metis fold_simps(2) subset_trans)
qed simp

lemma free_program_objects: "gl_objects (free_program p s) \<subseteq> gl_objects s"
proof -
  have "gl_objects (s\<lparr>programs := (programs s)(p := None)\<rparr>) \<subseteq> gl_objects s"
    by (auto simp: gl_objects_def)
  then show ?thesis
    using fold_reap_shader_objects by (auto simp: free_program_def split: option.split)
qed

lemma primitive_objects:
  "gl_objects (glShaderSource n src s) = gl_objects s"
  "gl_objects (glCompileShader drv n s) = gl_objects s"
  "gl_objects (glLinkProgram drv p s) = gl_objects s"
  "gl_objects (glValidateProgram drv p s) = gl_objects s"
  "gl_objects (glAttachShader p n s) = gl_objects s"
  by (auto simp: glShaderSource_def glCompileShader_def glLinkProgram_def glValidateProgram_def
      glAttachShader_def gl_objects_def Let_def split: option.split prod.split)

lemma delete_objects:
  "gl_objects (glDeleteShader n s) \<subseteq> gl_objects s"
  "gl_objects (switch_program q s) \<subseteq> gl_objects s"
  "gl_objects (glUseProgram p s) \<subseteq> gl_objects s"
  "gl_objects (glDeleteProgram p s) \<subseteq> gl_objects s"
  "gl_objects (glDetachShader p n s) \<subseteq> gl_objects s"
  "gl_objects (glDeleteObjectARB n s) \<subseteq> gl_objects s"
proof -
  show d: "gl_objects (glDeleteShader n s) \<subseteq> gl_objects s"
    by (auto simp: glDeleteShader_def gl_objects_def split: option.split)
  show sw: "gl_objects (switch_program q s) \<subseteq> gl_objects s" for q s
    unfolding switch_program_def Let_def using free_program_objects [of _ "s\<lparr>cur_program := q\<rparr>"]
    by (auto split: option.split)
  show "gl_objects (glUseProgram p s) \<subseteq> gl_objects s"
    using sw by (auto simp: glUseProgram_def split: option.split)
  show dp: "gl_objects (glDeleteProgram p s) \<subseteq> gl_objects s" for p s
    using free_program_objects by (auto simp: glDeleteProgram_def gl_objects_def split: option.split)
  show "gl_objects (glDetachShader p n s) \<subseteq> gl_objects s"
  proof (cases "programs s p")
    case (Some po)
    let ?s' = "s\<lparr>programs := (programs s)(p \<mapsto> po\<lparr>pr_attached := removeAll n (pr_attached po)\<rparr>)\<rparr>"
    have "gl_objects ?s' = gl_objects s" using Some by (auto simp: gl_objects_def)
    then show ?thesis using Some reap_shader_objects [of n ?s'] by (auto simp: glDetachShader_def)
  qed (simp add: glDetachShader_def)
  show "gl_objects (glDeleteObjectARB n s) \<subseteq> gl_objects s"
    using d dp by (simp add: glDeleteObjectARB_def)
qed


lemma getInfoLog_objects [simp]: "gl_objects (snd (getInfoLog obj s)) = gl_objects s"
  using getInfoLog_same_objects same_objects_objects by blast

lemma status_failed_objects [simp]: "gl_objects (snd (status_failed msg p s)) = gl_objects s"
proof -
  obtain r t where g: "getInfoLog p s = (r, t)" by fastforce
  then have "gl_objects t = gl_objects s" using getInfoLog_objects [of p s] by simp
  then show ?thesis by (cases r) (simp_all add: status_failed_def g)
qed

lemma status_param_objects:
  "glGetProgramParam f p s1 = (r, s2) \<Longrightarrow> gl_objects s2 = gl_objects s1"
  using queries_same_objects(3) [of f p s1] same_objects_objects by (metis snd_conv)

lemma deleteObject_objects: "gl_objects (snd (deleteObject n s)) \<subseteq> gl_objects s"
  using delete_objects(1,4) by (simp add: deleteObject_def)

lemma compileShader_objects:
  assumes wf: "gl_wf s"
  shows "gl_objects (snd (compileShader drv src ty s)) \<subseteq> gl_objects s \<union> result_name (compileShader drv src ty s)"
proof (cases "is_shader_type ty")
  case False
  then show ?thesis using zero_no_object [OF wf] by (auto simp: compile_defs gl_raise_def gl_objects_def result_name_def)
next
  case ty: True
  obtain ok log where c: "drv_compile drv ty (src_strings src) = (ok, log)" by fastforce
  show ?thesis
  proof (cases ok)
    case True
    then show ?thesis using ty c by (auto simp: compile_defs result_name_def gl_objects_def)
  next
    case False
    have "compileShader drv src ty s =
       (Inl (RuntimeError ''Shader compilation failed, check log output.''),
        s\<lparr>next_name := Suc (next_name s), stderr := stderr s @ log @ ''\<newline>''\<rparr>)"
      using ty c False fresh_unattached [OF wf] fresh_name [OF wf]
      by (simp add: compile_defs glDeleteShader_def fun_upd_idem)
    then show ?thesis by (simp add: gl_objects_def)
  qed
qed

lemma compileShaderObjectARB_objects:
  "gl_wf s \<Longrightarrow> gl_objects (snd (compileShaderObjectARB drv src ty s)) \<subseteq>
     gl_objects s \<union> result_name (compileShaderObjectARB drv src ty s)"
  using compileShader_objects [of s drv src ty]
  unfolding compileShaderObjectARB_def compileShader_def compile_failed_ARB .

lemma createProgram_objects:
  "gl_objects (snd (createProgram s)) \<subseteq> gl_objects s \<union> result_name (createProgram s)"
  "gl_objects (snd (createProgramObjectARB s)) \<subseteq> gl_objects s \<union> result_name (createProgramObjectARB s)"
  by (auto simp: createProgram_def createProgramObjectARB_def glCreateProgram_def gen_name_def
      result_name_def gl_objects_def)

lemma link_validate_objects:
  "gl_objects (snd (linkProgram drv p s)) \<subseteq> gl_objects s"
  "gl_objects (snd (linkProgramObjectARB drv p s)) \<subseteq> gl_objects s"
  "gl_objects (snd (validateProgram drv p s)) \<subseteq> gl_objects s"
  "gl_objects (snd (validateProgramARB drv p s)) \<subseteq> gl_objects s"
  by (auto simp: linkProgram_def linkProgramObjectARB_def validateProgram_def validateProgramARB_def
      Let_def primitive_objects split: prod.splits dest!: status_param_objects)

lemma run_shader_call_objects:
  "gl_wf s \<Longrightarrow> gl_objects (run_shader_call drv c s) \<subseteq> gl_objects s \<union> handed_name drv c s"
proof (cases c)
qed (use createProgram_objects compileShader_objects compileShaderObjectARB_objects deleteObject_objects
      link_validate_objects delete_objects in
     \<open>auto simp: deleteObjectARB_def attachShader_def attachObjectARB_def detachShader_def
        detachObjectARB_def useProgram_def useProgramObjectARB_def Let_def primitive_objects
        getUniformLocations_def getAttribLocations_def
        same_objects_objects [OF get_locations_same_objects]\<close>)

lemma shader_run_wf: "shader_run drv s N \<Longrightarrow> gl_wf s"
  by (induction rule: shader_run.induct) (simp_all add: gl_wf_init run_shader_call_wf)

section \<open>Reachable contexts\<close>

text \<open>Every context reachable from a fresh one by any sequence of shader
  helper calls, returning or raising, is well formed: the object tables are
  consistent, every attachment names a live shader, and the current program is
  live.\<close>

lemma shader_reachable_wf: "shader_reachable drv s \<Longrightarrow> gl_wf s"
proof (induction rule: shader_reachable.induct)
  case init
  show ?case by (rule gl_wf_init)
next
  case (step s c)
  from step.IH show ?case by (rule run_shader_call_wf)
qed

text \<open>C1: no sequence of shader helper calls, returning or raising, leaks
  an object: every shader and program alive in the context reached is a name
  that a helper call of the sequence returned to its caller (a failed
  compilation deletes the shader it created, and no other helper creates
  one).\<close>

theorem shader_run_no_leak: "shader_run drv s N \<Longrightarrow> gl_objects s \<subseteq> N"
proof (induction rule: shader_run.induct)
  case init
  show ?case by (simp add: gl_init_def gl_objects_def)
next
  case (step s N c)
  then show ?case using run_shader_call_objects [OF shader_run_wf [OF step.hyps]] by blast
qed

section \<open>Witnesses\<close>

theorem shader_run_no_leak_witness:
  "shader_run demo_driver (run_shader_call demo_driver (CompileShader (SrcList []) GL_VERTEX_SHADER) gl_init) {} \<and>
   gl_objects (run_shader_call demo_driver (CompileShader (SrcList []) GL_VERTEX_SHADER) gl_init) = {}"
proof -
  have h: "handed_name demo_driver (CompileShader (SrcList []) GL_VERTEX_SHADER) gl_init = {}"
    by (simp add: compile_defs demo_driver_def gl_init_def is_shader_type_def glDeleteShader_def attached_to_def
        result_name_def)
  have r: "shader_run demo_driver (run_shader_call demo_driver (CompileShader (SrcList []) GL_VERTEX_SHADER) gl_init)
      ({} \<union> handed_name demo_driver (CompileShader (SrcList []) GL_VERTEX_SHADER) gl_init)"
    by (rule shader_run.step [OF shader_run.init])
  from r shader_run_no_leak [OF r] show ?thesis unfolding h by simp
qed

theorem compileShader_ok_witness:
  "is_shader_type GL_VERTEX_SHADER \<and>
   drv_compile demo_driver GL_VERTEX_SHADER (src_strings (SrcStr ''void main() {}'')) = (True, []) \<and>
   compileShader demo_driver (SrcStr ''void main() {}'') GL_VERTEX_SHADER gl_init =
     (Inr 1, gl_init\<lparr>next_name := 2, shaders := [1 \<mapsto>
        \<lparr>sh_type = GL_VERTEX_SHADER, sh_source = [''void main() {}''], sh_compiled = True,
         sh_log = [], sh_delete = False\<rparr>]\<rparr>)"
proof -
  have t: "is_shader_type GL_VERTEX_SHADER" by (simp add: is_shader_type_def)
  have c: "drv_compile demo_driver GL_VERTEX_SHADER (src_strings (SrcStr ''void main() {}'')) = (True, [])"
    by (simp add: demo_driver_def)
  show ?thesis using t c compileShader_ok [OF t c, of gl_init] by (simp add: gl_init_def)
qed

theorem compileShader_fails_witness:
  "gl_wf gl_init \<and> is_shader_type GL_FRAGMENT_SHADER \<and>
   drv_compile demo_driver GL_FRAGMENT_SHADER (src_strings (SrcList [])) = (False, ''error: no source'') \<and>
   compileShader demo_driver (SrcList []) GL_FRAGMENT_SHADER gl_init =
     (Inl (RuntimeError ''Shader compilation failed, check log output.''),
      gl_init\<lparr>next_name := 2, stderr := ''error: no source\<newline>''\<rparr>)"
proof -
  have w: "gl_wf gl_init" by (rule gl_wf_init)
  have t: "is_shader_type GL_FRAGMENT_SHADER" by (simp add: is_shader_type_def)
  have c: "drv_compile demo_driver GL_FRAGMENT_SHADER (src_strings (SrcList [])) = (False, ''error: no source'')"
    by (simp add: demo_driver_def)
  show ?thesis using w t c compileShader_fails [OF w t c] by (simp add: gl_init_def)
qed

theorem compileShader_bad_type_witness:
  "gl_wf gl_init \<and> \<not> is_shader_type 0 \<and>
   compileShader demo_driver (SrcStr ''void main() {}'') 0 gl_init =
     (Inl (ValueError ''Specified value of `obj` is not a shader or program.''),
      gl_init\<lparr>gl_err := Some GL_INVALID_ENUM\<rparr>)"
proof -
  have w: "gl_wf gl_init" by (rule gl_wf_init)
  have t: "\<not> is_shader_type 0" by (simp add: is_shader_type_def gl_enum_defs)
  show ?thesis using w t compileShader_bad_type [OF w t] by (simp add: gl_init_def gl_raise_def)
qed

theorem getInfoLog_program_witness:
  "gl_wf (snd (createProgram gl_init)) \<and> glIsProgram 1 (snd (createProgram gl_init)) \<and>
   getInfoLog 1 (snd (createProgram gl_init)) =
     (Inr [], (snd (createProgram gl_init))\<lparr>gl_err := Some GL_INVALID_OPERATION\<rparr>)"
proof -
  have w: "gl_wf (snd (createProgram gl_init))" by (intro create_wf gl_wf_init)
  have p: "glIsProgram 1 (snd (createProgram gl_init))"
    by (simp add: createProgram_def glCreateProgram_def gen_name_def glIsProgram_def gl_init_def)
  show ?thesis using w p getInfoLog_program [OF w p]
    by (simp add: gl_raise_def createProgram_def glCreateProgram_def gen_name_def gl_init_def)
qed

theorem linkProgram_fails_witness:
  "gl_wf (snd (createProgram gl_init)) \<and> programs (snd (createProgram gl_init)) 1 = Some new_program \<and>
   \<not> lk_ok (drv_link demo_driver (List.map_filter (shaders (snd (createProgram gl_init))) (pr_attached new_program))) \<and>
   lk_log (drv_link demo_driver []) = ''error: nothing attached'' \<and>
   stderr (snd (linkProgram demo_driver 1 (snd (createProgram gl_init)))) = ''\<newline>''"
proof -
  let ?s = "snd (createProgram gl_init)"
  have w: "gl_wf ?s" by (intro create_wf gl_wf_init)
  have p: "programs ?s 1 = Some new_program"
    by (simp add: createProgram_def glCreateProgram_def gen_name_def gl_init_def)
  have l: "\<not> lk_ok (drv_link demo_driver (List.map_filter (shaders ?s) (pr_attached new_program)))"
    by (simp add: demo_driver_def new_program_def List.map_filter_def)
  show ?thesis using w p l linkProgram_fails [OF w p l]
    by (simp add: write_stderr_def gl_raise_def demo_driver_def createProgram_def glCreateProgram_def
        gen_name_def gl_init_def glLinkProgram_def Let_def)
qed

theorem deleteObject_shader_witness:
  "gl_wf (snd (glCreateShader GL_VERTEX_SHADER gl_init)) \<and>
   shaders (snd (glCreateShader GL_VERTEX_SHADER gl_init)) 1 = Some (new_shader GL_VERTEX_SHADER) \<and>
   deleteObject 1 (snd (glCreateShader GL_VERTEX_SHADER gl_init)) =
     (Inr (), gl_init\<lparr>next_name := 2\<rparr>)"
proof -
  let ?s = "snd (glCreateShader GL_VERTEX_SHADER gl_init)"
  have w: "gl_wf ?s" by (intro glCreateShader_wf gl_wf_init)
  have sh: "shaders ?s 1 = Some (new_shader GL_VERTEX_SHADER)"
    by (simp add: glCreateShader_def is_shader_type_def gen_name_def gl_init_def)
  have nh: "\<not> held 1 ?s"
    by (simp add: held_def glCreateShader_def is_shader_type_def gen_name_def gl_init_def)
  show ?thesis using w sh nh deleteObject_shader [OF w sh]
    by (simp add: glCreateShader_def is_shader_type_def gen_name_def gl_init_def)
qed

theorem useProgram_unlinked_witness:
  "programs (snd (createProgram gl_init)) 1 = Some new_program \<and> (1::nat) \<noteq> 0 \<and>
   \<not> pr_linked new_program \<and>
   useProgram (Some 1) (snd (createProgram gl_init)) =
     (Inr (), (snd (createProgram gl_init))\<lparr>gl_err := Some GL_INVALID_OPERATION\<rparr>)"
proof -
  let ?s = "snd (createProgram gl_init)"
  have p: "programs ?s 1 = Some new_program"
    by (simp add: createProgram_def glCreateProgram_def gen_name_def gl_init_def)
  have z: "(1::nat) \<noteq> 0" by simp
  have u: "\<not> pr_linked new_program" by (simp add: new_program_def)
  show ?thesis using p u useProgram_unlinked [OF p z u]
    by (simp add: gl_raise_def createProgram_def glCreateProgram_def gen_name_def gl_init_def)
qed

theorem getUniformLocations_spec_witness:
  "programs (gl_init\<lparr>next_name := 2, programs := [1 \<mapsto> new_program\<lparr>pr_linked := True,
       pr_uniforms := [(''gl_ModelViewMatrix'', -1), (''tint'', 0)]\<rparr>]\<rparr>) 1 =
     Some (new_program\<lparr>pr_linked := True, pr_uniforms := [(''gl_ModelViewMatrix'', -1), (''tint'', 0)]\<rparr>) \<and>
   distinct (map fst [(''gl_ModelViewMatrix'', -1::int), (''tint'', 0)]) \<and>
   fst (getUniformLocations 1 False (gl_init\<lparr>next_name := 2, programs := [1 \<mapsto> new_program\<lparr>pr_linked := True,
       pr_uniforms := [(''gl_ModelViewMatrix'', -1), (''tint'', 0)]\<rparr>]\<rparr>)) = Inr (Some [(''tint'', 0)])"
proof -
  let ?po = "new_program\<lparr>pr_linked := True, pr_uniforms := [(''gl_ModelViewMatrix'', -1), (''tint'', 0)]\<rparr>"
  let ?s = "gl_init\<lparr>next_name := 2, programs := [1 \<mapsto> ?po]\<rparr>"
  have p: "programs ?s 1 = Some ?po" by simp
  have d: "distinct (map fst (pr_uniforms ?po))" by simp
  show ?thesis using p d getUniformLocations_spec [OF p d, of False]
    by (simp add: locations_spec_def)
qed

end
