(* ===== verification/Shader_Defs.thy ===== *)
theory Shader_Defs
  imports Complex_Main Py_Prelude
begin

text \<open>
  \<open>embedShaderSourceDefs\<close> (\<open>gltools.py\<close> lines 272-383): the \<open>#define\<close>
  block generated from a Python dict, and its insertion into GLSL source
  after the line of the \<open>#version\<close> directive.  Dict keys and values are
  Python objects, the datatype \<open>py_value\<close>; a finite \<open>float\<close> is its exact
  rational value.
\<close>

section \<open>Python values\<close>

datatype py_value =
    PyInt int
  | PyBool bool
  | PyFloat rat
  | PyStr string
  | PyBytes string
  | PyNone

text \<open>\<open>int(x)\<close> for a finite float: truncation toward zero.\<close>

definition py_trunc :: "rat \<Rightarrow> int" where
  "py_trunc r = (if 0 \<le> r then \<lfloor>r\<rfloor> else - \<lfloor>- r\<rfloor>)"

definition cons_res :: "char \<Rightarrow> string py_result \<Rightarrow> string py_result" where
  "cons_res c r = (case r of Inl e \<Rightarrow> Inl e | Inr t \<Rightarrow> Inr (c # t))"

definition decode_error :: "string py_result" where
  "decode_error = Inl (ValueError ''utf-8 codec can't decode'')"

text \<open>\<open>b.decode('UTF-8')\<close>.  An Isabelle \<open>char\<close> is a code point below 256,
  so the model decodes one-byte sequences and the two-byte sequences of
  U+0080..U+00FF; every other byte sequence is refused with the
  \<open>UnicodeDecodeError\<close> (a \<open>ValueError\<close>) Python raises for malformed input.\<close>

fun utf8_decode :: "string \<Rightarrow> string py_result" where
  "utf8_decode [] = Inr []"
| "utf8_decode (c # cs) =
     (let b = (of_char c :: nat) in
      if b < 128 then cons_res c (utf8_decode cs)
      else if 194 \<le> b \<and> b \<le> 195 then
        (case cs of
           [] \<Rightarrow> decode_error
         | d # ds \<Rightarrow>
             (let b' = (of_char d :: nat) in
              if 128 \<le> b' \<and> b' < 192 then cons_res (char_of ((b - 192) * 64 + (b' - 128))) (utf8_decode ds)
              else decode_error))
      else decode_error)"

section \<open>The \<open>#define\<close> block\<close>

definition dquote :: char where
  "dquote = CHR 0x22"

text \<open>\<open>'#define {n} "{v}"\n'.format(n=varName, v=varValue)\<close>.\<close>

definition define_line :: "string \<Rightarrow> string \<Rightarrow> string" where
  "define_line n v = ''#define '' @ n @ '' '' @ [dquote] @ v @ [dquote] @ ''\<newline>''"

text \<open>The conversion of a value to its text: numbers and booleans by
  \<open>str(int(v))\<close>, bytes decoded, strings as they are, anything else
  raises \<open>TypeError\<close>.\<close>

definition def_value :: "string \<Rightarrow> py_value \<Rightarrow> string py_result" where
  "def_value n v =
     (case v of
        PyInt i \<Rightarrow> Inr (int_str i)
      | PyBool b \<Rightarrow> Inr (int_str (if b then 1 else 0))
      | PyFloat r \<Rightarrow> Inr (int_str (py_trunc r))
      | PyBytes bs \<Rightarrow> utf8_decode bs
      | PyStr t \<Rightarrow> Inr t
      | PyNone \<Rightarrow> Inl (TypeError (''Invalid type for value of `'' @ n @ ''`.'')))"

text \<open>One pass of the loop over \<open>defs.items()\<close>: the key is checked first.\<close>

definition define_entry :: "py_value \<Rightarrow> py_value \<Rightarrow> string py_result" where
  "define_entry k v =
     (case k of
        PyStr n \<Rightarrow> (case def_value n v of Inl e \<Rightarrow> Inl e | Inr t \<Rightarrow> Inr (define_line n t))
      | _ \<Rightarrow> Inl (ValueError ''Definition name must be type `str`.''))"

text \<open>The loop, accumulating \<open>glslDefSrc\<close>; a dict is the list of its items
  in insertion order.\<close>

fun glsl_defs :: "(py_value \<times> py_value) list \<Rightarrow> string \<Rightarrow> string py_result" where
  "glsl_defs [] acc = Inr acc"
| "glsl_defs ((k, v) # ds) acc =
     (case define_entry k v of Inl e \<Rightarrow> Inl e | Inr l \<Rightarrow> glsl_defs ds (acc @ l))"

section \<open>Insertion\<close>

definition embedShaderSourceDefs :: "string \<Rightarrow> (py_value \<times> py_value) list \<Rightarrow> string py_result" where
  "embedShaderSourceDefs shaderSrc defs =
     (case glsl_defs defs [] of
        Inl e \<Rightarrow> Inl e
      | Inr glslDefSrc \<Rightarrow>
          (let versionDirIdx = py_find shaderSrc ''#version'' 0 in
           if versionDirIdx \<noteq> -1 then
             (let srcSplitIdx = py_find shaderSrc ''\<newline>'' (nat versionDirIdx) + 1
              in Inr (py_upto shaderSrc srcSplitIdx @ glslDefSrc @ py_from shaderSrc srcSplitIdx))
           else Inr (glslDefSrc @ shaderSrc)))"

text \<open>Where the code puts the block, as a position in the source: just after
  the newline that ends the first \<open>#version\<close> line, and the start of the
  source when there is no \<open>#version\<close> directive or no newline after it.\<close>

definition insert_point :: "string \<Rightarrow> nat" where
  "insert_point src =
     (case first_occ ''#version'' src of
        None \<Rightarrow> 0
      | Some i \<Rightarrow> (case first_occ ''\<newline>'' (drop i src) of None \<Rightarrow> 0 | Some j \<Rightarrow> Suc (i + j)))"

section \<open>The loop\<close>

lemma glsl_defs_acc:
  "glsl_defs ds acc = (case glsl_defs ds [] of Inl e \<Rightarrow> Inl e | Inr d \<Rightarrow> Inr (acc @ d))"
proof (induction ds arbitrary: acc)
  case Nil
  then show ?case by simp
next
  case (Cons kv ds)
  obtain k v where kv: "kv = (k, v)" by fastforce
  show ?case
  proof (cases "define_entry k v")
    case (Inl e)
    then show ?thesis by (simp add: kv)
  next
    case (Inr l)
    then show ?thesis
      using Cons.IH [of "acc @ l"] Cons.IH [of l] by (simp add: kv split: sum.splits)
  qed
qed

lemma glsl_defs_Inr:
  "glsl_defs ds acc = Inr d \<longleftrightarrow>
     (\<exists>ls. list_all2 (\<lambda>(k, v) l. define_entry k v = Inr l) ds ls \<and> d = acc @ concat ls)"
proof (induction ds arbitrary: acc)
  case Nil
  then show ?case by auto
next
  case (Cons kv ds)
  obtain k v where kv: "kv = (k, v)" by fastforce
  show ?case
  proof (cases "define_entry k v")
    case (Inl e)
    then show ?thesis by (auto simp: kv list_all2_Cons1)
  next
    case (Inr l)
    then show ?thesis using Cons.IH [of "acc @ l"] by (auto simp: kv list_all2_Cons1)
  qed
qed

lemma glsl_defs_Inl:
  "glsl_defs ds acc = Inl e \<longleftrightarrow>
     (\<exists>k v. find (\<lambda>(k, v). isl (define_entry k v)) ds = Some (k, v) \<and> define_entry k v = Inl e)"
proof (induction ds arbitrary: acc)
  case Nil
  then show ?case by simp
next
  case (Cons kv ds)
  obtain k v where kv: "kv = (k, v)" by fastforce
  show ?case
    using Cons.IH by (cases "define_entry k v") (auto simp: kv)
qed

section \<open>Where the block goes\<close>

lemma version_found:
  assumes "first_occ ''#version'' src = Some i"
  shows "py_find src ''#version'' 0 = int i" and "i \<le> length src"
  using assms first_occ_le_length [OF assms] by (simp_all add: py_find_drop)

lemma newline_found:
  assumes "first_occ ''\<newline>'' (drop i src) = Some j"
  shows "i + j < length src \<and> src ! (i + j) = CHR ''\<newline>''"
proof -
  from first_occ_Some [OF assms] have "Suc j \<le> length src - i"
    and tk: "take 1 (drop (i + j) src) = ''\<newline>''" by (simp_all add: add.commute)
  then have lt: "i + j < length src" by linarith
  from tk show ?thesis by (simp add: lt Cons_nth_drop_Suc [OF lt, symmetric])
qed

lemma insert_point_le: "insert_point src \<le> length src"
  using newline_found [of _ src] by (auto simp: insert_point_def Suc_le_eq split: option.splits)

text \<open>Every successful call inserts the generated block at \<open>insert_point\<close>.\<close>

lemma embed_split:
  assumes "glsl_defs defs [] = Inr d"
  shows "embedShaderSourceDefs src defs =
           Inr (take (insert_point src) src @ d @ drop (insert_point src) src)"
proof (cases "first_occ ''#version'' src")
  case None
  with assms show ?thesis
    by (simp add: embedShaderSourceDefs_def insert_point_def py_find_drop)
next
  case (Some i)
  note v = version_found [OF Some]
  show ?thesis
  proof (cases "first_occ ''\<newline>'' (drop i src)")
    case None
    then have "py_find src ''\<newline>'' i = -1" using v by (simp add: py_find_drop)
    with assms Some None v show ?thesis
      by (simp add: embedShaderSourceDefs_def insert_point_def py_upto_def py_from_def)
  next
    case (Some j)
    then have "py_find src ''\<newline>'' i = int (i + j)" using v by (simp add: py_find_drop)
    with assms \<open>first_occ _ src = Some i\<close> Some v show ?thesis
      by (simp add: embedShaderSourceDefs_def insert_point_def py_upto_def py_from_def Let_def
          nat_add_distrib)
  qed
qed

lemma embed_Inl:
  "embedShaderSourceDefs src defs = Inl e \<longleftrightarrow> glsl_defs defs [] = Inl e"
proof (cases "glsl_defs defs []")
  case (Inl a)
  then show ?thesis by (simp add: embedShaderSourceDefs_def)
next
  case (Inr d)
  then show ?thesis by (simp add: embed_split)
qed

lemma py_trunc_bounds: "\<bar>of_int (py_trunc r)\<bar> \<le> \<bar>r\<bar> \<and> \<bar>r\<bar> < \<bar>of_int (py_trunc r)\<bar> + 1"
  by (auto simp: py_trunc_def) linarith+

section \<open>Properties of embedShaderSourceDefs\<close>

text \<open>C13: when the source has a \<open>#version\<close> directive followed by a newline,
  the generated block is inserted right after that newline, that is at the
  start of the line after the directive.\<close>

theorem embed_version:
  assumes d: "glsl_defs defs [] = Inr d"
    and v: "first_occ ''#version'' src = Some i"
    and n: "first_occ ''\<newline>'' (drop i src) = Some j"
  shows "embedShaderSourceDefs src defs = Inr (take (Suc (i + j)) src @ d @ drop (Suc (i + j)) src) \<and>
         src ! (i + j) = CHR ''\<newline>''"
proof -
  have "py_find src ''\<newline>'' i = int (i + j)" using n version_found [OF v] by (simp add: py_find_drop)
  then show ?thesis using d version_found [OF v] newline_found [OF n]
    by (simp add: embedShaderSourceDefs_def py_upto_def py_from_def Let_def nat_add_distrib)
qed

text \<open>\<open>embedShaderSourceDefs\<close> succeeds exactly when every entry of the
  dict gives a \<open>#define\<close> line, and then returns the source with the lines,
  in dict order, inserted at one position of the source, which is otherwise
  unchanged.\<close>

theorem embed_insert:
  "embedShaderSourceDefs src defs = Inr out \<longleftrightarrow>
     (\<exists>ls. list_all2 (\<lambda>(k, v) l. define_entry k v = Inr l) defs ls \<and>
        out = take (insert_point src) src @ concat ls @ drop (insert_point src) src) \<and>
     insert_point src \<le> length src"
proof -
  have "embedShaderSourceDefs src defs = Inr out \<longleftrightarrow>
          (\<exists>d. glsl_defs defs [] = Inr d \<and> out = take (insert_point src) src @ d @ drop (insert_point src) src)"
    by (cases "glsl_defs defs []") (auto simp: embed_split embed_Inl [of src defs, symmetric])
  then show ?thesis using insert_point_le [of src] by (auto simp: glsl_defs_Inr)
qed

text \<open>C15: when the \<open>#version\<close> directive is the last line and has no
  newline, \<open>find\<close> returns \<open>-1\<close>, the split index is \<open>0\<close>, and the block is
  put before the directive, where GLSL does not allow it.\<close>

theorem embed_version_no_newline:
  assumes d: "glsl_defs defs [] = Inr d"
    and v: "first_occ ''#version'' src = Some i"
    and n: "first_occ ''\<newline>'' (drop i src) = None"
  shows "embedShaderSourceDefs src defs = Inr (d @ src)"
  using embed_split [OF d, of src] v n by (simp add: insert_point_def)

text \<open>Without a \<open>#version\<close> directive the block is prepended.\<close>

theorem embed_no_version:
  assumes d: "glsl_defs defs [] = Inr d" and v: "first_occ ''#version'' src = None"
  shows "embedShaderSourceDefs src defs = Inr (d @ src)"
  using embed_split [OF d, of src] v by (simp add: insert_point_def)

text \<open>\<open>embedShaderSourceDefs\<close> raises exactly the error of the first entry,
  in dict order, whose key is not a \<open>str\<close> (\<open>ValueError\<close>) or whose value
  cannot be converted (\<open>TypeError\<close>, or the decoding error of \<open>bytes\<close>).\<close>

theorem embed_error:
  "embedShaderSourceDefs src defs = Inl e \<longleftrightarrow>
     (\<exists>k v. find (\<lambda>(k, v). isl (define_entry k v)) defs = Some (k, v) \<and> define_entry k v = Inl e)"
  by (simp add: embed_Inl glsl_defs_Inl)

text \<open>The docstring's example.  Passing \<open>{'MAX_LIGHTS': 8,
  'NORMAL_MAP': False}\<close> gives \<open>#define MAX_LIGHTS "8"\<close> and
  \<open>#define NORMAL_MAP "0"\<close>, with the values in double quotes, where the
  docstring shows \<open>#define MAX_LIGHTS 8\<close>; a quoted value is no integer for
  the GLSL preprocessor.\<close>

theorem embed_docstring_example:
  "embedShaderSourceDefs ''#version 330\<newline>void main(){}''
      [(PyStr ''MAX_LIGHTS'', PyInt 8), (PyStr ''NORMAL_MAP'', PyBool False)] =
   Inr (''#version 330\<newline>'' @ ''#define MAX_LIGHTS '' @ [dquote] @ ''8'' @ [dquote] @ ''\<newline>'' @
        ''#define NORMAL_MAP '' @ [dquote] @ ''0'' @ [dquote] @ ''\<newline>'' @ ''void main(){}'')"
  by code_simp

text \<open>C19: a \<open>float\<close> value is written as \<open>str(int(v))\<close>: the text reads back
  as the value truncated toward zero, which is within 1 of the value and no
  larger in magnitude, so the fractional part is lost.\<close>

theorem define_entry_float:
  "\<exists>t. define_entry (PyStr n) (PyFloat r) = Inr (define_line n t) \<and> py_int t = Inr (py_trunc r) \<and>
       \<bar>of_int (py_trunc r)\<bar> \<le> \<bar>r\<bar> \<and> \<bar>r\<bar> < \<bar>of_int (py_trunc r)\<bar> + 1"
  using py_trunc_bounds [of r]
  by (simp add: define_entry_def def_value_def py_int_int_str exI [of _ "int_str (py_trunc r)"])

section \<open>Witnesses\<close>

theorem embed_version_witness:
  "glsl_defs [(PyStr ''A'', PyInt 1)] [] = Inr (define_line ''A'' ''1'') \<and>
   first_occ ''#version'' ''#version 330\<newline>x'' = Some 0 \<and>
   first_occ ''\<newline>'' (drop 0 ''#version 330\<newline>x'') = Some 12 \<and>
   embedShaderSourceDefs ''#version 330\<newline>x'' [(PyStr ''A'', PyInt 1)] =
     Inr (''#version 330\<newline>'' @ define_line ''A'' ''1'' @ ''x'')"
proof -
  have d: "glsl_defs [(PyStr ''A'', PyInt 1)] [] = Inr (define_line ''A'' ''1'')" by code_simp
  have v: "first_occ ''#version'' ''#version 330\<newline>x'' = Some 0" by code_simp
  have n: "first_occ ''\<newline>'' (drop 0 ''#version 330\<newline>x'') = Some 12" by code_simp
  show ?thesis using d v n embed_version [OF d v n] by simp
qed

theorem embed_version_no_newline_witness:
  "glsl_defs [(PyStr ''A'', PyInt 1)] [] = Inr (define_line ''A'' ''1'') \<and>
   first_occ ''#version'' ''#version 330'' = Some 0 \<and>
   first_occ ''\<newline>'' (drop 0 ''#version 330'') = None \<and>
   embedShaderSourceDefs ''#version 330'' [(PyStr ''A'', PyInt 1)] =
     Inr (define_line ''A'' ''1'' @ ''#version 330'')"
proof -
  have d: "glsl_defs [(PyStr ''A'', PyInt 1)] [] = Inr (define_line ''A'' ''1'')" by code_simp
  have v: "first_occ ''#version'' ''#version 330'' = Some 0" by code_simp
  have n: "first_occ ''\<newline>'' (drop 0 ''#version 330'') = None" by code_simp
  show ?thesis using d v n embed_version_no_newline [OF d v n] by simp
qed

theorem embed_no_version_witness:
  "glsl_defs [(PyStr ''VERTEX'', PyBool True)] [] = Inr (define_line ''VERTEX'' ''1'') \<and>
   first_occ ''#version'' ''void main(){}'' = None \<and>
   embedShaderSourceDefs ''void main(){}'' [(PyStr ''VERTEX'', PyBool True)] =
     Inr (define_line ''VERTEX'' ''1'' @ ''void main(){}'')"
proof -
  have d: "glsl_defs [(PyStr ''VERTEX'', PyBool True)] [] = Inr (define_line ''VERTEX'' ''1'')" by code_simp
  have v: "first_occ ''#version'' ''void main(){}'' = None" by code_simp
  show ?thesis using d v embed_no_version [OF d v] by simp
qed

end
