(* ===== verification/GL_Images.thy ===== *)
theory GL_Images
  imports GL_Context
begin

text \<open>
  The part of the OpenGL context that the framebuffer, renderbuffer and
  texture helpers of \<open>gltools.py\<close> drive: the three object tables, the draw
  and read framebuffer bindings, the renderbuffer binding, the texture
  binding of each target, the enabled capabilities, the unpack alignment and
  the sticky error flag.  The names of these objects form namespaces of their
  own, apart from shaders and programs, so this state is a record of its own,
  \<open>img_state\<close>, beside \<open>gl_state\<close>.  As in \<open>GL_Context\<close>, this is the OpenGL 3.3
  specification as the environment of the code, not code of the repository;
  implementation limits and renderable formats are the record \<open>img_driver\<close>.

  Deleting a renderbuffer or texture detaches it from the bound framebuffers
  only (specification 5.1.2); an image still attached elsewhere keeps its
  storage, so a deleted object stays in its table with a deletion flag, and
  its name is no longer accepted by any call.  Framebuffers are containers
  and go at once.  Pixel contents, the default texture object (name 0), and
  the validation of pixel formats and texture parameter values are not
  modelled: with no texture bound, image specification records
  \<open>GL_INVALID_OPERATION\<close>.
\<close>

section \<open>Enumerants\<close>

definition GL_FRAMEBUFFER :: int where "GL_FRAMEBUFFER = 0x8D40"
definition GL_READ_FRAMEBUFFER :: int where "GL_READ_FRAMEBUFFER = 0x8CA8"
definition GL_DRAW_FRAMEBUFFER :: int where "GL_DRAW_FRAMEBUFFER = 0x8CA9"
definition GL_FRAMEBUFFER_BINDING :: int where "GL_FRAMEBUFFER_BINDING = 0x8CA6"
definition GL_READ_FRAMEBUFFER_BINDING :: int where "GL_READ_FRAMEBUFFER_BINDING = 0x8CAA"
definition GL_RENDERBUFFER :: int where "GL_RENDERBUFFER = 0x8D41"
definition GL_MAX_SAMPLES :: int where "GL_MAX_SAMPLES = 0x8D57"
definition GL_FRAMEBUFFER_COMPLETE :: int where "GL_FRAMEBUFFER_COMPLETE = 0x8CD5"
definition GL_FRAMEBUFFER_INCOMPLETE_ATTACHMENT :: int where
  "GL_FRAMEBUFFER_INCOMPLETE_ATTACHMENT = 0x8CD6"
definition GL_FRAMEBUFFER_INCOMPLETE_MISSING_ATTACHMENT :: int where
  "GL_FRAMEBUFFER_INCOMPLETE_MISSING_ATTACHMENT = 0x8CD7"
definition GL_FRAMEBUFFER_INCOMPLETE_MULTISAMPLE :: int where
  "GL_FRAMEBUFFER_INCOMPLETE_MULTISAMPLE = 0x8D56"
definition GL_COLOR_ATTACHMENT0 :: int where "GL_COLOR_ATTACHMENT0 = 0x8CE0"
definition GL_DEPTH_ATTACHMENT :: int where "GL_DEPTH_ATTACHMENT = 0x8D00"
definition GL_STENCIL_ATTACHMENT :: int where "GL_STENCIL_ATTACHMENT = 0x8D20"
definition GL_DEPTH_STENCIL_ATTACHMENT :: int where "GL_DEPTH_STENCIL_ATTACHMENT = 0x821A"
definition GL_TEXTURE_2D :: int where "GL_TEXTURE_2D = 0x0DE1"
definition GL_TEXTURE_RECTANGLE :: int where "GL_TEXTURE_RECTANGLE = 0x84F5"
definition GL_TEXTURE_2D_MULTISAMPLE :: int where "GL_TEXTURE_2D_MULTISAMPLE = 0x9100"
definition GL_UNPACK_ALIGNMENT :: int where "GL_UNPACK_ALIGNMENT = 0x0CF5"
definition GL_RGBA8 :: int where "GL_RGBA8 = 0x8058"
definition GL_RGBA :: int where "GL_RGBA = 0x1908"
definition GL_FLOAT :: int where "GL_FLOAT = 0x1406"
definition GL_NEAREST :: int where "GL_NEAREST = 0x2600"
definition GL_LINEAR :: int where "GL_LINEAR = 0x2601"
definition GL_COLOR_BUFFER_BIT :: int where "GL_COLOR_BUFFER_BIT = 0x4000"

declare GL_FRAMEBUFFER_def [gl_enum_defs] GL_READ_FRAMEBUFFER_def [gl_enum_defs]
  GL_DRAW_FRAMEBUFFER_def [gl_enum_defs] GL_FRAMEBUFFER_BINDING_def [gl_enum_defs]
  GL_READ_FRAMEBUFFER_BINDING_def [gl_enum_defs] GL_RENDERBUFFER_def [gl_enum_defs]
  GL_MAX_SAMPLES_def [gl_enum_defs] GL_FRAMEBUFFER_COMPLETE_def [gl_enum_defs]
  GL_FRAMEBUFFER_INCOMPLETE_ATTACHMENT_def [gl_enum_defs]
  GL_FRAMEBUFFER_INCOMPLETE_MISSING_ATTACHMENT_def [gl_enum_defs]
  GL_FRAMEBUFFER_INCOMPLETE_MULTISAMPLE_def [gl_enum_defs]
  GL_COLOR_ATTACHMENT0_def [gl_enum_defs] GL_DEPTH_ATTACHMENT_def [gl_enum_defs]
  GL_STENCIL_ATTACHMENT_def [gl_enum_defs] GL_DEPTH_STENCIL_ATTACHMENT_def [gl_enum_defs]
  GL_TEXTURE_2D_def [gl_enum_defs] GL_TEXTURE_RECTANGLE_def [gl_enum_defs]
  GL_TEXTURE_2D_MULTISAMPLE_def [gl_enum_defs] GL_UNPACK_ALIGNMENT_def [gl_enum_defs]
  GL_RGBA8_def [gl_enum_defs] GL_RGBA_def [gl_enum_defs] GL_FLOAT_def [gl_enum_defs]
  GL_NEAREST_def [gl_enum_defs] GL_LINEAR_def [gl_enum_defs] GL_COLOR_BUFFER_BIT_def [gl_enum_defs]

section \<open>Objects, driver and state\<close>

text \<open>An attachment: a texture level, or a renderbuffer.\<close>

datatype attachment = AttTexture nat int | AttRenderbuffer nat

text \<open>A framebuffer's attachments, by attachment point (distinct keys).\<close>

record fbo_obj =
  fb_attach :: "(int \<times> attachment) list"

text \<open>Renderbuffer storage: width, height, internal format, samples.\<close>

record rb_obj =
  rb_storage :: "(int \<times> int \<times> int \<times> int) option"
  rb_deleted :: bool

text \<open>A texture: its target once bound, its images by level (width, height,
  internal format), its sample count, its integer parameters.\<close>

record tex_obj =
  tx_target :: "int option"
  tx_images :: "int \<Rightarrow> (int \<times> int \<times> int) option"
  tx_samples :: int
  tx_params :: "(int \<times> int) list"
  tx_deleted :: bool

record img_driver =
  idrv_max_samples :: int
  idrv_max_size :: int
  idrv_max_color_attachments :: nat
  idrv_color_renderable :: "int \<Rightarrow> bool"
  idrv_depth_renderable :: "int \<Rightarrow> bool"
  idrv_stencil_renderable :: "int \<Rightarrow> bool"

record img_state =
  img_next :: nat
  framebuffers :: "nat \<rightharpoonup> fbo_obj"
  renderbuffers :: "nat \<rightharpoonup> rb_obj"
  textures :: "nat \<rightharpoonup> tex_obj"
  draw_fb :: nat
  read_fb :: nat
  rb_binding :: nat
  tex_binding :: "int \<Rightarrow> nat"
  caps :: "int set"
  unpack_align :: int
  img_err :: "gl_error option"

definition img_init :: img_state where
  "img_init = \<lparr>img_next = 1, framebuffers = Map.empty, renderbuffers = Map.empty,
     textures = Map.empty, draw_fb = 0, read_fb = 0, rb_binding = 0, tex_binding = (\<lambda>_. 0),
     caps = {}, unpack_align = 4, img_err = None\<rparr>"

section \<open>Primitives\<close>

definition img_raise :: "gl_error \<Rightarrow> img_state \<Rightarrow> img_state" where
  "img_raise e s = (if img_err s = None then s\<lparr>img_err := Some e\<rparr> else s)"

definition img_gen :: "img_state \<Rightarrow> nat \<times> img_state" where
  "img_gen s = (img_next s, s\<lparr>img_next := Suc (img_next s)\<rparr>)"

definition fb_live :: "nat \<Rightarrow> img_state \<Rightarrow> bool" where
  "fb_live n s \<longleftrightarrow> framebuffers s n \<noteq> None"

definition rb_live :: "nat \<Rightarrow> img_state \<Rightarrow> bool" where
  "rb_live n s \<longleftrightarrow> (case renderbuffers s n of Some r \<Rightarrow> \<not> rb_deleted r | None \<Rightarrow> False)"

definition tex_live :: "nat \<Rightarrow> img_state \<Rightarrow> bool" where
  "tex_live n s \<longleftrightarrow> (case textures s n of Some t \<Rightarrow> \<not> tx_deleted t | None \<Rightarrow> False)"

definition is_fb_target :: "int \<Rightarrow> bool" where
  "is_fb_target t \<longleftrightarrow> t = GL_FRAMEBUFFER \<or> t = GL_READ_FRAMEBUFFER \<or> t = GL_DRAW_FRAMEBUFFER"

text \<open>The framebuffer a target names: \<open>GL_FRAMEBUFFER\<close> is the draw binding.\<close>

definition fb_of_target :: "int \<Rightarrow> img_state \<Rightarrow> nat" where
  "fb_of_target t s = (if t = GL_READ_FRAMEBUFFER then read_fb s else draw_fb s)"

definition is_tex_target :: "int \<Rightarrow> bool" where
  "is_tex_target t \<longleftrightarrow> t = GL_TEXTURE_2D \<or> t = GL_TEXTURE_RECTANGLE \<or> t = GL_TEXTURE_2D_MULTISAMPLE"

definition is_attach_point :: "img_driver \<Rightarrow> int \<Rightarrow> bool" where
  "is_attach_point drv a \<longleftrightarrow>
     (GL_COLOR_ATTACHMENT0 \<le> a \<and> a < GL_COLOR_ATTACHMENT0 + int (idrv_max_color_attachments drv)) \<or>
     a = GL_DEPTH_ATTACHMENT \<or> a = GL_STENCIL_ATTACHMENT \<or> a = GL_DEPTH_STENCIL_ATTACHMENT"

text \<open>Setting or clearing one attachment point; the depth-stencil point sets
  both the depth and the stencil point.\<close>

definition set_point :: "int \<Rightarrow> attachment option \<Rightarrow> (int \<times> attachment) list \<Rightarrow> (int \<times> attachment) list" where
  "set_point a x atts =
     (case x of None \<Rightarrow> filter (\<lambda>(k, _). k \<noteq> a) atts | Some v \<Rightarrow> dict_set atts a v)"

definition set_attachment :: "int \<Rightarrow> attachment option \<Rightarrow> fbo_obj \<Rightarrow> fbo_obj" where
  "set_attachment a x fb =
     fb\<lparr>fb_attach :=
          (if a = GL_DEPTH_STENCIL_ATTACHMENT
           then set_point GL_STENCIL_ATTACHMENT x (set_point GL_DEPTH_ATTACHMENT x (fb_attach fb))
           else set_point a x (fb_attach fb))\<rparr>"

text \<open>Detaching every attachment that satisfies \<open>P\<close> from the framebuffers
  bound for drawing and reading.\<close>

definition detach_bound :: "(attachment \<Rightarrow> bool) \<Rightarrow> img_state \<Rightarrow> img_state" where
  "detach_bound P s =
     s\<lparr>framebuffers := (\<lambda>m. if m = draw_fb s \<or> m = read_fb s
                              then map_option (\<lambda>fb. fb\<lparr>fb_attach := filter (\<lambda>(_, x). \<not> P x) (fb_attach fb)\<rparr>)
                                     (framebuffers s m)
                              else framebuffers s m)\<rparr>"

section \<open>Framebuffer entry points\<close>

definition glGenFramebuffers :: "img_state \<Rightarrow> nat \<times> img_state" where
  "glGenFramebuffers s =
     (let (n, s1) = img_gen s in (n, s1\<lparr>framebuffers := (framebuffers s1)(n \<mapsto> \<lparr>fb_attach = []\<rparr>)\<rparr>))"

definition glBindFramebuffer :: "int \<Rightarrow> nat \<Rightarrow> img_state \<Rightarrow> img_state" where
  "glBindFramebuffer t n s =
     (if \<not> is_fb_target t then img_raise GL_INVALID_ENUM s
      else if n \<noteq> 0 \<and> \<not> fb_live n s then img_raise GL_INVALID_OPERATION s
      else if t = GL_FRAMEBUFFER then s\<lparr>draw_fb := n, read_fb := n\<rparr>
      else if t = GL_DRAW_FRAMEBUFFER then s\<lparr>draw_fb := n\<rparr>
      else s\<lparr>read_fb := n\<rparr>)"

definition glDeleteFramebuffers :: "nat \<Rightarrow> img_state \<Rightarrow> img_state" where
  "glDeleteFramebuffers n s =
     (if n = 0 \<or> \<not> fb_live n s then s
      else s\<lparr>framebuffers := (framebuffers s)(n := None),
             draw_fb := (if draw_fb s = n then 0 else draw_fb s),
             read_fb := (if read_fb s = n then 0 else read_fb s)\<rparr>)"

text \<open>Updating the framebuffer bound to a target; with none bound the call
  records \<open>GL_INVALID_OPERATION\<close>.\<close>

definition fb_update :: "int \<Rightarrow> (fbo_obj \<Rightarrow> fbo_obj) \<Rightarrow> img_state \<Rightarrow> img_state" where
  "fb_update t f s =
     (let n = fb_of_target t s in
      case (if n = 0 then None else framebuffers s n) of
        None \<Rightarrow> img_raise GL_INVALID_OPERATION s
      | Some fb \<Rightarrow> s\<lparr>framebuffers := (framebuffers s)(n \<mapsto> f fb)\<rparr>)"

definition glFramebufferTexture2D :: "img_driver \<Rightarrow> int \<Rightarrow> int \<Rightarrow> int \<Rightarrow> nat \<Rightarrow> int \<Rightarrow> img_state \<Rightarrow> img_state" where
  "glFramebufferTexture2D drv t a textarget tex level s =
     (if \<not> is_fb_target t \<or> \<not> is_attach_point drv a then img_raise GL_INVALID_ENUM s
      else if fb_of_target t s = 0 then img_raise GL_INVALID_OPERATION s
      else if tex = 0 then fb_update t (set_attachment a None) s
      else if \<not> is_tex_target textarget then img_raise GL_INVALID_ENUM s
      else if \<not> tex_live tex s \<or> map_option tx_target (textures s tex) \<noteq> Some (Some textarget)
      then img_raise GL_INVALID_OPERATION s
      else if level < 0 \<or> (textarget \<noteq> GL_TEXTURE_2D \<and> level \<noteq> 0) then img_raise GL_INVALID_VALUE s
      else fb_update t (set_attachment a (Some (AttTexture tex level))) s)"

definition glFramebufferRenderbuffer :: "img_driver \<Rightarrow> int \<Rightarrow> int \<Rightarrow> int \<Rightarrow> nat \<Rightarrow> img_state \<Rightarrow> img_state" where
  "glFramebufferRenderbuffer drv t a rbtarget rb s =
     (if \<not> is_fb_target t \<or> \<not> is_attach_point drv a \<or> rbtarget \<noteq> GL_RENDERBUFFER
      then img_raise GL_INVALID_ENUM s
      else if fb_of_target t s = 0 then img_raise GL_INVALID_OPERATION s
      else if rb \<noteq> 0 \<and> \<not> rb_live rb s then img_raise GL_INVALID_OPERATION s
      else fb_update t (set_attachment a (if rb = 0 then None else Some (AttRenderbuffer rb))) s)"

section \<open>Framebuffer completeness\<close>

text \<open>The image an attachment refers to: width, height, format, samples.\<close>

definition att_image :: "img_state \<Rightarrow> attachment \<Rightarrow> (int \<times> int \<times> int \<times> int) option" where
  "att_image s x =
     (case x of
        AttRenderbuffer n \<Rightarrow> (case renderbuffers s n of Some r \<Rightarrow> rb_storage r | None \<Rightarrow> None)
      | AttTexture n l \<Rightarrow>
          (case textures s n of
             Some t \<Rightarrow> map_option (\<lambda>(w, h, f). (w, h, f, tx_samples t)) (tx_images t l)
           | None \<Rightarrow> None))"

definition att_renderable :: "img_driver \<Rightarrow> int \<Rightarrow> int \<Rightarrow> bool" where
  "att_renderable drv a f =
     (if a = GL_DEPTH_ATTACHMENT then idrv_depth_renderable drv f
      else if a = GL_STENCIL_ATTACHMENT then idrv_stencil_renderable drv f
      else idrv_color_renderable drv f)"

definition att_complete :: "img_driver \<Rightarrow> img_state \<Rightarrow> int \<times> attachment \<Rightarrow> bool" where
  "att_complete drv s ax =
     (case att_image s (snd ax) of
        None \<Rightarrow> False
      | Some (w, h, f, _) \<Rightarrow> 0 < w \<and> 0 < h \<and> att_renderable drv (fst ax) f)"

definition att_samples :: "img_state \<Rightarrow> int \<times> attachment \<Rightarrow> int" where
  "att_samples s ax = (case att_image s (snd ax) of Some (_, _, _, n) \<Rightarrow> n | None \<Rightarrow> 0)"

text \<open>The status of a framebuffer object (specification 4.4.4), checked in
  the order: attachment completeness, at least one image, equal sample
  counts.\<close>

definition fb_status :: "img_driver \<Rightarrow> img_state \<Rightarrow> fbo_obj \<Rightarrow> int" where
  "fb_status drv s fb =
     (let atts = fb_attach fb in
      if \<not> list_all (att_complete drv s) atts then GL_FRAMEBUFFER_INCOMPLETE_ATTACHMENT
      else if atts = [] then GL_FRAMEBUFFER_INCOMPLETE_MISSING_ATTACHMENT
      else if \<not> list_all (\<lambda>ax. att_samples s ax = att_samples s (hd atts)) atts
      then GL_FRAMEBUFFER_INCOMPLETE_MULTISAMPLE
      else GL_FRAMEBUFFER_COMPLETE)"

definition glCheckFramebufferStatus :: "img_driver \<Rightarrow> int \<Rightarrow> img_state \<Rightarrow> int \<times> img_state" where
  "glCheckFramebufferStatus drv t s =
     (if \<not> is_fb_target t then (0, img_raise GL_INVALID_ENUM s)
      else (let n = fb_of_target t s in
            if n = 0 then (GL_FRAMEBUFFER_COMPLETE, s)
            else case framebuffers s n of
                   None \<Rightarrow> (0, img_raise GL_INVALID_OPERATION s)
                 | Some fb \<Rightarrow> (fb_status drv s fb, s)))"

text \<open>Blitting: the pixels are not modelled, only the checks.\<close>

definition glBlitFramebuffer :: "img_driver \<Rightarrow> int \<Rightarrow> int \<Rightarrow> int \<Rightarrow> int \<Rightarrow> int \<Rightarrow> int \<Rightarrow> int \<Rightarrow> int \<Rightarrow>
    int \<Rightarrow> int \<Rightarrow> img_state \<Rightarrow> img_state" where
  "glBlitFramebuffer drv sx0 sy0 sx1 sy1 dx0 dy0 dx1 dy1 bits filt s =
     (if filt \<noteq> GL_NEAREST \<and> filt \<noteq> GL_LINEAR then img_raise GL_INVALID_ENUM s
      else if fst (glCheckFramebufferStatus drv GL_READ_FRAMEBUFFER s) \<noteq> GL_FRAMEBUFFER_COMPLETE \<or>
              fst (glCheckFramebufferStatus drv GL_DRAW_FRAMEBUFFER s) \<noteq> GL_FRAMEBUFFER_COMPLETE
      then img_raise GL_INVALID_FRAMEBUFFER_OPERATION s
      else s)"

section \<open>Renderbuffer entry points\<close>

definition glGenRenderbuffers :: "img_state \<Rightarrow> nat \<times> img_state" where
  "glGenRenderbuffers s =
     (let (n, s1) = img_gen s
      in (n, s1\<lparr>renderbuffers := (renderbuffers s1)(n \<mapsto> \<lparr>rb_storage = None, rb_deleted = False\<rparr>)\<rparr>))"

definition glBindRenderbuffer :: "int \<Rightarrow> nat \<Rightarrow> img_state \<Rightarrow> img_state" where
  "glBindRenderbuffer t n s =
     (if t \<noteq> GL_RENDERBUFFER then img_raise GL_INVALID_ENUM s
      else if n \<noteq> 0 \<and> \<not> rb_live n s then img_raise GL_INVALID_OPERATION s
      else s\<lparr>rb_binding := n\<rparr>)"

definition glRenderbufferStorageMultisample :: "img_driver \<Rightarrow> int \<Rightarrow> int \<Rightarrow> int \<Rightarrow> int \<Rightarrow> int \<Rightarrow>
    img_state \<Rightarrow> img_state" where
  "glRenderbufferStorageMultisample drv t samples fmt w h s =
     (if t \<noteq> GL_RENDERBUFFER then img_raise GL_INVALID_ENUM s
      else if \<not> (idrv_color_renderable drv fmt \<or> idrv_depth_renderable drv fmt \<or> idrv_stencil_renderable drv fmt)
      then img_raise GL_INVALID_ENUM s
      else if w < 0 \<or> h < 0 \<or> idrv_max_size drv < w \<or> idrv_max_size drv < h \<or> samples < 0 \<or>
              idrv_max_samples drv < samples
      then img_raise GL_INVALID_VALUE s
      else (case (if rb_binding s = 0 then None else renderbuffers s (rb_binding s)) of
              None \<Rightarrow> img_raise GL_INVALID_OPERATION s
            | Some r \<Rightarrow> s\<lparr>renderbuffers := (renderbuffers s)(rb_binding s \<mapsto>
                           r\<lparr>rb_storage := Some (w, h, fmt, samples)\<rparr>)\<rparr>))"

text \<open>\<open>glRenderbufferStorage\<close> is the multisample call with zero samples.\<close>

definition glRenderbufferStorage :: "img_driver \<Rightarrow> int \<Rightarrow> int \<Rightarrow> int \<Rightarrow> int \<Rightarrow> img_state \<Rightarrow> img_state" where
  "glRenderbufferStorage drv t fmt w h = glRenderbufferStorageMultisample drv t 0 fmt w h"

definition glDeleteRenderbuffers :: "nat \<Rightarrow> img_state \<Rightarrow> img_state" where
  "glDeleteRenderbuffers n s =
     (if \<not> rb_live n s then s
      else (let s1 = detach_bound (\<lambda>x. x = AttRenderbuffer n) s
            in s1\<lparr>renderbuffers := (renderbuffers s1)(n := map_option (\<lambda>r. r\<lparr>rb_deleted := True\<rparr>) (renderbuffers s1 n)),
                  rb_binding := (if rb_binding s1 = n then 0 else rb_binding s1)\<rparr>))"

section \<open>Texture entry points\<close>

definition glGenTextures :: "img_state \<Rightarrow> nat \<times> img_state" where
  "glGenTextures s =
     (let (n, s1) = img_gen s
      in (n, s1\<lparr>textures := (textures s1)(n \<mapsto>
            \<lparr>tx_target = None, tx_images = Map.empty, tx_samples = 0, tx_params = [], tx_deleted = False\<rparr>)\<rparr>))"

definition glBindTexture :: "int \<Rightarrow> nat \<Rightarrow> img_state \<Rightarrow> img_state" where
  "glBindTexture t n s =
     (if \<not> is_tex_target t then img_raise GL_INVALID_ENUM s
      else if n = 0 then s\<lparr>tex_binding := (tex_binding s)(t := 0)\<rparr>
      else case textures s n of
             None \<Rightarrow> img_raise GL_INVALID_OPERATION s
           | Some x \<Rightarrow>
               if tx_deleted x \<or> (tx_target x \<noteq> None \<and> tx_target x \<noteq> Some t)
               then img_raise GL_INVALID_OPERATION s
               else s\<lparr>textures := (textures s)(n \<mapsto> x\<lparr>tx_target := Some t\<rparr>),
                      tex_binding := (tex_binding s)(t := n)\<rparr>)"

definition glPixelStorei :: "int \<Rightarrow> int \<Rightarrow> img_state \<Rightarrow> img_state" where
  "glPixelStorei p v s =
     (if p \<noteq> GL_UNPACK_ALIGNMENT then img_raise GL_INVALID_ENUM s
      else if v \<notin> {1, 2, 4, 8} then img_raise GL_INVALID_VALUE s
      else s\<lparr>unpack_align := v\<rparr>)"

text \<open>Updating the texture bound to a target.\<close>

definition tex_update :: "int \<Rightarrow> (tex_obj \<Rightarrow> tex_obj) \<Rightarrow> img_state \<Rightarrow> img_state" where
  "tex_update t f s =
     (let n = tex_binding s t in
      case (if n = 0 then None else textures s n) of
        None \<Rightarrow> img_raise GL_INVALID_OPERATION s
      | Some x \<Rightarrow> s\<lparr>textures := (textures s)(n \<mapsto> f x)\<rparr>)"

definition glTexImage2D :: "img_driver \<Rightarrow> int \<Rightarrow> int \<Rightarrow> int \<Rightarrow> int \<Rightarrow> int \<Rightarrow> int \<Rightarrow> int \<Rightarrow> int \<Rightarrow>
    img_state \<Rightarrow> img_state" where
  "glTexImage2D drv t level ifmt w h border pfmt dtype s =
     (if t \<noteq> GL_TEXTURE_2D \<and> t \<noteq> GL_TEXTURE_RECTANGLE then img_raise GL_INVALID_ENUM s
      else if level < 0 \<or> (t = GL_TEXTURE_RECTANGLE \<and> level \<noteq> 0) \<or> w < 0 \<or> h < 0 \<or>
              idrv_max_size drv < w \<or> idrv_max_size drv < h \<or> border \<noteq> 0
      then img_raise GL_INVALID_VALUE s
      else tex_update t (\<lambda>x. x\<lparr>tx_images := (tx_images x)(level \<mapsto> (w, h, ifmt)), tx_samples := 0\<rparr>) s)"

definition glTexImage2DMultisample :: "img_driver \<Rightarrow> int \<Rightarrow> int \<Rightarrow> int \<Rightarrow> int \<Rightarrow> int \<Rightarrow> int \<Rightarrow>
    img_state \<Rightarrow> img_state" where
  "glTexImage2DMultisample drv t samples ifmt w h fixed s =
     (if t \<noteq> GL_TEXTURE_2D_MULTISAMPLE then img_raise GL_INVALID_ENUM s
      else if samples < 1 \<or> w < 0 \<or> h < 0 \<or> idrv_max_size drv < w \<or> idrv_max_size drv < h
      then img_raise GL_INVALID_VALUE s
      else if idrv_max_samples drv < samples then img_raise GL_INVALID_OPERATION s
      else tex_update t (\<lambda>x. x\<lparr>tx_images := (tx_images x)(0 \<mapsto> (w, h, ifmt)), tx_samples := samples\<rparr>) s)"

definition glTexParameteri :: "int \<Rightarrow> int \<Rightarrow> int \<Rightarrow> img_state \<Rightarrow> img_state" where
  "glTexParameteri t p v s =
     (if \<not> is_tex_target t then img_raise GL_INVALID_ENUM s
      else tex_update t (\<lambda>x. x\<lparr>tx_params := dict_set (tx_params x) p v\<rparr>) s)"

definition glEnable :: "int \<Rightarrow> img_state \<Rightarrow> img_state" where
  "glEnable c s = s\<lparr>caps := insert c (caps s)\<rparr>"

definition glDeleteTextures :: "nat \<Rightarrow> img_state \<Rightarrow> img_state" where
  "glDeleteTextures n s =
     (if \<not> tex_live n s then s
      else (let s1 = detach_bound (\<lambda>x. case x of AttTexture m _ \<Rightarrow> m = n | AttRenderbuffer _ \<Rightarrow> False) s
            in s1\<lparr>textures := (textures s1)(n := map_option (\<lambda>t. t\<lparr>tx_deleted := True\<rparr>) (textures s1 n)),
                  tex_binding := (\<lambda>t. if tex_binding s1 t = n then 0 else tex_binding s1 t)\<rparr>))"

text \<open>\<open>glGetIntegerv\<close> for the parameters the helpers query.\<close>

definition glGetIntegerv :: "img_driver \<Rightarrow> int \<Rightarrow> img_state \<Rightarrow> int \<times> img_state" where
  "glGetIntegerv drv p s =
     (if p = GL_FRAMEBUFFER_BINDING then (int (draw_fb s), s)
      else if p = GL_READ_FRAMEBUFFER_BINDING then (int (read_fb s), s)
      else if p = GL_MAX_SAMPLES then (idrv_max_samples drv, s)
      else if p = GL_UNPACK_ALIGNMENT then (unpack_align s, s)
      else (0, img_raise GL_INVALID_ENUM s))"

section \<open>The context invariant\<close>

definition names_ok :: "img_state \<Rightarrow> bool" where
  "names_ok s \<longleftrightarrow> 0 < img_next s \<and>
     (\<forall>n \<in> dom (framebuffers s) \<union> dom (renderbuffers s) \<union> dom (textures s). 0 < n \<and> n < img_next s)"

definition tex_bound_ok :: "img_state \<Rightarrow> int \<Rightarrow> nat \<Rightarrow> bool" where
  "tex_bound_ok s t n \<longleftrightarrow>
     n = 0 \<or> (case textures s n of Some x \<Rightarrow> \<not> tx_deleted x \<and> tx_target x = Some t | None \<Rightarrow> False)"

definition bindings_ok :: "img_state \<Rightarrow> bool" where
  "bindings_ok s \<longleftrightarrow>
     (draw_fb s = 0 \<or> fb_live (draw_fb s) s) \<and> (read_fb s = 0 \<or> fb_live (read_fb s) s) \<and>
     (rb_binding s = 0 \<or> rb_live (rb_binding s) s) \<and> (\<forall>t. tex_bound_ok s t (tex_binding s t))"

definition att_exists :: "img_state \<Rightarrow> attachment \<Rightarrow> bool" where
  "att_exists s x =
     (case x of AttRenderbuffer n \<Rightarrow> n \<in> dom (renderbuffers s) | AttTexture n _ \<Rightarrow> n \<in> dom (textures s))"

definition fb_ok :: "img_state \<Rightarrow> fbo_obj \<Rightarrow> bool" where
  "fb_ok s fb \<longleftrightarrow> distinct (map fst (fb_attach fb)) \<and> (\<forall>ax \<in> set (fb_attach fb). att_exists s (snd ax))"

definition attach_ok :: "img_state \<Rightarrow> bool" where
  "attach_ok s \<longleftrightarrow> (\<forall>n fb. framebuffers s n = Some fb \<longrightarrow> fb_ok s fb)"

text \<open>Well-formed context: names below the counter and never 0, every binding
  names a live object (a texture of the bound target), every attachment
  names an object of the tables, one attachment per point.\<close>

definition img_wf :: "img_state \<Rightarrow> bool" where
  "img_wf s \<longleftrightarrow> names_ok s \<and> bindings_ok s \<and> attach_ok s"

named_theorems img_wf_intros "entry points that keep the image invariant"

section \<open>The invariant is kept by every entry point\<close>

lemma img_wf_init [img_wf_intros]: "img_wf img_init"
  by (simp add: img_wf_def names_ok_def bindings_ok_def attach_ok_def img_init_def tex_bound_ok_def)

lemma img_raise_fields [simp]:
  "img_next (img_raise e s) = img_next s" "framebuffers (img_raise e s) = framebuffers s"
  "renderbuffers (img_raise e s) = renderbuffers s" "textures (img_raise e s) = textures s"
  "draw_fb (img_raise e s) = draw_fb s" "read_fb (img_raise e s) = read_fb s"
  "rb_binding (img_raise e s) = rb_binding s" "tex_binding (img_raise e s) = tex_binding s"
  "caps (img_raise e s) = caps s" "unpack_align (img_raise e s) = unpack_align s"
  by (simp_all add: img_raise_def)

lemma img_wf_cong:
  assumes "img_next s' = img_next s" "framebuffers s' = framebuffers s" "renderbuffers s' = renderbuffers s"
    "textures s' = textures s" "draw_fb s' = draw_fb s" "read_fb s' = read_fb s"
    "rb_binding s' = rb_binding s" "tex_binding s' = tex_binding s"
  shows "img_wf s' = img_wf s"
proof -
  have "att_exists s' x = att_exists s x" for x
    using assms by (cases x) (simp_all add: att_exists_def)
  then have "att_exists s' = att_exists s" by (rule ext)
  with assms show ?thesis
    by (simp add: img_wf_def names_ok_def bindings_ok_def attach_ok_def fb_ok_def fb_live_def rb_live_def
        tex_bound_ok_def)
qed

lemma img_raise_wf [img_wf_intros]: "img_wf s \<Longrightarrow> img_wf (img_raise e s)"
  by (subst img_wf_cong [of _ s]) simp_all

lemma img_wf_other [simp]:
  "img_wf (s\<lparr>caps := c\<rparr>) = img_wf s" "img_wf (s\<lparr>unpack_align := a\<rparr>) = img_wf s"
  "img_wf (s\<lparr>img_err := e\<rparr>) = img_wf s"
  by (rule img_wf_cong; simp)+

lemma bindings_ok_mono:
  assumes "bindings_ok s"
    and "draw_fb s' = draw_fb s" "read_fb s' = read_fb s" "rb_binding s' = rb_binding s"
    "tex_binding s' = tex_binding s"
    and "\<And>n. fb_live n s \<Longrightarrow> fb_live n s'" "\<And>n. rb_live n s \<Longrightarrow> rb_live n s'"
    and "\<And>n x. textures s n = Some x \<Longrightarrow> \<not> tx_deleted x \<Longrightarrow>
           \<exists>y. textures s' n = Some y \<and> \<not> tx_deleted y \<and> (tx_target x \<noteq> None \<longrightarrow> tx_target y = tx_target x)"
  shows "bindings_ok s'"
  unfolding bindings_ok_def
proof (intro conjI allI)
  fix t
  have "tex_bound_ok s t (tex_binding s t)" using assms(1) by (simp add: bindings_ok_def)
  then show "tex_bound_ok s' t (tex_binding s' t)"
    using assms(5,8) by (fastforce simp: tex_bound_ok_def split: option.splits)
qed (use assms in \<open>auto simp: bindings_ok_def\<close>)

lemma att_exists_mono:
  "att_exists s x \<Longrightarrow> dom (renderbuffers s) \<subseteq> dom (renderbuffers s') \<Longrightarrow>
     dom (textures s) \<subseteq> dom (textures s') \<Longrightarrow> att_exists s' x"
  by (cases x) (auto simp: att_exists_def)

lemma fb_ok_mono:
  "fb_ok s fb \<Longrightarrow> dom (renderbuffers s) \<subseteq> dom (renderbuffers s') \<Longrightarrow>
     dom (textures s) \<subseteq> dom (textures s') \<Longrightarrow> fb_ok s' fb"
  unfolding fb_ok_def using att_exists_mono by blast

lemma attach_ok_mono:
  assumes "attach_ok s"
    and "\<And>n fb. framebuffers s' n = Some fb \<Longrightarrow> framebuffers s n = Some fb \<or> fb_attach fb = []"
    and "dom (renderbuffers s) \<subseteq> dom (renderbuffers s')" "dom (textures s) \<subseteq> dom (textures s')"
  shows "attach_ok s'"
  unfolding attach_ok_def
proof (intro allI impI)
  fix n fb
  assume "framebuffers s' n = Some fb"
  with assms(2) have "framebuffers s n = Some fb \<or> fb_attach fb = []" by blast
  then show "fb_ok s' fb"
  proof
    assume "framebuffers s n = Some fb"
    with assms(1) have "fb_ok s fb" by (simp add: attach_ok_def)
    from this assms(3,4) show ?thesis by (rule fb_ok_mono)
  qed (simp add: fb_ok_def)
qed

text \<open>The frame rule for calls that allocate or update objects without
  touching a binding or an attachment.\<close>

lemma names_okI:
  "0 < img_next s \<Longrightarrow>
   (\<And>n. n \<in> dom (framebuffers s) \<union> dom (renderbuffers s) \<union> dom (textures s) \<Longrightarrow> 0 < n \<and> n < img_next s) \<Longrightarrow>
   names_ok s"
  by (simp add: names_ok_def)

lemma img_wf_grow:
  assumes wf: "img_wf s"
    and nx: "img_next s \<le> img_next s'"
    and names: "\<And>n. n \<in> dom (framebuffers s') \<union> dom (renderbuffers s') \<union> dom (textures s') \<Longrightarrow>
        n \<in> dom (framebuffers s) \<union> dom (renderbuffers s) \<union> dom (textures s) \<or> (n = img_next s \<and> n < img_next s')"
    and bnd: "draw_fb s' = draw_fb s" "read_fb s' = read_fb s" "rb_binding s' = rb_binding s"
      "tex_binding s' = tex_binding s"
    and fbs: "\<And>n. fb_live n s \<Longrightarrow> fb_live n s'" and rbs: "\<And>n. rb_live n s \<Longrightarrow> rb_live n s'"
    and txs: "\<And>n x. textures s n = Some x \<Longrightarrow> \<not> tx_deleted x \<Longrightarrow>
           \<exists>y. textures s' n = Some y \<and> \<not> tx_deleted y \<and> (tx_target x \<noteq> None \<longrightarrow> tx_target y = tx_target x)"
    and atts: "\<And>n fb. framebuffers s' n = Some fb \<Longrightarrow> framebuffers s n = Some fb \<or> fb_attach fb = []"
    and doms: "dom (renderbuffers s) \<subseteq> dom (renderbuffers s')" "dom (textures s) \<subseteq> dom (textures s')"
  shows "img_wf s'"
proof -
  from wf have n: "names_ok s" and b: "bindings_ok s" and a: "attach_ok s" by (simp_all add: img_wf_def)
  have "names_ok s'"
  proof (rule names_okI)
    show "0 < img_next s'" using n nx by (simp add: names_ok_def)
  next
    fix k
    assume "k \<in> dom (framebuffers s') \<union> dom (renderbuffers s') \<union> dom (textures s')"
    from names [OF this] show "0 < k \<and> k < img_next s'"
    proof
      assume "k \<in> dom (framebuffers s) \<union> dom (renderbuffers s) \<union> dom (textures s)"
      with n have "0 < k \<and> k < img_next s" by (simp add: names_ok_def)
      with nx show ?thesis by simp
    next
      assume "k = img_next s \<and> k < img_next s'"
      with n show ?thesis by (simp add: names_ok_def)
    qed
  qed
  moreover from b bnd fbs rbs txs have "bindings_ok s'" by (rule bindings_ok_mono)
  moreover from a atts doms have "attach_ok s'" by (rule attach_ok_mono)
  ultimately show ?thesis by (simp add: img_wf_def)
qed

lemma names_ok_fresh: "names_ok s \<Longrightarrow> framebuffers s (img_next s) = None \<and>
    renderbuffers s (img_next s) = None \<and> textures s (img_next s) = None"
  by (auto simp: names_ok_def)

lemma gen_fb_wf [img_wf_intros]:
  assumes wf: "img_wf s" shows "img_wf (snd (glGenFramebuffers s))"
proof -
  have fr: "framebuffers s (img_next s) = None" using names_ok_fresh wf by (simp add: img_wf_def)
  show ?thesis
    by (rule img_wf_grow [OF wf]) (use fr in \<open>auto simp: glGenFramebuffers_def img_gen_def fb_live_def rb_live_def split: if_splits\<close>)
qed

lemma gen_rb_wf [img_wf_intros]:
  assumes wf: "img_wf s" shows "img_wf (snd (glGenRenderbuffers s))"
proof -
  have fr: "renderbuffers s (img_next s) = None" using names_ok_fresh wf by (simp add: img_wf_def)
  show ?thesis
    by (rule img_wf_grow [OF wf]) (use fr in \<open>auto simp: glGenRenderbuffers_def img_gen_def fb_live_def rb_live_def split: if_splits\<close>)
qed

lemma gen_tex_wf [img_wf_intros]:
  assumes wf: "img_wf s" shows "img_wf (snd (glGenTextures s))"
proof -
  have fr: "textures s (img_next s) = None" using names_ok_fresh wf by (simp add: img_wf_def)
  show ?thesis
    by (rule img_wf_grow [OF wf]) (use fr in \<open>auto simp: glGenTextures_def img_gen_def fb_live_def rb_live_def split: if_splits\<close>)
qed

lemma tex_update_wf:
  assumes wf: "img_wf s" and f: "\<And>x. tx_deleted (f x) = tx_deleted x \<and> tx_target (f x) = tx_target x"
  shows "img_wf (tex_update t f s)"
proof (cases "tex_binding s t \<noteq> 0 \<and> textures s (tex_binding s t) \<noteq> None")
  case True
  then obtain x where x: "textures s (tex_binding s t) = Some x" by blast
  have "img_wf (s\<lparr>textures := (textures s)(tex_binding s t \<mapsto> f x)\<rparr>)"
    using x by (intro img_wf_grow [OF wf]) (simp_all add: fb_live_def rb_live_def f subset_insertI, force+)
  with True x show ?thesis by (simp add: tex_update_def)
next
  case False
  then have "tex_update t f s = img_raise GL_INVALID_OPERATION s"
    by (auto simp: tex_update_def Let_def)
  with wf show ?thesis by (simp add: img_raise_wf)
qed

text \<open>The frame rule for calls that change bindings only.\<close>

lemma img_wf_rebind:
  assumes "img_wf s" "img_next s' = img_next s" "framebuffers s' = framebuffers s"
    "renderbuffers s' = renderbuffers s" "textures s' = textures s" "bindings_ok s'"
  shows "img_wf s'"
proof -
  have "att_exists s' = att_exists s"
    using assms(4,5) by (intro ext) (simp add: att_exists_def split: attachment.splits)
  with assms show ?thesis
    by (simp add: img_wf_def names_ok_def attach_ok_def fb_ok_def)
qed

lemma tex_bound_ok_upd [simp]:
  "tex_bound_ok (s\<lparr>tex_binding := b\<rparr>) = tex_bound_ok s" "tex_bound_ok (s\<lparr>rb_binding := r\<rparr>) = tex_bound_ok s"
  "tex_bound_ok (s\<lparr>draw_fb := d\<rparr>) = tex_bound_ok s" "tex_bound_ok (s\<lparr>read_fb := d\<rparr>) = tex_bound_ok s"
  "tex_bound_ok (s\<lparr>framebuffers := fs\<rparr>) = tex_bound_ok s"
  "tex_bound_ok (s\<lparr>renderbuffers := rs\<rparr>) = tex_bound_ok s"
  by (simp_all add: tex_bound_ok_def fun_eq_iff)

lemma live_upd [simp]:
  "rb_live n (s\<lparr>framebuffers := fs\<rparr>) = rb_live n s" "rb_live n (s\<lparr>textures := ts\<rparr>) = rb_live n s"
  "rb_live n (s\<lparr>draw_fb := d\<rparr>) = rb_live n s" "rb_live n (s\<lparr>read_fb := d\<rparr>) = rb_live n s"
  "rb_live n (s\<lparr>rb_binding := r\<rparr>) = rb_live n s" "rb_live n (s\<lparr>tex_binding := b\<rparr>) = rb_live n s"
  "tex_live n (s\<lparr>framebuffers := fs\<rparr>) = tex_live n s" "tex_live n (s\<lparr>renderbuffers := rs\<rparr>) = tex_live n s"
  "tex_live n (s\<lparr>draw_fb := d\<rparr>) = tex_live n s" "tex_live n (s\<lparr>read_fb := d\<rparr>) = tex_live n s"
  "tex_live n (s\<lparr>rb_binding := r\<rparr>) = tex_live n s" "tex_live n (s\<lparr>tex_binding := b\<rparr>) = tex_live n s"
  "fb_live n (s\<lparr>renderbuffers := rs\<rparr>) = fb_live n s" "fb_live n (s\<lparr>textures := ts\<rparr>) = fb_live n s"
  "fb_live n (s\<lparr>draw_fb := d\<rparr>) = fb_live n s" "fb_live n (s\<lparr>read_fb := d\<rparr>) = fb_live n s"
  "fb_live n (s\<lparr>rb_binding := r\<rparr>) = fb_live n s" "fb_live n (s\<lparr>tex_binding := b\<rparr>) = fb_live n s"
  by (simp_all add: rb_live_def tex_live_def fb_live_def)

lemma att_exists_upd [simp]:
  "att_exists (s\<lparr>framebuffers := fs\<rparr>) = att_exists s" "att_exists (s\<lparr>draw_fb := d\<rparr>) = att_exists s"
  "att_exists (s\<lparr>read_fb := d\<rparr>) = att_exists s" "att_exists (s\<lparr>rb_binding := r\<rparr>) = att_exists s"
  "att_exists (s\<lparr>tex_binding := b\<rparr>) = att_exists s"
  by (intro ext, simp add: att_exists_def split: attachment.split)+

lemma fb_ok_upd [simp]:
  "fb_ok (s\<lparr>framebuffers := fs\<rparr>) = fb_ok s" "fb_ok (s\<lparr>draw_fb := d\<rparr>) = fb_ok s"
  "fb_ok (s\<lparr>read_fb := d\<rparr>) = fb_ok s" "fb_ok (s\<lparr>rb_binding := r\<rparr>) = fb_ok s"
  "fb_ok (s\<lparr>tex_binding := b\<rparr>) = fb_ok s"
  by (simp_all add: fb_ok_def fun_eq_iff)

lemma img_wfD:
  assumes "img_wf s"
  shows "names_ok s" "bindings_ok s" "attach_ok s"
  using assms by (simp_all add: img_wf_def)

lemma bind_fb_wf [img_wf_intros]:
  assumes wf: "img_wf s" shows "img_wf (glBindFramebuffer t n s)"
proof -
  have b: "bindings_ok s" using wf by (rule img_wfD)
  have ok: "n = 0 \<or> fb_live n s \<Longrightarrow> bindings_ok (s\<lparr>draw_fb := n, read_fb := n\<rparr>) \<and>
      bindings_ok (s\<lparr>draw_fb := n\<rparr>) \<and> bindings_ok (s\<lparr>read_fb := n\<rparr>)"
    using b by (simp add: bindings_ok_def fb_live_def rb_live_def tex_bound_ok_def)
  show ?thesis
    unfolding glBindFramebuffer_def
    using ok by (simp add: img_raise_wf wf img_wf_rebind [OF wf])
qed

lemma bind_rb_wf [img_wf_intros]:
  assumes wf: "img_wf s" shows "img_wf (glBindRenderbuffer t n s)"
proof -
  have b: "bindings_ok s" using wf by (rule img_wfD)
  have ok: "n = 0 \<or> rb_live n s \<Longrightarrow> bindings_ok (s\<lparr>rb_binding := n\<rparr>)"
    using b by (simp add: bindings_ok_def fb_live_def rb_live_def tex_bound_ok_def)
  show ?thesis
    unfolding glBindRenderbuffer_def
    using ok by (simp add: img_raise_wf wf img_wf_rebind [OF wf])
qed

lemma pixel_store_wf [img_wf_intros]: "img_wf s \<Longrightarrow> img_wf (glPixelStorei p v s)"
  by (simp add: glPixelStorei_def img_raise_wf)

lemma enable_wf [img_wf_intros]: "img_wf s \<Longrightarrow> img_wf (glEnable c s)"
  by (simp add: glEnable_def)

lemma bind_tex_wf [img_wf_intros]:
  assumes wf: "img_wf s" shows "img_wf (glBindTexture t n s)"
proof -
  have b: "bindings_ok s" using wf by (rule img_wfD)
  have zero: "img_wf (s\<lparr>tex_binding := (tex_binding s)(t := 0)\<rparr>)"
    using b by (intro img_wf_rebind [OF wf]) (simp_all add: bindings_ok_def fb_live_def rb_live_def tex_bound_ok_def)
  have bound: "img_wf (s\<lparr>textures := (textures s)(n \<mapsto> x\<lparr>tx_target := Some t\<rparr>), tex_binding := (tex_binding s)(t := n)\<rparr>)"
    if x: "textures s n = Some x" "\<not> tx_deleted x" "tx_target x = None \<or> tx_target x = Some t" for x
  proof -
    let ?s1 = "s\<lparr>textures := (textures s)(n \<mapsto> x\<lparr>tx_target := Some t\<rparr>)\<rparr>"
    have w1: "img_wf ?s1"
      using x by (intro img_wf_grow [OF wf]) (simp_all add: fb_live_def rb_live_def subset_insertI, force+)
    have "tex_bound_ok ?s1 t' (((tex_binding s)(t := n)) t')" for t'
    proof (cases "t' = t")
      case False
      have "tex_bound_ok s t' (tex_binding s t')" using b by (simp add: bindings_ok_def)
      with False x show ?thesis by (auto simp: tex_bound_ok_def)
    qed (simp add: tex_bound_ok_def x)
    with b have "bindings_ok (?s1\<lparr>tex_binding := (tex_binding s)(t := n)\<rparr>)"
      by (simp add: bindings_ok_def fb_live_def rb_live_def)
    then show ?thesis by (intro img_wf_rebind [OF w1]) simp_all
  qed
  show ?thesis
    unfolding glBindTexture_def using zero bound
    by (auto simp: img_raise_wf wf split: option.splits)
qed

lemma delete_fb_wf [img_wf_intros]:
  assumes wf: "img_wf s" shows "img_wf (glDeleteFramebuffers n s)"
proof (cases "n = 0 \<or> \<not> fb_live n s")
  case False
  let ?s' = "s\<lparr>framebuffers := (framebuffers s)(n := None),
             draw_fb := (if draw_fb s = n then 0 else draw_fb s),
             read_fb := (if read_fb s = n then 0 else read_fb s)\<rparr>"
  from wf have n: "names_ok s" and b: "bindings_ok s" and a: "attach_ok s" by (rule img_wfD)+
  have "names_ok ?s'" using n by (auto simp: names_ok_def)
  moreover have "bindings_ok ?s'" using b by (auto simp: bindings_ok_def fb_live_def)
  moreover have "attach_ok ?s'" using a by (rule attach_ok_mono) (auto split: if_splits)
  ultimately show ?thesis using False by (simp add: img_wf_def glDeleteFramebuffers_def)
qed (use wf in \<open>auto simp: glDeleteFramebuffers_def\<close>)

lemma set_point_ok:
  assumes "distinct (map fst atts)" "\<forall>ax \<in> set atts. P (snd ax)" "\<And>v. x = Some v \<Longrightarrow> P v"
  shows "distinct (map fst (set_point a x atts)) \<and> (\<forall>ax \<in> set (set_point a x atts). P (snd ax))"
proof (cases x)
  case None
  with assms show ?thesis by (auto simp: set_point_def distinct_map_filter)
next
  case (Some v)
  with assms set_dict_set [of atts a v] show ?thesis by (auto simp: set_point_def)
qed

lemma set_attachment_ok:
  assumes fb: "fb_ok s fb" and x: "\<And>v. x = Some v \<Longrightarrow> att_exists s v"
  shows "fb_ok s (set_attachment a x fb)"
proof -
  have step: "distinct (map fst (set_point b x atts)) \<and> (\<forall>ax \<in> set (set_point b x atts). att_exists s (snd ax))"
    if "distinct (map fst atts) \<and> (\<forall>ax \<in> set atts. att_exists s (snd ax))" for b atts
    using that x by (intro set_point_ok) simp_all
  from fb have "distinct (map fst (fb_attach fb)) \<and> (\<forall>ax \<in> set (fb_attach fb). att_exists s (snd ax))"
    by (simp add: fb_ok_def)
  from step [OF step [OF this]] step [OF this] show ?thesis
    by (simp add: fb_ok_def set_attachment_def)
qed

lemma fb_update_wf:
  assumes wf: "img_wf s" and f: "\<And>fb. fb_ok s fb \<Longrightarrow> fb_ok s (f fb)"
  shows "img_wf (fb_update t f s)"
proof (cases "fb_of_target t s \<noteq> 0 \<and> framebuffers s (fb_of_target t s) \<noteq> None")
  case True
  then obtain fb where fb: "framebuffers s (fb_of_target t s) = Some fb" by blast
  let ?s' = "s\<lparr>framebuffers := (framebuffers s)(fb_of_target t s \<mapsto> f fb)\<rparr>"
  from wf have n: "names_ok s" and b: "bindings_ok s" and a: "attach_ok s" by (rule img_wfD)+
  have "names_ok ?s'" using n fb by (auto simp: names_ok_def)
  moreover have "bindings_ok ?s'" using b by (auto simp: bindings_ok_def fb_live_def)
  moreover have "fb_ok s (f fb)" using a fb f by (simp add: attach_ok_def)
  then have "attach_ok ?s'" using a by (auto simp: attach_ok_def)
  ultimately show ?thesis using True fb by (simp add: img_wf_def fb_update_def)
next
  case False
  then have "fb_update t f s = img_raise GL_INVALID_OPERATION s" by (auto simp: fb_update_def Let_def)
  with wf show ?thesis by (simp add: img_raise_wf)
qed

lemma tex_live_exists: "tex_live n s \<Longrightarrow> att_exists s (AttTexture n l)"
  by (auto simp: tex_live_def att_exists_def split: option.splits)

lemma rb_live_exists: "rb_live n s \<Longrightarrow> att_exists s (AttRenderbuffer n)"
  by (auto simp: rb_live_def att_exists_def split: option.splits)

lemma fb_texture_wf [img_wf_intros]: "img_wf s \<Longrightarrow> img_wf (glFramebufferTexture2D drv t a tt tex l s)"
  unfolding glFramebufferTexture2D_def
  by (auto simp: img_raise_wf intro!: fb_update_wf set_attachment_ok tex_live_exists)

lemma fb_renderbuffer_wf [img_wf_intros]: "img_wf s \<Longrightarrow> img_wf (glFramebufferRenderbuffer drv t a rt rb s)"
  unfolding glFramebufferRenderbuffer_def
  by (auto simp: img_raise_wf intro!: fb_update_wf set_attachment_ok rb_live_exists)

lemma rb_storage_wf [img_wf_intros]:
  assumes wf: "img_wf s" shows "img_wf (glRenderbufferStorageMultisample drv t k fmt w h s)"
proof -
  have upd: "img_wf (s\<lparr>renderbuffers := (renderbuffers s)(rb_binding s \<mapsto> r\<lparr>rb_storage := st\<rparr>)\<rparr>)"
    if r: "renderbuffers s (rb_binding s) = Some r" for r st
    using r by (intro img_wf_grow [OF wf]) (simp_all add: fb_live_def rb_live_def subset_insertI, force+)
  show ?thesis
    unfolding glRenderbufferStorageMultisample_def using upd
    by (auto simp: img_raise_wf wf split: option.splits)
qed

lemma rb_storage0_wf [img_wf_intros]: "img_wf s \<Longrightarrow> img_wf (glRenderbufferStorage drv t fmt w h s)"
  unfolding glRenderbufferStorage_def by (rule rb_storage_wf)

lemma tex_image_wf [img_wf_intros]: "img_wf s \<Longrightarrow> img_wf (glTexImage2D drv t l f w h b pf dt s)"
  unfolding glTexImage2D_def by (auto simp: img_raise_wf intro!: tex_update_wf)

lemma tex_image_ms_wf [img_wf_intros]: "img_wf s \<Longrightarrow> img_wf (glTexImage2DMultisample drv t k f w h fx s)"
  unfolding glTexImage2DMultisample_def by (auto simp: img_raise_wf intro!: tex_update_wf)

lemma tex_param_wf [img_wf_intros]: "img_wf s \<Longrightarrow> img_wf (glTexParameteri t p v s)"
  unfolding glTexParameteri_def by (auto simp: img_raise_wf intro!: tex_update_wf)

lemma detach_bound_wf:
  assumes wf: "img_wf s" shows "img_wf (detach_bound P s)"
proof -
  from wf have n: "names_ok s" and b: "bindings_ok s" and a: "attach_ok s" by (rule img_wfD)+
  have dom: "dom (framebuffers (detach_bound P s)) = dom (framebuffers s)"
    by (auto simp: detach_bound_def split: if_splits)
  have "names_ok (detach_bound P s)" using n dom by (simp add: names_ok_def detach_bound_def)
  moreover have "bindings_ok (detach_bound P s)"
    using b by (simp add: bindings_ok_def detach_bound_def fb_live_def)
  moreover have "attach_ok (detach_bound P s)"
    using a by (fastforce simp: attach_ok_def detach_bound_def fb_ok_def distinct_map_filter split: if_splits)
  ultimately show ?thesis by (simp add: img_wf_def)
qed

lemma detach_bound_fields [simp]:
  "renderbuffers (detach_bound P s) = renderbuffers s" "textures (detach_bound P s) = textures s"
  "draw_fb (detach_bound P s) = draw_fb s" "read_fb (detach_bound P s) = read_fb s"
  "rb_binding (detach_bound P s) = rb_binding s" "tex_binding (detach_bound P s) = tex_binding s"
  "img_next (detach_bound P s) = img_next s"
  by (simp_all add: detach_bound_def)

text \<open>The frame rule for calls that keep every table's names and change
  bindings or flags.\<close>

lemma img_wf_same_names:
  assumes wf: "img_wf s" and eq: "img_next s' = img_next s" "framebuffers s' = framebuffers s"
    "dom (renderbuffers s') = dom (renderbuffers s)" "dom (textures s') = dom (textures s)"
    and b: "bindings_ok s'"
  shows "img_wf s'"
proof -
  have "att_exists s' = att_exists s"
    using eq(3,4) by (intro ext) (simp add: att_exists_def split: attachment.split)
  then have "fb_ok s' = fb_ok s" by (simp add: fb_ok_def fun_eq_iff)
  with wf eq b show ?thesis by (simp add: img_wf_def names_ok_def attach_ok_def)
qed

lemma delete_rb_wf [img_wf_intros]:
  assumes wf: "img_wf s" shows "img_wf (glDeleteRenderbuffers n s)"
proof (cases "rb_live n s")
  case True
  let ?s1 = "detach_bound (\<lambda>x. x = AttRenderbuffer n) s"
  have w1: "img_wf ?s1" using wf by (rule detach_bound_wf)
  then have b: "bindings_ok ?s1" by (rule img_wfD)
  have "bindings_ok (?s1\<lparr>renderbuffers := (renderbuffers ?s1)(n := map_option (\<lambda>r. r\<lparr>rb_deleted := True\<rparr>) (renderbuffers ?s1 n)),
                  rb_binding := (if rb_binding ?s1 = n then 0 else rb_binding ?s1)\<rparr>)"
    using b by (auto simp: bindings_ok_def rb_live_def fb_live_def tex_bound_ok_def)
  with True show ?thesis unfolding glDeleteRenderbuffers_def Let_def
    by (intro img_wf_same_names [OF w1]) (simp_all, auto)
qed (simp add: glDeleteRenderbuffers_def wf)

lemma delete_tex_wf [img_wf_intros]:
  assumes wf: "img_wf s" shows "img_wf (glDeleteTextures n s)"
proof (cases "tex_live n s")
  case True
  let ?s1 = "detach_bound (\<lambda>x. case x of AttTexture m _ \<Rightarrow> m = n | AttRenderbuffer _ \<Rightarrow> False) s"
  have w1: "img_wf ?s1" using wf by (rule detach_bound_wf)
  then have b: "bindings_ok ?s1" by (rule img_wfD)
  have "tex_bound_ok (?s1\<lparr>textures := (textures ?s1)(n := map_option (\<lambda>t. t\<lparr>tx_deleted := True\<rparr>) (textures ?s1 n))\<rparr>)
          t (if tex_binding ?s1 t = n then 0 else tex_binding ?s1 t)" for t
  proof -
    have "tex_bound_ok ?s1 t (tex_binding ?s1 t)" using b by (simp add: bindings_ok_def)
    then show ?thesis by (auto simp: tex_bound_ok_def)
  qed
  with b have "bindings_ok (?s1\<lparr>textures := (textures ?s1)(n := map_option (\<lambda>t. t\<lparr>tx_deleted := True\<rparr>) (textures ?s1 n)),
                  tex_binding := (\<lambda>t. if tex_binding ?s1 t = n then 0 else tex_binding ?s1 t)\<rparr>)"
    by (simp add: bindings_ok_def rb_live_def fb_live_def)
  with True show ?thesis unfolding glDeleteTextures_def Let_def
    by (intro img_wf_same_names [OF w1]) (simp_all, auto)
qed (simp add: glDeleteTextures_def wf)

lemma check_status_wf [img_wf_intros]: "img_wf s \<Longrightarrow> img_wf (snd (glCheckFramebufferStatus drv t s))"
  by (auto simp: glCheckFramebufferStatus_def Let_def img_raise_wf split: option.splits)

lemma blit_wf [img_wf_intros]: "img_wf s \<Longrightarrow> img_wf (glBlitFramebuffer drv a b c d e f g h k l s)"
  by (simp add: glBlitFramebuffer_def img_raise_wf)

lemma get_integer_wf [img_wf_intros]: "img_wf s \<Longrightarrow> img_wf (snd (glGetIntegerv drv p s))"
  by (simp add: glGetIntegerv_def img_raise_wf)

end
