(* ===== verification/Framebuffers.thy ===== *)
theory Framebuffers
  imports GL_Images
begin

text \<open>
  The framebuffer, renderbuffer and texture helpers of
  \<open>psychopy/tools/gltools.py\<close> (lines 866-1494) over the context of
  \<open>GL_Images\<close>: one definition per Python function, each mapping the context
  to its result (\<open>Inl\<close> of the exception raised) and the context at the
  return or the raise.  The descriptors (\<open>Framebuffer\<close>, \<open>Renderbuffer\<close>,
  \<open>TexImage2D\<close>, \<open>TexImage2DMultisample\<close>, all \<open>namedtuple\<close>s) are records
  without their \<open>userData\<close> field, an empty dict at creation that no helper
  reads.  A Python \<open>int\<close> passed where \<open>pyglet\<close> declares a \<open>GLuint\<close> is
  converted by \<open>ctypes\<close> modulo \<open>2^32\<close>.  The implementation parameters
  (\<open>img_driver\<close>) are an explicit argument, as the driver is the environment.
\<close>

unbundle bit_operations_syntax

type_synonym 'a img_call = "img_state \<Rightarrow> 'a py_result \<times> img_state"

section \<open>Descriptors\<close>

record fbo_desc =
  fbd_id :: nat
  fbd_target :: int

record rb_desc =
  rbd_id :: nat
  rbd_target :: int
  rbd_width :: int
  rbd_height :: int
  rbd_format :: int
  rbd_samples :: int
  rbd_multisample :: bool

record tex_desc =
  txd_id :: nat
  txd_target :: int
  txd_width :: int
  txd_height :: int
  txd_format :: int
  txd_pixel_format :: int
  txd_data_type :: int
  txd_unpack_alignment :: int
  txd_samples :: int
  txd_multisample :: bool

record texms_desc =
  tmd_id :: nat
  tmd_target :: int
  tmd_width :: int
  tmd_height :: int
  tmd_format :: int
  tmd_samples :: int
  tmd_multisample :: bool

text \<open>What \<open>attach\<close> and the delete helpers may be given: one of the three
  image descriptors, or any other Python object.\<close>

datatype image_buffer = ImgTex tex_desc | ImgTexMS texms_desc | ImgRb rb_desc | ImgOther

text \<open>What \<open>useFBO\<close> and \<open>deleteFBO\<close> accept: a descriptor, or an \<open>int\<close>.\<close>

datatype fbo_ref = FboDesc fbo_desc | FboName int

definition ctypes_uint :: "int \<Rightarrow> nat" where
  "ctypes_uint i = unat (word_of_int i :: 32 word)"

text \<open>\<open>fbo.id if isinstance(fbo, Framebuffer) else int(fbo)\<close>, as the
  \<open>GLuint\<close> argument of \<open>glBindFramebuffer\<close>.\<close>

definition fbo_name :: "fbo_ref \<Rightarrow> nat" where
  "fbo_name fbo = (case fbo of FboDesc d \<Rightarrow> fbd_id d | FboName i \<Rightarrow> ctypes_uint i)"

section \<open>Queries\<close>

definition getIntegerv :: "img_driver \<Rightarrow> int \<Rightarrow> img_state \<Rightarrow> int \<times> img_state" where
  "getIntegerv drv parName s = glGetIntegerv drv parName s"

text \<open>The power-of-two test of the sample counts, \<open>samples & (samples - 1)\<close>.\<close>

definition pow2_test :: "int \<Rightarrow> bool" where
  "pow2_test samples \<longleftrightarrow> samples AND (samples - 1) = 0"

section \<open>Framebuffer objects\<close>

text \<open>The context manager: the draw binding is read, the framebuffer bound
  to \<open>GL_FRAMEBUFFER\<close>, the body run, and in the \<open>finally\<close> clause the value
  read is bound again to \<open>GL_FRAMEBUFFER\<close>, whether the body returned or
  raised; the body's exception then propagates.\<close>

definition useFBO :: "img_driver \<Rightarrow> fbo_ref \<Rightarrow> (nat \<Rightarrow> 'a img_call) \<Rightarrow> 'a img_call" where
  "useFBO drv fbo body s =
     (let (prevFBO, s1) = glGetIntegerv drv GL_FRAMEBUFFER_BINDING s;
          toBind = fbo_name fbo;
          s2 = glBindFramebuffer GL_FRAMEBUFFER toBind s1;
          (r, s3) = body toBind s2
      in (r, glBindFramebuffer GL_FRAMEBUFFER (ctypes_uint prevFBO) s3))"

definition attach :: "img_driver \<Rightarrow> int \<Rightarrow> image_buffer \<Rightarrow> img_state \<Rightarrow> img_state" where
  "attach drv attachPoint imageBuffer s =
     (case imageBuffer of
        ImgTex t \<Rightarrow> glFramebufferTexture2D drv GL_FRAMEBUFFER attachPoint (txd_target t) (txd_id t) 0 s
      | ImgTexMS t \<Rightarrow> glFramebufferTexture2D drv GL_FRAMEBUFFER attachPoint (tmd_target t) (tmd_id t) 0 s
      | ImgRb r \<Rightarrow> glFramebufferRenderbuffer drv GL_FRAMEBUFFER attachPoint (rbd_target r) (rbd_id r) s
      | ImgOther \<Rightarrow> s)"

definition attach_all :: "img_driver \<Rightarrow> (int \<times> image_buffer) list \<Rightarrow> img_state \<Rightarrow> img_state" where
  "attach_all drv attachments s = fold (\<lambda>(attachPoint, imageBuffer). attach drv attachPoint imageBuffer) attachments s"

definition createFBO :: "img_driver \<Rightarrow> (int \<times> image_buffer) list \<Rightarrow> fbo_desc img_call" where
  "createFBO drv attachments s =
     (let (fboId, s1) = glGenFramebuffers s;
          fboDesc = \<lparr>fbd_id = fboId, fbd_target = GL_FRAMEBUFFER\<rparr>
      in if attachments \<noteq> [] then
           (case useFBO drv (FboDesc fboDesc) (\<lambda>_ st. (Inr (), attach_all drv attachments st)) s1 of
              (Inl e, s2) \<Rightarrow> (Inl e, s2)
            | (Inr _, s2) \<Rightarrow> (Inr fboDesc, s2))
         else (Inr fboDesc, s1))"

definition isComplete :: "img_driver \<Rightarrow> img_state \<Rightarrow> bool \<times> img_state" where
  "isComplete drv s =
     (let (status, s1) = glCheckFramebufferStatus drv GL_FRAMEBUFFER s
      in (status = GL_FRAMEBUFFER_COMPLETE, s1))"

text \<open>\<open>glDeleteFramebuffers(1, fbo.id if ... else int(fbo))\<close>: \<open>pyglet\<close>
  declares the second argument \<open>POINTER(GLuint)\<close>; \<open>ctypes\<close> passes a
  \<open>GLuint\<close> (the descriptor's id) by reference, and refuses a Python \<open>int\<close>.\<close>

definition deleteFBO :: "fbo_ref \<Rightarrow> unit img_call" where
  "deleteFBO fbo s =
     (case fbo of
        FboDesc d \<Rightarrow> (Inr (), glDeleteFramebuffers (fbd_id d) s)
      | FboName i \<Rightarrow>
          (Inl (ArgumentError ''argument 2: <class 'TypeError'>: expected LP_c_uint instance instead of int''), s))"

text \<open>\<open>srcRect[0]\<close> ... \<open>dstRect[3]\<close>, evaluated left to right.\<close>

definition rect4 :: "int list \<Rightarrow> (int \<times> int \<times> int \<times> int) py_result" where
  "rect4 r =
     (case py_index r 0 of Inl e \<Rightarrow> Inl e | Inr x0 \<Rightarrow>
      (case py_index r 1 of Inl e \<Rightarrow> Inl e | Inr y0 \<Rightarrow>
       (case py_index r 2 of Inl e \<Rightarrow> Inl e | Inr x1 \<Rightarrow>
        (case py_index r 3 of Inl e \<Rightarrow> Inl e | Inr y1 \<Rightarrow> Inr (x0, y0, x1, y1)))))"

definition blitFBO :: "img_driver \<Rightarrow> int list \<Rightarrow> int list option \<Rightarrow> int \<Rightarrow> unit img_call" where
  "blitFBO drv srcRect dstRect filt s =
     (let dst = (case dstRect of None \<Rightarrow> srcRect | Some d \<Rightarrow> d) in
      (case rect4 srcRect of Inl e \<Rightarrow> (Inl e, s) | Inr (sx0, sy0, sx1, sy1) \<Rightarrow>
       (case rect4 dst of Inl e \<Rightarrow> (Inl e, s) | Inr (dx0, dy0, dx1, dy1) \<Rightarrow>
          (Inr (), glBlitFramebuffer drv sx0 sy0 sx1 sy1 dx0 dy0 dx1 dy1 GL_COLOR_BUFFER_BIT filt s))))"

section \<open>Renderbuffers\<close>

definition rb_result :: "nat \<Rightarrow> int \<Rightarrow> int \<Rightarrow> int \<Rightarrow> int \<Rightarrow> img_state \<Rightarrow> rb_desc py_result \<times> img_state" where
  "rb_result rbId width height internalFormat samples s =
     (Inr \<lparr>rbd_id = rbId, rbd_target = GL_RENDERBUFFER, rbd_width = width, rbd_height = height,
           rbd_format = internalFormat, rbd_samples = samples, rbd_multisample = (1 < samples)\<rparr>,
      glBindRenderbuffer GL_RENDERBUFFER 0 s)"

text \<open>The renderbuffer is generated and bound before \<open>samples\<close> is checked.\<close>

definition createRenderbuffer :: "img_driver \<Rightarrow> int \<Rightarrow> int \<Rightarrow> int \<Rightarrow> int \<Rightarrow> rb_desc img_call" where
  "createRenderbuffer drv width height internalFormat samples s =
     (let (rbId, s1) = glGenRenderbuffers s;
          s2 = glBindRenderbuffer GL_RENDERBUFFER rbId s1
      in if 1 < samples then
           (let (maxSamples, s3) = getIntegerv drv GL_MAX_SAMPLES s2
            in if \<not> pow2_test samples then
                 (Inl (ValueError ''Invalid number of samples, must be power-of-two.''), s3)
               else if maxSamples < samples then
                 (Inl (ValueError (''Invalid number of samples, must be <'' @ int_str maxSamples @ ''.'')), s3)
               else rb_result rbId width height internalFormat samples
                      (glRenderbufferStorageMultisample drv GL_RENDERBUFFER samples internalFormat width height s3))
         else rb_result rbId width height internalFormat samples
                (glRenderbufferStorage drv GL_RENDERBUFFER internalFormat width height s2))"

text \<open>\<open>renderBuffer.id\<close> and \<open>texture.id\<close>: any descriptor has an \<open>id\<close>;
  another object raises \<open>AttributeError\<close>.\<close>

definition buffer_id :: "image_buffer \<Rightarrow> nat py_result" where
  "buffer_id b =
     (case b of ImgTex t \<Rightarrow> Inr (txd_id t) | ImgTexMS t \<Rightarrow> Inr (tmd_id t) | ImgRb r \<Rightarrow> Inr (rbd_id r)
      | ImgOther \<Rightarrow> Inl (AttributeError ''id''))"

definition deleteRenderbuffer :: "image_buffer \<Rightarrow> unit img_call" where
  "deleteRenderbuffer renderBuffer s =
     (case buffer_id renderBuffer of Inl e \<Rightarrow> (Inl e, s) | Inr n \<Rightarrow> (Inr (), glDeleteRenderbuffers n s))"

section \<open>Textures\<close>

definition dims_error :: "int \<Rightarrow> int \<Rightarrow> py_error" where
  "dims_error width height =
     ValueError (''Invalid image dimensions '' @ int_str width @ '' x '' @ int_str height @ ''.'')"

definition set_tex_params :: "int \<Rightarrow> (int \<times> int) list \<Rightarrow> img_state \<Rightarrow> img_state" where
  "set_tex_params target texParameters s = fold (\<lambda>(pname, param). glTexParameteri target pname param) texParameters s"

definition createTexImage2D :: "img_driver \<Rightarrow> int \<Rightarrow> int \<Rightarrow> int \<Rightarrow> int \<Rightarrow> int \<Rightarrow> int \<Rightarrow> int \<Rightarrow> int \<Rightarrow>
    (int \<times> int) list \<Rightarrow> tex_desc img_call" where
  "createTexImage2D drv width height target level internalFormat pixelFormat dataType unpackAlignment
       texParameters s =
     (if width \<le> 0 \<or> height \<le> 0 then (Inl (dims_error width height), s)
      else if target = GL_TEXTURE_RECTANGLE \<and> level \<noteq> 0 then
        (Inl (ValueError ''Invalid level for target GL_TEXTURE_RECTANGLE, must be 0.''), s)
      else
        (let s0 = (if target = GL_TEXTURE_RECTANGLE then glEnable GL_TEXTURE_RECTANGLE s else s);
             (colorTexId, s1) = glGenTextures s0;
             s2 = glBindTexture target colorTexId s1;
             s3 = glPixelStorei GL_UNPACK_ALIGNMENT unpackAlignment s2;
             s4 = glTexImage2D drv target level internalFormat width height 0 pixelFormat dataType s3;
             s5 = set_tex_params target texParameters s4;
             s6 = glBindTexture target 0 s5
         in (Inr \<lparr>txd_id = colorTexId, txd_target = target, txd_width = width, txd_height = height,
                  txd_format = internalFormat, txd_pixel_format = pixelFormat, txd_data_type = dataType,
                  txd_unpack_alignment = unpackAlignment, txd_samples = 1, txd_multisample = False\<rparr>, s6)))"

text \<open>Here \<open>samples\<close> is checked before any object is made.\<close>

definition createTexImage2DMultisample :: "img_driver \<Rightarrow> int \<Rightarrow> int \<Rightarrow> int \<Rightarrow> int \<Rightarrow> int \<Rightarrow>
    (int \<times> int) list \<Rightarrow> texms_desc img_call" where
  "createTexImage2DMultisample drv width height target samples internalFormat texParameters s =
     (if width \<le> 0 \<or> height \<le> 0 then (Inl (dims_error width height), s)
      else
        (let (maxSamples, s1) = getIntegerv drv GL_MAX_SAMPLES s
         in if \<not> pow2_test samples then
              (Inl (ValueError ''Invalid number of samples, must be power-of-two.''), s1)
            else if samples \<le> 0 \<or> maxSamples < samples then
              (Inl (ValueError (''Invalid number of samples, must be <'' @ int_str maxSamples @ ''.'')), s1)
            else
              (let (colorTexId, s2) = glGenTextures s1;
                   s3 = glBindTexture target colorTexId s2;
                   s4 = glTexImage2DMultisample drv target samples internalFormat width height GL_TRUE s3;
                   s5 = set_tex_params target texParameters s4;
                   s6 = glBindTexture target 0 s5
               in (Inr \<lparr>tmd_id = colorTexId, tmd_target = target, tmd_width = width, tmd_height = height,
                        tmd_format = internalFormat, tmd_samples = samples, tmd_multisample = True\<rparr>, s6))))"

definition deleteTexture :: "image_buffer \<Rightarrow> unit img_call" where
  "deleteTexture texture s =
     (case buffer_id texture of Inl e \<Rightarrow> (Inl e, s) | Inr n \<Rightarrow> (Inr (), glDeleteTextures n s))"

section \<open>Sequences of helper calls\<close>

text \<open>A program's use of the helpers as a sequence of calls: one
  constructor per helper, with its arguments; \<open>UseFBO\<close> runs a body
  attaching images, as the \<open>with useFBO(fbo):\<close> blocks of the module do.\<close>

datatype img_op =
    CreateFBO "(int \<times> image_buffer) list"
  | UseFBO fbo_ref "(int \<times> image_buffer) list"
  | IsComplete
  | DeleteFBO fbo_ref
  | BlitFBO "int list" "int list option" int
  | CreateRenderbuffer int int int int
  | DeleteRenderbuffer image_buffer
  | CreateTexImage2D int int int int int int int int "(int \<times> int) list"
  | CreateTexImage2DMultisample int int int int int "(int \<times> int) list"
  | DeleteTexture image_buffer

definition run_img_op :: "img_driver \<Rightarrow> img_op \<Rightarrow> img_state \<Rightarrow> img_state" where
  "run_img_op drv op s =
     (case op of
        CreateFBO atts \<Rightarrow> snd (createFBO drv atts s)
      | UseFBO fbo atts \<Rightarrow> snd (useFBO drv fbo (\<lambda>_ st. (Inr (), attach_all drv atts st)) s)
      | IsComplete \<Rightarrow> snd (isComplete drv s)
      | DeleteFBO fbo \<Rightarrow> snd (deleteFBO fbo s)
      | BlitFBO r d f \<Rightarrow> snd (blitFBO drv r d f s)
      | CreateRenderbuffer w h f k \<Rightarrow> snd (createRenderbuffer drv w h f k s)
      | DeleteRenderbuffer b \<Rightarrow> snd (deleteRenderbuffer b s)
      | CreateTexImage2D w h t l f pf dt a ps \<Rightarrow> snd (createTexImage2D drv w h t l f pf dt a ps s)
      | CreateTexImage2DMultisample w h t k f ps \<Rightarrow> snd (createTexImage2DMultisample drv w h t k f ps s)
      | DeleteTexture b \<Rightarrow> snd (deleteTexture b s))"

text \<open>The contexts a program reaches from a fresh context by helper calls,
  whatever each call returned or raised.\<close>

inductive img_reachable :: "img_driver \<Rightarrow> img_state \<Rightarrow> bool" for drv where
  init: "img_reachable drv img_init"
| step: "img_reachable drv s \<Longrightarrow> img_reachable drv (run_img_op drv op s)"

section \<open>Example contexts\<close>


text \<open>A concrete implementation and context, for the witnesses: eight samples,
  textures up to 4096 pixels, eight colour attachments, \<open>GL_RGBA8\<close> colour
  renderable; one framebuffer object, unbound.\<close>

definition demo_driver :: img_driver where
  "demo_driver = \<lparr>idrv_max_samples = 8, idrv_max_size = 4096, idrv_max_color_attachments = 8,
     idrv_color_renderable = (\<lambda>f. f = GL_RGBA8), idrv_depth_renderable = (\<lambda>_. False),
     idrv_stencil_renderable = (\<lambda>_. False)\<rparr>"

definition one_fbo :: img_state where
  "one_fbo = img_init\<lparr>img_next := 2, framebuffers := [1 \<mapsto> \<lparr>fb_attach = []\<rparr>]\<rparr>"

section \<open>Preservation of the invariant\<close>
lemma useFBO_wf:
  assumes "img_wf s" and "\<And>n st. img_wf st \<Longrightarrow> img_wf (snd (body n st))"
  shows "img_wf (snd (useFBO drv fbo body s))"
  using assms by (simp add: useFBO_def split_def Let_def get_integer_wf bind_fb_wf)

lemma attach_wf [img_wf_intros]: "img_wf s \<Longrightarrow> img_wf (attach drv a b s)"
  by (simp add: attach_def fb_texture_wf fb_renderbuffer_wf split: image_buffer.split)

lemma attach_all_wf [img_wf_intros]: "img_wf s \<Longrightarrow> img_wf (attach_all drv atts s)"
  unfolding attach_all_def
  by (induction atts arbitrary: s) (auto simp: attach_wf)

lemma createFBO_wf [img_wf_intros]: "img_wf s \<Longrightarrow> img_wf (snd (createFBO drv atts s))"
  unfolding createFBO_def
  by (auto simp: split_def Let_def gen_fb_wf intro!: useFBO_wf attach_all_wf split: sum.split prod.split)

lemma isComplete_wf [img_wf_intros]: "img_wf s \<Longrightarrow> img_wf (snd (isComplete drv s))"
  by (simp add: isComplete_def split_def Let_def check_status_wf)

lemma deleteFBO_wf [img_wf_intros]: "img_wf s \<Longrightarrow> img_wf (snd (deleteFBO fbo s))"
  by (simp add: deleteFBO_def delete_fb_wf split: fbo_ref.split)

lemma blitFBO_wf [img_wf_intros]: "img_wf s \<Longrightarrow> img_wf (snd (blitFBO drv r d f s))"
  by (simp add: blitFBO_def blit_wf split: sum.split prod.split)

lemma rb_result_wf: "img_wf s \<Longrightarrow> img_wf (snd (rb_result n w h f k s))"
  by (simp add: rb_result_def bind_rb_wf)

lemma createRenderbuffer_wf [img_wf_intros]: "img_wf s \<Longrightarrow> img_wf (snd (createRenderbuffer drv w h f k s))"
  unfolding createRenderbuffer_def getIntegerv_def
  by (simp add: split_def Let_def rb_result_wf rb_storage_wf rb_storage0_wf get_integer_wf bind_rb_wf gen_rb_wf)

lemma deleteRenderbuffer_wf [img_wf_intros]: "img_wf s \<Longrightarrow> img_wf (snd (deleteRenderbuffer b s))"
  by (simp add: deleteRenderbuffer_def delete_rb_wf split: sum.split)

lemma set_tex_params_wf [img_wf_intros]: "img_wf s \<Longrightarrow> img_wf (set_tex_params t ps s)"
  unfolding set_tex_params_def
  by (induction ps arbitrary: s) (auto simp: tex_param_wf)

lemma createTexImage2D_wf [img_wf_intros]:
  "img_wf s \<Longrightarrow> img_wf (snd (createTexImage2D drv w h t l f pf dt a ps s))"
  unfolding createTexImage2D_def
  by (simp add: split_def Let_def bind_tex_wf set_tex_params_wf tex_image_wf pixel_store_wf gen_tex_wf enable_wf)

lemma createTexImage2DMultisample_wf [img_wf_intros]:
  "img_wf s \<Longrightarrow> img_wf (snd (createTexImage2DMultisample drv w h t k f ps s))"
  unfolding createTexImage2DMultisample_def getIntegerv_def
  by (simp add: split_def Let_def bind_tex_wf set_tex_params_wf tex_image_ms_wf gen_tex_wf get_integer_wf)

lemma deleteTexture_wf [img_wf_intros]: "img_wf s \<Longrightarrow> img_wf (snd (deleteTexture b s))"
  by (simp add: deleteTexture_def delete_tex_wf split: sum.split)

section \<open>Functional behaviour\<close>


lemma ctypes_uint_int [simp]: "n < 2 ^ 32 \<Longrightarrow> ctypes_uint (int n) = n"
  by (simp add: ctypes_uint_def unat_of_nat)

lemma enum_facts [simp]:
  "is_fb_target GL_FRAMEBUFFER" "GL_FRAMEBUFFER \<noteq> GL_READ_FRAMEBUFFER" "GL_FRAMEBUFFER \<noteq> GL_DRAW_FRAMEBUFFER"
  "GL_FRAMEBUFFER_BINDING \<noteq> GL_READ_FRAMEBUFFER_BINDING"
  by (simp_all add: is_fb_target_def gl_enum_defs)

lemma bind_fb_live:
  "n = 0 \<or> fb_live n s \<Longrightarrow> glBindFramebuffer GL_FRAMEBUFFER n s = s\<lparr>draw_fb := n, read_fb := n\<rparr>"
  by (auto simp: glBindFramebuffer_def)

lemma useFBO_eq:
  "useFBO drv fbo body s =
     (let (r, t) = body (fbo_name fbo) (glBindFramebuffer GL_FRAMEBUFFER (fbo_name fbo) s)
      in (r, glBindFramebuffer GL_FRAMEBUFFER (ctypes_uint (int (draw_fb s))) t))"
  by (simp add: useFBO_def glGetIntegerv_def Let_def)

text \<open>C22: useFBO runs its body with the framebuffer bound and afterwards binds the previously read draw binding to GL_FRAMEBUFFER, so the read binding becomes the previous draw binding, not the previous read binding.\<close>

theorem useFBO_binding:
  assumes "draw_fb s < 2 ^ 32"
    and "body (fbo_name fbo) (glBindFramebuffer GL_FRAMEBUFFER (fbo_name fbo) s) = (r, t)"
    and "draw_fb s = 0 \<or> fb_live (draw_fb s) t"
  shows "useFBO drv fbo body s = (r, t\<lparr>draw_fb := draw_fb s, read_fb := draw_fb s\<rparr>)"
  using assms by (simp add: useFBO_eq bind_fb_live)

lemma fb_update_fields [simp]:
  "draw_fb (fb_update t f s) = draw_fb s" "read_fb (fb_update t f s) = read_fb s"
  "fb_live n (fb_update t f s) = fb_live n s"
  by (auto simp: fb_update_def Let_def fb_live_def img_raise_def split: option.splits)

lemma img_raise_live [simp]: "fb_live n (img_raise e s) = fb_live n s"
  by (simp add: fb_live_def)

lemma attach_fields [simp]:
  "draw_fb (attach drv a b s) = draw_fb s" "read_fb (attach drv a b s) = read_fb s"
  "fb_live n (attach drv a b s) = fb_live n s"
  by (simp_all add: attach_def glFramebufferTexture2D_def glFramebufferRenderbuffer_def
      split: image_buffer.split)

lemma attach_all_fields [simp]:
  "draw_fb (attach_all drv atts s) = draw_fb s" "read_fb (attach_all drv atts s) = read_fb s"
  "fb_live n (attach_all drv atts s) = fb_live n s"
  unfolding attach_all_def by (induction atts arbitrary: s) auto

lemma bindings_okD:
  "bindings_ok s \<Longrightarrow> draw_fb s = 0 \<or> fb_live (draw_fb s) s"
  by (simp add: bindings_ok_def)

lemma createFBO_eq:
  assumes wf: "img_wf s" and lt: "draw_fb s < 2 ^ 32" and ne: "atts \<noteq> []"
  shows "createFBO drv atts s =
    (Inr \<lparr>fbd_id = img_next s, fbd_target = GL_FRAMEBUFFER\<rparr>,
     (attach_all drv atts (s\<lparr>img_next := Suc (img_next s), framebuffers := (framebuffers s)(img_next s \<mapsto> \<lparr>fb_attach = []\<rparr>),
        draw_fb := img_next s, read_fb := img_next s\<rparr>))\<lparr>draw_fb := draw_fb s, read_fb := draw_fb s\<rparr>)"
proof -
  have prev: "draw_fb s = 0 \<or> fb_live (draw_fb s) s" using wf by (simp add: img_wf_def bindings_okD)
  let ?s1 = "s\<lparr>img_next := Suc (img_next s), framebuffers := (framebuffers s)(img_next s \<mapsto> \<lparr>fb_attach = []\<rparr>)\<rparr>"
  have s1: "glGenFramebuffers s = (img_next s, ?s1)" by (simp add: glGenFramebuffers_def img_gen_def)
  have live1: "fb_live n ?s1 \<longleftrightarrow> fb_live n s \<or> n = img_next s" for n
    by (auto simp: fb_live_def)
  let ?t = "attach_all drv atts (?s1\<lparr>draw_fb := img_next s, read_fb := img_next s\<rparr>)"
  have "fb_live n ?t \<longleftrightarrow> fb_live n s \<or> n = img_next s" for n by (simp add: live1)
  with prev have pt: "draw_fb s = 0 \<or> fb_live (draw_fb s) ?t" by blast
  have b1: "glBindFramebuffer GL_FRAMEBUFFER (img_next s) ?s1 = ?s1\<lparr>draw_fb := img_next s, read_fb := img_next s\<rparr>"
    by (rule bind_fb_live) (simp add: live1)
  have c: "ctypes_uint (int (draw_fb ?s1)) = draw_fb s" using lt by simp
  have "useFBO drv (FboDesc \<lparr>fbd_id = img_next s, fbd_target = GL_FRAMEBUFFER\<rparr>)
           (\<lambda>_ st. (Inr (), attach_all drv atts st)) ?s1 =
        (Inr (), ?t\<lparr>draw_fb := draw_fb s, read_fb := draw_fb s\<rparr>)"
    unfolding useFBO_eq fbo_name_def fbo_ref.case fbo_desc.select_convs b1 c Let_def prod.case
    by (rule arg_cong [where f = "Pair (Inr ())"], rule bind_fb_live [OF pt])
  then show ?thesis using ne s1 by (simp add: createFBO_def)
qed

lemma attach_all_other:
  "list_all (\<lambda>(_, b). b = ImgOther) atts \<Longrightarrow> attach_all drv atts s = s"
  by (induction atts arbitrary: s) (auto simp: attach_all_def attach_def)

text \<open>C21: createFBO returns a descriptor of a fresh framebuffer object, live afterwards, and leaves the draw binding as it found it.\<close>

theorem createFBO_fresh:
  assumes wf: "img_wf s" and lt: "draw_fb s < 2 ^ 32"
  shows "fst (createFBO drv atts s) = Inr \<lparr>fbd_id = img_next s, fbd_target = GL_FRAMEBUFFER\<rparr> \<and>
         draw_fb (snd (createFBO drv atts s)) = draw_fb s \<and>
         fb_live (img_next s) (snd (createFBO drv atts s)) \<and> \<not> fb_live (img_next s) s"
proof -
  have fresh: "\<not> fb_live (img_next s) s" using wf names_ok_fresh by (simp add: img_wf_def fb_live_def)
  show ?thesis
  proof (cases "atts = []")
    case True
    then show ?thesis using fresh
      by (simp add: createFBO_def glGenFramebuffers_def img_gen_def fb_live_def)
  next
    case False
    have "fb_live (img_next s) (s\<lparr>img_next := Suc (img_next s),
        framebuffers := (framebuffers s)(img_next s \<mapsto> \<lparr>fb_attach = []\<rparr>), draw_fb := img_next s,
        read_fb := img_next s\<rparr>)" by (simp add: fb_live_def)
    then show ?thesis using fresh createFBO_eq [OF wf lt False] by simp
  qed
qed

text \<open>isComplete on a bound framebuffer without attachments is False and changes nothing.\<close>

theorem isComplete_missing:
  assumes "draw_fb s \<noteq> 0" and "framebuffers s (draw_fb s) = Some fb" and "fb_attach fb = []"
  shows "isComplete drv s = (False, s)"
  using assms by (simp add: isComplete_def glCheckFramebufferStatus_def fb_status_def fb_of_target_def
      is_fb_target_def gl_enum_defs)

text \<open>C20: createFBO given only attachments that are neither texture nor renderbuffer descriptors (a GL name as an int, say) raises nothing and records no GL error: it returns a fresh framebuffer with no attachment, leaving the context as glGenFramebuffers left it apart from the read binding, and once bound that framebuffer is incomplete.\<close>

theorem createFBO_unknown_images:
  assumes "img_wf s" and "draw_fb s < 2 ^ 32" and "atts \<noteq> []" and "list_all (\<lambda>(_, b). b = ImgOther) atts"
  shows "createFBO drv atts s =
      (Inr \<lparr>fbd_id = img_next s, fbd_target = GL_FRAMEBUFFER\<rparr>,
       s\<lparr>img_next := Suc (img_next s), framebuffers := (framebuffers s)(img_next s \<mapsto> \<lparr>fb_attach = []\<rparr>),
         read_fb := draw_fb s\<rparr>) \<and>
    fst (isComplete drv (glBindFramebuffer GL_FRAMEBUFFER (img_next s) (snd (createFBO drv atts s)))) = False"
proof -
  have eq: "createFBO drv atts s =
      (Inr \<lparr>fbd_id = img_next s, fbd_target = GL_FRAMEBUFFER\<rparr>,
       s\<lparr>img_next := Suc (img_next s), framebuffers := (framebuffers s)(img_next s \<mapsto> \<lparr>fb_attach = []\<rparr>),
         read_fb := draw_fb s\<rparr>)"
    using createFBO_eq [OF assms(1-3)] attach_all_other [OF assms(4)] by simp
  have "img_next s \<noteq> 0" using assms(1) by (simp add: img_wf_def names_ok_def)
  then show ?thesis
    using eq isComplete_missing [where fb = "\<lparr>fb_attach = []\<rparr>" and drv = drv]
    by (simp add: bind_fb_live fb_live_def)
qed

lemma gen_rb_eq:
  "glGenRenderbuffers s = (img_next s, s\<lparr>img_next := Suc (img_next s),
     renderbuffers := (renderbuffers s)(img_next s \<mapsto> \<lparr>rb_storage = None, rb_deleted = False\<rparr>)\<rparr>)"
  by (simp add: glGenRenderbuffers_def img_gen_def)

lemma rb_enum [simp]: "GL_MAX_SAMPLES \<noteq> GL_FRAMEBUFFER_BINDING" "GL_MAX_SAMPLES \<noteq> GL_READ_FRAMEBUFFER_BINDING"
  by (simp_all add: gl_enum_defs)

text \<open>With valid dimensions, format and sample count, createRenderbuffer returns the descriptor of a fresh renderbuffer whose storage has the requested size, format and samples (0 when at most one), and leaves GL_RENDERBUFFER unbound.\<close>

theorem createRenderbuffer_ok:
  assumes n: "0 < img_next s" and dims: "0 \<le> w" "0 \<le> h" "w \<le> idrv_max_size drv" "h \<le> idrv_max_size drv"
    and fmt: "idrv_color_renderable drv f \<or> idrv_depth_renderable drv f \<or> idrv_stencil_renderable drv f"
    and k: "k \<le> 1 \<or> (pow2_test k \<and> k \<le> idrv_max_samples drv)" and m: "0 \<le> idrv_max_samples drv"
  shows "createRenderbuffer drv w h f k s =
     (Inr \<lparr>rbd_id = img_next s, rbd_target = GL_RENDERBUFFER, rbd_width = w, rbd_height = h, rbd_format = f,
           rbd_samples = k, rbd_multisample = (1 < k)\<rparr>,
      s\<lparr>img_next := Suc (img_next s),
        renderbuffers := (renderbuffers s)(img_next s \<mapsto>
          \<lparr>rb_storage = Some (w, h, f, if 1 < k then k else 0), rb_deleted = False\<rparr>),
        rb_binding := 0\<rparr>)"
  using assms
  by (auto simp: createRenderbuffer_def gen_rb_eq glBindRenderbuffer_def rb_live_def getIntegerv_def
      glGetIntegerv_def glRenderbufferStorage_def glRenderbufferStorageMultisample_def rb_result_def)

text \<open>C24: a sample count above one that is not a power of two makes createRenderbuffer raise ValueError after it has generated a renderbuffer and bound it: the object stays allocated and bound.\<close>

theorem createRenderbuffer_leak:
  assumes "0 < img_next s" and "1 < k" and "\<not> pow2_test k"
  shows "createRenderbuffer drv w h f k s =
     (Inl (ValueError ''Invalid number of samples, must be power-of-two.''),
      s\<lparr>img_next := Suc (img_next s),
        renderbuffers := (renderbuffers s)(img_next s \<mapsto> \<lparr>rb_storage = None, rb_deleted = False\<rparr>),
        rb_binding := img_next s\<rparr>)"
  using assms
  by (simp add: createRenderbuffer_def gen_rb_eq glBindRenderbuffer_def rb_live_def getIntegerv_def
      glGetIntegerv_def)

text \<open>C29: the test samples AND (samples - 1) = 0 on a positive count holds exactly for powers of two.\<close>

theorem pow2_test_iff: "0 < n \<Longrightarrow> pow2_test n \<longleftrightarrow> (\<exists>k. n = 2 ^ k)"
proof -
  assume "0 < n"
  then obtain m where m: "n = int m" "0 < m" by (metis zero_less_imp_eq_int)
  have e: "n AND (n - 1) = int (m AND (m - 1))" using m by (simp add: of_nat_and_eq)
  then have "pow2_test n \<longleftrightarrow> m AND (m - 1) = 0" by (simp add: pow2_test_def)
  also have "\<dots> \<longleftrightarrow> (\<exists>k. m = 2 ^ k)" using m(2) by (rule nat_and_pred_pow2)
  also have "\<dots> \<longleftrightarrow> (\<exists>k. n = 2 ^ k)" using m(1) by simp
  finally show ?thesis .
qed

lemma gen_tex_eq:
  "glGenTextures s = (img_next s, s\<lparr>img_next := Suc (img_next s),
     textures := (textures s)(img_next s \<mapsto>
       \<lparr>tx_target = None, tx_images = Map.empty, tx_samples = 0, tx_params = [], tx_deleted = False\<rparr>)\<rparr>)"
  by (simp add: glGenTextures_def img_gen_def)

lemma set_tex_params_bound:
  assumes "is_tex_target t" "tex_binding s t = n" "n \<noteq> 0" "textures s n = Some x"
  shows "set_tex_params t ps s =
           s\<lparr>textures := (textures s)(n \<mapsto> x\<lparr>tx_params := fold (\<lambda>(p, v) qs. dict_set qs p v) ps (tx_params x)\<rparr>)\<rparr>"
  using assms
proof (induction ps arbitrary: s x)
  case Nil
  then show ?case by (simp add: set_tex_params_def map_upd_triv)
next
  case (Cons pv ps)
  obtain p v where pv: "pv = (p, v)" by fastforce
  let ?s = "s\<lparr>textures := (textures s)(n \<mapsto> x\<lparr>tx_params := dict_set (tx_params x) p v\<rparr>)\<rparr>"
  have step: "glTexParameteri t p v s = ?s"
    using Cons.prems by (simp add: glTexParameteri_def tex_update_def)
  have "set_tex_params t (pv # ps) s = set_tex_params t ps (glTexParameteri t p v s)"
    by (simp add: set_tex_params_def pv)
  also have "\<dots> = set_tex_params t ps ?s" by (simp only: step)
  also have "\<dots> = ?s\<lparr>textures := (textures ?s)(n \<mapsto> (x\<lparr>tx_params := dict_set (tx_params x) p v\<rparr>)\<lparr>tx_params :=
         fold (\<lambda>(p, v) qs. dict_set qs p v) ps (tx_params (x\<lparr>tx_params := dict_set (tx_params x) p v\<rparr>))\<rparr>)\<rparr>"
    using Cons.prems by (intro Cons.IH) simp_all
  also have "\<dots> = s\<lparr>textures := (textures s)(n \<mapsto> x\<lparr>tx_params := fold (\<lambda>(p, v) qs. dict_set qs p v) (pv # ps) (tx_params x)\<rparr>)\<rparr>"
    by (simp add: pv)
  finally show ?case .
qed

lemma tex_enum [simp]:
  "is_tex_target GL_TEXTURE_2D" "is_tex_target GL_TEXTURE_RECTANGLE" "is_tex_target GL_TEXTURE_2D_MULTISAMPLE"
  "GL_TEXTURE_2D \<noteq> GL_TEXTURE_RECTANGLE"
  by (simp_all add: is_tex_target_def gl_enum_defs)

lemma createTexImage2D_Inr:
  assumes "0 < w" "0 < h" "\<not> (t = GL_TEXTURE_RECTANGLE \<and> l \<noteq> 0)"
  shows "\<not> isl (fst (createTexImage2D drv w h t l f pf dt a ps s))"
  using assms unfolding createTexImage2D_def Let_def by (simp add: case_prod_beta)

text \<open>Every exception of createTexImage2D is raised before any GL call, with the state unchanged, and is one of its two ValueErrors.\<close>

theorem createTexImage2D_error:
  assumes "fst (createTexImage2D drv w h t l f pf dt a ps s) = Inl e"
  shows "snd (createTexImage2D drv w h t l f pf dt a ps s) = s \<and>
         (e = dims_error w h \<or> e = ValueError ''Invalid level for target GL_TEXTURE_RECTANGLE, must be 0.'')"
proof (cases "w \<le> 0 \<or> h \<le> 0")
  case True
  with assms show ?thesis by (simp add: createTexImage2D_def)
next
  case False
  show ?thesis
  proof (cases "t = GL_TEXTURE_RECTANGLE \<and> l \<noteq> 0")
    case True
    with False assms show ?thesis by (simp add: createTexImage2D_def)
  next
    case False': False
    from createTexImage2D_Inr [of w h t l drv f pf dt a ps s] False False' assms show ?thesis by simp
  qed
qed

lemma glTexImage2D_bound:
  assumes "t = GL_TEXTURE_2D \<or> t = GL_TEXTURE_RECTANGLE" "0 \<le> l" "t = GL_TEXTURE_RECTANGLE \<longrightarrow> l = 0"
    "0 \<le> w" "0 \<le> h" "w \<le> idrv_max_size drv" "h \<le> idrv_max_size drv"
    "tex_binding s t = n" "n \<noteq> 0" "textures s n = Some x"
  shows "glTexImage2D drv t l f w h 0 pf dt s =
           s\<lparr>textures := (textures s)(n \<mapsto> x\<lparr>tx_images := (tx_images x)(l \<mapsto> (w, h, f)), tx_samples := 0\<rparr>)\<rparr>"
  using assms by (auto simp: glTexImage2D_def tex_update_def)

text \<open>C25: on valid arguments createTexImage2D returns a descriptor of a fresh texture holding one image of the requested level, size and format with the given parameters, unbinds the target, and leaves the unpack alignment changed and GL_TEXTURE_RECTANGLE enabled.\<close>

theorem createTexImage2D_ok:
  assumes n: "0 < img_next s" and dims: "0 < w" "0 < h" "w \<le> idrv_max_size drv" "h \<le> idrv_max_size drv"
    and tgt: "t = GL_TEXTURE_2D \<or> (t = GL_TEXTURE_RECTANGLE \<and> l = 0)" and lv: "0 \<le> l"
    and al: "a \<in> {1, 2, 4, 8}"
  shows "createTexImage2D drv w h t l f pf dt a ps s =
     (Inr \<lparr>txd_id = img_next s, txd_target = t, txd_width = w, txd_height = h, txd_format = f,
           txd_pixel_format = pf, txd_data_type = dt, txd_unpack_alignment = a, txd_samples = 1,
           txd_multisample = False\<rparr>,
      s\<lparr>img_next := Suc (img_next s),
        textures := (textures s)(img_next s \<mapsto>
          \<lparr>tx_target = Some t, tx_images = [l \<mapsto> (w, h, f)], tx_samples = 0,
           tx_params = fold (\<lambda>(p, v) qs. dict_set qs p v) ps [], tx_deleted = False\<rparr>),
        tex_binding := (tex_binding s)(t := 0), unpack_align := a,
        caps := (if t = GL_TEXTURE_RECTANGLE then insert GL_TEXTURE_RECTANGLE (caps s) else caps s)\<rparr>)"
proof -
  let ?N = "img_next s"
  have t1: "t = GL_TEXTURE_2D \<or> t = GL_TEXTURE_RECTANGLE" and t2: "t = GL_TEXTURE_RECTANGLE \<longrightarrow> l = 0"
    and tt: "is_tex_target t" and g1: "\<not> (w \<le> 0 \<or> h \<le> 0)" and g2: "\<not> (t = GL_TEXTURE_RECTANGLE \<and> l \<noteq> 0)"
    using tgt dims by (auto simp: gl_enum_defs is_tex_target_def)
  define s0 where "s0 = s\<lparr>caps := (if t = GL_TEXTURE_RECTANGLE then insert GL_TEXTURE_RECTANGLE (caps s) else caps s)\<rparr>"
  have e0: "(if t = GL_TEXTURE_RECTANGLE then glEnable GL_TEXTURE_RECTANGLE s else s) = s0"
    by (simp add: s0_def glEnable_def)
  define x0 where "x0 = \<lparr>tx_target = None, tx_images = Map.empty, tx_samples = 0, tx_params = [], tx_deleted = False\<rparr>"
  define s1 where "s1 = s0\<lparr>img_next := Suc ?N, textures := (textures s0)(?N \<mapsto> x0)\<rparr>"
  have g: "glGenTextures s0 = (?N, s1)" by (simp add: glGenTextures_def img_gen_def s1_def x0_def s0_def)
  define s2 where "s2 = s1\<lparr>textures := (textures s1)(?N \<mapsto> x0\<lparr>tx_target := Some t\<rparr>), tex_binding := (tex_binding s1)(t := ?N)\<rparr>"
  have b: "glBindTexture t ?N s1 = s2" using n tt by (simp add: glBindTexture_def s1_def s2_def x0_def)
  define s3 where "s3 = s2\<lparr>unpack_align := a\<rparr>"
  have p: "glPixelStorei GL_UNPACK_ALIGNMENT a s2 = s3" using al by (auto simp: glPixelStorei_def s3_def)
  define x1 where "x1 = (x0\<lparr>tx_target := Some t\<rparr>)\<lparr>tx_images := (tx_images (x0\<lparr>tx_target := Some t\<rparr>))(l \<mapsto> (w, h, f)), tx_samples := 0\<rparr>"
  define s4 where "s4 = s3\<lparr>textures := (textures s3)(?N \<mapsto> x1)\<rparr>"
  have ti: "glTexImage2D drv t l f w h 0 pf dt s3 = s4"
    unfolding s4_def x1_def by (rule glTexImage2D_bound [OF t1 lv t2]) (use n dims in \<open>simp_all add: s3_def s2_def\<close>)
  define s5 where "s5 = s4\<lparr>textures := (textures s4)(?N \<mapsto> x1\<lparr>tx_params := fold (\<lambda>(p, v) qs. dict_set qs p v) ps (tx_params x1)\<rparr>)\<rparr>"
  have pr: "set_tex_params t ps s4 = s5"
    unfolding s5_def by (rule set_tex_params_bound) (use n tt in \<open>simp_all add: s4_def s3_def s2_def\<close>)
  have ub: "glBindTexture t 0 s5 = s5\<lparr>tex_binding := (tex_binding s5)(t := 0)\<rparr>" using tt by (simp add: glBindTexture_def)
  have "createTexImage2D drv w h t l f pf dt a ps s =
      (Inr \<lparr>txd_id = ?N, txd_target = t, txd_width = w, txd_height = h, txd_format = f,
           txd_pixel_format = pf, txd_data_type = dt, txd_unpack_alignment = a, txd_samples = 1,
           txd_multisample = False\<rparr>, s5\<lparr>tex_binding := (tex_binding s5)(t := 0)\<rparr>)"
    unfolding createTexImage2D_def using g1 g2 by (simp add: e0 g b p ti pr ub)
  also have "s5\<lparr>tex_binding := (tex_binding s5)(t := 0)\<rparr> =
      s\<lparr>img_next := Suc (img_next s),
        textures := (textures s)(img_next s \<mapsto>
          \<lparr>tx_target = Some t, tx_images = [l \<mapsto> (w, h, f)], tx_samples = 0,
           tx_params = fold (\<lambda>(p, v) qs. dict_set qs p v) ps [], tx_deleted = False\<rparr>),
        tex_binding := (tex_binding s)(t := 0), unpack_align := a,
        caps := (if t = GL_TEXTURE_RECTANGLE then insert GL_TEXTURE_RECTANGLE (caps s) else caps s)\<rparr>"
    by (simp add: s5_def s4_def s3_def s2_def s1_def s0_def x1_def x0_def)
  finally show ?thesis .
qed


lemma max_samples_query [simp]: "getIntegerv drv GL_MAX_SAMPLES s = (idrv_max_samples drv, s)"
  by (simp add: getIntegerv_def glGetIntegerv_def)

text \<open>C27: for positive dimensions createTexImage2DMultisample raises exactly when the sample count is not a positive power of two at most GL_MAX_SAMPLES.\<close>

theorem createTexImage2DMultisample_samples:
  assumes "0 < w" "0 < h"
  shows "isl (fst (createTexImage2DMultisample drv w h t k f ps s)) \<longleftrightarrow>
         \<not> (pow2_test k \<and> 0 < k \<and> k \<le> idrv_max_samples drv)"
  using assms by (auto simp: createTexImage2DMultisample_def Let_def case_prod_beta)

text \<open>When createTexImage2DMultisample raises, the context is unchanged: it validates before it allocates.\<close>

theorem createTexImage2DMultisample_no_leak:
  "isl (fst (createTexImage2DMultisample drv w h t k f ps s)) \<Longrightarrow>
   snd (createTexImage2DMultisample drv w h t k f ps s) = s"
  by (auto simp: createTexImage2DMultisample_def Let_def case_prod_beta split: if_splits)

text \<open>C30: deleteFBO given a live framebuffer's name as an int raises ctypes' ArgumentError and deletes nothing, while given the descriptor it deletes the object.\<close>

theorem deleteFBO_int_refused:
  assumes "0 < n" "fb_live n s"
  shows "deleteFBO (FboName (int n)) s =
           (Inl (ArgumentError ''argument 2: <class 'TypeError'>: expected LP_c_uint instance instead of int''), s)
       \<and> \<not> fb_live n (snd (deleteFBO (FboDesc \<lparr>fbd_id = n, fbd_target = GL_FRAMEBUFFER\<rparr>) s))"
  using assms by (simp add: deleteFBO_def glDeleteFramebuffers_def fb_live_def)

text \<open>Attach of a renderbuffer descriptor to a colour point of the bound framebuffer records the renderbuffer at that point, replacing an earlier one.\<close>

theorem attach_renderbuffer:
  assumes "draw_fb s \<noteq> 0" "framebuffers s (draw_fb s) = Some fb" "rb_live (rbd_id r) s"
    and "rbd_target r = GL_RENDERBUFFER" "is_attach_point drv a" "a \<noteq> GL_DEPTH_STENCIL_ATTACHMENT"
  shows "attach drv a (ImgRb r) s =
           s\<lparr>framebuffers := (framebuffers s)(draw_fb s \<mapsto>
               fb\<lparr>fb_attach := (if rbd_id r = 0 then filter (\<lambda>(k, _). k \<noteq> a) (fb_attach fb)
                                  else dict_set (fb_attach fb) a (AttRenderbuffer (rbd_id r)))\<rparr>)\<rparr>"
  using assms
  by (simp add: attach_def glFramebufferRenderbuffer_def is_fb_target_def fb_of_target_def
      fb_update_def set_attachment_def set_point_def)

text \<open>blitFBO with a source rectangle of fewer than four values raises IndexError before any GL call.\<close>

theorem blitFBO_short_rect:
  "length srcRect < 4 \<Longrightarrow> blitFBO drv srcRect dstRect filt s = (Inl IndexError, s)"
  by (auto simp: blitFBO_def rect4_def py_index_def split: sum.split)

lemma run_img_op_wf [img_wf_intros]: "img_wf s \<Longrightarrow> img_wf (run_img_op drv op s)"
  by (cases op) (simp_all add: run_img_op_def img_wf_intros useFBO_wf)

text \<open>Every context reached from a fresh context by any sequence of the helpers of this theory, whatever they returned or raised, satisfies the context invariant img_wf: live names below the allocation counter, bindings only to live objects of the right target, attachments only to existing images.\<close>

theorem img_reachable_wf: "img_reachable drv s \<Longrightarrow> img_wf s"
  by (induction rule: img_reachable.induct) (simp_all add: img_wf_init run_img_op_wf)


section \<open>Witnesses\<close>

lemma createFBO_unknown_images_witness:
  "fst (createFBO demo_driver [(GL_COLOR_ATTACHMENT0, ImgOther)] img_init) =
     Inr \<lparr>fbd_id = img_next img_init, fbd_target = GL_FRAMEBUFFER\<rparr> \<and>
   fst (isComplete demo_driver (glBindFramebuffer GL_FRAMEBUFFER (img_next img_init)
     (snd (createFBO demo_driver [(GL_COLOR_ATTACHMENT0, ImgOther)] img_init)))) = False"
proof -
  have d: "draw_fb img_init < 2 ^ 32" by (simp add: img_init_def)
  have r: "createFBO demo_driver [(GL_COLOR_ATTACHMENT0, ImgOther)] img_init =
      (Inr \<lparr>fbd_id = img_next img_init, fbd_target = GL_FRAMEBUFFER\<rparr>,
       img_init\<lparr>img_next := Suc (img_next img_init),
         framebuffers := (framebuffers img_init)(img_next img_init \<mapsto> \<lparr>fb_attach = []\<rparr>),
         read_fb := draw_fb img_init\<rparr>) \<and>
    fst (isComplete demo_driver (glBindFramebuffer GL_FRAMEBUFFER (img_next img_init)
      (snd (createFBO demo_driver [(GL_COLOR_ATTACHMENT0, ImgOther)] img_init)))) = False"
    by (rule createFBO_unknown_images [OF img_wf_init d]) simp_all
  from conjunct1 [OF r] conjunct2 [OF r] show ?thesis by simp
qed


lemma useFBO_binding_witness:
  "useFBO demo_driver (FboDesc \<lparr>fbd_id = 1, fbd_target = GL_FRAMEBUFFER\<rparr>) (\<lambda>_ st. (Inr (), st)) one_fbo
     = (Inr (), one_fbo)"
proof -
  have "useFBO demo_driver (FboDesc \<lparr>fbd_id = 1, fbd_target = GL_FRAMEBUFFER\<rparr>) (\<lambda>_ st. (Inr (), st)) one_fbo
     = (Inr (), (one_fbo\<lparr>draw_fb := 1, read_fb := 1\<rparr>)\<lparr>draw_fb := draw_fb one_fbo, read_fb := draw_fb one_fbo\<rparr>)"
    by (rule useFBO_binding)
       (simp_all add: one_fbo_def img_init_def fbo_name_def glBindFramebuffer_def is_fb_target_def fb_live_def)
  then show ?thesis by (simp add: one_fbo_def img_init_def)
qed

lemma createFBO_fresh_witness:
  "fst (createFBO demo_driver [(GL_COLOR_ATTACHMENT0, ImgOther)] img_init) =
     Inr \<lparr>fbd_id = 1, fbd_target = GL_FRAMEBUFFER\<rparr> \<and>
   fb_live 1 (snd (createFBO demo_driver [(GL_COLOR_ATTACHMENT0, ImgOther)] img_init))"
  using createFBO_fresh [OF img_wf_init, of demo_driver "[(GL_COLOR_ATTACHMENT0, ImgOther)]"]
  by (simp add: img_init_def)

lemma isComplete_missing_witness: "isComplete demo_driver (one_fbo\<lparr>draw_fb := 1\<rparr>) = (False, one_fbo\<lparr>draw_fb := 1\<rparr>)"
  by (rule isComplete_missing [where fb = "\<lparr>fb_attach = []\<rparr>"]) (simp_all add: one_fbo_def)

lemma createRenderbuffer_ok_witness:
  "createRenderbuffer demo_driver 800 600 GL_RGBA8 4 img_init =
     (Inr \<lparr>rbd_id = 1, rbd_target = GL_RENDERBUFFER, rbd_width = 800, rbd_height = 600, rbd_format = GL_RGBA8,
           rbd_samples = 4, rbd_multisample = True\<rparr>,
      img_init\<lparr>img_next := 2, renderbuffers := [1 \<mapsto> \<lparr>rb_storage = Some (800, 600, GL_RGBA8, 4), rb_deleted = False\<rparr>]\<rparr>)"
  using createRenderbuffer_ok [of img_init 800 600 demo_driver GL_RGBA8 4]
  by (simp add: img_init_def demo_driver_def pow2_test_def)

lemma createRenderbuffer_leak_witness:
  "snd (createRenderbuffer demo_driver 800 600 GL_RGBA8 3 img_init) =
     img_init\<lparr>img_next := 2, renderbuffers := [1 \<mapsto> \<lparr>rb_storage = None, rb_deleted = False\<rparr>], rb_binding := 1\<rparr>"
  using createRenderbuffer_leak [of img_init 3 demo_driver 800 600 GL_RGBA8]
  by (simp add: img_init_def pow2_test_def)

lemma pow2_test_iff_witness: "\<exists>k. (8::int) = 2 ^ k"
  using pow2_test_iff [of 8] by (simp add: pow2_test_def)

lemma createTexImage2D_error_witness:
  "snd (createTexImage2D demo_driver 0 600 GL_TEXTURE_2D 0 GL_RGBA8 GL_RGBA GL_FLOAT 4 [] img_init) = img_init"
  using createTexImage2D_error [of demo_driver 0 600 GL_TEXTURE_2D 0 GL_RGBA8 GL_RGBA GL_FLOAT 4 "[]" img_init "dims_error 0 600"]
  by (simp add: createTexImage2D_def)

lemma createTexImage2D_ok_witness:
  "fst (createTexImage2D demo_driver 800 600 GL_TEXTURE_RECTANGLE 0 GL_RGBA8 GL_RGBA GL_FLOAT 4
          [(GL_NEAREST, GL_LINEAR)] img_init) =
   Inr \<lparr>txd_id = 1, txd_target = GL_TEXTURE_RECTANGLE, txd_width = 800, txd_height = 600, txd_format = GL_RGBA8,
        txd_pixel_format = GL_RGBA, txd_data_type = GL_FLOAT, txd_unpack_alignment = 4, txd_samples = 1,
        txd_multisample = False\<rparr>"
  using createTexImage2D_ok [of img_init 800 600 demo_driver GL_TEXTURE_RECTANGLE 0 4 GL_RGBA8 GL_RGBA GL_FLOAT
      "[(GL_NEAREST, GL_LINEAR)]"]
  by (simp add: img_init_def demo_driver_def)

lemma createTexImage2DMultisample_samples_witness:
  "isl (fst (createTexImage2DMultisample demo_driver 800 600 GL_TEXTURE_2D_MULTISAMPLE 16 GL_RGBA8 [] img_init))"
  using createTexImage2DMultisample_samples
      [of 800 600 demo_driver GL_TEXTURE_2D_MULTISAMPLE 16 GL_RGBA8 "[]" img_init]
  by (simp add: demo_driver_def)

lemma createTexImage2DMultisample_no_leak_witness:
  "snd (createTexImage2DMultisample demo_driver 800 600 GL_TEXTURE_2D_MULTISAMPLE 0 GL_RGBA8 [] img_init) = img_init"
  by (rule createTexImage2DMultisample_no_leak)
     (simp add: createTexImage2DMultisample_def pow2_test_def)

lemma deleteFBO_int_refused_witness:
  "\<not> fb_live 1 (snd (deleteFBO (FboDesc \<lparr>fbd_id = 1, fbd_target = GL_FRAMEBUFFER\<rparr>) one_fbo)) \<and>
   snd (deleteFBO (FboName 1) one_fbo) = one_fbo"
  using deleteFBO_int_refused [of 1 one_fbo] by (simp add: one_fbo_def fb_live_def)

lemma attach_renderbuffer_witness:
  "attach demo_driver GL_COLOR_ATTACHMENT0
     (ImgRb \<lparr>rbd_id = 2, rbd_target = GL_RENDERBUFFER, rbd_width = 8, rbd_height = 8, rbd_format = GL_RGBA8,
             rbd_samples = 0, rbd_multisample = False\<rparr>)
     (one_fbo\<lparr>draw_fb := 1, renderbuffers := [2 \<mapsto> \<lparr>rb_storage = None, rb_deleted = False\<rparr>]\<rparr>) =
   one_fbo\<lparr>draw_fb := 1, renderbuffers := [2 \<mapsto> \<lparr>rb_storage = None, rb_deleted = False\<rparr>],
     framebuffers := [1 \<mapsto> \<lparr>fb_attach = [(GL_COLOR_ATTACHMENT0, AttRenderbuffer 2)]\<rparr>]\<rparr>"
  by (subst attach_renderbuffer [where fb = "\<lparr>fb_attach = []\<rparr>"])
     (simp_all add: one_fbo_def rb_live_def is_attach_point_def demo_driver_def gl_enum_defs)

lemma blitFBO_short_rect_witness:
  "blitFBO demo_driver [0, 0, 800] None GL_NEAREST img_init = (Inl IndexError, img_init)"
  by (rule blitFBO_short_rect) simp

lemma img_reachable_wf_witness:
  "img_wf (run_img_op demo_driver (CreateRenderbuffer 800 600 GL_RGBA8 3) img_init)"
  by (rule img_reachable_wf [OF img_reachable.step [OF img_reachable.init]])

end
