(* ===== verification/GL_Buffers.thy ===== *)
theory GL_Buffers
  imports GL_Images
begin

text \<open>
  The part of the OpenGL context the vertex buffer and vertex array helpers
  of \<open>gltools.py\<close> drive (OpenGL 3.3 compatibility profile, sections 2.8-2.10):
  buffer objects with their size and usage, vertex array objects holding
  the element array binding, the generic attribute arrays and the
  fixed-function client arrays, the array buffer and vertex array bindings,
  the draw calls issued and the error flag.  As in \<open>GL_Context\<close>, this is the
  environment of the code, not code of the repository.

  Names are reserved by \<open>glGen*\<close> and the object is created by the first
  bind, so \<open>glIsBuffer\<close> is false for a name generated but never bound.  The
  vertex array object 0 is the default one and always exists.  Buffer and
  vertex array names come from one counter.  Buffer contents are not
  modelled; a draw call is recorded with its mode and count.
\<close>

section \<open>Enumerants\<close>

definition GL_ARRAY_BUFFER :: int where "GL_ARRAY_BUFFER = 0x8892"
definition GL_ELEMENT_ARRAY_BUFFER :: int where "GL_ELEMENT_ARRAY_BUFFER = 0x8893"
definition GL_ARRAY_BUFFER_BINDING :: int where "GL_ARRAY_BUFFER_BINDING = 0x8894"
definition GL_ELEMENT_ARRAY_BUFFER_BINDING :: int where "GL_ELEMENT_ARRAY_BUFFER_BINDING = 0x8895"
definition GL_VERTEX_ARRAY :: int where "GL_VERTEX_ARRAY = 0x8074"
definition GL_NORMAL_ARRAY :: int where "GL_NORMAL_ARRAY = 0x8075"
definition GL_COLOR_ARRAY :: int where "GL_COLOR_ARRAY = 0x8076"
definition GL_TEXTURE_COORD_ARRAY :: int where "GL_TEXTURE_COORD_ARRAY = 0x8078"
definition GL_VERTEX_ARRAY_BINDING :: int where "GL_VERTEX_ARRAY_BINDING = 0x85B5"
definition GL_BUFFER_SIZE :: int where "GL_BUFFER_SIZE = 0x8764"
definition GL_BUFFER_USAGE :: int where "GL_BUFFER_USAGE = 0x8765"
definition GL_STREAM_DRAW :: int where "GL_STREAM_DRAW = 0x88E0"
definition GL_STATIC_DRAW :: int where "GL_STATIC_DRAW = 0x88E4"
definition GL_DYNAMIC_DRAW :: int where "GL_DYNAMIC_DRAW = 0x88E8"
definition GL_BYTE :: int where "GL_BYTE = 0x1400"
definition GL_UNSIGNED_BYTE :: int where "GL_UNSIGNED_BYTE = 0x1401"
definition GL_SHORT :: int where "GL_SHORT = 0x1402"
definition GL_UNSIGNED_SHORT :: int where "GL_UNSIGNED_SHORT = 0x1403"
definition GL_INT :: int where "GL_INT = 0x1404"
definition GL_UNSIGNED_INT :: int where "GL_UNSIGNED_INT = 0x1405"
definition GL_DOUBLE :: int where "GL_DOUBLE = 0x140A"
definition GL_HALF_FLOAT :: int where "GL_HALF_FLOAT = 0x140B"
definition GL_TRIANGLES :: int where "GL_TRIANGLES = 0x0004"

declare GL_ARRAY_BUFFER_def [gl_enum_defs] GL_ELEMENT_ARRAY_BUFFER_def [gl_enum_defs]
  GL_ARRAY_BUFFER_BINDING_def [gl_enum_defs] GL_ELEMENT_ARRAY_BUFFER_BINDING_def [gl_enum_defs]
  GL_VERTEX_ARRAY_def [gl_enum_defs] GL_NORMAL_ARRAY_def [gl_enum_defs] GL_COLOR_ARRAY_def [gl_enum_defs]
  GL_TEXTURE_COORD_ARRAY_def [gl_enum_defs] GL_VERTEX_ARRAY_BINDING_def [gl_enum_defs]
  GL_BUFFER_SIZE_def [gl_enum_defs] GL_BUFFER_USAGE_def [gl_enum_defs] GL_STREAM_DRAW_def [gl_enum_defs]
  GL_STATIC_DRAW_def [gl_enum_defs] GL_DYNAMIC_DRAW_def [gl_enum_defs] GL_BYTE_def [gl_enum_defs]
  GL_UNSIGNED_BYTE_def [gl_enum_defs] GL_SHORT_def [gl_enum_defs] GL_UNSIGNED_SHORT_def [gl_enum_defs]
  GL_INT_def [gl_enum_defs] GL_UNSIGNED_INT_def [gl_enum_defs] GL_DOUBLE_def [gl_enum_defs]
  GL_HALF_FLOAT_def [gl_enum_defs] GL_TRIANGLES_def [gl_enum_defs]

text \<open>The nine usage hints (\<open>STREAM\<close>, \<open>STATIC\<close>, \<open>DYNAMIC\<close> with \<open>DRAW\<close>,
  \<open>READ\<close>, \<open>COPY\<close>) and the component types of attribute arrays.\<close>

definition buffer_usages :: "int set" where
  "buffer_usages = {0x88E0, 0x88E1, 0x88E2, 0x88E4, 0x88E5, 0x88E6, 0x88E8, 0x88E9, 0x88EA}"

definition attrib_types :: "int set" where
  "attrib_types = {GL_BYTE, GL_UNSIGNED_BYTE, GL_SHORT, GL_UNSIGNED_SHORT, GL_INT, GL_UNSIGNED_INT,
                   GL_FLOAT, GL_DOUBLE, GL_HALF_FLOAT}"

section \<open>State\<close>

record buf_obj =
  bo_size :: int
  bo_usage :: int

text \<open>A vertex array object: the element array binding, the enabled generic
  attributes and their pointers (size, type, normalized, stride, offset,
  source buffer), and the enabled client arrays with their pointers (size,
  type, stride, source buffer).\<close>

record vao_obj =
  va_element :: nat
  va_enabled :: "nat set"
  va_pointer :: "nat \<Rightarrow> (int \<times> int \<times> bool \<times> int \<times> int \<times> nat) option"
  va_client :: "int set"
  va_client_pointer :: "int \<Rightarrow> (int \<times> int \<times> int \<times> nat) option"

record buf_driver =
  bdrv_max_attribs :: nat

record buf_state =
  buf_next :: nat
  buf_names :: "nat set"
  buffers :: "nat \<rightharpoonup> buf_obj"
  vao_names :: "nat set"
  vaos :: "nat \<rightharpoonup> vao_obj"
  array_binding :: nat
  vao_binding :: nat
  draws :: "(int \<times> int \<times> bool) list"
  flushes :: nat
  buf_err :: "gl_error option"

definition vao_init :: vao_obj where
  "vao_init = \<lparr>va_element = 0, va_enabled = {}, va_pointer = Map.empty, va_client = {},
     va_client_pointer = Map.empty\<rparr>"

definition buf_init :: buf_state where
  "buf_init = \<lparr>buf_next = 1, buf_names = {}, buffers = Map.empty, vao_names = {}, vaos = [0 \<mapsto> vao_init],
     array_binding = 0, vao_binding = 0, draws = [], flushes = 0, buf_err = None\<rparr>"

section \<open>Primitives\<close>

definition buf_raise :: "gl_error \<Rightarrow> buf_state \<Rightarrow> buf_state" where
  "buf_raise e s = (if buf_err s = None then s\<lparr>buf_err := Some e\<rparr> else s)"

definition cur_vao :: "buf_state \<Rightarrow> vao_obj" where
  "cur_vao s = (case vaos s (vao_binding s) of Some v \<Rightarrow> v | None \<Rightarrow> vao_init)"

definition vao_update :: "(vao_obj \<Rightarrow> vao_obj) \<Rightarrow> buf_state \<Rightarrow> buf_state" where
  "vao_update f s = s\<lparr>vaos := (vaos s)(vao_binding s \<mapsto> f (cur_vao s))\<rparr>"

definition is_buffer_target :: "int \<Rightarrow> bool" where
  "is_buffer_target t \<longleftrightarrow> t = GL_ARRAY_BUFFER \<or> t = GL_ELEMENT_ARRAY_BUFFER"

definition bound_buffer :: "int \<Rightarrow> buf_state \<Rightarrow> nat" where
  "bound_buffer t s = (if t = GL_ARRAY_BUFFER then array_binding s else va_element (cur_vao s))"

section \<open>Buffer objects\<close>

definition glGenBuffers :: "buf_state \<Rightarrow> nat \<times> buf_state" where
  "glGenBuffers s = (buf_next s, s\<lparr>buf_next := Suc (buf_next s), buf_names := insert (buf_next s) (buf_names s)\<rparr>)"

definition glBindBuffer :: "int \<Rightarrow> nat \<Rightarrow> buf_state \<Rightarrow> buf_state" where
  "glBindBuffer t n s =
     (if \<not> is_buffer_target t then buf_raise GL_INVALID_ENUM s
      else if n \<noteq> 0 \<and> n \<notin> buf_names s then buf_raise GL_INVALID_OPERATION s
      else (let s1 = (if n \<noteq> 0 \<and> buffers s n = None
                      then s\<lparr>buffers := (buffers s)(n \<mapsto> \<lparr>bo_size = 0, bo_usage = GL_STATIC_DRAW\<rparr>)\<rparr> else s)
            in if t = GL_ARRAY_BUFFER then s1\<lparr>array_binding := n\<rparr>
               else vao_update (\<lambda>v. v\<lparr>va_element := n\<rparr>) s1))"

definition glBufferData :: "int \<Rightarrow> int \<Rightarrow> int \<Rightarrow> buf_state \<Rightarrow> buf_state" where
  "glBufferData t bufsize usage s =
     (if \<not> is_buffer_target t \<or> usage \<notin> buffer_usages then buf_raise GL_INVALID_ENUM s
      else if bufsize < 0 then buf_raise GL_INVALID_VALUE s
      else (let b = bound_buffer t s in
            if b = 0 then buf_raise GL_INVALID_OPERATION s
            else s\<lparr>buffers := (buffers s)(b := map_option (\<lambda>x. x\<lparr>bo_size := bufsize, bo_usage := usage\<rparr>) (buffers s b))\<rparr>))"

text \<open>\<open>glIsBuffer\<close> returns a \<open>GLboolean\<close>.\<close>

definition glIsBuffer :: "nat \<Rightarrow> buf_state \<Rightarrow> int" where
  "glIsBuffer n s = (if n \<noteq> 0 \<and> buffers s n \<noteq> None then GL_TRUE else GL_FALSE)"

text \<open>The value written to the caller's variable; \<open>None\<close> when an error
  leaves it untouched.\<close>

definition glGetBufferParameteriv :: "int \<Rightarrow> int \<Rightarrow> buf_state \<Rightarrow> int option \<times> buf_state" where
  "glGetBufferParameteriv t p s =
     (if \<not> is_buffer_target t \<or> (p \<noteq> GL_BUFFER_SIZE \<and> p \<noteq> GL_BUFFER_USAGE) then (None, buf_raise GL_INVALID_ENUM s)
      else (let b = bound_buffer t s in
            case (if b = 0 then None else buffers s b) of
              None \<Rightarrow> (None, buf_raise GL_INVALID_OPERATION s)
            | Some x \<Rightarrow> (Some (if p = GL_BUFFER_SIZE then bo_size x else bo_usage x), s)))"

text \<open>Deleting a bound buffer resets the array binding and the element
  binding of the bound vertex array object; other vertex array objects keep
  the name.\<close>

definition glDeleteBuffers :: "nat \<Rightarrow> buf_state \<Rightarrow> buf_state" where
  "glDeleteBuffers n s =
     (if n = 0 \<or> n \<notin> buf_names s then s
      else vao_update (\<lambda>v. if va_element v = n then v\<lparr>va_element := 0\<rparr> else v)
             (s\<lparr>buf_names := buf_names s - {n}, buffers := (buffers s)(n := None),
                array_binding := (if array_binding s = n then 0 else array_binding s)\<rparr>))"

section \<open>Vertex array objects\<close>

definition glGenVertexArrays :: "buf_state \<Rightarrow> nat \<times> buf_state" where
  "glGenVertexArrays s = (buf_next s, s\<lparr>buf_next := Suc (buf_next s), vao_names := insert (buf_next s) (vao_names s)\<rparr>)"

definition glBindVertexArray :: "nat \<Rightarrow> buf_state \<Rightarrow> buf_state" where
  "glBindVertexArray n s =
     (if n \<noteq> 0 \<and> n \<notin> vao_names s then buf_raise GL_INVALID_OPERATION s
      else (let s1 = (if vaos s n = None then s\<lparr>vaos := (vaos s)(n \<mapsto> vao_init)\<rparr> else s)
            in s1\<lparr>vao_binding := n\<rparr>))"

definition glDeleteVertexArrays :: "nat \<Rightarrow> buf_state \<Rightarrow> buf_state" where
  "glDeleteVertexArrays n s =
     (if n = 0 \<or> n \<notin> vao_names s then s
      else s\<lparr>vao_names := vao_names s - {n}, vaos := (vaos s)(n := None),
             vao_binding := (if vao_binding s = n then 0 else vao_binding s)\<rparr>)"

definition glEnableVertexAttribArray :: "buf_driver \<Rightarrow> int \<Rightarrow> buf_state \<Rightarrow> buf_state" where
  "glEnableVertexAttribArray drv i s =
     (if i < 0 \<or> int (bdrv_max_attribs drv) \<le> i then buf_raise GL_INVALID_VALUE s
      else vao_update (\<lambda>v. v\<lparr>va_enabled := insert (nat i) (va_enabled v)\<rparr>) s)"

definition glVertexAttribPointer :: "buf_driver \<Rightarrow> int \<Rightarrow> int \<Rightarrow> int \<Rightarrow> int \<Rightarrow> int \<Rightarrow> int \<Rightarrow>
    buf_state \<Rightarrow> buf_state" where
  "glVertexAttribPointer drv i csize type normalized stride offset s =
     (if i < 0 \<or> int (bdrv_max_attribs drv) \<le> i \<or> csize < 1 \<or> 4 < csize \<or> stride < 0
      then buf_raise GL_INVALID_VALUE s
      else if type \<notin> attrib_types then buf_raise GL_INVALID_ENUM s
      else if vao_binding s \<noteq> 0 \<and> array_binding s = 0 \<and> offset \<noteq> 0 then buf_raise GL_INVALID_OPERATION s
      else vao_update (\<lambda>v. v\<lparr>va_pointer := (va_pointer v)(nat i \<mapsto>
             (csize, type, normalized \<noteq> GL_FALSE, stride, offset, array_binding s))\<rparr>) s)"

text \<open>The fixed-function client arrays: \<open>glVertexPointer\<close> (2 to 4
  components), \<open>glTexCoordPointer\<close> (1 to 4), \<open>glColorPointer\<close> (3 or 4),
  \<open>glNormalPointer\<close> (always 3).\<close>

definition client_pointer :: "int \<Rightarrow> int set \<Rightarrow> int \<Rightarrow> int \<Rightarrow> int \<Rightarrow> buf_state \<Rightarrow> buf_state" where
  "client_pointer cap sizes csize type stride s =
     (if csize \<notin> sizes \<or> stride < 0 then buf_raise GL_INVALID_VALUE s
      else if type \<notin> attrib_types then buf_raise GL_INVALID_ENUM s
      else vao_update (\<lambda>v. v\<lparr>va_client_pointer := (va_client_pointer v)(cap \<mapsto> (csize, type, stride, array_binding s))\<rparr>) s)"

definition glVertexPointer :: "int \<Rightarrow> int \<Rightarrow> int \<Rightarrow> buf_state \<Rightarrow> buf_state" where
  "glVertexPointer csize type stride s = client_pointer GL_VERTEX_ARRAY {2, 3, 4} csize type stride s"

definition glTexCoordPointer :: "int \<Rightarrow> int \<Rightarrow> int \<Rightarrow> buf_state \<Rightarrow> buf_state" where
  "glTexCoordPointer csize type stride s = client_pointer GL_TEXTURE_COORD_ARRAY {1, 2, 3, 4} csize type stride s"

definition glColorPointer :: "int \<Rightarrow> int \<Rightarrow> int \<Rightarrow> buf_state \<Rightarrow> buf_state" where
  "glColorPointer csize type stride s = client_pointer GL_COLOR_ARRAY {3, 4} csize type stride s"

definition glNormalPointer :: "int \<Rightarrow> int \<Rightarrow> buf_state \<Rightarrow> buf_state" where
  "glNormalPointer type stride s = client_pointer GL_NORMAL_ARRAY {3} 3 type stride s"

definition glEnableClientState :: "int \<Rightarrow> buf_state \<Rightarrow> buf_state" where
  "glEnableClientState cap s =
     (if cap \<notin> {GL_VERTEX_ARRAY, GL_NORMAL_ARRAY, GL_COLOR_ARRAY, GL_TEXTURE_COORD_ARRAY}
      then buf_raise GL_INVALID_ENUM s
      else vao_update (\<lambda>v. v\<lparr>va_client := insert cap (va_client v)\<rparr>) s)"

section \<open>Drawing and queries\<close>

definition glDrawArrays :: "int \<Rightarrow> int \<Rightarrow> int \<Rightarrow> buf_state \<Rightarrow> buf_state" where
  "glDrawArrays mode first count s =
     (if mode < 0 \<or> 0x000E < mode then buf_raise GL_INVALID_ENUM s
      else if first < 0 \<or> count < 0 then buf_raise GL_INVALID_VALUE s
      else s\<lparr>draws := draws s @ [(mode, count, False)]\<rparr>)"

definition glDrawElements :: "int \<Rightarrow> int \<Rightarrow> int \<Rightarrow> buf_state \<Rightarrow> buf_state" where
  "glDrawElements mode count type s =
     (if mode < 0 \<or> 0x000E < mode \<or> type \<notin> {GL_UNSIGNED_BYTE, GL_UNSIGNED_SHORT, GL_UNSIGNED_INT}
      then buf_raise GL_INVALID_ENUM s
      else if count < 0 then buf_raise GL_INVALID_VALUE s
      else s\<lparr>draws := draws s @ [(mode, count, True)]\<rparr>)"

definition glFlush :: "buf_state \<Rightarrow> buf_state" where
  "glFlush s = s\<lparr>flushes := Suc (flushes s)\<rparr>"

text \<open>\<open>glGetIntegerv\<close> for the three bindings; another name records
  \<open>GL_INVALID_ENUM\<close> and leaves the variable at 0.\<close>

definition glGetIntegerv_buf :: "int \<Rightarrow> buf_state \<Rightarrow> int \<times> buf_state" where
  "glGetIntegerv_buf p s =
     (if p = GL_ARRAY_BUFFER_BINDING then (int (array_binding s), s)
      else if p = GL_ELEMENT_ARRAY_BUFFER_BINDING then (int (va_element (cur_vao s)), s)
      else if p = GL_VERTEX_ARRAY_BINDING then (int (vao_binding s), s)
      else (0, buf_raise GL_INVALID_ENUM s))"

section \<open>The invariant\<close>

text \<open>Names are positive and below the counter, objects exist only for live
  names, the default vertex array object and the bound one exist, and the
  array binding names an existing buffer; an element binding, which another
  vertex array object keeps after the buffer's deletion, is a name below the
  counter.\<close>

definition buf_wf :: "buf_state \<Rightarrow> bool" where
  "buf_wf s \<longleftrightarrow> 0 < buf_next s \<and>
     (\<forall>n\<in>buf_names s. 0 < n \<and> n < buf_next s) \<and> (\<forall>n\<in>vao_names s. 0 < n \<and> n < buf_next s) \<and>
     dom (buffers s) \<subseteq> buf_names s \<and> dom (vaos s) \<subseteq> insert 0 (vao_names s) \<and>
     vaos s 0 \<noteq> None \<and> vaos s (vao_binding s) \<noteq> None \<and>
     (array_binding s = 0 \<or> buffers s (array_binding s) \<noteq> None) \<and>
     (\<forall>v\<in>ran (vaos s). va_element v < buf_next s)"

named_theorems buf_wf_intros "entry points keep buf_wf"

section \<open>The invariant is kept by every entry point\<close>


lemma buf_wf_init [buf_wf_intros]: "buf_wf buf_init"
  by (simp add: buf_wf_def buf_init_def vao_init_def)

lemma buf_raise_wf [simp]: "buf_wf (buf_raise e s) = buf_wf s"
  by (simp add: buf_raise_def buf_wf_def cur_vao_def)

lemma cur_vao_ran: "vaos s (vao_binding s) \<noteq> None \<Longrightarrow> cur_vao s \<in> ran (vaos s)"
  by (auto simp: cur_vao_def ran_def)

lemma vao_update_wf:
  assumes "buf_wf s" "va_element (f (cur_vao s)) < buf_next s"
  shows "buf_wf (vao_update f s)"
proof -
  have "ran ((vaos s)(vao_binding s \<mapsto> f (cur_vao s))) \<subseteq> insert (f (cur_vao s)) (ran (vaos s))"
    by (auto simp: ran_def)
  with assms show ?thesis
    by (auto simp: buf_wf_def vao_update_def cur_vao_def split: option.splits)
qed

lemma gen_buffers_wf [buf_wf_intros]: "buf_wf s \<Longrightarrow> buf_wf (snd (glGenBuffers s))"
  by (auto simp: buf_wf_def glGenBuffers_def cur_vao_def less_Suc_eq)

lemma gen_vaos_wf [buf_wf_intros]: "buf_wf s \<Longrightarrow> buf_wf (snd (glGenVertexArrays s))"
  by (auto simp: buf_wf_def glGenVertexArrays_def cur_vao_def less_Suc_eq)

lemma cur_vao_element: "buf_wf s \<Longrightarrow> va_element (cur_vao s) < buf_next s"
proof -
  assume wf: "buf_wf s"
  then have "cur_vao s \<in> ran (vaos s)" by (intro cur_vao_ran) (simp add: buf_wf_def)
  with wf show ?thesis by (simp add: buf_wf_def)
qed

lemma vao_update_same_wf:
  "buf_wf s \<Longrightarrow> va_element (f (cur_vao s)) = va_element (cur_vao s) \<Longrightarrow> buf_wf (vao_update f s)"
  by (simp add: vao_update_wf cur_vao_element)

lemma buf_wf_fields:
  "buf_wf s \<Longrightarrow> buf_wf (s\<lparr>draws := d\<rparr>)" "buf_wf s \<Longrightarrow> buf_wf (s\<lparr>flushes := k\<rparr>)"
  by (simp_all add: buf_wf_def cur_vao_def)

lemma bind_buffer_wf [buf_wf_intros]: "buf_wf s \<Longrightarrow> buf_wf (glBindBuffer t n s)"
proof -
  assume wf: "buf_wf s"
  define s1 where "s1 = (if n \<noteq> 0 \<and> buffers s n = None
                      then s\<lparr>buffers := (buffers s)(n \<mapsto> \<lparr>bo_size = 0, bo_usage = GL_STATIC_DRAW\<rparr>)\<rparr> else s)"
  have ok: "n = 0 \<or> n \<in> buf_names s \<Longrightarrow> buf_wf s1" using wf
    by (auto simp: s1_def buf_wf_def cur_vao_def)
  have f: "buf_next s1 = buf_next s" "n = 0 \<or> n \<in> buf_names s \<Longrightarrow> n = 0 \<or> buffers s1 n \<noteq> None"
    by (auto simp: s1_def)
  have lt: "n = 0 \<or> n \<in> buf_names s \<Longrightarrow> n < buf_next s" using wf by (auto simp: buf_wf_def)
  have a: "n = 0 \<or> n \<in> buf_names s \<Longrightarrow> buf_wf (s1\<lparr>array_binding := n\<rparr>)"
    using ok f by (auto simp: buf_wf_def cur_vao_def)
  have e: "n = 0 \<or> n \<in> buf_names s \<Longrightarrow> buf_wf (vao_update (\<lambda>v. v\<lparr>va_element := n\<rparr>) s1)"
    using ok f lt by (intro vao_update_wf) auto
  show ?thesis using wf a e unfolding glBindBuffer_def s1_def [symmetric] by (auto simp: Let_def)
qed

lemma buf_wf_buffers_dom:
  assumes wf: "buf_wf s" and d: "dom B = dom (buffers s)"
  shows "buf_wf (s\<lparr>buffers := B\<rparr>)"
proof -
  have "array_binding s = 0 \<or> buffers s (array_binding s) \<noteq> None" using wf by (simp add: buf_wf_def)
  then have "array_binding s = 0 \<or> B (array_binding s) \<noteq> None" using d by (metis domIff)
  then show ?thesis using wf d unfolding buf_wf_def cur_vao_def by simp
qed

lemma buffer_data_wf [buf_wf_intros]: "buf_wf s \<Longrightarrow> buf_wf (glBufferData t k u s)"
proof -
  assume wf: "buf_wf s"
  have "dom ((buffers s)(b := map_option g (buffers s b))) = dom (buffers s)" for b g by auto
  then show ?thesis using wf by (simp add: glBufferData_def Let_def buf_wf_buffers_dom)
qed

lemma delete_buffers_wf [buf_wf_intros]: "buf_wf s \<Longrightarrow> buf_wf (glDeleteBuffers n s)"
proof -
  assume wf: "buf_wf s"
  let ?s1 = "s\<lparr>buf_names := buf_names s - {n}, buffers := (buffers s)(n := None),
                array_binding := (if array_binding s = n then 0 else array_binding s)\<rparr>"
  have "buf_wf ?s1" using wf by (auto simp: buf_wf_def cur_vao_def)
  moreover have "cur_vao ?s1 = cur_vao s" by (simp add: cur_vao_def)
  ultimately have "buf_wf (vao_update (\<lambda>v. if va_element v = n then v\<lparr>va_element := 0\<rparr> else v) ?s1)"
    using wf by (intro vao_update_wf) (auto simp: cur_vao_element buf_wf_def)
  then show ?thesis using wf by (simp add: glDeleteBuffers_def)
qed

lemma buf_wf_vaos:
  assumes "buf_wf s" "N \<subseteq> vao_names s" "dom V \<subseteq> insert 0 N" "V 0 \<noteq> None" "V b \<noteq> None"
    "\<forall>v\<in>ran V. va_element v < buf_next s"
  shows "buf_wf (s\<lparr>vao_names := N, vaos := V, vao_binding := b\<rparr>)"
  using assms unfolding buf_wf_def by auto

lemma bind_vao_wf [buf_wf_intros]: "buf_wf s \<Longrightarrow> buf_wf (glBindVertexArray n s)"
proof -
  assume wf: "buf_wf s"
  let ?V = "if vaos s n = None then (vaos s)(n \<mapsto> vao_init) else vaos s"
  have r: "ran ?V \<subseteq> insert vao_init (ran (vaos s))" by (auto simp: ran_def)
  have "n = 0 \<or> n \<in> vao_names s \<Longrightarrow> buf_wf (s\<lparr>vao_names := vao_names s, vaos := ?V, vao_binding := n\<rparr>)"
  proof (rule buf_wf_vaos [OF wf])
    show "vao_names s \<subseteq> vao_names s" by simp
    show "dom ?V \<subseteq> insert 0 (vao_names s)" if "n = 0 \<or> n \<in> vao_names s"
      using wf that by (auto simp: buf_wf_def)
    show "?V 0 \<noteq> None" "?V n \<noteq> None" using wf by (auto simp: buf_wf_def)
    show "\<forall>v\<in>ran ?V. va_element v < buf_next s"
      using wf r by (auto simp: buf_wf_def vao_init_def)
  qed
  then show ?thesis using wf by (auto simp: glBindVertexArray_def Let_def)
qed

lemma delete_vao_wf [buf_wf_intros]: "buf_wf s \<Longrightarrow> buf_wf (glDeleteVertexArrays n s)"
proof -
  assume wf: "buf_wf s"
  let ?V = "(vaos s)(n := None)" and ?b = "if vao_binding s = n then 0 else vao_binding s"
  have r: "ran ?V \<subseteq> ran (vaos s)" by (auto simp: ran_def)
  have "n \<noteq> 0 \<Longrightarrow> buf_wf (s\<lparr>vao_names := vao_names s - {n}, vaos := ?V, vao_binding := ?b\<rparr>)"
  proof (rule buf_wf_vaos [OF wf])
    show "vao_names s - {n} \<subseteq> vao_names s" by auto
    show "dom ?V \<subseteq> insert 0 (vao_names s - {n})" using wf by (auto simp: buf_wf_def)
    show "?V 0 \<noteq> None" if "n \<noteq> 0" using wf that by (simp add: buf_wf_def)
    show "?V ?b \<noteq> None" if "n \<noteq> 0" using wf that by (simp add: buf_wf_def)
    show "\<forall>v\<in>ran ?V. va_element v < buf_next s" using wf r by (auto simp: buf_wf_def)
  qed
  then show ?thesis using wf by (simp add: glDeleteVertexArrays_def)
qed

lemma enable_attrib_wf [buf_wf_intros]: "buf_wf s \<Longrightarrow> buf_wf (glEnableVertexAttribArray drv i s)"
  by (simp add: glEnableVertexAttribArray_def vao_update_same_wf)

lemma attrib_pointer_wf [buf_wf_intros]: "buf_wf s \<Longrightarrow> buf_wf (glVertexAttribPointer drv i k t nz st off s)"
  by (simp add: glVertexAttribPointer_def vao_update_same_wf)

lemma client_pointer_wf [buf_wf_intros]: "buf_wf s \<Longrightarrow> buf_wf (client_pointer cap ks k t st s)"
  by (simp add: client_pointer_def vao_update_same_wf)

lemma client_pointers_wf [buf_wf_intros]:
  "buf_wf s \<Longrightarrow> buf_wf (glVertexPointer k t st s)" "buf_wf s \<Longrightarrow> buf_wf (glTexCoordPointer k t st s)"
  "buf_wf s \<Longrightarrow> buf_wf (glColorPointer k t st s)" "buf_wf s \<Longrightarrow> buf_wf (glNormalPointer t st s)"
  by (simp_all add: glVertexPointer_def glTexCoordPointer_def glColorPointer_def glNormalPointer_def
      client_pointer_wf)

lemma client_state_wf [buf_wf_intros]: "buf_wf s \<Longrightarrow> buf_wf (glEnableClientState cap s)"
  by (simp add: glEnableClientState_def vao_update_same_wf)

lemma draw_wf [buf_wf_intros]:
  "buf_wf s \<Longrightarrow> buf_wf (glDrawArrays m f c s)" "buf_wf s \<Longrightarrow> buf_wf (glDrawElements m c t s)"
  "buf_wf s \<Longrightarrow> buf_wf (glFlush s)"
  by (simp_all add: glDrawArrays_def glDrawElements_def glFlush_def buf_wf_fields)

lemma buf_queries_wf [buf_wf_intros]:
  "buf_wf s \<Longrightarrow> buf_wf (snd (glGetIntegerv_buf p s))" "buf_wf s \<Longrightarrow> buf_wf (snd (glGetBufferParameteriv t p s))"
  by (simp_all add: glGetIntegerv_buf_def glGetBufferParameteriv_def Let_def split: option.split)

end
