(* ===== verification/Vertex_Buffers.thy ===== *)
theory Vertex_Buffers
  imports GL_Buffers
begin

text \<open>
  The vertex buffer and vertex array helpers of \<open>psychopy/tools/gltools.py\<close>
  (lines 1502-1978) over the context of \<open>GL_Buffers\<close>: the descriptor
  \<open>VertexBufferInfo\<close> with \<open>hasBuffer\<close> and \<open>validate\<close>, \<open>createVBO\<close>,
  \<open>setVertexAttribPointer\<close>, \<open>deleteVBO\<close>, \<open>createVAO\<close>, \<open>drawVAO\<close> and
  \<open>deleteVAO\<close>.  An array given to \<open>createVBO\<close> is its numpy shape (its
  values are uploaded, never read back); \<open>dataType\<close> is a GL enumerant.  The
  \<open>ctypes\<close> conventions are those of \<open>Framebuffers\<close>: an object's \<open>GLuint\<close> name
  is passed by reference where \<open>pyglet\<close> declares a pointer, and an object of
  another \<open>ctypes\<close> type (a \<open>GLint\<close>) given for a \<open>GLuint\<close> parameter raises
  \<open>ArgumentError\<close>.

  \<open>createVAO\<close> reads the attributes \<open>id\<close>, \<open>size\<close>, \<open>dtype\<close> and \<open>indices\<close>
  of each buffer, which \<open>VertexBufferInfo\<close> (with \<open>__slots__\<close> \<open>name\<close>,
  \<open>target\<close>, \<open>usage\<close>, \<open>dataType\<close>, \<open>size\<close>, \<open>stride\<close>, \<open>shape\<close>, \<open>userData\<close>)
  does not have; a buffer is therefore either such a descriptor or an
  object with those four attributes, like the \<open>VertexBufferObject\<close>
  namedtuple the module has commented out.  \<open>VertexArrayObject\<close>, which
  \<open>createVAO\<close> returns and \<open>drawVAO\<close> takes, is defined nowhere; \<open>drawVAO\<close>
  and \<open>deleteVAO\<close> take any object with \<open>id\<close>, \<open>indices\<close> and \<open>isIndexed\<close>.
  \<open>__eq__\<close>/\<open>__ne__\<close> and \<open>userData\<close> are not modelled.
\<close>

type_synonym 'a buf_call = "buf_state \<Rightarrow> 'a py_result \<times> buf_state"

section \<open>Descriptors\<close>

text \<open>\<open>GL_COMPAT_TYPES\<close> for the GL type keys: the size in bytes of the
  \<open>ctypes\<close> type (\<open>GLhalfARB\<close> is an unsigned short).\<close>

definition gl_compat_types :: "(int \<times> nat) list" where
  "gl_compat_types =
     [(GL_FLOAT, 4), (GL_DOUBLE, 8), (GL_UNSIGNED_SHORT, 2), (GL_UNSIGNED_INT, 4), (GL_INT, 4),
      (GL_SHORT, 2), (GL_HALF_FLOAT, 2), (GL_UNSIGNED_BYTE, 1), (GL_BYTE, 1)]"

record vertex_buffer_info =
  vbi_name :: nat
  vbi_target :: int
  vbi_usage :: int
  vbi_dataType :: int
  vbi_size :: int
  vbi_stride :: int
  vbi_shape :: "nat list"

datatype user_data = UserDataNone | UserDataDict | UserDataOther

definition VertexBufferInfo :: "nat \<Rightarrow> int \<Rightarrow> int \<Rightarrow> int \<Rightarrow> int \<Rightarrow> int \<Rightarrow> nat list \<Rightarrow> user_data \<Rightarrow>
    vertex_buffer_info py_result" where
  "VertexBufferInfo name target usage dataType size' stride shape userData =
     (case userData of
        UserDataOther \<Rightarrow> Inl (TypeError ''Invalid type for `userData`.'')
      | _ \<Rightarrow> Inr \<lparr>vbi_name = name, vbi_target = target, vbi_usage = usage, vbi_dataType = dataType,
                vbi_size = size', vbi_stride = stride, vbi_shape = shape\<rparr>)"

text \<open>\<open>__eq__\<close> and \<open>__ne__\<close> compare the names only.\<close>

definition vbi_eq :: "vertex_buffer_info \<Rightarrow> vertex_buffer_info \<Rightarrow> bool" where
  "vbi_eq self other \<longleftrightarrow> vbi_name self = vbi_name other"

definition vbi_ne :: "vertex_buffer_info \<Rightarrow> vertex_buffer_info \<Rightarrow> bool" where
  "vbi_ne self other \<longleftrightarrow> vbi_name self \<noteq> vbi_name other"

definition hasBuffer :: "vertex_buffer_info \<Rightarrow> buf_state \<Rightarrow> bool" where
  "hasBuffer vbi s \<longleftrightarrow> vbi_name vbi \<noteq> 0 \<and> glIsBuffer (vbi_name vbi) s \<noteq> GL_FALSE"

text \<open>\<open>validate()\<close>: the comparison's result \<open>isValid\<close> is never returned,
  because the restoring \<open>glBindBuffer(self.target, currentVBO)\<close> passes the
  \<open>GLint\<close> object \<open>currentVBO\<close> for a \<open>GLuint\<close>.\<close>

definition validate :: "vertex_buffer_info \<Rightarrow> bool buf_call" where
  "validate vbi s =
     (if vbi_name vbi = 0 \<or> glIsBuffer (vbi_name vbi) s \<noteq> GL_TRUE then (Inr False, s)
      else if vbi_target vbi = GL_VERTEX_ARRAY \<or> vbi_target vbi = GL_ELEMENT_ARRAY_BUFFER then
        (let bindTarget = (if vbi_target vbi = GL_VERTEX_ARRAY then GL_VERTEX_ARRAY_BINDING
                           else GL_ELEMENT_ARRAY_BUFFER_BINDING);
             (currentVBO, s1) = glGetIntegerv_buf bindTarget s;
             s2 = glBindBuffer (vbi_target vbi) (vbi_name vbi) s1;
             (actualSize, s3) = glGetBufferParameteriv (vbi_target vbi) GL_BUFFER_SIZE s2;
             (actualUsage, s4) = glGetBufferParameteriv (vbi_target vbi) GL_BUFFER_USAGE s3;
             isValid = (vbi_usage vbi = case_option 0 id actualUsage \<and> vbi_size vbi = case_option 0 id actualSize)
         in (Inl (ArgumentError ''argument 2: <class 'TypeError'>: wrong type''), s4))
      else (Inl (ValueError ''Invalid `target` type.''), s))"

section \<open>Vertex buffer objects\<close>

definition createVBO :: "nat list \<Rightarrow> int \<Rightarrow> int \<Rightarrow> int \<Rightarrow> vertex_buffer_info buf_call" where
  "createVBO shape target dataType usage s =
     (case dict_get gl_compat_types dataType of
        Inl e \<Rightarrow> (Inl e, s)
      | Inr glSize \<Rightarrow>
          (let bufferSize = int (prod_list shape * glSize) in
           case py_index shape 1 of
             Inl e \<Rightarrow> (Inl e, s)
           | Inr cols \<Rightarrow>
               (let bufferStride = int (cols * glSize);
                    (bufferName, s1) = glGenBuffers s;
                    s2 = glBindBuffer target bufferName s1;
                    s3 = glBufferData target bufferSize usage s2;
                    s4 = glBindBuffer target 0 s3
                in (VertexBufferInfo bufferName target usage dataType bufferSize bufferStride shape UserDataNone,
                    s4))))"

text \<open>\<open>vboInfo.shape[1]\<close> is evaluated as an argument of
  \<open>glVertexAttribPointer\<close>, after the buffer was bound and the attribute
  enabled.\<close>

definition setVertexAttribPointer :: "buf_driver \<Rightarrow> int \<Rightarrow> vertex_buffer_info \<Rightarrow> int \<Rightarrow> bool \<Rightarrow> bool \<Rightarrow>
    unit buf_call" where
  "setVertexAttribPointer drv index vboInfo offset normalize' enable s =
     (if vbi_target vboInfo \<noteq> GL_ARRAY_BUFFER then
        (Inl (ValueError ''VBO must have `target` type `GL_ARRAY_BUFFER`.''), s)
      else case dict_get gl_compat_types (vbi_dataType vboInfo) of
        Inl e \<Rightarrow> (Inl e, s)
      | Inr glSize \<Rightarrow>
          (let s1 = glBindBuffer GL_ARRAY_BUFFER (vbi_name vboInfo) s;
               s2 = (if enable then glEnableVertexAttribArray drv index s1 else s1)
           in case py_index (vbi_shape vboInfo) 1 of
                Inl e \<Rightarrow> (Inl e, s2)
              | Inr cols \<Rightarrow>
                  (let s3 = glVertexAttribPointer drv index (int cols) (vbi_dataType vboInfo)
                              (if normalize' then GL_TRUE else GL_FALSE) (vbi_stride vboInfo)
                              (offset * int glSize) s2
                   in (Inr (), glBindBuffer GL_ARRAY_BUFFER 0 s3))))"

text \<open>\<open>deleteVBO\<close> resets the descriptor's name, which the model returns.\<close>

definition deleteVBO :: "vertex_buffer_info \<Rightarrow> buf_state \<Rightarrow> vertex_buffer_info \<times> buf_state" where
  "deleteVBO vbo s =
     (if glIsBuffer (vbi_name vbo) s \<noteq> GL_FALSE
      then (vbo\<lparr>vbi_name := 0\<rparr>, glDeleteBuffers (vbi_name vbo) s)
      else (vbo, s))"

section \<open>Vertex array objects\<close>

record vbo_object =
  vo_id :: nat
  vo_size :: int
  vo_dtype :: int
  vo_indices :: int

datatype vertex_buffer = VBInfo vertex_buffer_info | VBObject vbo_object

record vao_desc =
  vao_id :: nat
  vao_indices :: int
  vao_isIndexed :: bool

text \<open>\<open>int(i / 3)\<close>: true division, then truncation toward zero.\<close>

definition int_div_trunc :: "int \<Rightarrow> int \<Rightarrow> int" where
  "int_div_trunc i d = (if 0 \<le> i then i div d else - ((- i) div d))"

text \<open>The loop over \<open>(attr, vbo)\<close>: the index count and \<open>hasVertexArray\<close>
  are threaded; \<open>vbo.id\<close> of a \<open>VertexBufferInfo\<close> raises.  Every \<open>attr\<close> is
  an \<open>int\<close>, so the last branch takes every other value.\<close>

fun vao_attribs :: "buf_driver \<Rightarrow> (int \<times> vertex_buffer) list \<Rightarrow> int \<Rightarrow> bool \<Rightarrow> buf_state \<Rightarrow>
    (int \<times> bool) py_result \<times> buf_state" where
  "vao_attribs drv [] nIndices hasVertexArray s = (Inr (nIndices, hasVertexArray), s)"
| "vao_attribs drv ((attr, vb) # rest) nIndices hasVertexArray s =
     (case vb of
        VBInfo _ \<Rightarrow> (Inl (AttributeError ''id''), s)
      | VBObject vbo \<Rightarrow>
          (let s1 = glBindBuffer GL_ARRAY_BUFFER (vo_id vbo) s in
           if attr = GL_VERTEX_ARRAY then
             vao_attribs drv rest (int_div_trunc (vo_indices vbo) 3) True
               (glEnableClientState GL_VERTEX_ARRAY (glVertexPointer (vo_size vbo) (vo_dtype vbo) 0 s1))
           else if attr = GL_TEXTURE_COORD_ARRAY then
             vao_attribs drv rest nIndices hasVertexArray
               (glEnableClientState GL_TEXTURE_COORD_ARRAY (glTexCoordPointer (vo_size vbo) (vo_dtype vbo) 0 s1))
           else if attr = GL_NORMAL_ARRAY then
             vao_attribs drv rest nIndices hasVertexArray
               (glEnableClientState GL_NORMAL_ARRAY (glNormalPointer (vo_dtype vbo) 0 s1))
           else if attr = GL_COLOR_ARRAY then
             vao_attribs drv rest nIndices hasVertexArray
               (glEnableClientState GL_COLOR_ARRAY (glColorPointer (vo_size vbo) (vo_dtype vbo) 0 s1))
           else
             vao_attribs drv rest nIndices hasVertexArray
               (glEnableVertexAttribArray drv attr
                 (glVertexAttribPointer drv attr (vo_size vbo) GL_FLOAT GL_FALSE 0 0 s1))))"

definition createVAO :: "buf_driver \<Rightarrow> (int \<times> vertex_buffer) list \<Rightarrow> vertex_buffer option \<Rightarrow> vao_desc buf_call" where
  "createVAO drv vertexBuffers indexBuffer s =
     (if vertexBuffers = [] then (Inl (ValueError ''No buffers specified.''), s)
      else
        (let (vaoId, s1) = glGenVertexArrays s;
             s2 = glBindVertexArray vaoId s1
         in case vao_attribs drv vertexBuffers 0 False s2 of
              (Inl e, s3) \<Rightarrow> (Inl e, s3)
            | (Inr (nIndices, hasVertexArray), s3) \<Rightarrow>
                if \<not> hasVertexArray then
                  (Inl (RuntimeError ''Failed to create VAO, no vertex data specified.''),
                   glDeleteVertexArrays vaoId (glBindVertexArray 0 s3))
                else
                  (case indexBuffer of
                     None \<Rightarrow> (Inl (NameError ''VertexArrayObject''), glBindVertexArray 0 s3)
                   | Some (VBInfo _) \<Rightarrow> (Inl (AttributeError ''id''), s3)
                   | Some (VBObject ib) \<Rightarrow>
                       (Inl (NameError ''VertexArrayObject''),
                        glBindVertexArray 0 (glBindBuffer GL_ELEMENT_ARRAY_BUFFER (vo_id ib) s3)))))"

definition drawVAO :: "vao_desc \<Rightarrow> int \<Rightarrow> bool \<Rightarrow> buf_state \<Rightarrow> buf_state" where
  "drawVAO vao mode flush s =
     (let s1 = glBindVertexArray (vao_id vao) s;
          s2 = (if vao_isIndexed vao then glDrawElements mode (vao_indices vao) GL_UNSIGNED_INT s1
                else glDrawArrays mode 0 (vao_indices vao) s1);
          s3 = (if flush then glFlush s2 else s2)
      in glBindVertexArray 0 s3)"

definition deleteVAO :: "vao_desc \<Rightarrow> buf_state \<Rightarrow> buf_state" where
  "deleteVAO vao s = glDeleteVertexArrays (vao_id vao) s"

section \<open>Sequences of helper calls\<close>

datatype vbuf_op =
    CreateVBO "nat list" int int int
  | SetVertexAttribPointer int vertex_buffer_info int bool bool
  | DeleteVBO vertex_buffer_info
  | Validate vertex_buffer_info
  | HasBuffer vertex_buffer_info
  | CreateVAO "(int \<times> vertex_buffer) list" "vertex_buffer option"
  | DrawVAO vao_desc int bool
  | DeleteVAO vao_desc

definition run_vbuf_op :: "buf_driver \<Rightarrow> vbuf_op \<Rightarrow> buf_state \<Rightarrow> buf_state" where
  "run_vbuf_op drv op s =
     (case op of
        CreateVBO shape t dt u \<Rightarrow> snd (createVBO shape t dt u s)
      | SetVertexAttribPointer i v off nz en \<Rightarrow> snd (setVertexAttribPointer drv i v off nz en s)
      | DeleteVBO v \<Rightarrow> snd (deleteVBO v s)
      | Validate v \<Rightarrow> snd (validate v s)
      | HasBuffer v \<Rightarrow> s
      | CreateVAO vbs ib \<Rightarrow> snd (createVAO drv vbs ib s)
      | DrawVAO vao m fl \<Rightarrow> drawVAO vao m fl s
      | DeleteVAO vao \<Rightarrow> deleteVAO vao s)"

inductive vbuf_reachable :: "buf_driver \<Rightarrow> buf_state \<Rightarrow> bool" for drv where
  init: "vbuf_reachable drv buf_init"
| step: "vbuf_reachable drv s \<Longrightarrow> vbuf_reachable drv (run_vbuf_op drv op s)"

section \<open>Example values\<close>

text \<open>A concrete implementation, the buffer of a triangle and the context holding it, for the
  witnesses.\<close>

definition demo_buf_driver :: buf_driver where
  "demo_buf_driver = \<lparr>bdrv_max_attribs = 16\<rparr>"

definition triangle_vbo :: vertex_buffer_info where
  "triangle_vbo = \<lparr>vbi_name = 1, vbi_target = GL_ARRAY_BUFFER, vbi_usage = GL_STATIC_DRAW,
     vbi_dataType = GL_FLOAT, vbi_size = 36, vbi_stride = 12, vbi_shape = [3, 3]\<rparr>"

definition one_buffer :: buf_state where
  "one_buffer = buf_init\<lparr>buf_next := 2, buf_names := {1},
     buffers := [1 \<mapsto> \<lparr>bo_size = 36, bo_usage = GL_STATIC_DRAW\<rparr>]\<rparr>"

section \<open>Lemmas\<close>


lemma vb_enum [simp]:
  "GL_ARRAY_BUFFER \<noteq> GL_ELEMENT_ARRAY_BUFFER" "is_buffer_target GL_ARRAY_BUFFER"
  "is_buffer_target GL_ELEMENT_ARRAY_BUFFER" "GL_VERTEX_ARRAY_BINDING \<noteq> GL_ARRAY_BUFFER_BINDING"
  "GL_ELEMENT_ARRAY_BUFFER_BINDING \<noteq> GL_ARRAY_BUFFER_BINDING" "GL_BUFFER_SIZE \<noteq> GL_BUFFER_USAGE"
  by (simp_all add: gl_enum_defs is_buffer_target_def)

lemma buf_fresh: "buf_wf s \<Longrightarrow> vaos s (buf_next s) = None \<and> buffers s (buf_next s) = None"
  by (auto simp: buf_wf_def)

lemma createVAO_raises: "isl (fst (createVAO drv vbs ib s))"
  by (auto simp: createVAO_def Let_def case_prod_beta split: prod.split sum.split option.split vertex_buffer.split)

text \<open>C18: createVAO never returns normally: it raises ValueError for no buffers, AttributeError for a VertexBufferInfo (which has no id), RuntimeError without vertex data, and otherwise NameError, since VertexArrayObject is defined nowhere; for a VertexBufferInfo it leaves a new vertex array object generated and bound.\<close>

theorem createVAO_never_returns:
  "isl (fst (createVAO drv vbs ib s)) \<and>
   (buf_wf s \<longrightarrow> createVAO drv ((attr, VBInfo vbi) # rest) ib s =
      (Inl (AttributeError ''id''),
       s\<lparr>buf_next := Suc (buf_next s), vao_names := insert (buf_next s) (vao_names s),
         vaos := (vaos s)(buf_next s \<mapsto> vao_init), vao_binding := buf_next s\<rparr>))"
  using createVAO_raises [of drv vbs ib s] buf_fresh [of s]
  by (auto simp: createVAO_def glGenVertexArrays_def glBindVertexArray_def)

text \<open>C32: VertexBufferInfo.validate never returns True: it returns False for a name that is no buffer, raises ValueError for the default target GL_ARRAY_BUFFER (with the context unchanged), and raises ctypes' ArgumentError when it restores the binding for the two targets it accepts.\<close>

theorem validate_never_true:
  "fst (validate vbi s) \<in> {Inr False, Inl (ValueError ''Invalid `target` type.''),
                            Inl (ArgumentError ''argument 2: <class 'TypeError'>: wrong type'')} \<and>
   (vbi_target vbi = GL_ARRAY_BUFFER \<longrightarrow> hasBuffer vbi s \<longrightarrow>
      validate vbi s = (Inl (ValueError ''Invalid `target` type.''), s))"
  by (auto simp: validate_def Let_def case_prod_beta hasBuffer_def glIsBuffer_def gl_enum_defs)

text \<open>For a known data type, an array of at least two dimensions and a valid usage, createVBO returns the descriptor of a fresh buffer whose size is the element count times the type's size and whose stride is the row length times it, and leaves the buffer allocated with that size and usage and GL_ARRAY_BUFFER unbound.\<close>

theorem createVBO_ok:
  assumes wf: "buf_wf s" and ty: "dict_get gl_compat_types dataType = Inr sz"
    and sh: "2 \<le> length shape" and us: "usage \<in> buffer_usages"
  shows "createVBO shape GL_ARRAY_BUFFER dataType usage s =
     (Inr \<lparr>vbi_name = buf_next s, vbi_target = GL_ARRAY_BUFFER, vbi_usage = usage, vbi_dataType = dataType,
           vbi_size = int (prod_list shape * sz), vbi_stride = int (shape ! 1 * sz), vbi_shape = shape\<rparr>,
      s\<lparr>buf_next := Suc (buf_next s), buf_names := insert (buf_next s) (buf_names s),
        buffers := (buffers s)(buf_next s \<mapsto> \<lparr>bo_size = int (prod_list shape * sz), bo_usage = usage\<rparr>),
        array_binding := 0\<rparr>)"
proof -
  have p: "py_index shape 1 = Inr (shape ! 1)" using sh by (simp add: py_index_def)
  have f: "buffers s (buf_next s) = None" using buf_fresh [OF wf] by simp
  have pos: "0 < buf_next s" using wf by (simp add: buf_wf_def)
  have nn: "\<not> int (prod_list shape) * int sz < 0" by (simp add: not_less)
  show ?thesis
    using ty us f pos nn by (simp add: createVBO_def p glGenBuffers_def glBindBuffer_def glBufferData_def
        bound_buffer_def VertexBufferInfo_def Let_def)
qed

lemma validate_wf [buf_wf_intros]: "buf_wf s \<Longrightarrow> buf_wf (snd (validate v s))"
  by (simp add: validate_def Let_def split_def buf_wf_intros)

lemma createVBO_wf [buf_wf_intros]: "buf_wf s \<Longrightarrow> buf_wf (snd (createVBO shape t dt u s))"
  by (simp add: createVBO_def Let_def split_def buf_wf_intros split: sum.split)

lemma setVertexAttribPointer_wf [buf_wf_intros]:
  "buf_wf s \<Longrightarrow> buf_wf (snd (setVertexAttribPointer drv i v off nz en s))"
  by (simp add: setVertexAttribPointer_def Let_def buf_wf_intros split: sum.split)

lemma deleteVBO_wf [buf_wf_intros]: "buf_wf s \<Longrightarrow> buf_wf (snd (deleteVBO v s))"
  by (simp add: deleteVBO_def buf_wf_intros)

lemma vao_attribs_wf [buf_wf_intros]: "buf_wf s \<Longrightarrow> buf_wf (snd (vao_attribs drv vbs n h s))"
  by (induction drv vbs n h s rule: vao_attribs.induct)
     (simp_all add: Let_def buf_wf_intros split: vertex_buffer.split)

lemma createVAO_wf [buf_wf_intros]: "buf_wf s \<Longrightarrow> buf_wf (snd (createVAO drv vbs ib s))"
proof -
  assume wf: "buf_wf s"
  let ?s2 = "glBindVertexArray (fst (glGenVertexArrays s)) (snd (glGenVertexArrays s))"
  have w2: "buf_wf ?s2" using wf by (simp add: buf_wf_intros)
  then have w3: "buf_wf (snd (vao_attribs drv vbs 0 False ?s2))" by (rule vao_attribs_wf)
  show ?thesis
    using wf w3 unfolding createVAO_def
    by (auto simp: Let_def split_def buf_wf_intros split: prod.split sum.split option.split vertex_buffer.split)
qed

lemma drawVAO_wf [buf_wf_intros]: "buf_wf s \<Longrightarrow> buf_wf (drawVAO vao m fl s)"
  by (simp add: drawVAO_def Let_def buf_wf_intros)

lemma deleteVAO_wf [buf_wf_intros]: "buf_wf s \<Longrightarrow> buf_wf (deleteVAO vao s)"
  by (simp add: deleteVAO_def buf_wf_intros)

lemma run_vbuf_op_wf [buf_wf_intros]: "buf_wf s \<Longrightarrow> buf_wf (run_vbuf_op drv op s)"
  by (cases op) (simp_all add: run_vbuf_op_def buf_wf_intros)

text \<open>Every context reached from a fresh one by any sequence of the vertex buffer and vertex array helpers, whatever they returned or raised, satisfies buf_wf: names positive and below the counter, objects only for live names, the default and the bound vertex array object present, the array binding naming an existing buffer.\<close>

theorem vbuf_reachable_wf: "vbuf_reachable drv s \<Longrightarrow> buf_wf s"
  by (induction rule: vbuf_reachable.induct) (simp_all add: buf_wf_init run_vbuf_op_wf)

section \<open>Witnesses\<close>

lemma createVAO_never_returns_witness:
  "createVAO demo_buf_driver [(GL_VERTEX_ARRAY, VBInfo triangle_vbo)] None buf_init =
     (Inl (AttributeError ''id''),
      buf_init\<lparr>buf_next := 2, vao_names := {1}, vaos := [0 \<mapsto> vao_init, 1 \<mapsto> vao_init], vao_binding := 1\<rparr>)"
  using createVAO_never_returns [of demo_buf_driver "[(GL_VERTEX_ARRAY, VBInfo triangle_vbo)]" None buf_init
      GL_VERTEX_ARRAY triangle_vbo "[]"] buf_wf_init
  by (simp add: buf_init_def fun_upd_twist)

lemma validate_never_true_witness:
  "validate triangle_vbo one_buffer = (Inl (ValueError ''Invalid `target` type.''), one_buffer)"
  using validate_never_true [of triangle_vbo one_buffer]
  by (simp add: triangle_vbo_def one_buffer_def hasBuffer_def glIsBuffer_def gl_enum_defs)

lemma createVBO_ok_witness:
  "createVBO [3, 3] GL_ARRAY_BUFFER GL_FLOAT GL_STATIC_DRAW buf_init = (Inr triangle_vbo, one_buffer)"
  using createVBO_ok [of buf_init GL_FLOAT 4 "[3, 3]" GL_STATIC_DRAW] buf_wf_init
  by (simp add: triangle_vbo_def one_buffer_def buf_init_def dict_get_def gl_compat_types_def
      buffer_usages_def gl_enum_defs)

lemma vbuf_reachable_wf_witness:
  "buf_wf (run_vbuf_op demo_buf_driver (CreateVAO [(GL_VERTEX_ARRAY, VBInfo triangle_vbo)] None)
            (run_vbuf_op demo_buf_driver (CreateVBO [3, 3] GL_ARRAY_BUFFER GL_FLOAT GL_STATIC_DRAW) buf_init))"
  by (rule vbuf_reachable_wf [OF vbuf_reachable.step [OF vbuf_reachable.step [OF vbuf_reachable.init]]])

end
