(* ===== verification/GL_Lighting.thy ===== *)
theory GL_Lighting
  imports GL_Images Complex_Main
begin

text \<open>
  The fixed-function part of the OpenGL context that the material and
  lighting helpers of \<open>gltools.py\<close> drive (OpenGL 3.3 compatibility profile,
  sections 2.13 and 3.9): the front and back material parameters, the
  parameters of each light, the light model's ambient colour, the enables of
  lighting, normalization and each light, the per-unit enable and binding of
  \<open>GL_TEXTURE_2D\<close>, the active texture unit, the current colour and colour
  mask, and the error flag.  As in \<open>GL_Context\<close>, this is the environment of
  the code, not code of the repository; a misuse sets the error flag and
  changes nothing else.

  A parameter is passed as a pointer to floats; the model passes the list of
  floats the pointer holds and the driver keeps as many as the parameter has
  (four for colours and positions, three for a spot direction, one for a
  scalar).  The modelview transformation of positions and spot directions is
  the identity here: the helpers never set it.  Texture objects themselves
  are the business of \<open>GL_Images\<close>; here a unit's \<open>GL_TEXTURE_2D\<close> binding is a
  name.
\<close>

section \<open>Enumerants\<close>

definition GL_FRONT :: int where "GL_FRONT = 0x0404"
definition GL_BACK :: int where "GL_BACK = 0x0405"
definition GL_FRONT_AND_BACK :: int where "GL_FRONT_AND_BACK = 0x0408"
definition GL_AMBIENT :: int where "GL_AMBIENT = 0x1200"
definition GL_DIFFUSE :: int where "GL_DIFFUSE = 0x1201"
definition GL_SPECULAR :: int where "GL_SPECULAR = 0x1202"
definition GL_POSITION :: int where "GL_POSITION = 0x1203"
definition GL_SPOT_DIRECTION :: int where "GL_SPOT_DIRECTION = 0x1204"
definition GL_SPOT_EXPONENT :: int where "GL_SPOT_EXPONENT = 0x1205"
definition GL_SPOT_CUTOFF :: int where "GL_SPOT_CUTOFF = 0x1206"
definition GL_CONSTANT_ATTENUATION :: int where "GL_CONSTANT_ATTENUATION = 0x1207"
definition GL_LINEAR_ATTENUATION :: int where "GL_LINEAR_ATTENUATION = 0x1208"
definition GL_QUADRATIC_ATTENUATION :: int where "GL_QUADRATIC_ATTENUATION = 0x1209"
definition GL_EMISSION :: int where "GL_EMISSION = 0x1600"
definition GL_SHININESS :: int where "GL_SHININESS = 0x1601"
definition GL_AMBIENT_AND_DIFFUSE :: int where "GL_AMBIENT_AND_DIFFUSE = 0x1602"
definition GL_COLOR_INDEXES :: int where "GL_COLOR_INDEXES = 0x1603"
definition GL_LIGHTING :: int where "GL_LIGHTING = 0x0B50"
definition GL_LIGHT_MODEL_AMBIENT :: int where "GL_LIGHT_MODEL_AMBIENT = 0x0B53"
definition GL_NORMALIZE :: int where "GL_NORMALIZE = 0x0BA1"
definition GL_MAX_LIGHTS :: int where "GL_MAX_LIGHTS = 0x0D31"
definition GL_LIGHT0 :: int where "GL_LIGHT0 = 0x4000"
definition GL_TEXTURE0 :: int where "GL_TEXTURE0 = 0x84C0"
definition GL_ACTIVE_TEXTURE :: int where "GL_ACTIVE_TEXTURE = 0x84E0"
definition GL_MAX_COMBINED_TEXTURE_IMAGE_UNITS :: int where
  "GL_MAX_COMBINED_TEXTURE_IMAGE_UNITS = 0x8B4D"

declare GL_FRONT_def [gl_enum_defs] GL_BACK_def [gl_enum_defs] GL_FRONT_AND_BACK_def [gl_enum_defs]
  GL_AMBIENT_def [gl_enum_defs] GL_DIFFUSE_def [gl_enum_defs] GL_SPECULAR_def [gl_enum_defs]
  GL_POSITION_def [gl_enum_defs] GL_SPOT_DIRECTION_def [gl_enum_defs]
  GL_SPOT_EXPONENT_def [gl_enum_defs] GL_SPOT_CUTOFF_def [gl_enum_defs]
  GL_CONSTANT_ATTENUATION_def [gl_enum_defs] GL_LINEAR_ATTENUATION_def [gl_enum_defs]
  GL_QUADRATIC_ATTENUATION_def [gl_enum_defs] GL_EMISSION_def [gl_enum_defs]
  GL_SHININESS_def [gl_enum_defs] GL_AMBIENT_AND_DIFFUSE_def [gl_enum_defs]
  GL_COLOR_INDEXES_def [gl_enum_defs] GL_LIGHTING_def [gl_enum_defs]
  GL_LIGHT_MODEL_AMBIENT_def [gl_enum_defs] GL_NORMALIZE_def [gl_enum_defs]
  GL_MAX_LIGHTS_def [gl_enum_defs] GL_LIGHT0_def [gl_enum_defs] GL_TEXTURE0_def [gl_enum_defs]
  GL_ACTIVE_TEXTURE_def [gl_enum_defs] GL_MAX_COMBINED_TEXTURE_IMAGE_UNITS_def [gl_enum_defs]

text \<open>The registry reserves \<open>0x4000 .. 0x4FFF\<close> for \<open>GL_LIGHTi\<close>; only the
  lights below \<open>GL_MAX_LIGHTS\<close> exist.\<close>

definition light_enum_range :: "int \<Rightarrow> bool" where
  "light_enum_range c \<longleftrightarrow> GL_LIGHT0 \<le> c \<and> c < GL_LIGHT0 + 0x1000"

section \<open>Driver limits and state\<close>

record light_driver =
  ldrv_max_lights :: nat
  ldrv_max_tex_units :: nat

record light_state =
  ls_material :: "int \<times> int \<Rightarrow> real list"
  light_param :: "int \<times> int \<Rightarrow> real list"
  model_ambient :: "real list"
  caps_on :: "int set"
  tex2d_on :: "int set"
  active_tex :: int
  tex2d_binding :: "int \<Rightarrow> nat"
  cur_color :: "real list"
  color_mask :: "bool list"
  ls_err :: "gl_error option"

text \<open>Initial values (tables 6.10 to 6.12 of the specification).\<close>

definition material_init :: "int \<Rightarrow> real list" where
  "material_init p =
     (if p = GL_AMBIENT then [0.2, 0.2, 0.2, 1] else if p = GL_DIFFUSE then [0.8, 0.8, 0.8, 1]
      else if p = GL_SHININESS then [0] else if p = GL_COLOR_INDEXES then [0, 1, 1]
      else [0, 0, 0, 1])"

definition light_init :: "int \<times> int \<Rightarrow> real list" where
  "light_init lp =
     (let (l, p) = lp in
      if p = GL_DIFFUSE \<or> p = GL_SPECULAR then (if l = GL_LIGHT0 then [1, 1, 1, 1] else [0, 0, 0, 1])
      else if p = GL_POSITION then [0, 0, 1, 0] else if p = GL_SPOT_DIRECTION then [0, 0, -1]
      else if p = GL_SPOT_CUTOFF then [180] else if p = GL_CONSTANT_ATTENUATION then [1]
      else if p = GL_AMBIENT then [0, 0, 0, 1] else [0])"

definition ls_init :: light_state where
  "ls_init = \<lparr>ls_material = (\<lambda>(f, p). material_init p), light_param = light_init,
     model_ambient = [0.2, 0.2, 0.2, 1], caps_on = {}, tex2d_on = {}, active_tex = GL_TEXTURE0,
     tex2d_binding = (\<lambda>u. 0), cur_color = [1, 1, 1, 1], color_mask = [True, True, True, True],
     ls_err = None\<rparr>"

definition ls_raise :: "gl_error \<Rightarrow> light_state \<Rightarrow> light_state" where
  "ls_raise e s = (if ls_err s = None then s\<lparr>ls_err := Some e\<rparr> else s)"

section \<open>Entry points\<close>

text \<open>\<open>glMaterialfv\<close>: \<open>GL_AMBIENT_AND_DIFFUSE\<close> sets both colours,
  \<open>GL_FRONT_AND_BACK\<close> both faces; a shininess outside \<open>[0, 128]\<close> is
  \<open>GL_INVALID_VALUE\<close>.\<close>

definition material_pnames :: "int set" where
  "material_pnames = {GL_AMBIENT, GL_DIFFUSE, GL_SPECULAR, GL_EMISSION, GL_SHININESS,
                      GL_AMBIENT_AND_DIFFUSE, GL_COLOR_INDEXES}"

definition material_width :: "int \<Rightarrow> nat" where
  "material_width p = (if p = GL_SHININESS then 1 else if p = GL_COLOR_INDEXES then 3 else 4)"

definition glMaterialfv :: "int \<Rightarrow> int \<Rightarrow> real list \<Rightarrow> light_state \<Rightarrow> light_state" where
  "glMaterialfv face p v s =
     (if face \<in> {GL_FRONT, GL_BACK, GL_FRONT_AND_BACK} \<and> p \<in> material_pnames then
        if p = GL_SHININESS \<and> \<not> list_all (\<lambda>x. 0 \<le> x \<and> x \<le> 128) (take 1 v) then ls_raise GL_INVALID_VALUE s
        else let faces = (if face = GL_FRONT_AND_BACK then {GL_FRONT, GL_BACK} else {face});
                 ps = (if p = GL_AMBIENT_AND_DIFFUSE then {GL_AMBIENT, GL_DIFFUSE} else {p})
             in s\<lparr>ls_material := (\<lambda>(f, q). if f \<in> faces \<and> q \<in> ps then take (material_width p) v
                                          else ls_material s (f, q))\<rparr>
      else ls_raise GL_INVALID_ENUM s)"

definition glGetMaterialfv :: "int \<Rightarrow> int \<Rightarrow> light_state \<Rightarrow> real list \<times> light_state" where
  "glGetMaterialfv face p s =
     (if face \<in> {GL_FRONT, GL_BACK} \<and> p \<in> material_pnames - {GL_AMBIENT_AND_DIFFUSE}
      then (ls_material s (face, p), s) else ([], ls_raise GL_INVALID_ENUM s))"

text \<open>\<open>glLightfv\<close> with the range checks of section 2.13.1.\<close>

definition light_pnames :: "int set" where
  "light_pnames = {GL_AMBIENT, GL_DIFFUSE, GL_SPECULAR, GL_POSITION, GL_SPOT_DIRECTION,
                   GL_SPOT_EXPONENT, GL_SPOT_CUTOFF, GL_CONSTANT_ATTENUATION,
                   GL_LINEAR_ATTENUATION, GL_QUADRATIC_ATTENUATION}"

definition light_width :: "int \<Rightarrow> nat" where
  "light_width p = (if p \<in> {GL_AMBIENT, GL_DIFFUSE, GL_SPECULAR, GL_POSITION} then 4
                    else if p = GL_SPOT_DIRECTION then 3 else 1)"

definition light_value_ok :: "int \<Rightarrow> real list \<Rightarrow> bool" where
  "light_value_ok p v =
     (if p = GL_SPOT_EXPONENT then list_all (\<lambda>x. 0 \<le> x \<and> x \<le> 128) (take 1 v)
      else if p = GL_SPOT_CUTOFF then list_all (\<lambda>x. (0 \<le> x \<and> x \<le> 90) \<or> x = 180) (take 1 v)
      else if p \<in> {GL_CONSTANT_ATTENUATION, GL_LINEAR_ATTENUATION, GL_QUADRATIC_ATTENUATION}
      then list_all (\<lambda>x. 0 \<le> x) (take 1 v) else True)"

definition is_light :: "light_driver \<Rightarrow> int \<Rightarrow> bool" where
  "is_light drv l \<longleftrightarrow> GL_LIGHT0 \<le> l \<and> l < GL_LIGHT0 + int (ldrv_max_lights drv)"

definition glLightfv :: "light_driver \<Rightarrow> int \<Rightarrow> int \<Rightarrow> real list \<Rightarrow> light_state \<Rightarrow> light_state" where
  "glLightfv drv l p v s =
     (if is_light drv l \<and> p \<in> light_pnames then
        if light_value_ok p v then s\<lparr>light_param := (light_param s)((l, p) := take (light_width p) v)\<rparr>
        else ls_raise GL_INVALID_VALUE s
      else ls_raise GL_INVALID_ENUM s)"

text \<open>\<open>glLightModelfv\<close>; of the light model only the ambient colour is kept.\<close>

definition glLightModelfv :: "int \<Rightarrow> real list \<Rightarrow> light_state \<Rightarrow> light_state" where
  "glLightModelfv p v s = (if p = GL_LIGHT_MODEL_AMBIENT then s\<lparr>model_ambient := take 4 v\<rparr> else s)"

text \<open>\<open>glEnable\<close> and \<open>glDisable\<close>: \<open>GL_TEXTURE_2D\<close> is per texture unit and
  acts on the active one; a light enumerant at or above \<open>GL_MAX_LIGHTS\<close> is
  \<open>GL_INVALID_ENUM\<close>.\<close>

definition glEnable_ls :: "light_driver \<Rightarrow> int \<Rightarrow> light_state \<Rightarrow> light_state" where
  "glEnable_ls drv c s =
     (if c = GL_TEXTURE_2D then s\<lparr>tex2d_on := insert (active_tex s) (tex2d_on s)\<rparr>
      else if light_enum_range c \<and> \<not> is_light drv c then ls_raise GL_INVALID_ENUM s
      else s\<lparr>caps_on := insert c (caps_on s)\<rparr>)"

definition glDisable_ls :: "light_driver \<Rightarrow> int \<Rightarrow> light_state \<Rightarrow> light_state" where
  "glDisable_ls drv c s =
     (if c = GL_TEXTURE_2D then s\<lparr>tex2d_on := tex2d_on s - {active_tex s}\<rparr>
      else if light_enum_range c \<and> \<not> is_light drv c then ls_raise GL_INVALID_ENUM s
      else s\<lparr>caps_on := caps_on s - {c}\<rparr>)"

definition is_tex_unit :: "light_driver \<Rightarrow> int \<Rightarrow> bool" where
  "is_tex_unit drv u \<longleftrightarrow> GL_TEXTURE0 \<le> u \<and> u < GL_TEXTURE0 + int (ldrv_max_tex_units drv)"

definition glActiveTexture :: "light_driver \<Rightarrow> int \<Rightarrow> light_state \<Rightarrow> light_state" where
  "glActiveTexture drv u s = (if is_tex_unit drv u then s\<lparr>active_tex := u\<rparr> else ls_raise GL_INVALID_ENUM s)"

text \<open>\<open>glBindTexture\<close> on the active unit; only the \<open>GL_TEXTURE_2D\<close> binding
  is kept.\<close>

definition glBindTexture_ls :: "int \<Rightarrow> nat \<Rightarrow> light_state \<Rightarrow> light_state" where
  "glBindTexture_ls t n s =
     (if t = GL_TEXTURE_2D then s\<lparr>tex2d_binding := (tex2d_binding s)(active_tex s := n)\<rparr> else s)"

definition glColor4f :: "real \<Rightarrow> real \<Rightarrow> real \<Rightarrow> real \<Rightarrow> light_state \<Rightarrow> light_state" where
  "glColor4f r g b a s = s\<lparr>cur_color := [r, g, b, a]\<rparr>"

definition glColorMask :: "bool \<Rightarrow> bool \<Rightarrow> bool \<Rightarrow> bool \<Rightarrow> light_state \<Rightarrow> light_state" where
  "glColorMask r g b a s = s\<lparr>color_mask := [r, g, b, a]\<rparr>"

definition glGetIntegerv_ls :: "light_driver \<Rightarrow> int \<Rightarrow> light_state \<Rightarrow> int \<times> light_state" where
  "glGetIntegerv_ls drv p s =
     (if p = GL_MAX_LIGHTS then (int (ldrv_max_lights drv), s)
      else if p = GL_MAX_COMBINED_TEXTURE_IMAGE_UNITS then (int (ldrv_max_tex_units drv), s)
      else if p = GL_ACTIVE_TEXTURE then (active_tex s, s)
      else (0, ls_raise GL_INVALID_ENUM s))"

section \<open>The context invariant\<close>

text \<open>The active unit is a unit of the implementation, and no light above
  the implementation's count is enabled.\<close>

definition ls_wf :: "light_driver \<Rightarrow> light_state \<Rightarrow> bool" where
  "ls_wf drv s \<longleftrightarrow> is_tex_unit drv (active_tex s) \<and> tex2d_on s \<subseteq> Collect (is_tex_unit drv) \<and>
     Collect light_enum_range \<inter> caps_on s \<subseteq> Collect (is_light drv)"

named_theorems ls_wf_intros "the lighting entry points preserve ls_wf"

lemma ls_wf_init: "0 < ldrv_max_tex_units drv \<Longrightarrow> ls_wf drv ls_init"
  by (simp add: ls_wf_def ls_init_def is_tex_unit_def)

lemma ls_raise_fields [simp]:
  "ls_material (ls_raise e s) = ls_material s" "light_param (ls_raise e s) = light_param s"
  "model_ambient (ls_raise e s) = model_ambient s" "caps_on (ls_raise e s) = caps_on s"
  "tex2d_on (ls_raise e s) = tex2d_on s" "active_tex (ls_raise e s) = active_tex s"
  "tex2d_binding (ls_raise e s) = tex2d_binding s" "cur_color (ls_raise e s) = cur_color s"
  "color_mask (ls_raise e s) = color_mask s"
  by (simp_all add: ls_raise_def)

text \<open>\<open>ls_wf\<close> reads only the active unit, the texture enables and the
  capabilities.\<close>

lemma ls_wf_frame:
  "ls_wf drv s \<Longrightarrow> active_tex t = active_tex s \<Longrightarrow> tex2d_on t = tex2d_on s \<Longrightarrow>
   caps_on t = caps_on s \<Longrightarrow> ls_wf drv t"
  by (simp add: ls_wf_def)

lemma ls_raise_wf [ls_wf_intros]: "ls_wf drv s \<Longrightarrow> ls_wf drv (ls_raise e s)"
  by (rule ls_wf_frame) simp_all

lemma glMaterialfv_wf [ls_wf_intros]: "ls_wf drv s \<Longrightarrow> ls_wf drv (glMaterialfv f p v s)"
  by (auto simp: glMaterialfv_def Let_def intro: ls_raise_wf ls_wf_frame)

lemma glLightfv_wf [ls_wf_intros]: "ls_wf drv s \<Longrightarrow> ls_wf drv (glLightfv drv l p v s)"
  by (auto simp: glLightfv_def intro: ls_raise_wf ls_wf_frame)

lemma glLightModelfv_wf [ls_wf_intros]: "ls_wf drv s \<Longrightarrow> ls_wf drv (glLightModelfv p v s)"
  by (auto simp: glLightModelfv_def intro: ls_wf_frame)

lemma glEnable_ls_wf [ls_wf_intros]: "ls_wf drv s \<Longrightarrow> ls_wf drv (glEnable_ls drv c s)"
  by (auto simp: glEnable_ls_def ls_wf_def ls_raise_def)

lemma glDisable_ls_wf [ls_wf_intros]: "ls_wf drv s \<Longrightarrow> ls_wf drv (glDisable_ls drv c s)"
  by (auto simp: glDisable_ls_def ls_wf_def ls_raise_def)

lemma glActiveTexture_wf [ls_wf_intros]: "ls_wf drv s \<Longrightarrow> ls_wf drv (glActiveTexture drv u s)"
  by (auto simp: glActiveTexture_def ls_wf_def ls_raise_def)

lemma glBindTexture_ls_wf [ls_wf_intros]: "ls_wf drv s \<Longrightarrow> ls_wf drv (glBindTexture_ls t n s)"
  by (auto simp: glBindTexture_ls_def intro: ls_wf_frame)

lemma glColor4f_wf [ls_wf_intros]: "ls_wf drv s \<Longrightarrow> ls_wf drv (glColor4f r g b a s)"
  by (auto simp: glColor4f_def intro: ls_wf_frame)

lemma glColorMask_wf [ls_wf_intros]: "ls_wf drv s \<Longrightarrow> ls_wf drv (glColorMask r g b a s)"
  by (auto simp: glColorMask_def intro: ls_wf_frame)

lemma glGetIntegerv_ls_wf [ls_wf_intros]: "ls_wf drv s \<Longrightarrow> ls_wf drv (snd (glGetIntegerv_ls drv p s))"
  by (auto simp: glGetIntegerv_ls_def intro: ls_raise_wf)

end
