(* ===== verification/Builder_Params.thy ===== *)
theory Builder_Params
  imports Py_Prelude Complex_Main
begin

text \<open>
  The objects the Builder code of the excerpt (\<open>polygon.py\<close>, \<open>AlertTools.py\<close>)
  manipulates: Python values as the datatype \<open>pyobj\<close>, the \<open>Param\<close> objects of
  a component's \<open>params\<close> dict, the experiment and the component.  The
  classes \<open>Param\<close>, \<open>BaseVisualComponent\<close> and the experiment live in
  modules outside the excerpt (\<open>_base.py\<close>, \<open>experiment.py\<close>); the records
  hold the attributes the excerpt reads or writes, and a keyword argument
  of \<open>Param(...)\<close> that the code does not pass is \<open>None\<close> (its default is
  set outside the excerpt).
\<close>

section \<open>Python values\<close>

datatype pyobj =
    PyStr string
  | PyInt int
  | PyFloat real
  | PyBool bool
  | PyNone
  | PyTuple "pyobj list"
  | PyList "pyobj list"

text \<open>\<open>str(v)\<close> for the values that reach a generated line: a \<open>str\<close> is itself,
  an \<open>int\<close> its decimal text, containers show the \<open>repr\<close> of their items.
  The shortest round-trip text of a float (\<open>float.__repr__\<close>) is an
  argument \<open>fr\<close>.\<close>

text \<open>\<open>sep.join(xs)\<close>.\<close>

fun str_join :: "string \<Rightarrow> string list \<Rightarrow> string" where
  "str_join sep [] = []"
| "str_join sep [x] = x"
| "str_join sep (x # xs) = x @ sep @ str_join sep xs"

fun py_repr :: "(real \<Rightarrow> string) \<Rightarrow> pyobj \<Rightarrow> string" where
  "py_repr fr (PyStr s) = CHR 0x27 # s @ [CHR 0x27]"
| "py_repr fr (PyInt i) = int_str i"
| "py_repr fr (PyFloat x) = fr x"
| "py_repr fr (PyBool b) = (if b then ''True'' else ''False'')"
| "py_repr fr PyNone = ''None''"
| "py_repr fr (PyTuple [x]) = ''('' @ py_repr fr x @ '',)''"
| "py_repr fr (PyTuple xs) = ''('' @ str_join '', '' (map (\<lambda>x. py_repr fr x) xs) @ '')''"
| "py_repr fr (PyList xs) = ''['' @ str_join '', '' (map (\<lambda>x. py_repr fr x) xs) @ '']''"

definition py_str :: "(real \<Rightarrow> string) \<Rightarrow> pyobj \<Rightarrow> string" where
  "py_str fr v = (case v of PyStr s \<Rightarrow> s | _ \<Rightarrow> py_repr fr v)"

text \<open>Sequencing of fallible steps, left to right: the first exception wins.\<close>

definition py_bind :: "'a py_result \<Rightarrow> ('a \<Rightarrow> 'b py_result) \<Rightarrow> 'b py_result" where
  "py_bind r f = (case r of Inl e \<Rightarrow> Inl e | Inr x \<Rightarrow> f x)"

text \<open>\<open>del d[k]\<close>.\<close>

definition dict_del :: "('k \<times> 'v) list \<Rightarrow> 'k \<Rightarrow> ('k \<times> 'v) list py_result" where
  "dict_del ps k = (if k \<in> set (map fst ps) then Inr (filter (\<lambda>(k', _). k' \<noteq> k) ps) else Inl KeyError)"

section \<open>Parameters, experiments, components\<close>

record param =
  val :: pyobj
  valType :: string
  allowedVals :: "pyobj list option"
  allowedTypes :: "pyobj list option"
  updates :: "string option"
  allowedUpdates :: "string list option"
  hint :: string
  label :: string
  categ :: "string option"

type_synonym params = "(string \<times> param) list"

record builder_exp =
  exp_settings :: params
  exp_libs :: "string list"

record component =
  c_exp :: builder_exp
  c_parentName :: string
  c_params :: params
  c_type :: string
  c_url :: string
  c_order :: "string list"
  c_alerts :: "int list"

section \<open>Example values\<close>

text \<open>A parameter holding a value, as the witnesses of the component theories
  build them.\<close>

definition code_param :: "pyobj \<Rightarrow> param" where
  "code_param v = \<lparr>val = v, valType = ''code'', allowedVals = None, allowedTypes = None, updates = None,
     allowedUpdates = None, hint = '''', label = '''', categ = None\<rparr>"

section \<open>Lemmas\<close>

lemma py_bind_simps [simp]: "py_bind (Inl e) f = Inl e" "py_bind (Inr x) f = f x"
  by (simp_all add: py_bind_def)

lemma map_of_filter_key [simp]: "map_of (filter (\<lambda>(k', _). k' \<noteq> k) ps) = (map_of ps)(k := None)"
  by (induction ps) (auto simp: fun_eq_iff)

lemma dict_del_ok: "k \<in> set (map fst ps) \<Longrightarrow> dict_del ps k = Inr (filter (\<lambda>(k', _). k' \<noteq> k) ps)"
  by (simp add: dict_del_def)

lemma dict_del_missing: "k \<notin> set (map fst ps) \<Longrightarrow> dict_del ps k = Inl KeyError"
  by (simp add: dict_del_def)

lemma keys_filter_key [simp]: "fst ` set (filter (\<lambda>(k', _). k' \<noteq> k) ps) = fst ` set ps - {k}"
  by (induction ps) auto

lemma map_of_fold_dict_set:
  "map_of (fold (\<lambda>(k, p) d. dict_set d k p) ps d) = map_of d ++ map_of (rev ps)"
  by (induction ps arbitrary: d) (auto simp: map_add_def fun_eq_iff split: option.split)

lemma keys_dict_set [simp]: "fst ` set (dict_set ps k v) = insert k (fst ` set ps)"
  by (induction ps k v rule: dict_set.induct) auto

lemma keys_fold_dict_set:
  "set (map fst (fold (\<lambda>(k, p) d. dict_set d k p) ps d)) = set (map fst d) \<union> set (map fst ps)"
  by (induction ps arbitrary: d) (simp_all add: split_def)

lemma map_of_rev_distinct: "distinct (map fst xs) \<Longrightarrow> map_of (rev xs) = map_of xs"
proof
  fix k assume d: "distinct (map fst xs)"
  then have d': "distinct (map fst (rev xs))" by (simp add: rev_map [symmetric])
  show "map_of (rev xs) k = map_of xs k"
  proof (cases "map_of xs k")
    case None
    then show ?thesis by (metis map_of_eq_None_iff set_rev)
  next
    case (Some v)
    then have "(k, v) \<in> set xs" by (simp add: map_of_eq_Some_iff [OF d])
    then show ?thesis using Some by (simp add: map_of_eq_Some_iff [OF d'])
  qed
qed

end
