(* ===== verification/Materials.thy ===== *)
theory Materials
  imports GL_Lighting Framebuffers Builder_Params
begin

text \<open>
  The material and lighting helpers of \<open>psychopy/tools/gltools.py\<close>
  (lines 1981-2236) and the predefined materials (lines 2601-2748).  A
  \<open>Material\<close> and a \<open>Light\<close> (\<open>namedtuple\<close>s) are records; their parameter
  dictionaries are insertion-ordered association lists from a mode enumerant
  to the ctypes value stored for it, \<open>None\<close> for a slot never set.  The values
  the caller gives are Python objects (\<open>pyobj\<close>), converted as ctypes does:
  \<open>(GLfloat * n)(*v)\<close> unpacks \<open>v\<close>, converts each item to a float, pads with
  zeros and raises \<open>IndexError\<close> on an item past \<open>n\<close>.  The rounding of a
  \<open>GLfloat\<close> to single precision is not modelled: a float is a real.  Texture
  descriptors are the \<open>TexImage2D\<close> records of \<open>Framebuffers\<close>.
\<close>

section \<open>ctypes float values\<close>

text \<open>What a parameter slot holds: a \<open>GLfloat\<close> array or a single \<open>GLfloat\<close>;
  either is passed to a \<open>*fv\<close> entry point as a pointer to its floats.\<close>

datatype cvalue = CArray "real list" | CFloat real

definition cvalue_floats :: "cvalue \<Rightarrow> real list" where
  "cvalue_floats v = (case v of CArray xs \<Rightarrow> xs | CFloat x \<Rightarrow> [x])"

text \<open>\<open>c_float(v)\<close>: a number (\<open>bool\<close> is an \<open>int\<close>) or a \<open>TypeError\<close>.\<close>

fun c_float :: "pyobj \<Rightarrow> real py_result" where
  "c_float (PyInt i) = Inr (of_int i)"
| "c_float (PyFloat x) = Inr x"
| "c_float (PyBool b) = Inr (of_bool b)"
| "c_float _ = Inl (TypeError ''must be real number'')"

text \<open>\<open>*v\<close> in a call: the items of a tuple or list, the characters of a string.\<close>

fun py_unpack :: "pyobj \<Rightarrow> pyobj list py_result" where
  "py_unpack (PyTuple xs) = Inr xs"
| "py_unpack (PyList xs) = Inr xs"
| "py_unpack (PyStr s) = Inr (map (\<lambda>c. PyStr [c]) s)"
| "py_unpack _ = Inl (TypeError ''argument after * must be an iterable'')"

text \<open>The ctypes array constructor stores the items in order; an index past
  the array is \<open>IndexError\<close> before its item is converted, and the slots not
  given stay zero.\<close>

fun ctypes_fill :: "nat \<Rightarrow> pyobj list \<Rightarrow> real list py_result" where
  "ctypes_fill n [] = Inr (replicate n 0)"
| "ctypes_fill 0 (x # xs) = Inl IndexError"
| "ctypes_fill (Suc n) (x # xs) =
     py_bind (c_float x) (\<lambda>r. py_bind (ctypes_fill n xs) (\<lambda>rs. Inr (r # rs)))"

definition c_float_array :: "nat \<Rightarrow> pyobj \<Rightarrow> cvalue py_result" where
  "c_float_array n v = py_bind (py_unpack v) (\<lambda>xs. py_bind (ctypes_fill n xs) (\<lambda>rs. Inr (CArray rs)))"

definition GLfloat :: "pyobj \<Rightarrow> cvalue py_result" where
  "GLfloat v = py_bind (c_float v) (\<lambda>x. Inr (CFloat x))"

definition getIntegerv_ls :: "light_driver \<Rightarrow> int \<Rightarrow> light_state \<Rightarrow> int \<times> light_state" where
  "getIntegerv_ls drv parName s = glGetIntegerv_ls drv parName s"

section \<open>Materials\<close>

record material =
  mat_face :: int
  mat_params :: "(int \<times> cvalue option) list"
  mat_textures :: "(int \<times> tex_desc) list"
  mat_userData :: "(pyobj \<times> pyobj) list"

definition material_modes :: "int list" where
  "material_modes = [GL_AMBIENT, GL_DIFFUSE, GL_SPECULAR, GL_EMISSION, GL_SHININESS]"

text \<open>The loop over \<open>params\<close> in \<open>createMaterial\<close>.\<close>

fun set_material_params :: "(int \<times> pyobj) list \<Rightarrow> (int \<times> cvalue option) list \<Rightarrow>
    (int \<times> cvalue option) list py_result" where
  "set_material_params [] d = Inr d"
| "set_material_params ((mode, param) # ps) d =
     py_bind (if mode \<noteq> GL_SHININESS then c_float_array 4 param else GLfloat param)
       (\<lambda>v. set_material_params ps (dict_set d mode (Some v)))"

text \<open>\<open>createMaterial\<close> up to its texture loop: the descriptor with its empty
  slots, then the parameters.\<close>

definition new_material :: "(int \<times> pyobj) list \<Rightarrow> int \<Rightarrow> material py_result" where
  "new_material params face =
     (let slots = map (\<lambda>mode. (mode, None)) material_modes
      in py_bind (if params \<noteq> [] then set_material_params params slots else Inr slots)
           (\<lambda>ps. Inr \<lparr>mat_face = face, mat_params = ps, mat_textures = [], mat_userData = []\<rparr>))"

text \<open>The loop over \<open>textures\<close>: only an upper bound is checked.\<close>

fun set_material_textures :: "int \<Rightarrow> (int \<times> tex_desc) list \<Rightarrow> (int \<times> tex_desc) list \<Rightarrow>
    (int \<times> tex_desc) list py_result" where
  "set_material_textures maxTexUnits [] d = Inr d"
| "set_material_textures maxTexUnits ((unit, texDesc) # ts) d =
     (if unit \<le> GL_TEXTURE0 + (maxTexUnits - 1)
      then set_material_textures maxTexUnits ts (dict_set d unit texDesc)
      else Inl (ValueError ''Invalid texture unit enum.''))"

definition createMaterial :: "light_driver \<Rightarrow> (int \<times> pyobj) list \<Rightarrow> (int \<times> tex_desc) list \<Rightarrow> int \<Rightarrow>
    light_state \<Rightarrow> material py_result \<times> light_state" where
  "createMaterial drv params textures' face s =
     (case new_material params face of
        Inl e \<Rightarrow> (Inl e, s)
      | Inr m \<Rightarrow>
          if textures' = [] then (Inr m, s)
          else let (maxTexUnits, s1) = getIntegerv_ls drv GL_MAX_COMBINED_TEXTURE_IMAGE_UNITS s
               in (py_bind (set_material_textures maxTexUnits textures' [])
                     (\<lambda>ts. Inr (m\<lparr>mat_textures := ts\<rparr>)), s1))"

text \<open>The material \<open>useMaterial(None)\<close> restores, built when the module is
  imported (an exception there would be raised by every \<open>useMaterial(None)\<close>).\<close>

definition defaultMaterial :: "material py_result" where
  "defaultMaterial = new_material
     [(GL_AMBIENT, PyTuple [PyFloat 0.2, PyFloat 0.2, PyFloat 0.2, PyFloat 1.0]),
      (GL_DIFFUSE, PyTuple [PyFloat 0.8, PyFloat 0.8, PyFloat 0.8, PyFloat 1.0]),
      (GL_SPECULAR, PyTuple [PyFloat 0.0, PyFloat 0.0, PyFloat 0.0, PyFloat 1.0]),
      (GL_EMISSION, PyTuple [PyFloat 0.0, PyFloat 0.0, PyFloat 0.0, PyFloat 1.0]),
      (GL_SHININESS, PyInt 0)] GL_FRONT_AND_BACK"

text \<open>The four material libraries (\<open>namedtuple\<close>s indexed by name), each
  entry a \<open>createMaterial\<close> call without textures.\<close>

definition mineralMaterials :: "(string \<times> material py_result) list" where
  "mineralMaterials = [
    (''emerald'', new_material
       [(GL_AMBIENT, PyTuple [PyFloat 0.0215, PyFloat 0.1745, PyFloat 0.0215, PyFloat 1.0]),
        (GL_DIFFUSE, PyTuple [PyFloat 0.07568, PyFloat 0.61424, PyFloat 0.07568, PyFloat 1.0]),
        (GL_SPECULAR, PyTuple [PyFloat 0.633, PyFloat 0.727811, PyFloat 0.633, PyFloat 1.0]),
        (GL_SHININESS, PyFloat (0.6 * 128.0))] GL_FRONT_AND_BACK),
    (''jade'', new_material
       [(GL_AMBIENT, PyTuple [PyFloat 0.135, PyFloat 0.2225, PyFloat 0.1575, PyFloat 1.0]),
        (GL_DIFFUSE, PyTuple [PyFloat 0.54, PyFloat 0.89, PyFloat 0.63, PyFloat 1.0]),
        (GL_SPECULAR, PyTuple [PyFloat 0.316228, PyFloat 0.316228, PyFloat 0.316228, PyFloat 1.0]),
        (GL_SHININESS, PyFloat (0.1 * 128.0))] GL_FRONT_AND_BACK),
    (''obsidian'', new_material
       [(GL_AMBIENT, PyTuple [PyFloat 0.05375, PyFloat 0.05, PyFloat 0.06625, PyFloat 1.0]),
        (GL_DIFFUSE, PyTuple [PyFloat 0.18275, PyFloat 0.17, PyFloat 0.22525, PyFloat 1.0]),
        (GL_SPECULAR, PyTuple [PyFloat 0.332741, PyFloat 0.328634, PyFloat 0.346435, PyFloat 1.0]),
        (GL_SHININESS, PyFloat (0.3 * 128.0))] GL_FRONT_AND_BACK),
    (''pearl'', new_material
       [(GL_AMBIENT, PyTuple [PyFloat 0.25, PyFloat 0.20725, PyFloat 0.20725, PyFloat 1.0]),
        (GL_DIFFUSE, PyTuple [PyInt 1, PyFloat 0.829, PyFloat 0.829, PyFloat 1.0]),
        (GL_SPECULAR, PyTuple [PyFloat 0.296648, PyFloat 0.296648, PyFloat 0.296648, PyFloat 1.0]),
        (GL_SHININESS, PyFloat (0.088 * 128.0))] GL_FRONT_AND_BACK),
    (''ruby'', new_material
       [(GL_AMBIENT, PyTuple [PyFloat 0.1745, PyFloat 0.01175, PyFloat 0.01175, PyFloat 1.0]),
        (GL_DIFFUSE, PyTuple [PyFloat 0.61424, PyFloat 0.04136, PyFloat 0.04136, PyFloat 1.0]),
        (GL_SPECULAR, PyTuple [PyFloat 0.727811, PyFloat 0.626959, PyFloat 0.626959, PyFloat 1.0]),
        (GL_SHININESS, PyFloat (0.6 * 128.0))] GL_FRONT_AND_BACK),
    (''turquoise'', new_material
       [(GL_AMBIENT, PyTuple [PyFloat 0.1, PyFloat 0.18725, PyFloat 0.1745, PyFloat 1.0]),
        (GL_DIFFUSE, PyTuple [PyFloat 0.396, PyFloat 0.74151, PyFloat 0.69102, PyFloat 1.0]),
        (GL_SPECULAR, PyTuple [PyFloat 0.297254, PyFloat 0.30829, PyFloat 0.306678, PyFloat 1.0]),
        (GL_SHININESS, PyFloat (0.1 * 128.0))] GL_FRONT_AND_BACK)]"

definition metalMaterials :: "(string \<times> material py_result) list" where
  "metalMaterials = [
    (''brass'', new_material
       [(GL_AMBIENT, PyTuple [PyFloat 0.329412, PyFloat 0.223529, PyFloat 0.027451, PyFloat 1.0]),
        (GL_DIFFUSE, PyTuple [PyFloat 0.780392, PyFloat 0.568627, PyFloat 0.113725, PyFloat 1.0]),
        (GL_SPECULAR, PyTuple [PyFloat 0.992157, PyFloat 0.941176, PyFloat 0.807843, PyFloat 1.0]),
        (GL_SHININESS, PyFloat (0.21794872 * 128.0))] GL_FRONT_AND_BACK),
    (''bronze'', new_material
       [(GL_AMBIENT, PyTuple [PyFloat 0.2125, PyFloat 0.1275, PyFloat 0.054, PyFloat 1.0]),
        (GL_DIFFUSE, PyTuple [PyFloat 0.714, PyFloat 0.4284, PyFloat 0.18144, PyFloat 1.0]),
        (GL_SPECULAR, PyTuple [PyFloat 0.393548, PyFloat 0.271906, PyFloat 0.166721, PyFloat 1.0]),
        (GL_SHININESS, PyFloat (0.2 * 128.0))] GL_FRONT_AND_BACK),
    (''chrome'', new_material
       [(GL_AMBIENT, PyTuple [PyFloat 0.25, PyFloat 0.25, PyFloat 0.25, PyFloat 1.0]),
        (GL_DIFFUSE, PyTuple [PyFloat 0.4, PyFloat 0.4, PyFloat 0.4, PyFloat 1.0]),
        (GL_SPECULAR, PyTuple [PyFloat 0.774597, PyFloat 0.774597, PyFloat 0.774597, PyFloat 1.0]),
        (GL_SHININESS, PyFloat (0.6 * 128.0))] GL_FRONT_AND_BACK),
    (''copper'', new_material
       [(GL_AMBIENT, PyTuple [PyFloat 0.19125, PyFloat 0.0735, PyFloat 0.0225, PyFloat 1.0]),
        (GL_DIFFUSE, PyTuple [PyFloat 0.7038, PyFloat 0.27048, PyFloat 0.0828, PyFloat 1.0]),
        (GL_SPECULAR, PyTuple [PyFloat 0.256777, PyFloat 0.137622, PyFloat 0.086014, PyFloat 1.0]),
        (GL_SHININESS, PyFloat (0.1 * 128.0))] GL_FRONT_AND_BACK),
    (''gold'', new_material
       [(GL_AMBIENT, PyTuple [PyFloat 0.24725, PyFloat 0.1995, PyFloat 0.0745, PyFloat 1.0]),
        (GL_DIFFUSE, PyTuple [PyFloat 0.75164, PyFloat 0.60648, PyFloat 0.22648, PyFloat 1.0]),
        (GL_SPECULAR, PyTuple [PyFloat 0.628281, PyFloat 0.555802, PyFloat 0.366065, PyFloat 1.0]),
        (GL_SHININESS, PyFloat (0.4 * 128.0))] GL_FRONT_AND_BACK),
    (''silver'', new_material
       [(GL_AMBIENT, PyTuple [PyFloat 0.19225, PyFloat 0.19225, PyFloat 0.19225, PyFloat 1.0]),
        (GL_DIFFUSE, PyTuple [PyFloat 0.50754, PyFloat 0.50754, PyFloat 0.50754, PyFloat 1.0]),
        (GL_SPECULAR, PyTuple [PyFloat 0.508273, PyFloat 0.508273, PyFloat 0.508273, PyFloat 1.0]),
        (GL_SHININESS, PyFloat (0.4 * 128.0))] GL_FRONT_AND_BACK)]"

definition plasticMaterials :: "(string \<times> material py_result) list" where
  "plasticMaterials = [
    (''black'', new_material
       [(GL_AMBIENT, PyTuple [PyInt 0, PyInt 0, PyInt 0, PyFloat 1.0]),
        (GL_DIFFUSE, PyTuple [PyFloat 0.01, PyFloat 0.01, PyFloat 0.01, PyFloat 1.0]),
        (GL_SPECULAR, PyTuple [PyFloat 0.5, PyFloat 0.5, PyFloat 0.5, PyFloat 1.0]),
        (GL_SHININESS, PyFloat (0.25 * 128.0))] GL_FRONT_AND_BACK),
    (''cyan'', new_material
       [(GL_AMBIENT, PyTuple [PyInt 0, PyFloat 0.1, PyFloat 0.06, PyFloat 1.0]),
        (GL_DIFFUSE, PyTuple [PyFloat 0.06, PyInt 0, PyFloat 0.50980392, PyFloat 1.0]),
        (GL_SPECULAR, PyTuple [PyFloat 0.50196078, PyFloat 0.50196078, PyFloat 0.50196078, PyFloat 1.0]),
        (GL_SHININESS, PyFloat (0.25 * 128.0))] GL_FRONT_AND_BACK),
    (''green'', new_material
       [(GL_AMBIENT, PyTuple [PyInt 0, PyInt 0, PyInt 0, PyFloat 1.0]),
        (GL_DIFFUSE, PyTuple [PyFloat 0.1, PyFloat 0.35, PyFloat 0.1, PyFloat 1.0]),
        (GL_SPECULAR, PyTuple [PyFloat 0.45, PyFloat 0.55, PyFloat 0.45, PyFloat 1.0]),
        (GL_SHININESS, PyFloat (0.25 * 128.0))] GL_FRONT_AND_BACK),
    (''red'', new_material
       [(GL_AMBIENT, PyTuple [PyInt 0, PyInt 0, PyInt 0, PyFloat 1.0]),
        (GL_DIFFUSE, PyTuple [PyFloat 0.5, PyInt 0, PyInt 0, PyFloat 1.0]),
        (GL_SPECULAR, PyTuple [PyFloat 0.7, PyFloat 0.6, PyFloat 0.6, PyFloat 1.0]),
        (GL_SHININESS, PyFloat (0.25 * 128.0))] GL_FRONT_AND_BACK),
    (''white'', new_material
       [(GL_AMBIENT, PyTuple [PyInt 0, PyInt 0, PyInt 0, PyFloat 1.0]),
        (GL_DIFFUSE, PyTuple [PyFloat 0.55, PyFloat 0.55, PyFloat 0.55, PyFloat 1.0]),
        (GL_SPECULAR, PyTuple [PyFloat 0.7, PyFloat 0.7, PyFloat 0.7, PyFloat 1.0]),
        (GL_SHININESS, PyFloat (0.25 * 128.0))] GL_FRONT_AND_BACK),
    (''yellow'', new_material
       [(GL_AMBIENT, PyTuple [PyInt 0, PyInt 0, PyInt 0, PyFloat 1.0]),
        (GL_DIFFUSE, PyTuple [PyFloat 0.5, PyFloat 0.5, PyInt 0, PyFloat 1.0]),
        (GL_SPECULAR, PyTuple [PyFloat 0.6, PyFloat 0.6, PyFloat 0.5, PyFloat 1.0]),
        (GL_SHININESS, PyFloat (0.25 * 128.0))] GL_FRONT_AND_BACK)]"

definition rubberMaterials :: "(string \<times> material py_result) list" where
  "rubberMaterials = [
    (''black'', new_material
       [(GL_AMBIENT, PyTuple [PyFloat 0.02, PyFloat 0.02, PyFloat 0.02, PyFloat 1.0]),
        (GL_DIFFUSE, PyTuple [PyFloat 0.01, PyFloat 0.01, PyFloat 0.01, PyFloat 1.0]),
        (GL_SPECULAR, PyTuple [PyFloat 0.4, PyFloat 0.4, PyFloat 0.4, PyFloat 1.0]),
        (GL_SHININESS, PyFloat (0.078125 * 128.0))] GL_FRONT_AND_BACK),
    (''cyan'', new_material
       [(GL_AMBIENT, PyTuple [PyInt 0, PyFloat 0.05, PyFloat 0.05, PyFloat 1.0]),
        (GL_DIFFUSE, PyTuple [PyFloat 0.4, PyFloat 0.5, PyFloat 0.5, PyFloat 1.0]),
        (GL_SPECULAR, PyTuple [PyFloat 0.04, PyFloat 0.7, PyFloat 0.7, PyFloat 1.0]),
        (GL_SHININESS, PyFloat (0.078125 * 128.0))] GL_FRONT_AND_BACK),
    (''green'', new_material
       [(GL_AMBIENT, PyTuple [PyInt 0, PyFloat 0.05, PyInt 0, PyFloat 1.0]),
        (GL_DIFFUSE, PyTuple [PyFloat 0.4, PyFloat 0.5, PyFloat 0.4, PyFloat 1.0]),
        (GL_SPECULAR, PyTuple [PyFloat 0.04, PyFloat 0.7, PyFloat 0.04, PyFloat 1.0]),
        (GL_SHININESS, PyFloat (0.078125 * 128.0))] GL_FRONT_AND_BACK),
    (''red'', new_material
       [(GL_AMBIENT, PyTuple [PyFloat 0.05, PyInt 0, PyInt 0, PyFloat 1.0]),
        (GL_DIFFUSE, PyTuple [PyFloat 0.5, PyFloat 0.4, PyFloat 0.4, PyFloat 1.0]),
        (GL_SPECULAR, PyTuple [PyFloat 0.7, PyFloat 0.04, PyFloat 0.04, PyFloat 1.0]),
        (GL_SHININESS, PyFloat (0.078125 * 128.0))] GL_FRONT_AND_BACK),
    (''white'', new_material
       [(GL_AMBIENT, PyTuple [PyFloat 0.05, PyFloat 0.05, PyFloat 0.05, PyFloat 1.0]),
        (GL_DIFFUSE, PyTuple [PyFloat 0.5, PyFloat 0.5, PyFloat 0.5, PyFloat 1.0]),
        (GL_SPECULAR, PyTuple [PyFloat 0.7, PyFloat 0.7, PyFloat 0.7, PyFloat 1.0]),
        (GL_SHININESS, PyFloat (0.078125 * 128.0))] GL_FRONT_AND_BACK),
    (''yellow'', new_material
       [(GL_AMBIENT, PyTuple [PyFloat 0.05, PyFloat 0.05, PyInt 0, PyFloat 1.0]),
        (GL_DIFFUSE, PyTuple [PyFloat 0.5, PyFloat 0.5, PyFloat 0.4, PyFloat 1.0]),
        (GL_SPECULAR, PyTuple [PyFloat 0.7, PyFloat 0.7, PyFloat 0.04, PyFloat 1.0]),
        (GL_SHININESS, PyFloat (0.078125 * 128.0))] GL_FRONT_AND_BACK)]"

text \<open>The loops of \<open>useMaterial\<close>: the set slots of a material, every slot of
  the default material (an unset one would be a NULL pointer, which holds no
  floats), and the texture units.\<close>

fun apply_material_params :: "int \<Rightarrow> (int \<times> cvalue option) list \<Rightarrow> light_state \<Rightarrow> light_state" where
  "apply_material_params face [] s = s"
| "apply_material_params face ((mode, param) # ps) s =
     apply_material_params face ps
       (case param of None \<Rightarrow> s | Some v \<Rightarrow> glMaterialfv face mode (cvalue_floats v) s)"

fun reset_material_params :: "(int \<times> cvalue option) list \<Rightarrow> light_state \<Rightarrow> light_state" where
  "reset_material_params [] s = s"
| "reset_material_params ((mode, param) # ps) s =
     reset_material_params ps
       (glMaterialfv GL_FRONT_AND_BACK mode (case param of None \<Rightarrow> [] | Some v \<Rightarrow> cvalue_floats v) s)"

fun bind_material_textures :: "light_driver \<Rightarrow> (int \<times> tex_desc) list \<Rightarrow> light_state \<Rightarrow> light_state" where
  "bind_material_textures drv [] s = s"
| "bind_material_textures drv ((unit, desc) # ts) s =
     bind_material_textures drv ts
       (glBindTexture_ls GL_TEXTURE_2D (txd_id desc)
         (glColorMask True True True True (glColor4f 1 1 1 1 (glActiveTexture drv unit s))))"

definition useMaterial :: "light_driver \<Rightarrow> material option \<Rightarrow> bool \<Rightarrow> light_state \<Rightarrow>
    unit py_result \<times> light_state" where
  "useMaterial drv material useTextures s =
     (case material of
        Some m \<Rightarrow>
          let s1 = apply_material_params (mat_face m) (mat_params m) s
          in (Inr (), if useTextures \<and> mat_textures m \<noteq> []
                      then bind_material_textures drv (mat_textures m) (glEnable_ls drv GL_TEXTURE_2D s1)
                      else s1)
      | None \<Rightarrow>
          (case defaultMaterial of
             Inl e \<Rightarrow> (Inl e, s)
           | Inr d \<Rightarrow>
               let s1 = reset_material_params (mat_params d) s
               in (Inr (), if useTextures
                           then glDisable_ls drv GL_TEXTURE_2D
                                  (glBindTexture_ls GL_TEXTURE_2D 0 (glActiveTexture drv GL_TEXTURE0 s1))
                           else s1)))"

section \<open>Lights\<close>

record light =
  light_params :: "(int \<times> cvalue option) list"
  light_userData :: "(pyobj \<times> pyobj) list"

definition light_modes :: "int list" where
  "light_modes = [GL_AMBIENT, GL_DIFFUSE, GL_SPECULAR, GL_POSITION, GL_SPOT_CUTOFF, GL_SPOT_DIRECTION,
                  GL_SPOT_EXPONENT, GL_CONSTANT_ATTENUATION, GL_LINEAR_ATTENUATION,
                  GL_QUADRATIC_ATTENUATION]"

fun set_light_params :: "(int \<times> pyobj) list \<Rightarrow> (int \<times> cvalue option) list \<Rightarrow>
    (int \<times> cvalue option) list py_result" where
  "set_light_params [] d = Inr d"
| "set_light_params ((mode, value) # ps) d =
     (if value = PyNone then set_light_params ps d
      else py_bind (if mode \<in> set [GL_AMBIENT, GL_DIFFUSE, GL_SPECULAR, GL_POSITION] then c_float_array 4 value
                    else if mode = GL_SPOT_DIRECTION then c_float_array 3 value
                    else GLfloat value)
             (\<lambda>v. set_light_params ps (dict_set d mode (Some v))))"

definition createLight :: "(int \<times> pyobj) list \<Rightarrow> light py_result" where
  "createLight params =
     (let slots = map (\<lambda>mode. (mode, None)) light_modes
      in py_bind (if params \<noteq> [] then set_light_params params slots else Inr slots)
           (\<lambda>ps. Inr \<lparr>light_params = ps, light_userData = []\<rparr>))"

fun apply_light_params :: "light_driver \<Rightarrow> int \<Rightarrow> (int \<times> cvalue option) list \<Rightarrow> light_state \<Rightarrow> light_state" where
  "apply_light_params drv l [] s = s"
| "apply_light_params drv l ((mode, value) # ps) s =
     apply_light_params drv l ps
       (case value of None \<Rightarrow> s | Some v \<Rightarrow> glLightfv drv l mode (cvalue_floats v) s)"

text \<open>The \<open>enumerate(lights)\<close> loop of \<open>useLights\<close>.\<close>

fun setup_lights :: "light_driver \<Rightarrow> bool \<Rightarrow> nat \<Rightarrow> light list \<Rightarrow> light_state \<Rightarrow> light_state" where
  "setup_lights drv setupOnly index [] s = s"
| "setup_lights drv setupOnly index (light # ls) s =
     (let enumLight = GL_LIGHT0 + int index;
          s1 = apply_light_params drv enumLight (light_params light) s
      in setup_lights drv setupOnly (Suc index) ls
           (if setupOnly then s1 else glEnable_ls drv enumLight s1))"

definition useLights :: "light_driver \<Rightarrow> light list option \<Rightarrow> bool \<Rightarrow> light_state \<Rightarrow>
    unit py_result \<times> light_state" where
  "useLights drv lights setupOnly s =
     (case lights of
        Some ls \<Rightarrow>
          let (maxLights, s1) = getIntegerv_ls drv GL_MAX_LIGHTS s
          in if int (length ls) > maxLights
             then (Inl IndexError, s1)
             else let s2 = setup_lights drv setupOnly 0 ls (glEnable_ls drv GL_NORMALIZE s1)
                  in (Inr (), if setupOnly then s2 else glEnable_ls drv GL_LIGHTING s2)
      | None \<Rightarrow>
          if setupOnly then (Inr (), s)
          else let (maxLights, s1) = getIntegerv_ls drv GL_MAX_LIGHTS s;
                   s2 = fold (\<lambda>enumLight. glDisable_ls drv (GL_LIGHT0 + enumLight)) [0..maxLights - 1] s1
               in (Inr (), glDisable_ls drv GL_LIGHTING (glDisable_ls drv GL_NORMALIZE s2)))"

definition setAmbientLight :: "pyobj \<Rightarrow> light_state \<Rightarrow> unit py_result \<times> light_state" where
  "setAmbientLight color s =
     (case c_float_array 4 color of
        Inl e \<Rightarrow> (Inl e, s)
      | Inr v \<Rightarrow> (Inr (), glLightModelfv GL_LIGHT_MODEL_AMBIENT (cvalue_floats v) s))"

section \<open>Specification predicates and the helpers as steps\<close>

text \<open>A slot is well typed when a colour or position slot holds an array of
  four floats and the shininess slot a single float; \<open>colour_params\<close> writes
  colours as the tuples of floats a caller passes; \<open>material_call_ok\<close> says a
  slot's \<open>glMaterialfv\<close> call is one the driver accepts.  The helpers that
  change the context are the steps of \<open>light_reachable\<close>.\<close>

definition slot_typed :: "int \<times> cvalue option \<Rightarrow> bool" where
  "slot_typed slot =
     (case slot of (mode, None) \<Rightarrow> True
      | (mode, Some (CArray xs)) \<Rightarrow> mode \<noteq> GL_SHININESS \<and> length xs = 4
      | (mode, Some (CFloat x)) \<Rightarrow> mode = GL_SHININESS)"

definition slots_typed :: "(int \<times> cvalue option) list \<Rightarrow> bool" where
  "slots_typed d \<longleftrightarrow> distinct (map fst d) \<and> list_all slot_typed d"

definition colour_modes :: "int set" where
  "colour_modes = {GL_AMBIENT, GL_DIFFUSE, GL_SPECULAR, GL_EMISSION}"

definition colour_params :: "(int \<times> real list) list \<Rightarrow> (int \<times> pyobj) list" where
  "colour_params cs = map (\<lambda>(mode, c). (mode, PyTuple (map PyFloat c))) cs"

datatype light_op =
    OpCreateMaterial "(int \<times> pyobj) list" "(int \<times> tex_desc) list" int
  | OpUseMaterial "material option" bool
  | OpUseLights "light list option" bool
  | OpSetAmbientLight pyobj

fun run_light_op :: "light_driver \<Rightarrow> light_op \<Rightarrow> light_state \<Rightarrow> light_state" where
  "run_light_op drv (OpCreateMaterial ps ts f) s = snd (createMaterial drv ps ts f s)"
| "run_light_op drv (OpUseMaterial m ut) s = snd (useMaterial drv m ut s)"
| "run_light_op drv (OpUseLights ls so) s = snd (useLights drv ls so s)"
| "run_light_op drv (OpSetAmbientLight c) s = snd (setAmbientLight c s)"

inductive light_reachable :: "light_driver \<Rightarrow> light_state \<Rightarrow> bool" for drv where
  init: "light_reachable drv ls_init"
| step: "light_reachable drv s \<Longrightarrow> light_reachable drv (run_light_op drv op s)"

definition material_call_ok :: "int \<Rightarrow> int \<times> cvalue option \<Rightarrow> bool" where
  "material_call_ok face slot =
     (case slot of (p, None) \<Rightarrow> True
      | (p, Some v) \<Rightarrow> face \<in> {GL_FRONT, GL_BACK, GL_FRONT_AND_BACK} \<and> p \<in> material_pnames \<and>
          (if p = GL_SHININESS then list_all (\<lambda>x. 0 \<le> x \<and> x \<le> 128) (take 1 (cvalue_floats v)) else True))"

definition library_ok :: "material py_result \<Rightarrow> bool" where
  "library_ok r = (case r of Inl e \<Rightarrow> False
      | Inr m \<Rightarrow> slots_typed (mat_params m) \<and> mat_textures m = [] \<and>
                list_all (material_call_ok (mat_face m)) (mat_params m))"

section \<open>Examples\<close>

definition demo_light_driver :: light_driver where
  "demo_light_driver = \<lparr>ldrv_max_lights = 8, ldrv_max_tex_units = 16\<rparr>"

definition demo_texture :: tex_desc where
  "demo_texture = \<lparr>txd_id = 3, txd_target = GL_TEXTURE_2D, txd_width = 64, txd_height = 64,
     txd_format = GL_RGBA8, txd_pixel_format = GL_RGBA, txd_data_type = GL_FLOAT,
     txd_unpack_alignment = 4, txd_samples = 0, txd_multisample = False\<rparr>"

definition empty_material :: "int \<Rightarrow> material" where
  "empty_material face = \<lparr>mat_face = face, mat_params = map (\<lambda>mode. (mode, None)) material_modes,
     mat_textures = [], mat_userData = []\<rparr>"

text \<open>A diffuse colour given with two items: ctypes pads it with zeros, so
  its alpha is 0.\<close>

definition demo_diffuse :: "(int \<times> pyobj) list" where
  "demo_diffuse = [(GL_DIFFUSE, PyTuple [PyFloat 0.5, PyInt 1])]"

definition demo_diffuse_material :: material where
  "demo_diffuse_material = \<lparr>mat_face = GL_FRONT,
     mat_params = [(GL_AMBIENT, None), (GL_DIFFUSE, Some (CArray [0.5, 1, 0, 0])), (GL_SPECULAR, None),
                   (GL_EMISSION, None), (GL_SHININESS, None)],
     mat_textures = [], mat_userData = []\<rparr>"

text \<open>A material textured on unit 1, applied in a fresh context.\<close>

definition demo_textured_material :: material where
  "demo_textured_material = (empty_material GL_FRONT)\<lparr>mat_textures := [(GL_TEXTURE0 + 1, demo_texture)]\<rparr>"

definition demo_textured_state :: light_state where
  "demo_textured_state = snd (useMaterial demo_light_driver (Some demo_textured_material) True ls_init)"

section \<open>Lemmas\<close>

lemma ctypes_fill_length: "ctypes_fill n xs = Inr rs \<Longrightarrow> length rs = n"
  by (induction n xs arbitrary: rs rule: ctypes_fill.induct) (auto simp: py_bind_def split: sum.splits)

lemma c_float_array_ok: "c_float_array n v = Inr c \<Longrightarrow> \<exists>rs. c = CArray rs \<and> length rs = n"
  by (auto simp: c_float_array_def py_bind_def ctypes_fill_length split: sum.splits)

lemma GLfloat_ok: "GLfloat v = Inr c \<Longrightarrow> \<exists>x. c = CFloat x"
  by (auto simp: GLfloat_def py_bind_def split: sum.splits)

lemma ctypes_fill_floats:
  "ctypes_fill n (map PyFloat xs) =
     (if length xs \<le> n then Inr (xs @ replicate (n - length xs) 0) else Inl IndexError)"
proof (induction xs arbitrary: n)
  case (Cons x xs)
  then show ?case by (cases n) simp_all
qed simp

lemma slots_typed_dict_set:
  "slots_typed d \<Longrightarrow> slot_typed (k, v) \<Longrightarrow> slots_typed (dict_set d k v)"
  using set_dict_set[of d k v] by (auto simp: slots_typed_def list_all_iff)

lemma set_material_params_typed:
  "set_material_params ps d = Inr d' \<Longrightarrow> slots_typed d \<Longrightarrow> slots_typed d'"
proof (induction ps d rule: set_material_params.induct)
  case (2 mode param ps d)
  then obtain v where v: "(if mode \<noteq> GL_SHININESS then c_float_array 4 param else GLfloat param) = Inr v"
    and rest: "set_material_params ps (dict_set d mode (Some v)) = Inr d'"
    by (auto simp: py_bind_def split: sum.splits)
  have "slot_typed (mode, Some v)"
    using v c_float_array_ok GLfloat_ok by (fastforce simp: slot_typed_def split: if_splits)
  with 2 v rest show ?case by (simp add: slots_typed_dict_set)
qed simp

lemma set_material_params_keys:
  "set_material_params ps d = Inr d' \<Longrightarrow> fst ` set d \<subseteq> fst ` set d'"
proof (induction ps d rule: set_material_params.induct)
  case (2 mode param ps d)
  then show ?case by (force simp: py_bind_def dict_set_keys split: sum.splits if_splits)
qed simp

lemma new_material_typed:
  "new_material params face = Inr m \<Longrightarrow>
     slots_typed (mat_params m) \<and> set material_modes \<subseteq> fst ` set (mat_params m) \<and>
     mat_face m = face \<and> mat_textures m = []"
  unfolding new_material_def Let_def
  using set_material_params_typed set_material_params_keys
  by (fastforce simp: py_bind_def slots_typed_def material_modes_def slot_typed_def gl_enum_defs
      split: sum.splits if_splits)

lemma set_material_textures_eq:
  "set_material_textures mx ts d =
     (if list_all (\<lambda>(u, _). u \<le> GL_TEXTURE0 + (mx - 1)) ts
      then Inr (fold (\<lambda>(u, t) acc. dict_set acc u t) ts d)
      else Inl (ValueError ''Invalid texture unit enum.''))"
  by (induction mx ts d rule: set_material_textures.induct) simp_all

lemma getIntegerv_max_units [simp]:
  "getIntegerv_ls drv GL_MAX_COMBINED_TEXTURE_IMAGE_UNITS s = (int (ldrv_max_tex_units drv), s)"
  "getIntegerv_ls drv GL_MAX_LIGHTS s = (int (ldrv_max_lights drv), s)"
  by (simp_all add: getIntegerv_ls_def glGetIntegerv_ls_def gl_enum_defs)

text \<open>C16: with textures, \<open>createMaterial\<close> queries
  \<open>GL_MAX_COMBINED_TEXTURE_IMAGE_UNITS\<close> and raises \<open>ValueError\<close> exactly
  when some unit is at or above \<open>GL_TEXTURE0\<close> plus that count; otherwise
  the material's textures are the dictionary built from the pairs given.
  Nothing bounds a unit from below.\<close>

theorem createMaterial_texture_units:
  assumes "new_material params face = Inr m" "textures' \<noteq> []"
  shows "createMaterial drv params textures' face s =
     (if list_all (\<lambda>(u, _). u < GL_TEXTURE0 + int (ldrv_max_tex_units drv)) textures'
      then Inr (m\<lparr>mat_textures := fold (\<lambda>(u, t) acc. dict_set acc u t) textures' []\<rparr>)
      else Inl (ValueError ''Invalid texture unit enum.''), s)"
proof -
  have "(\<lambda>(u, _). u \<le> GL_TEXTURE0 + (int (ldrv_max_tex_units drv) - 1)) =
        (\<lambda>(u, _::tex_desc). u < GL_TEXTURE0 + int (ldrv_max_tex_units drv))"
    by (auto simp: fun_eq_iff)
  then show ?thesis
    using assms by (simp add: createMaterial_def set_material_textures_eq)
qed

lemma glActiveTexture_ok [simp]: "is_tex_unit drv u \<Longrightarrow> glActiveTexture drv u s = s\<lparr>active_tex := u\<rparr>"
  by (simp add: glActiveTexture_def)

lemma glMaterialfv_frame [simp]:
  "light_param (glMaterialfv f p v s) = light_param s" "model_ambient (glMaterialfv f p v s) = model_ambient s"
  "caps_on (glMaterialfv f p v s) = caps_on s" "tex2d_on (glMaterialfv f p v s) = tex2d_on s"
  "active_tex (glMaterialfv f p v s) = active_tex s" "tex2d_binding (glMaterialfv f p v s) = tex2d_binding s"
  "cur_color (glMaterialfv f p v s) = cur_color s" "color_mask (glMaterialfv f p v s) = color_mask s"
  by (simp_all add: glMaterialfv_def Let_def)

lemma apply_material_params_frame [simp]:
  "light_param (apply_material_params f ps s) = light_param s"
  "caps_on (apply_material_params f ps s) = caps_on s" "tex2d_on (apply_material_params f ps s) = tex2d_on s"
  "active_tex (apply_material_params f ps s) = active_tex s"
  "tex2d_binding (apply_material_params f ps s) = tex2d_binding s"
  by (induction f ps s rule: apply_material_params.induct) (simp_all split: option.split)

lemma bind_material_textures_valid:
  "list_all (is_tex_unit drv \<circ> fst) ts \<Longrightarrow> ts \<noteq> [] \<Longrightarrow>
   active_tex (bind_material_textures drv ts s) = fst (last ts) \<and>
   tex2d_on (bind_material_textures drv ts s) = tex2d_on s \<and>
   tex2d_binding (bind_material_textures drv ts s) =
     fold (\<lambda>(u, d) b. b(u := txd_id d)) ts (tex2d_binding s) \<and>
   ls_err (bind_material_textures drv ts s) = ls_err s"
proof (induction ts arbitrary: s)
  case (Cons a ts)
  then show ?case
    by (cases a; cases ts) (simp_all add: glBindTexture_ls_def glColor4f_def glColorMask_def fun_upd_def)
qed simp

text \<open>C9: \<open>useMaterial\<close> with textures enables \<open>GL_TEXTURE_2D\<close> once,
  before its loop, so only on the texture unit active on entry, not on the
  material's units; afterwards the last material unit is active and each
  unit holds the last texture given for it.\<close>

theorem useMaterial_enables_entry_unit:
  "mat_textures m \<noteq> [] \<Longrightarrow> list_all (is_tex_unit drv \<circ> fst) (mat_textures m) \<Longrightarrow>
   useMaterial drv (Some m) True s = (Inr (), r) \<Longrightarrow>
   tex2d_on r = insert (active_tex s) (tex2d_on s) \<and> active_tex r = fst (last (mat_textures m)) \<and>
   tex2d_binding r = fold (\<lambda>(u, d) b. b(u := txd_id d)) (mat_textures m) (tex2d_binding s)"
  using bind_material_textures_valid[of drv "mat_textures m"]
  by (auto simp: useMaterial_def Let_def glEnable_ls_def)

lemma bind_material_textures_bad_unit:
  "\<not> is_tex_unit drv u \<Longrightarrow>
   active_tex (bind_material_textures drv [(u, d)] s) = active_tex s \<and>
   tex2d_binding (bind_material_textures drv [(u, d)] s) = (tex2d_binding s)(active_tex s := txd_id d) \<and>
   ls_err (bind_material_textures drv [(u, d)] s) \<noteq> None"
  by (simp add: glActiveTexture_def glBindTexture_ls_def glColor4f_def glColorMask_def ls_raise_def)

lemma colour_mode_facts:
  "p \<in> colour_modes \<Longrightarrow> p \<in> material_pnames \<and> p \<noteq> GL_SHININESS \<and> p \<noteq> GL_AMBIENT_AND_DIFFUSE \<and>
     material_width p = 4"
  by (auto simp: colour_modes_def material_pnames_def material_width_def gl_enum_defs)

lemma glMaterialfv_colour:
  "p \<in> colour_modes \<Longrightarrow> face \<in> {GL_FRONT, GL_BACK, GL_FRONT_AND_BACK} \<Longrightarrow> f \<in> {GL_FRONT, GL_BACK} \<Longrightarrow>
   ls_material (glMaterialfv face p v s) (f, q) =
     (if q = p \<and> (f = face \<or> face = GL_FRONT_AND_BACK) then take 4 v
      else ls_material s (f, q))"
  using colour_mode_facts[of p] by (auto simp: glMaterialfv_def Let_def gl_enum_defs)

lemma apply_material_params_colour:
  "distinct (map fst ps) \<Longrightarrow> list_all (\<lambda>(p, v). v = None \<or> p \<in> colour_modes) ps \<Longrightarrow>
   face \<in> {GL_FRONT, GL_BACK, GL_FRONT_AND_BACK} \<Longrightarrow> f \<in> {GL_FRONT, GL_BACK} \<Longrightarrow>
   ls_material (apply_material_params face ps s) (f, q) =
     (case map_of ps q of
        Some (Some v) \<Rightarrow> if f = face \<or> face = GL_FRONT_AND_BACK
                        then take 4 (cvalue_floats v) else ls_material s (f, q)
      | _ \<Rightarrow> ls_material s (f, q))"
proof (induction ps arbitrary: s)
  case (Cons a ps)
  obtain mode param where a: "a = (mode, param)" by fastforce
  have nm: "map_of ps mode = None" using Cons.prems(1) a by (simp add: map_of_eq_None_iff)
  show ?case
  proof (cases param)
    case None
    with Cons a nm show ?thesis by (cases "q = mode") simp_all
  next
    case (Some v)
    with Cons.prems a have "mode \<in> colour_modes" by simp
    have g: "q \<noteq> mode \<Longrightarrow> ls_material (glMaterialfv face mode (cvalue_floats v) s) (f, q) = ls_material s (f, q)"
      using glMaterialfv_colour[OF \<open>mode \<in> colour_modes\<close>, of face f "cvalue_floats v" s q] Cons.prems by simp
    have g': "ls_material (glMaterialfv face mode (cvalue_floats v) s) (f, mode) =
        (if f = face \<or> face = GL_FRONT_AND_BACK then take 4 (cvalue_floats v) else ls_material s (f, mode))"
      using glMaterialfv_colour[OF \<open>mode \<in> colour_modes\<close>, of face f "cvalue_floats v" s mode] Cons.prems by simp
    from Cons a nm Some g g' show ?thesis
      by (cases "q = mode") (simp_all split: option.split)
  qed
qed simp

lemma c_float_array_floats: "length c = 4 \<Longrightarrow> c_float_array 4 (PyTuple (map PyFloat c)) = Inr (CArray c)"
  by (simp add: c_float_array_def ctypes_fill_floats)

lemma set_material_params_colours:
  "list_all (\<lambda>(mode, c). mode \<noteq> GL_SHININESS \<and> length c = 4) cs \<Longrightarrow>
   set_material_params (colour_params cs) d =
     Inr (fold (\<lambda>(k, p) d. dict_set d k p) (map (\<lambda>(mode, c). (mode, Some (CArray c))) cs) d)"
proof (induction cs arbitrary: d)
  case (Cons a cs)
  obtain mode c where a: "a = (mode, c)" by fastforce
  with Cons.prems have "mode \<noteq> GL_SHININESS" "length c = 4" by simp_all
  moreover have "c_float_array 4 (PyTuple (map PyFloat c)) = Inr (CArray c)"
    using calculation(2) by (rule c_float_array_floats)
  ultimately show ?case using Cons a by (simp add: colour_params_def)
qed (simp add: colour_params_def)

lemma fold_dict_set_same_keys:
  "set (map fst new) \<subseteq> set (map fst d) \<Longrightarrow> map fst (fold (\<lambda>(k, p) d. dict_set d k p) new d) = map fst d"
proof (induction new arbitrary: d)
  case (Cons a new)
  obtain k p where a: "a = (k, p)" by fastforce
  have "map fst (dict_set d k p) = map fst d"
    using Cons.prems a by (simp add: dict_set_keys)
  moreover have "map fst (fold (\<lambda>(k, p) d. dict_set d k p) new (dict_set d k p)) = map fst (dict_set d k p)"
    by (rule Cons.IH) (use Cons.prems in auto)
  ultimately show ?case using a by simp
qed simp

lemma fold_dict_set_all:
  "list_all P d \<Longrightarrow> list_all P new \<Longrightarrow> list_all P (fold (\<lambda>(k, p) d. dict_set d k p) new d)"
proof (induction new arbitrary: d)
  case (Cons a new)
  obtain k p where a: "a = (k, p)" by fastforce
  have "list_all P (dict_set d k p)"
    using Cons.prems set_dict_set[of d k p] a by (auto simp: list_all_iff)
  then show ?case using Cons a by simp
qed simp

text \<open>C8: a material created from distinct colour modes, each given as
  four floats, stores for each mode the \<open>(GLfloat * 4)\<close> array the colour
  converts to, and once applied by \<open>useMaterial\<close> it reads back through
  \<open>glGetMaterialfv\<close>, on the front and on the back face, as exactly that
  array: nothing is lost between the conversion and the read-back.\<close>

theorem createMaterial_useMaterial_roundtrip:
  assumes d: "distinct (map fst cs)" and cm: "set (map fst cs) \<subseteq> colour_modes"
    and len: "list_all (\<lambda>c. length c = 4) (map snd cs)" and ne: "cs \<noteq> []"
    and mc: "(mode, c) \<in> set cs" and f: "f \<in> {GL_FRONT, GL_BACK}"
  shows "\<exists>m v. createMaterial drv (colour_params cs) [] GL_FRONT_AND_BACK s = (Inr m, s) \<and>
     c_float_array 4 (PyTuple (map PyFloat c)) = Inr v \<and> map_of (mat_params m) mode = Some (Some v) \<and>
     fst (glGetMaterialfv f mode (snd (useMaterial drv (Some m) ut s))) = cvalue_floats v"
proof -
  let ?slots = "map (\<lambda>mode. (mode, None)) material_modes"
  let ?new = "map (\<lambda>(mode, c). (mode, Some (CArray c))) cs"
  let ?ps = "fold (\<lambda>(k, p) d. dict_set d k p) ?new ?slots"
  define m where "m = \<lparr>mat_face = GL_FRONT_AND_BACK, mat_params = ?ps, mat_textures = [], mat_userData = []\<rparr>"
  have sh: "list_all (\<lambda>(mode, c). mode \<noteq> GL_SHININESS \<and> length c = 4) cs"
    using cm len by (auto simp: list_all_iff colour_modes_def gl_enum_defs)
  have cp: "colour_params cs \<noteq> []" using ne by (simp add: colour_params_def)
  have cr: "createMaterial drv (colour_params cs) [] GL_FRONT_AND_BACK s = (Inr m, s)"
    using cp by (simp add: createMaterial_def new_material_def set_material_params_colours [OF sh] m_def)
  have cm': "set (map fst cs) \<subseteq> set material_modes"
    using cm by (auto simp: colour_modes_def material_modes_def)
  have keys: "map fst ?ps = material_modes"
    using cm' by (subst fold_dict_set_same_keys) (force simp: comp_def case_prod_beta)+
  have "distinct material_modes" by (simp add: material_modes_def gl_enum_defs)
  then have dps: "distinct (map fst ?ps)" by (simp only: keys)
  have mo: "map_of ?ps mode = Some (Some (CArray c))"
  proof -
    have dn: "distinct (map fst ?new)" using d by (simp add: comp_def case_prod_beta)
    have "map_of ?new mode = Some (Some (CArray c))"
      using mc d by (auto simp: map_of_eq_Some_iff [OF dn])
    then show ?thesis
      by (simp add: map_of_fold_dict_set map_of_rev_distinct [OF dn])
  qed
  have ok: "list_all (\<lambda>(p, v). v = None \<or> p \<in> colour_modes) ?ps"
    using cm by (intro fold_dict_set_all) (auto simp: list_all_iff)
  have c4: "length c = 4" using mc len by (auto simp: list_all_iff)
  have "ls_material (apply_material_params GL_FRONT_AND_BACK ?ps s) (f, mode) = c"
    using apply_material_params_colour [OF dps ok, where face = GL_FRONT_AND_BACK and s = s and f = f and q = mode]
      mo c4 f by (simp add: cvalue_floats_def)
  then have mat: "ls_material (snd (useMaterial drv (Some m) ut s)) (f, mode) = c"
    by (simp add: useMaterial_def m_def)
  have cv: "c_float_array 4 (PyTuple (map PyFloat c)) = Inr (CArray c)"
    using c4 by (rule c_float_array_floats)
  have "mode \<in> material_pnames - {GL_AMBIENT_AND_DIFFUSE}"
    using mc cm colour_mode_facts by force
  then show ?thesis
    using cr mat f cv mo by (auto simp: glGetMaterialfv_def m_def cvalue_floats_def)
qed

lemma glLightfv_caps [simp]: "caps_on (glLightfv drv l p v s) = caps_on s"
  by (simp add: glLightfv_def ls_raise_def)

lemma apply_light_params_caps [simp]: "caps_on (apply_light_params drv l ps s) = caps_on s"
  by (induction drv l ps s rule: apply_light_params.induct) (simp_all split: option.split)

lemma light_enum_facts:
  "int j < int (ldrv_max_lights drv) \<Longrightarrow> is_light drv (GL_LIGHT0 + int j) \<and> GL_LIGHT0 + int j \<noteq> GL_TEXTURE_2D"
  by (simp add: is_light_def gl_enum_defs)

lemma glEnable_light [simp]:
  "j < ldrv_max_lights drv \<Longrightarrow> caps_on (glEnable_ls drv (GL_LIGHT0 + int j) s) = insert (GL_LIGHT0 + int j) (caps_on s)"
  using light_enum_facts[of j drv] by (simp add: glEnable_ls_def)

lemma setup_lights_caps:
  "i + length ls \<le> ldrv_max_lights drv \<Longrightarrow>
   caps_on (setup_lights drv False i ls s) = caps_on s \<union> (\<lambda>j. GL_LIGHT0 + int j) ` {i..<i + length ls}"
proof (induction ls arbitrary: i s)
  case (Cons l ls)
  have "caps_on (setup_lights drv False (Suc i) ls (glEnable_ls drv (GL_LIGHT0 + int i)
          (apply_light_params drv (GL_LIGHT0 + int i) (light_params l) s))) =
        insert (GL_LIGHT0 + int i) (caps_on s) \<union> (\<lambda>j. GL_LIGHT0 + int j) ` {Suc i..<Suc i + length ls}"
    using Cons by simp
  moreover have "insert i {Suc i..<Suc i + length ls} = {i..<i + length (l # ls)}" by auto
  ultimately show ?case by (simp add: Let_def) (metis image_insert Un_insert_right)
qed simp

lemma caps_simple [simp]:
  "caps_on (glEnable_ls drv GL_NORMALIZE s) = insert GL_NORMALIZE (caps_on s)"
  "caps_on (glEnable_ls drv GL_LIGHTING s) = insert GL_LIGHTING (caps_on s)"
  "caps_on (glDisable_ls drv GL_NORMALIZE s) = caps_on s - {GL_NORMALIZE}"
  "caps_on (glDisable_ls drv GL_LIGHTING s) = caps_on s - {GL_LIGHTING}"
  by (simp_all add: glEnable_ls_def glDisable_ls_def light_enum_range_def gl_enum_defs)

text \<open>C31: \<open>useLights\<close> on a list of lights raises \<open>IndexError\<close>,
  changing nothing, when the list is longer than \<open>GL_MAX_LIGHTS\<close>;
  otherwise (lighting not \<open>setupOnly\<close>) it enables \<open>GL_NORMALIZE\<close>,
  \<open>GL_LIGHTING\<close> and the lights \<open>GL_LIGHT0\<close> to \<open>GL_LIGHT0 + n - 1\<close>, and
  no other capability.\<close>

theorem useLights_enable:
  "useLights drv (Some ls) False s =
     (if ldrv_max_lights drv < length ls then (Inl IndexError, s)
      else (Inr (), snd (useLights drv (Some ls) False s))) \<and>
   caps_on (snd (useLights drv (Some ls) False s)) =
     (if ldrv_max_lights drv < length ls then caps_on s
      else caps_on s \<union> {GL_NORMALIZE, GL_LIGHTING} \<union> (\<lambda>j. GL_LIGHT0 + int j) ` {..<length ls})"
  using setup_lights_caps[of 0 ls drv] by (auto simp: useLights_def atLeast0LessThan)

lemma glDisable_light:
  "0 \<le> e \<Longrightarrow> e < int (ldrv_max_lights drv) \<Longrightarrow>
   caps_on (glDisable_ls drv (GL_LIGHT0 + e) s) = caps_on s - {GL_LIGHT0 + e}"
  by (simp add: glDisable_ls_def is_light_def gl_enum_defs)

lemma disable_lights_caps:
  "set es \<subseteq> {0..<int (ldrv_max_lights drv)} \<Longrightarrow>
   caps_on (fold (\<lambda>e. glDisable_ls drv (GL_LIGHT0 + e)) es s) = caps_on s - (\<lambda>e. GL_LIGHT0 + e) ` set es"
  by (induction es arbitrary: s) (auto simp: glDisable_light)

lemma useLights_off:
  assumes wf: "ls_wf drv s" and r: "useLights drv None False s = (Inr (), r)"
  shows "caps_on r \<inter> Collect light_enum_range = {} \<and> GL_LIGHTING \<notin> caps_on r \<and> GL_NORMALIZE \<notin> caps_on r"
proof -
  let ?es = "[0..int (ldrv_max_lights drv) - 1]"
  have es: "set ?es \<subseteq> {0..<int (ldrv_max_lights drv)}" by auto
  have r_eq: "r = glDisable_ls drv GL_LIGHTING (glDisable_ls drv GL_NORMALIZE
                (fold (\<lambda>e. glDisable_ls drv (GL_LIGHT0 + e)) ?es s))"
    using r by (simp add: useLights_def)
  have lights: "Collect light_enum_range \<inter> caps_on s \<subseteq> (\<lambda>e. GL_LIGHT0 + e) ` set ?es"
    using wf by (force simp: ls_wf_def is_light_def image_iff)
  show ?thesis
    using lights unfolding r_eq by (auto simp: disable_lights_caps [OF es])
qed

lemma apply_material_params_wf [ls_wf_intros]: "ls_wf drv s \<Longrightarrow> ls_wf drv (apply_material_params f ps s)"
  by (induction f ps s rule: apply_material_params.induct) (simp_all add: ls_wf_intros split: option.split)

lemma reset_material_params_wf [ls_wf_intros]: "ls_wf drv s \<Longrightarrow> ls_wf drv (reset_material_params ps s)"
  by (induction ps s rule: reset_material_params.induct) (auto intro: ls_wf_intros)

lemma bind_material_textures_wf [ls_wf_intros]: "ls_wf drv s \<Longrightarrow> ls_wf drv (bind_material_textures drv ts s)"
  by (induction drv ts s rule: bind_material_textures.induct) (auto intro!: ls_wf_intros)

lemma apply_light_params_wf [ls_wf_intros]: "ls_wf drv s \<Longrightarrow> ls_wf drv (apply_light_params drv l ps s)"
  by (induction drv l ps s rule: apply_light_params.induct) (simp_all add: ls_wf_intros split: option.split)

lemma setup_lights_wf [ls_wf_intros]: "ls_wf drv s \<Longrightarrow> ls_wf drv (setup_lights drv so i ls s)"
  by (induction drv so i ls s rule: setup_lights.induct) (simp_all add: Let_def ls_wf_intros)

lemma fold_wf [ls_wf_intros]:
  "(\<And>x t. ls_wf drv t \<Longrightarrow> ls_wf drv (f x t)) \<Longrightarrow> ls_wf drv s \<Longrightarrow> ls_wf drv (fold f xs s)"
  by (induction xs arbitrary: s) simp_all

lemma getIntegerv_ls_wf [ls_wf_intros]: "ls_wf drv s \<Longrightarrow> ls_wf drv (snd (getIntegerv_ls drv p s))"
  by (simp add: getIntegerv_ls_def glGetIntegerv_ls_wf)

lemma createMaterial_wf: "ls_wf drv s \<Longrightarrow> ls_wf drv (snd (createMaterial drv ps ts f s))"
  by (auto simp: createMaterial_def split: sum.split prod.split)

lemma useMaterial_wf: "ls_wf drv s \<Longrightarrow> ls_wf drv (snd (useMaterial drv m ut s))"
  by (auto simp: useMaterial_def Let_def intro!: ls_wf_intros split: option.split sum.split)

lemma useLights_wf: "ls_wf drv s \<Longrightarrow> ls_wf drv (snd (useLights drv ls so s))"
  by (auto simp: useLights_def Let_def split_def intro!: ls_wf_intros split: option.split)

lemma setAmbientLight_wf: "ls_wf drv s \<Longrightarrow> ls_wf drv (snd (setAmbientLight c s))"
  by (auto simp: setAmbientLight_def intro!: ls_wf_intros split: sum.split)

lemma run_light_op_wf: "ls_wf drv s \<Longrightarrow> ls_wf drv (run_light_op drv op s)"
  by (cases op) (simp_all add: createMaterial_wf useMaterial_wf useLights_wf setAmbientLight_wf)

lemma light_reachable_wf:
  "light_reachable drv s \<Longrightarrow> 0 < ldrv_max_tex_units drv \<Longrightarrow> ls_wf drv s"
  by (induction rule: light_reachable.induct) (simp_all add: ls_wf_init run_light_op_wf)

lemma apply_material_params_err:
  "list_all (material_call_ok face) ps \<Longrightarrow> ls_err (apply_material_params face ps s) = ls_err s"
  by (induction face ps s rule: apply_material_params.induct)
     (auto simp: material_call_ok_def glMaterialfv_def Let_def split: option.split if_splits)

lemma useMaterial_no_error:
  "mat_textures m = [] \<Longrightarrow> list_all (material_call_ok (mat_face m)) (mat_params m) \<Longrightarrow>
   useMaterial drv (Some m) ut s = (Inr (), apply_material_params (mat_face m) (mat_params m) s) \<and>
   ls_err (snd (useMaterial drv (Some m) ut s)) = ls_err s"
  by (simp add: useMaterial_def apply_material_params_err)

lemmas material_eval = new_material_def c_float_array_def GLfloat_def material_modes_def
  library_ok_def slots_typed_def slot_typed_def material_call_ok_def material_pnames_def cvalue_floats_def
  gl_enum_defs eval_nat_numeral

lemma mineral_ok: "list_all (library_ok \<circ> snd) mineralMaterials"
  by (simp add: mineralMaterials_def material_eval)

lemma metal_ok: "list_all (library_ok \<circ> snd) metalMaterials"
  by (simp add: metalMaterials_def material_eval)

lemma plastic_ok: "list_all (library_ok \<circ> snd) plasticMaterials"
  by (simp add: plasticMaterials_def material_eval)

lemma rubber_ok: "list_all (library_ok \<circ> snd) rubberMaterials"
  by (simp add: rubberMaterials_def material_eval)

lemma default_ok: "library_ok defaultMaterial"
  by (simp add: defaultMaterial_def material_eval)

lemma glMaterialfv_tex [simp]:
  "tex2d_on (glMaterialfv f p v s) = tex2d_on s" "active_tex (glMaterialfv f p v s) = active_tex s"
  "tex2d_binding (glMaterialfv f p v s) = tex2d_binding s"
  by (simp_all add: glMaterialfv_def ls_raise_def Let_def)

lemma reset_material_params_tex [simp]:
  "tex2d_on (reset_material_params ps s) = tex2d_on s" "active_tex (reset_material_params ps s) = active_tex s"
  "tex2d_binding (reset_material_params ps s) = tex2d_binding s"
  by (induction ps s rule: reset_material_params.induct) simp_all

lemma defaultMaterial_Inr: "\<exists>d. defaultMaterial = Inr d"
  using default_ok by (auto simp: library_ok_def split: sum.splits)

lemma c_float_array_floats_pad:
  "c_float_array 4 (PyTuple (map PyFloat c)) =
     (if length c \<le> 4 then Inr (CArray (c @ replicate (4 - length c) 0)) else Inl IndexError)"
  by (simp add: c_float_array_def ctypes_fill_floats)

text \<open>C10: \<open>useMaterial(None)\<close> succeeds and resets only texture unit
  \<open>GL_TEXTURE0\<close>: it makes that unit active, unbinds its 2D texture and
  disables \<open>GL_TEXTURE_2D\<close> there; every other unit keeps the texture bound
  to it and its enable state, so the textures an earlier \<open>useMaterial\<close>
  bound on units above \<open>GL_TEXTURE0\<close> stay bound.\<close>

theorem useMaterial_None_other_units:
  assumes "0 < ldrv_max_tex_units drv" and "u \<noteq> GL_TEXTURE0"
  shows "fst (useMaterial drv None True s) = Inr () \<and>
    active_tex (snd (useMaterial drv None True s)) = GL_TEXTURE0 \<and>
    tex2d_binding (snd (useMaterial drv None True s)) GL_TEXTURE0 = 0 \<and>
    GL_TEXTURE0 \<notin> tex2d_on (snd (useMaterial drv None True s)) \<and>
    tex2d_binding (snd (useMaterial drv None True s)) u = tex2d_binding s u \<and>
    (u \<in> tex2d_on (snd (useMaterial drv None True s)) \<longleftrightarrow> u \<in> tex2d_on s)"
proof -
  obtain d where d: "defaultMaterial = Inr d" using defaultMaterial_Inr by blast
  have "is_tex_unit drv GL_TEXTURE0" using assms(1) by (simp add: is_tex_unit_def)
  then show ?thesis using assms(2)
    by (simp add: useMaterial_def d Let_def glActiveTexture_def glBindTexture_ls_def glDisable_ls_def)
qed

text \<open>C26: a colour given with fewer than four components is zero padded by
  \<open>(GLfloat * 4)(*param)\<close> without an error, so an RGB colour gets alpha 0,
  and one with more than four raises \<open>IndexError\<close>.\<close>

theorem createMaterial_colour_padding:
  assumes "mode \<in> colour_modes"
  shows "(length c \<le> 4 \<longrightarrow>
           (\<exists>m. createMaterial drv [(mode, PyTuple (map PyFloat c))] [] face s = (Inr m, s) \<and>
                map_of (mat_params m) mode = Some (Some (CArray (c @ replicate (4 - length c) 0))))) \<and>
         (4 < length c \<longrightarrow> createMaterial drv [(mode, PyTuple (map PyFloat c))] [] face s = (Inl IndexError, s))"
proof -
  have m: "mode \<noteq> GL_SHININESS" "mode \<in> set material_modes"
    using assms by (auto simp: colour_modes_def material_modes_def gl_enum_defs)
  show ?thesis
    using m by (auto simp: createMaterial_def new_material_def c_float_array_floats_pad)
qed

text \<open>C23: every material \<open>createMaterial\<close> returns is well typed: its
  slot keys are distinct and include the five material modes, a set colour
  slot holds an array of four \<open>GLfloat\<close>s, a set \<open>GL_SHININESS\<close> slot a
  single \<open>GLfloat\<close>, and its face is the one given.\<close>

theorem createMaterial_typed:
  assumes r: "fst (createMaterial drv params textures' face s) = Inr m"
  shows "slots_typed (mat_params m) \<and> set material_modes \<subseteq> fst ` set (mat_params m) \<and> mat_face m = face"
proof (cases "new_material params face")
  case (Inr m0)
  then have t: "slots_typed (mat_params m0) \<and> set material_modes \<subseteq> fst ` set (mat_params m0) \<and>
      mat_face m0 = face"
    using new_material_typed by blast
  have "mat_params m = mat_params m0 \<and> mat_face m = mat_face m0"
    using r Inr by (auto simp: createMaterial_def py_bind_def split: if_splits prod.splits sum.splits)
  with t show ?thesis by simp
next
  case (Inl e)
  then show ?thesis using r by (simp add: createMaterial_def)
qed

text \<open>C14: \<open>createMaterial\<close> accepts a texture unit below \<open>GL_TEXTURE0\<close>, and
  \<open>useMaterial\<close> of that material then fails \<open>glActiveTexture\<close>
  (\<open>GL_INVALID_ENUM\<close>) and binds the texture on the unit that was active
  before.\<close>

theorem createMaterial_low_unit:
  "u < GL_TEXTURE0 \<Longrightarrow> 0 < ldrv_max_tex_units drv \<Longrightarrow>
   \<exists>m. createMaterial drv [] [(u, d)] face s = (Inr m, s) \<and>
     tex2d_binding (snd (useMaterial drv (Some m) True s)) (active_tex s) = txd_id d \<and>
     active_tex (snd (useMaterial drv (Some m) True s)) = active_tex s \<and>
     ls_err (snd (useMaterial drv (Some m) True s)) \<noteq> None"
  using bind_material_textures_bad_unit[of drv u d]
  by (simp add: createMaterial_def set_material_textures_eq new_material_def useMaterial_def
      material_modes_def is_tex_unit_def glEnable_ls_def)

lemma library_ok_apply:
  "library_ok r \<Longrightarrow>
   \<exists>m. r = Inr m \<and> slots_typed (mat_params m) \<and> ls_err (snd (useMaterial drv (Some m) ut s)) = ls_err s"
  by (auto simp: library_ok_def useMaterial_no_error apply_material_params_err split: sum.splits)

text \<open>The default material and the 24 materials of the four libraries
  are all created without exception, are well typed, and \<open>useMaterial\<close> of
  any of them records no GL error (every shininess lies in \<open>[0, 128]\<close>).\<close>

theorem predefined_materials_apply:
  "list_all (\<lambda>r. \<exists>m. r = Inr m \<and> slots_typed (mat_params m) \<and>
                     ls_err (snd (useMaterial drv (Some m) ut s)) = ls_err s)
     (defaultMaterial # map snd (mineralMaterials @ metalMaterials @ plasticMaterials @ rubberMaterials))"
  using mineral_ok metal_ok plastic_ok rubber_ok default_ok library_ok_apply
  by (auto simp: list_all_iff)

section \<open>Witnesses\<close>

theorem createMaterial_typed_witness:
  "fst (createMaterial demo_light_driver demo_diffuse [] GL_FRONT ls_init) = Inr demo_diffuse_material \<and>
   slots_typed (mat_params demo_diffuse_material) \<and>
   set material_modes \<subseteq> fst ` set (mat_params demo_diffuse_material) \<and> mat_face demo_diffuse_material = GL_FRONT"
proof -
  have h: "fst (createMaterial demo_light_driver demo_diffuse [] GL_FRONT ls_init) = Inr demo_diffuse_material"
    by (simp add: createMaterial_def demo_diffuse_def demo_diffuse_material_def material_eval)
  show ?thesis using createMaterial_typed [OF h] h by simp
qed

theorem createMaterial_texture_units_witness:
  "new_material [] GL_FRONT = Inr (empty_material GL_FRONT) \<and>
   createMaterial demo_light_driver [] [(GL_TEXTURE_2D, demo_texture)] GL_FRONT ls_init =
     (Inr ((empty_material GL_FRONT)\<lparr>mat_textures := [(GL_TEXTURE_2D, demo_texture)]\<rparr>), ls_init)"
proof -
  have h: "new_material [] GL_FRONT = Inr (empty_material GL_FRONT)"
    by (simp add: new_material_def empty_material_def)
  show ?thesis
    using createMaterial_texture_units [OF h, of "[(GL_TEXTURE_2D, demo_texture)]" demo_light_driver ls_init] h
    by (simp add: demo_light_driver_def gl_enum_defs)
qed

theorem useMaterial_enables_entry_unit_witness:
  "useMaterial demo_light_driver (Some demo_textured_material) True ls_init = (Inr (), demo_textured_state) \<and>
   tex2d_on demo_textured_state = {GL_TEXTURE0} \<and> active_tex demo_textured_state = GL_TEXTURE0 + 1 \<and>
   tex2d_binding demo_textured_state (GL_TEXTURE0 + 1) = txd_id demo_texture"
proof -
  have h: "useMaterial demo_light_driver (Some demo_textured_material) True ls_init = (Inr (), demo_textured_state)"
    by (simp add: demo_textured_state_def useMaterial_def Let_def)
  have "mat_textures demo_textured_material \<noteq> [] \<and>
        list_all (is_tex_unit demo_light_driver \<circ> fst) (mat_textures demo_textured_material)"
    by (simp add: demo_textured_material_def is_tex_unit_def demo_light_driver_def gl_enum_defs)
  then show ?thesis
    using useMaterial_enables_entry_unit [of demo_textured_material demo_light_driver ls_init demo_textured_state] h
    by (simp add: demo_textured_material_def ls_init_def)
qed

theorem createMaterial_low_unit_witness:
  "\<exists>m. createMaterial demo_light_driver [] [(0, demo_texture)] GL_FRONT ls_init = (Inr m, ls_init) \<and>
     tex2d_binding (snd (useMaterial demo_light_driver (Some m) True ls_init)) GL_TEXTURE0 = txd_id demo_texture \<and>
     active_tex (snd (useMaterial demo_light_driver (Some m) True ls_init)) = GL_TEXTURE0 \<and>
     ls_err (snd (useMaterial demo_light_driver (Some m) True ls_init)) \<noteq> None"
  using createMaterial_low_unit [of 0 demo_light_driver demo_texture GL_FRONT ls_init]
  by (simp add: demo_light_driver_def ls_init_def gl_enum_defs)

theorem useMaterial_None_other_units_witness:
  "tex2d_binding (snd (useMaterial demo_light_driver (Some demo_textured_material) True ls_init)) (GL_TEXTURE0 + 1) = 3 \<and>
   tex2d_binding (snd (useMaterial demo_light_driver None True
     (snd (useMaterial demo_light_driver (Some demo_textured_material) True ls_init)))) (GL_TEXTURE0 + 1) = 3"
proof -
  have b: "tex2d_binding (snd (useMaterial demo_light_driver (Some demo_textured_material) True ls_init)) (GL_TEXTURE0 + 1) = 3"
    by code_simp
  show ?thesis
    using useMaterial_None_other_units [of demo_light_driver "GL_TEXTURE0 + 1"
        "snd (useMaterial demo_light_driver (Some demo_textured_material) True ls_init)"] b
    by (simp add: demo_light_driver_def)
qed

theorem createMaterial_colour_padding_witness:
  "\<exists>m. createMaterial demo_light_driver [(GL_DIFFUSE, PyTuple (map PyFloat [1, 0.5, 0]))] [] GL_FRONT ls_init =
       (Inr m, ls_init) \<and> map_of (mat_params m) GL_DIFFUSE = Some (Some (CArray [1, 0.5, 0, 0]))"
  using createMaterial_colour_padding [of GL_DIFFUSE "[1, 0.5, 0]" demo_light_driver GL_FRONT ls_init]
  by (simp add: colour_modes_def)

theorem createMaterial_useMaterial_roundtrip_witness:
  "\<exists>m v. createMaterial demo_light_driver (colour_params [(GL_DIFFUSE, [0.1, 0.2, 0.3, 1])]) [] GL_FRONT_AND_BACK ls_init =
       (Inr m, ls_init) \<and>
     c_float_array 4 (PyTuple (map PyFloat [0.1, 0.2, 0.3, 1])) = Inr v \<and> map_of (mat_params m) GL_DIFFUSE = Some (Some v) \<and>
     fst (glGetMaterialfv GL_BACK GL_DIFFUSE (snd (useMaterial demo_light_driver (Some m) True ls_init))) =
       cvalue_floats v"
  using createMaterial_useMaterial_roundtrip
    [where cs = "[(GL_DIFFUSE, [0.1, 0.2, 0.3, 1])]" and mode = GL_DIFFUSE and c = "[0.1, 0.2, 0.3, 1]"
       and f = GL_BACK and drv = demo_light_driver and s = ls_init and ut = True]
  by (simp add: colour_modes_def)

end
