(* ===== verification/Wavefront.thy ===== *)
theory Wavefront
  imports Vertex_Buffers Materials "HOL-Library.Multiset"
begin

text \<open>
  The Wavefront model loaders of \<open>psychopy/tools/gltools.py\<close>:
  \<open>loadObjFile\<close> (lines 2239-2416) and \<open>loadMtlFile\<close> (lines 2419-2474).
  The file's text is the argument (\<open>open(...).read()\<close>); \<open>StringIO.readlines\<close>
  is \<open>py_readlines\<close>.  Python's \<open>float(str)\<close> and the PIL image a \<open>map_Kd\<close>
  line names are outside the excerpt and are the parameters \<open>file_env\<close>:
  \<open>float_of\<close> is the value \<open>float\<close> gives, \<open>None\<close> for its \<open>ValueError\<close>, and
  \<open>texture_size\<close> the width and height of the image at
  \<open>os.path.join(os.path.split(mtlFilePath)[0], textureName)\<close> (or the
  exception opening it raises).  The OBJ parser's state, a dozen local
  variables, is the record \<open>obj_parse\<close>; each line of the second pass is one
  step \<open>obj_line\<close>.  The GL calls are those of \<open>createVBO\<close> and
  \<open>createVAO\<close> (\<open>Vertex_Buffers\<close>) and of \<open>createTexImage2D\<close>
  (\<open>Framebuffers\<close>).
\<close>

section \<open>Environment and Python helpers\<close>

record file_env =
  float_of :: "string \<Rightarrow> real option"
  texture_size :: "string \<Rightarrow> string \<Rightarrow> (int \<times> int) py_result"

definition py_float :: "file_env \<Rightarrow> string \<Rightarrow> real py_result" where
  "py_float env s = (case float_of env s of
      None \<Rightarrow> Inl (ValueError ''could not convert string to float'') | Some x \<Rightarrow> Inr x)"

text \<open>\<open>list(map(f, xs))\<close> and \<open>tuple(map(f, xs))\<close>: the items in order, the
  first exception propagating.\<close>

fun py_mapM :: "('a \<Rightarrow> 'b py_result) \<Rightarrow> 'a list \<Rightarrow> 'b list py_result" where
  "py_mapM f [] = Inr []"
| "py_mapM f (x # xs) = py_bind (f x) (\<lambda>y. py_bind (py_mapM f xs) (\<lambda>ys. Inr (y # ys)))"

text \<open>\<open>p, t, n = map(int, parts)\<close>: unpacking draws one item more than it
  needs to detect too many, converting each item drawn.\<close>

fun unpack3 :: "string list \<Rightarrow> (int \<times> int \<times> int) py_result" where
  "unpack3 [a, b, c] =
     py_bind (py_int a) (\<lambda>p. py_bind (py_int b) (\<lambda>t. py_bind (py_int c) (\<lambda>n. Inr (p, t, n))))"
| "unpack3 (a # b # c # d # _) =
     py_bind (py_mapM py_int [a, b, c, d]) (\<lambda>_. Inl (ValueError ''too many values to unpack (expected 3)''))"
| "unpack3 xs = py_bind (py_mapM py_int xs) (\<lambda>_. Inl (ValueError ''not enough values to unpack (expected 3)''))"

section \<open>loadObjFile\<close>

record wavefront_obj =
  obj_mtlFile :: "string option"
  obj_drawGroups :: "(string \<times> vao_desc) list"
  obj_posBuffer :: vertex_buffer_info
  obj_texCoordBuffer :: vertex_buffer_info
  obj_normBuffer :: vertex_buffer_info
  obj_userData :: "(pyobj \<times> pyobj) list"

subsection \<open>First pass\<close>

record obj_counts =
  nVertices :: nat
  nTextureCoords :: nat
  nNormals :: nat
  nFaces :: nat
  nObjects :: nat
  nMaterials :: nat
  matLibPath :: "string option"

definition counts0 :: obj_counts where
  "counts0 = \<lparr>nVertices = 0, nTextureCoords = 0, nNormals = 0, nFaces = 0, nObjects = 0, nMaterials = 0,
     matLibPath = None\<rparr>"

text \<open>The first pass tests the raw lines, newline included.\<close>

definition scan_line :: "string \<Rightarrow> obj_counts \<Rightarrow> obj_counts" where
  "scan_line line c =
     (if starts_with ''v '' line then c\<lparr>nVertices := Suc (nVertices c)\<rparr>
      else if starts_with ''vt '' line then c\<lparr>nTextureCoords := Suc (nTextureCoords c)\<rparr>
      else if starts_with ''vn '' line then c\<lparr>nNormals := Suc (nNormals c)\<rparr>
      else if starts_with ''f '' line then c\<lparr>nFaces := Suc (nFaces c)\<rparr>
      else if starts_with ''o '' line then c\<lparr>nObjects := Suc (nObjects c)\<rparr>
      else if starts_with ''usemtl '' line then c\<lparr>nMaterials := Suc (nMaterials c)\<rparr>
      else if starts_with ''mtllib '' line then c\<lparr>matLibPath := Some (drop 7 (py_strip line))\<rparr>
      else c)"

subsection \<open>Second pass\<close>

text \<open>The parser's local state.  \<open>vertexAttrs\<close> is the dictionary the
  duplicate test reads; \<open>vertexIndices\<close> the one the loop writes.  A
  \<open>materialGroup\<close> of \<open>None\<close> is the initial value before any \<open>usemtl\<close>.\<close>

record obj_parse =
  positionDefs :: "real list list"
  texCoordDefs :: "real list list"
  normalDefs :: "real list list"
  vertexAttrList :: "real list"
  texCoordAttrList :: "real list"
  normalAttrList :: "real list"
  vertexAttrs :: "(string \<times> nat) list"
  vertexIndices :: "(string \<times> nat) list"
  materialGroups :: "(string \<times> nat list) list"
  materialOffsets :: "(string \<times> nat) list"
  vertexIdx :: nat
  faceIdx :: nat
  materialGroup :: "string option"

definition parse0 :: obj_parse where
  "parse0 = \<lparr>positionDefs = [], texCoordDefs = [], normalDefs = [], vertexAttrList = [],
     texCoordAttrList = [], normalAttrList = [], vertexAttrs = [], vertexIndices = [],
     materialGroups = [], materialOffsets = [], vertexIdx = 0, faceIdx = 0, materialGroup = None\<rparr>"

definition float_tuple :: "file_env \<Rightarrow> string \<Rightarrow> real list py_result" where
  "float_tuple env s = py_mapM (py_float env) (split_on CHR '' '' s)"

text \<open>A face corner not yet in \<open>vertexAttrs\<close>: its three indices, the
  attributes copied (1-based, so Python's negative indexing applies to
  \<open>p - 1 < 0\<close>), a fresh index.\<close>

definition new_corner :: "string \<Rightarrow> obj_parse \<Rightarrow> obj_parse py_result" where
  "new_corner attrs st =
     py_bind (unpack3 (split_on CHR ''/'' attrs)) (\<lambda>(p, t, n).
       py_bind (py_index (positionDefs st) (p - 1)) (\<lambda>pos.
         py_bind (py_index (texCoordDefs st) (t - 1)) (\<lambda>tc.
           py_bind (py_index (normalDefs st) (n - 1)) (\<lambda>nm.
             Inr (st\<lparr>vertexAttrList := vertexAttrList st @ pos,
                     texCoordAttrList := texCoordAttrList st @ tc,
                     normalAttrList := normalAttrList st @ nm,
                     vertexIndices := dict_set (vertexIndices st) attrs (vertexIdx st),
                     vertexIdx := Suc (vertexIdx st)\<rparr>)))))"

fun face_corners :: "string list \<Rightarrow> obj_parse \<Rightarrow> nat list \<Rightarrow> (obj_parse \<times> nat list) py_result" where
  "face_corners [] st faceDef = Inr (st, faceDef)"
| "face_corners (attrs # rest) st faceDef =
     py_bind (if attrs \<notin> fst ` set (vertexAttrs st) then new_corner attrs st else Inr st)
       (\<lambda>st1. py_bind (dict_get (vertexIndices st1) attrs)
         (\<lambda>i. face_corners rest st1 (faceDef @ [i])))"

definition obj_line :: "file_env \<Rightarrow> obj_parse \<Rightarrow> string \<Rightarrow> obj_parse py_result" where
  "obj_line env st line0 =
     (let line = py_strip line0 in
      if starts_with ''v '' line then
        py_bind (float_tuple env (drop 2 line)) (\<lambda>v. Inr (st\<lparr>positionDefs := positionDefs st @ [v]\<rparr>))
      else if starts_with ''vt '' line then
        py_bind (float_tuple env (drop 3 line)) (\<lambda>v. Inr (st\<lparr>texCoordDefs := texCoordDefs st @ [v]\<rparr>))
      else if starts_with ''vn '' line then
        py_bind (float_tuple env (drop 3 line)) (\<lambda>v. Inr (st\<lparr>normalDefs := normalDefs st @ [v]\<rparr>))
      else if starts_with ''f '' line then
        py_bind (face_corners (split_on CHR '' '' (drop 2 line)) st []) (\<lambda>(st1, faceDef).
          case materialGroup st1 of
            None \<Rightarrow> Inl KeyError
          | Some g \<Rightarrow> py_bind (dict_get (materialGroups st1) g) (\<lambda>elements.
              Inr (st1\<lparr>materialGroups := dict_set (materialGroups st1) g (elements @ faceDef),
                       faceIdx := Suc (faceIdx st1)\<rparr>)))
      else if starts_with ''usemtl '' line then
        (let g = drop 7 line in
         if g \<notin> fst ` set (materialGroups st)
         then Inr (st\<lparr>materialGroup := Some g, materialGroups := dict_set (materialGroups st) g [],
                      materialOffsets := dict_set (materialOffsets st) g (faceIdx st)\<rparr>)
         else Inr (st\<lparr>materialGroup := Some g\<rparr>))
      else Inr st)"

fun obj_lines :: "file_env \<Rightarrow> string list \<Rightarrow> obj_parse \<Rightarrow> obj_parse py_result" where
  "obj_lines env [] st = Inr st"
| "obj_lines env (line # ls) st = py_bind (obj_line env st line) (obj_lines env ls)"

subsection \<open>Upload\<close>

text \<open>\<open>createVBO(elements, dtype=GL.GL_UNSIGNED_INT, target=...)\<close>: \<open>createVBO\<close>
  has no parameter \<open>dtype\<close>, so the call raises before its body runs.\<close>

definition createVBO_dtype_kw :: "nat list \<Rightarrow> vertex_buffer_info buf_call" where
  "createVBO_dtype_kw elements s = (Inl (TypeError ''createVBO() got an unexpected keyword argument dtype''), s)"

fun obj_vaos :: "buf_driver \<Rightarrow> (string \<times> nat list) list \<Rightarrow> vertex_buffer_info \<Rightarrow> vertex_buffer_info \<Rightarrow>
    vertex_buffer_info \<Rightarrow> (string \<times> vao_desc) list \<Rightarrow> (string \<times> vao_desc) list buf_call" where
  "obj_vaos drv [] posVBO texVBO normVBO objVAOs s = (Inr objVAOs, s)"
| "obj_vaos drv ((group', elements) # rest) posVBO texVBO normVBO objVAOs s =
     (case createVBO_dtype_kw elements s of
        (Inl e, s1) \<Rightarrow> (Inl e, s1)
      | (Inr ib, s1) \<Rightarrow>
          (case createVAO drv [(GL_VERTEX_ARRAY, VBInfo posVBO), (GL_TEXTURE_COORD_ARRAY, VBInfo texVBO),
                               (GL_NORMAL_ARRAY, VBInfo normVBO)] (Some (VBInfo ib)) s1 of
             (Inl e, s2) \<Rightarrow> (Inl e, s2)
           | (Inr vao, s2) \<Rightarrow> obj_vaos drv rest posVBO texVBO normVBO (dict_set objVAOs group' vao) s2))"

text \<open>A flat Python list becomes a one-dimensional array: its shape is its
  length.  The texture coordinates are passed with \<open>target = 2\<close>.\<close>

definition loadObjFile :: "file_env \<Rightarrow> buf_driver \<Rightarrow> string \<Rightarrow> wavefront_obj buf_call" where
  "loadObjFile env drv content s =
     (let lines = py_readlines content;
          counts = fold scan_line lines counts0
      in if nVertices counts = 0
         then (Inl (RuntimeError ''Failed to load OBJ file, file contains no vertices.''), s)
         else case obj_lines env lines parse0 of
           Inl e \<Rightarrow> (Inl e, s)
         | Inr st \<Rightarrow>
             (case createVBO [length (vertexAttrList st)] GL_ARRAY_BUFFER GL_FLOAT GL_STATIC_DRAW s of
                (Inl e, s1) \<Rightarrow> (Inl e, s1)
              | (Inr posVBO, s1) \<Rightarrow>
             (case createVBO [length (texCoordAttrList st)] 2 GL_FLOAT GL_STATIC_DRAW s1 of
                (Inl e, s2) \<Rightarrow> (Inl e, s2)
              | (Inr texVBO, s2) \<Rightarrow>
             (case createVBO [length (normalAttrList st)] GL_ARRAY_BUFFER GL_FLOAT GL_STATIC_DRAW s2 of
                (Inl e, s3) \<Rightarrow> (Inl e, s3)
              | (Inr normVBO, s3) \<Rightarrow>
             (case obj_vaos drv (materialGroups st) posVBO texVBO normVBO [] s3 of
                (Inl e, s4) \<Rightarrow> (Inl e, s4)
              | (Inr objVAOs, s4) \<Rightarrow>
                  (Inr \<lparr>obj_mtlFile = matLibPath counts, obj_drawGroups = objVAOs, obj_posBuffer = posVBO,
                        obj_texCoordBuffer = texVBO, obj_normBuffer = normVBO, obj_userData = []\<rparr>, s4))))))"

section \<open>loadMtlFile\<close>

definition GL_TEXTURE_MAG_FILTER :: int where "GL_TEXTURE_MAG_FILTER = 0x2800"
definition GL_TEXTURE_MIN_FILTER :: int where "GL_TEXTURE_MIN_FILTER = 0x2801"

declare GL_TEXTURE_MAG_FILTER_def [gl_enum_defs] GL_TEXTURE_MIN_FILTER_def [gl_enum_defs]

text \<open>The loop's state: the materials and textures found so far, and the
  current material's name (\<open>None\<close> for the initial \<open>thisMaterial = 0\<close>, a key
  no \<open>newmtl\<close> line creates).\<close>

record mtl_parse =
  foundMaterials :: "(string \<times> material) list"
  foundTextures :: "(string \<times> tex_desc) list"
  thisMaterial :: "string option"

definition mtl0 :: mtl_parse where
  "mtl0 = \<lparr>foundMaterials = [], foundTextures = [], thisMaterial = None\<rparr>"

text \<open>\<open>(GL.GLfloat * 4)(*list(map(float, v.split(' '))) + [1.0])\<close>.\<close>

definition mtl_color :: "file_env \<Rightarrow> string \<Rightarrow> cvalue py_result" where
  "mtl_color env v =
     py_bind (py_mapM (py_float env) (split_on CHR '' '' v))
       (\<lambda>xs. c_float_array 4 (PyList (map PyFloat xs @ [PyFloat 1.0])))"

text \<open>\<open>foundMaterials[thisMaterial].params[mode] = value\<close>, the value
  evaluated first.\<close>

definition mtl_set_param :: "mtl_parse \<Rightarrow> int \<Rightarrow> cvalue py_result \<Rightarrow> mtl_parse py_result" where
  "mtl_set_param st mode value =
     py_bind value (\<lambda>v.
       case thisMaterial st of
         None \<Rightarrow> Inl KeyError
       | Some k \<Rightarrow> py_bind (dict_get (foundMaterials st) k) (\<lambda>m.
           Inr (st\<lparr>foundMaterials := dict_set (foundMaterials st) k
                      (m\<lparr>mat_params := dict_set (mat_params m) mode (Some v)\<rparr>)\<rparr>)))"

text \<open>A \<open>map_Kd\<close> line: the texture is loaded once per name (PIL, flipped and
  converted to RGBA: \<open>texture_size\<close>) and created with \<open>createTexImage2D\<close>;
  the current material's unit \<open>GL_TEXTURE0\<close> gets it.\<close>

definition mtl_texture :: "file_env \<Rightarrow> img_driver \<Rightarrow> string \<Rightarrow> (int \<times> int) list \<Rightarrow> mtl_parse \<Rightarrow>
    string \<Rightarrow> mtl_parse img_call" where
  "mtl_texture env drv mtlFilePath texParameters st textureName s =
     (let loaded =
        (if textureName \<notin> fst ` set (foundTextures st) then
           (case texture_size env mtlFilePath textureName of
              Inl e \<Rightarrow> (Inl e, s)
            | Inr (width, height) \<Rightarrow>
                (case createTexImage2D drv width height GL_TEXTURE_2D 0 GL_RGBA GL_RGBA GL_UNSIGNED_BYTE 1
                        texParameters s of
                   (Inl e, s1) \<Rightarrow> (Inl e, s1)
                 | (Inr tex, s1) \<Rightarrow>
                     (Inr (st\<lparr>foundTextures := dict_set (foundTextures st) textureName tex\<rparr>), s1)))
         else (Inr st, s))
      in case loaded of
           (Inl e, s1) \<Rightarrow> (Inl e, s1)
         | (Inr st1, s1) \<Rightarrow>
             (py_bind (dict_get (foundTextures st1) textureName) (\<lambda>tex.
                case thisMaterial st1 of
                  None \<Rightarrow> Inl KeyError
                | Some k \<Rightarrow> py_bind (dict_get (foundMaterials st1) k) (\<lambda>m.
                    Inr (st1\<lparr>foundMaterials := dict_set (foundMaterials st1) k
                               (m\<lparr>mat_textures := dict_set (mat_textures m) GL_TEXTURE0 tex\<rparr>)\<rparr>))), s1))"

text \<open>\<open>createMaterial()\<close> with no arguments needs no GL call (no textures):
  it is \<open>new_material [] GL_FRONT_AND_BACK\<close> (lemma
  \<open>createMaterial_no_args\<close>).\<close>

definition mtl_line :: "file_env \<Rightarrow> img_driver \<Rightarrow> string \<Rightarrow> (int \<times> int) list \<Rightarrow> mtl_parse \<Rightarrow>
    string \<Rightarrow> mtl_parse img_call" where
  "mtl_line env drv mtlFilePath texParameters st line0 s =
     (let line = py_strip line0 in
      if starts_with ''newmtl '' line then
        (let k = drop 7 line in
         (py_bind (new_material [] GL_FRONT_AND_BACK) (\<lambda>m.
            Inr (st\<lparr>thisMaterial := Some k, foundMaterials := dict_set (foundMaterials st) k m\<rparr>)), s))
      else if starts_with ''Ns '' line then
        (mtl_set_param st GL_SHININESS (py_bind (py_float env (drop 3 line)) (\<lambda>x. GLfloat (PyFloat x))), s)
      else if starts_with ''Ks '' line then (mtl_set_param st GL_SPECULAR (mtl_color env (drop 3 line)), s)
      else if starts_with ''Kd '' line then (mtl_set_param st GL_DIFFUSE (mtl_color env (drop 3 line)), s)
      else if starts_with ''Ka '' line then (mtl_set_param st GL_AMBIENT (mtl_color env (drop 3 line)), s)
      else if starts_with ''map_Kd '' line then
        mtl_texture env drv mtlFilePath texParameters st (drop 7 line) s
      else (Inr st, s))"

fun mtl_lines :: "file_env \<Rightarrow> img_driver \<Rightarrow> string \<Rightarrow> (int \<times> int) list \<Rightarrow> string list \<Rightarrow> mtl_parse \<Rightarrow>
    mtl_parse img_call" where
  "mtl_lines env drv path texParameters [] st s = (Inr st, s)"
| "mtl_lines env drv path texParameters (line # ls) st s =
     (case mtl_line env drv path texParameters st line s of
        (Inl e, s1) \<Rightarrow> (Inl e, s1)
      | (Inr st1, s1) \<Rightarrow> mtl_lines env drv path texParameters ls st1 s1)"

definition loadMtlFile :: "file_env \<Rightarrow> img_driver \<Rightarrow> string \<Rightarrow> (int \<times> int) list option \<Rightarrow> string \<Rightarrow>
    (string \<times> material) list img_call" where
  "loadMtlFile env drv mtlFilePath texParameters content s =
     (let texParameters' = (case texParameters of
            None \<Rightarrow> [(GL_TEXTURE_MAG_FILTER, GL_LINEAR), (GL_TEXTURE_MIN_FILTER, GL_LINEAR)]
          | Some tp \<Rightarrow> tp)
      in case mtl_lines env drv mtlFilePath texParameters' (py_readlines content) mtl0 s of
           (Inl e, s1) \<Rightarrow> (Inl e, s1)
         | (Inr st, s1) \<Rightarrow> (Inr (foundMaterials st), s1))"

section \<open>Specification predicates and examples\<close>

text \<open>\<open>fresh_indices\<close>: the duplicate test's dictionary is empty and the
  material groups hold the indices below \<open>vertexIdx\<close> once each;
  \<open>clean_token\<close>: a non-empty word without whitespace.\<close>

definition fresh_indices :: "obj_parse \<Rightarrow> bool" where
  "fresh_indices st \<longleftrightarrow> vertexAttrs st = [] \<and>
     mset (concat (map snd (materialGroups st))) = mset [0..<vertexIdx st]"

definition demo_file_env :: file_env where
  "demo_file_env = \<lparr>float_of = (\<lambda>w. map_option of_nat (digits_nat w)), texture_size = (\<lambda>p n. Inr (2, 2))\<rparr>"

definition demo_obj :: string where
  "demo_obj = ''usemtl m\<newline>v 1 1 1\<newline>v 2 2 2\<newline>v 3 3 3\<newline>vt 0 0\<newline>vn 0 0 1\<newline>'' @
     ''f 1/1/1 2/1/1 3/1/1\<newline>f 1/1/1 3/1/1 2/1/1\<newline>''"

definition clean_token :: "string \<Rightarrow> bool" where
  "clean_token w \<longleftrightarrow> w \<noteq> [] \<and> list_all (\<lambda>c. \<not> is_py_space c) w"

section \<open>Lemmas\<close>

lemma createMaterial_no_args:
  "createMaterial ldrv [] [] GL_FRONT_AND_BACK ls = (new_material [] GL_FRONT_AND_BACK, ls)"
  by (simp add: createMaterial_def new_material_def)

lemma createVBO_flat: "createVBO [n] target GL_FLOAT usage s = (Inl IndexError, s)"
  by (simp add: createVBO_def gl_compat_types_def dict_get_def py_index_def gl_enum_defs)

text \<open>C28: \<open>loadObjFile\<close> never returns normally and never changes the GL
  context: with no vertex line it raises \<open>RuntimeError\<close>, a parse error is
  raised as it comes, and a file that parses raises \<open>IndexError\<close> in the
  first \<open>createVBO\<close>, which takes \<open>shape[1]\<close> of the flat attribute list
  before any GL call.\<close>

theorem loadObjFile_never_returns:
  "snd (loadObjFile env drv content s) = s \<and>
   fst (loadObjFile env drv content s) =
     (if nVertices (fold scan_line (py_readlines content) counts0) = 0
      then Inl (RuntimeError ''Failed to load OBJ file, file contains no vertices.'')
      else case obj_lines env (py_readlines content) parse0 of Inl e \<Rightarrow> Inl e | Inr _ \<Rightarrow> Inl IndexError)"
  by (simp add: loadObjFile_def Let_def createVBO_flat split: sum.split)

lemma face_corners_fresh:
  "face_corners attrs st fd = Inr (st', fd') \<Longrightarrow> vertexAttrs st = [] \<Longrightarrow>
   vertexAttrs st' = [] \<and> fd' = fd @ [vertexIdx st..<vertexIdx st'] \<and> vertexIdx st \<le> vertexIdx st' \<and>
   materialGroups st' = materialGroups st \<and> materialGroup st' = materialGroup st"
proof (induction attrs arbitrary: st fd)
  case Nil
  then show ?case by simp
next
  case (Cons a attrs)
  from Cons.prems obtain st1 where nc: "new_corner a st = Inr st1"
    and rest: "face_corners attrs st1 (fd @ [vertexIdx st]) = Inr (st', fd')"
    and st1: "vertexAttrs st1 = [] \<and> vertexIdx st1 = Suc (vertexIdx st) \<and>
              materialGroups st1 = materialGroups st \<and> materialGroup st1 = materialGroup st"
    by (auto simp: py_bind_def new_corner_def dict_get_def split: sum.splits prod.splits)
  show ?case using Cons.IH [OF rest] st1 by (auto simp: upt_conv_Cons)
qed

lemma dict_set_append_mset:
  "map_of d k = Some v \<Longrightarrow>
   mset (concat (map snd (dict_set d k (v @ w)))) = mset (concat (map snd d)) + mset w"
  by (induction d k "v @ w" rule: dict_set.induct) (auto split: if_splits)

lemma dict_set_new_empty:
  "k \<notin> fst ` set d \<Longrightarrow> concat (map snd (dict_set d k [])) = concat (map snd d)"
  by (simp add: dict_set_new)

lemma obj_line_fresh:
  assumes r: "obj_line env st l = Inr st'" and inv: "fresh_indices st"
  shows "fresh_indices st'"
proof -
  let ?line = "py_strip l"
  consider (v) "starts_with ''v '' ?line" | (vt) "\<not> starts_with ''v '' ?line" "starts_with ''vt '' ?line"
    | (vn) "\<not> starts_with ''v '' ?line" "\<not> starts_with ''vt '' ?line" "starts_with ''vn '' ?line"
    | (f) "\<not> starts_with ''v '' ?line" "\<not> starts_with ''vt '' ?line" "\<not> starts_with ''vn '' ?line"
          "starts_with ''f '' ?line"
    | (other) "\<not> starts_with ''v '' ?line" "\<not> starts_with ''vt '' ?line" "\<not> starts_with ''vn '' ?line"
          "\<not> starts_with ''f '' ?line"
    by blast
  then show ?thesis
  proof cases
    case f
    with r obtain st1 fd g els where fc: "face_corners (split_on CHR '' '' (drop 2 ?line)) st [] = Inr (st1, fd)"
      and g: "materialGroup st1 = Some g" and els: "map_of (materialGroups st1) g = Some els"
      and st': "st' = st1\<lparr>materialGroups := dict_set (materialGroups st1) g (els @ fd), faceIdx := Suc (faceIdx st1)\<rparr>"
      by (auto simp: obj_line_def Let_def py_bind_def dict_get_def split: sum.splits prod.splits option.splits)
    from face_corners_fresh [OF fc] inv have
      fr: "vertexAttrs st1 = [] \<and> fd = [vertexIdx st..<vertexIdx st1] \<and> vertexIdx st \<le> vertexIdx st1 \<and>
           materialGroups st1 = materialGroups st"
      by (simp add: fresh_indices_def)
    have "mset [0..<vertexIdx st] + mset [vertexIdx st..<vertexIdx st1] = mset [0..<vertexIdx st1]"
      using fr by (metis mset_append upt_add_eq_append zero_le le_add_diff_inverse)
    with fr inv st' els show ?thesis
      by (simp add: fresh_indices_def dict_set_append_mset)
  next
    case other
    with r inv show ?thesis
      by (auto simp: obj_line_def Let_def fresh_indices_def dict_set_new_empty split: if_splits)
  qed (use r inv in \<open>auto simp: obj_line_def Let_def py_bind_def fresh_indices_def split: sum.splits\<close>)
qed

lemma obj_lines_fresh: "obj_lines env ls st = Inr st' \<Longrightarrow> fresh_indices st \<Longrightarrow> fresh_indices st'"
  by (induction env ls st rule: obj_lines.induct) (auto simp: py_bind_def obj_line_fresh split: sum.splits)

text \<open>C33: the OBJ parser never reuses a vertex: its duplicate test reads
  \<open>vertexAttrs\<close>, which stays empty, so every face corner gets a fresh
  index and the element lists of the material groups hold each index below
  \<open>vertexIdx\<close> exactly once.\<close>

theorem obj_lines_fresh_indices:
  "obj_lines env lines parse0 = Inr st \<Longrightarrow>
   vertexAttrs st = [] \<and> mset (concat (map snd (materialGroups st))) = mset [0..<vertexIdx st]"
  using obj_lines_fresh [of env lines parse0 st] by (simp add: fresh_indices_def parse0_def)

text \<open>The demo file: two triangles on the same three vertices.\<close>

lemma demo_obj_parse:
  "\<not> isl (obj_lines demo_file_env (py_readlines demo_obj) parse0) \<and>
   materialGroups (projr (obj_lines demo_file_env (py_readlines demo_obj) parse0)) = [(''m'', [0, 1, 2, 3, 4, 5])] \<and>
   vertexIdx (projr (obj_lines demo_file_env (py_readlines demo_obj) parse0)) = 6"
  by code_simp

lemma newline_space: "is_py_space CHR ''\<newline>''"
  by (simp add: is_py_space_def)

lemma py_readlines_line:
  "CHR ''\<newline>'' \<notin> set a \<Longrightarrow> py_readlines (a @ CHR ''\<newline>'' # b) = (a @ [CHR ''\<newline>'']) # py_readlines b"
  by (induction a) auto

lemma py_readlines_last: "b \<noteq> [] \<Longrightarrow> CHR ''\<newline>'' \<notin> set b \<Longrightarrow> py_readlines b = [b]"
proof (induction b)
  case (Cons c cs)
  then show ?case by (cases "cs = []") auto
qed simp

lemma py_strip_token:
  assumes "p \<noteq> []" "\<not> is_py_space (hd p)" "clean_token w"
  shows "py_strip (p @ w) = p @ w" and "py_strip (p @ w @ [CHR ''\<newline>'']) = p @ w"
proof -
  have lw: "\<not> is_py_space (last w)" and w: "w \<noteq> []"
    using assms(3) by (auto simp: clean_token_def list_all_iff)
  show "py_strip (p @ w) = p @ w"
    using assms w lw by (intro py_strip_id) simp_all
  have "dropWhile is_py_space (p @ w @ [CHR ''\<newline>'']) = p @ w @ [CHR ''\<newline>'']"
    using assms by (cases p) simp_all
  moreover have "dropWhile is_py_space (rev (p @ w @ [CHR ''\<newline>''])) = rev (p @ w)"
    using w lw newline_space by (cases w rule: rev_cases) simp_all
  moreover have "dropWhile is_py_space (rev (p @ w)) = rev (p @ w)"
    using w lw by (cases w rule: rev_cases) simp_all
  ultimately show "py_strip (p @ w @ [CHR ''\<newline>'']) = p @ w"
    by (simp add: py_strip_def)
qed

text \<open>C40: \<open>loadMtlFile\<close> copies an \<open>Ns\<close> exponent (0 to 1000 in the MTL
  format) unscaled into \<open>GL_SHININESS\<close>: for a value above 128 the
  material loads, and \<open>useMaterial\<close> of it records \<open>GL_INVALID_VALUE\<close>.\<close>

theorem loadMtlFile_shininess_unscaled:
  assumes x: "float_of env ns = Some x" "128 < x" and tok: "clean_token name" "clean_token ns"
    and err: "ls_err ls = None"
  shows "\<exists>m. loadMtlFile env drv path tp (''newmtl '' @ name @ ''\<newline>Ns '' @ ns) s = (Inr [(name, m)], s) \<and>
     map_of (mat_params m) GL_SHININESS = Some (Some (CFloat x)) \<and>
     ls_err (snd (useMaterial ldrv (Some m) ut ls)) = Some GL_INVALID_VALUE"
proof -
  have nl: "CHR ''\<newline>'' \<notin> set name" "CHR ''\<newline>'' \<notin> set ns" "ns \<noteq> []"
    using tok newline_space by (auto simp: clean_token_def list_all_iff)
  have lines: "py_readlines (''newmtl '' @ name @ ''\<newline>Ns '' @ ns) = [''newmtl '' @ name @ ''\<newline>'', ''Ns '' @ ns]"
    using nl py_readlines_line [of "''newmtl '' @ name" "''Ns '' @ ns"] py_readlines_last [of "''Ns '' @ ns"]
    by simp
  have s1: "py_strip (''newmtl '' @ name @ ''\<newline>'') = ''newmtl '' @ name"
    using py_strip_token(2) [of "''newmtl ''" name] tok by (simp add: is_py_space_def)
  have s2: "py_strip (''Ns '' @ ns) = ''Ns '' @ ns"
    using py_strip_token(1) [of "''Ns ''" ns] tok by (simp add: is_py_space_def)
  define m where "m = \<lparr>mat_face = GL_FRONT_AND_BACK,
     mat_params = dict_set (map (\<lambda>mode. (mode, None)) material_modes) GL_SHININESS (Some (CFloat x)),
     mat_textures = [], mat_userData = []\<rparr>"
  have load: "loadMtlFile env drv path tp (''newmtl '' @ name @ ''\<newline>Ns '' @ ns) s = (Inr [(name, m)], s)"
    using x by (simp add: loadMtlFile_def lines [simplified] mtl_line_def s1 [simplified] s2 [simplified] starts_with_def mtl_set_param_def
        new_material_def mtl0_def py_float_def GLfloat_def dict_get_def m_def)
  have params: "mat_params m = [(GL_AMBIENT, None), (GL_DIFFUSE, None), (GL_SPECULAR, None), (GL_EMISSION, None),
      (GL_SHININESS, Some (CFloat x))]"
    by (simp add: m_def material_modes_def gl_enum_defs)
  have "ls_err (snd (useMaterial ldrv (Some m) ut ls)) = Some GL_INVALID_VALUE"
  proof -
    have "mat_face m = GL_FRONT_AND_BACK" "mat_textures m = []" by (simp_all add: m_def)
    then show ?thesis
      using x err by (simp add: useMaterial_def params glMaterialfv_def cvalue_floats_def material_pnames_def
          ls_raise_def gl_enum_defs)
  qed
  then show ?thesis using load by (auto simp: params gl_enum_defs)
qed

section \<open>Witnesses\<close>

theorem obj_lines_fresh_indices_witness:
  "obj_lines demo_file_env (py_readlines demo_obj) parse0 =
     Inr (projr (obj_lines demo_file_env (py_readlines demo_obj) parse0)) \<and>
   mset (concat (map snd (materialGroups (projr (obj_lines demo_file_env (py_readlines demo_obj) parse0))))) =
     mset [0..<6]"
proof -
  have h: "obj_lines demo_file_env (py_readlines demo_obj) parse0 =
      Inr (projr (obj_lines demo_file_env (py_readlines demo_obj) parse0))"
    using demo_obj_parse by (cases "obj_lines demo_file_env (py_readlines demo_obj) parse0") simp_all
  show ?thesis using obj_lines_fresh_indices [OF h] h demo_obj_parse by simp
qed

theorem loadMtlFile_shininess_unscaled_witness:
  "\<exists>m. loadMtlFile demo_file_env demo_driver ''model.mtl'' None (''newmtl '' @ ''brass'' @ ''\<newline>Ns '' @ ''250'') img_init =
       (Inr [(''brass'', m)], img_init) \<and>
     map_of (mat_params m) GL_SHININESS = Some (Some (CFloat 250)) \<and>
     ls_err (snd (useMaterial demo_light_driver (Some m) True ls_init)) = Some GL_INVALID_VALUE"
proof -
  have f: "float_of demo_file_env ''250'' = Some 250" by code_simp
  have t: "clean_token ''brass''" "clean_token ''250''" by code_simp+
  show ?thesis
    using loadMtlFile_shininess_unscaled [OF f _ t, where drv = demo_driver and path = "''model.mtl''"
        and tp = None and s = img_init and ldrv = demo_light_driver and ut = True and ls = ls_init]
    by (simp add: ls_init_def)
qed

end
