(* ===== verification/GL_Info.thy ===== *)
theory GL_Info
  imports Shader_Defs GL_Images Complex_Main
begin

text \<open>
  The query helpers \<open>getFloatv\<close>, \<open>getString\<close> and \<open>getOpenGLInfo\<close> of
  \<open>psychopy/tools/gltools.py\<close> (lines 2501-2582).  What the driver answers is
  the record \<open>info_driver\<close>: the bytes \<open>glGetString\<close> points to (\<open>None\<close> for
  a NULL pointer, which the driver returns for an enumerant it does not know,
  as \<open>GL_EXTENSIONS\<close> in a core-profile context) and the integer and float
  values of \<open>glGetIntegerv\<close> and \<open>glGetFloatv\<close> (\<open>None\<close> for an unknown
  enumerant, which leaves the output untouched).  The context's part is its
  error flag.
\<close>

section \<open>Enumerants and driver\<close>

definition GL_VENDOR :: int where "GL_VENDOR = 0x1F00"
definition GL_RENDERER :: int where "GL_RENDERER = 0x1F01"
definition GL_VERSION :: int where "GL_VERSION = 0x1F02"
definition GL_EXTENSIONS :: int where "GL_EXTENSIONS = 0x1F03"
definition GL_DOUBLEBUFFER :: int where "GL_DOUBLEBUFFER = 0x0C32"
definition GL_STEREO :: int where "GL_STEREO = 0x0C33"
definition GL_MAX_TEXTURE_SIZE :: int where "GL_MAX_TEXTURE_SIZE = 0x0D33"
definition GL_MAJOR_VERSION :: int where "GL_MAJOR_VERSION = 0x821B"
definition GL_MINOR_VERSION :: int where "GL_MINOR_VERSION = 0x821C"

declare GL_VENDOR_def [gl_enum_defs] GL_RENDERER_def [gl_enum_defs] GL_VERSION_def [gl_enum_defs]
  GL_EXTENSIONS_def [gl_enum_defs] GL_DOUBLEBUFFER_def [gl_enum_defs] GL_STEREO_def [gl_enum_defs]
  GL_MAX_TEXTURE_SIZE_def [gl_enum_defs] GL_MAJOR_VERSION_def [gl_enum_defs]
  GL_MINOR_VERSION_def [gl_enum_defs]

record info_driver =
  gl_string :: "int \<Rightarrow> string option"
  gl_integer :: "int \<Rightarrow> int option"
  gl_float :: "int \<Rightarrow> real option"

definition info_raise :: "gl_error \<Rightarrow> gl_error option \<Rightarrow> gl_error option" where
  "info_raise e err = (if err = None then Some e else err)"

section \<open>The helpers\<close>

text \<open>\<open>val = GL.GLint(); GL.glGetIntegerv(parName, val); int(val.value)\<close>:
  an unknown enumerant leaves \<open>val\<close> at 0.\<close>

definition getIntegerv_info :: "info_driver \<Rightarrow> int \<Rightarrow> gl_error option \<Rightarrow> int \<times> gl_error option" where
  "getIntegerv_info drv parName err =
     (case gl_integer drv parName of
        None \<Rightarrow> (0, info_raise GL_INVALID_ENUM err)
      | Some v \<Rightarrow> (v, err))"

definition getFloatv :: "info_driver \<Rightarrow> int \<Rightarrow> gl_error option \<Rightarrow> real \<times> gl_error option" where
  "getFloatv drv parName err =
     (case gl_float drv parName of
        None \<Rightarrow> (0, info_raise GL_INVALID_ENUM err)
      | Some v \<Rightarrow> (v, err))"

text \<open>\<open>ctypes.cast(GL.glGetString(parName), ctypes.c_char_p).value\<close> is
  \<open>None\<close> for a NULL pointer, and \<open>None.decode\<close> raises \<open>AttributeError\<close>.\<close>

definition getString :: "info_driver \<Rightarrow> int \<Rightarrow> gl_error option \<Rightarrow> string py_result \<times> gl_error option" where
  "getString drv parName err =
     (case gl_string drv parName of
        None \<Rightarrow> (Inl (AttributeError ''decode''), info_raise GL_INVALID_ENUM err)
      | Some bs \<Rightarrow> (utf8_decode bs, err))"

record opengl_info =
  gi_vendor :: string
  gi_renderer :: string
  gi_version :: string
  gi_majorVersion :: int
  gi_minorVersion :: int
  gi_doubleBuffer :: int
  gi_maxTextureSize :: int
  gi_stereo :: int
  gi_maxSamples :: int
  gi_extensions :: "string list"
  gi_userData :: "(string \<times> string) list"

text \<open>The arguments of \<open>OpenGLInfo(...)\<close> are evaluated left to right; the
  first exception ends the call.\<close>

definition getOpenGLInfo :: "info_driver \<Rightarrow> gl_error option \<Rightarrow> opengl_info py_result \<times> gl_error option" where
  "getOpenGLInfo drv e0 =
     (case getString drv GL_VENDOR e0 of (Inl x, e1) \<Rightarrow> (Inl x, e1) | (Inr vendor, e1) \<Rightarrow>
      case getString drv GL_RENDERER e1 of (Inl x, e2) \<Rightarrow> (Inl x, e2) | (Inr renderer, e2) \<Rightarrow>
      case getString drv GL_VERSION e2 of (Inl x, e3) \<Rightarrow> (Inl x, e3) | (Inr version, e3) \<Rightarrow>
      (let (major, e4) = getIntegerv_info drv GL_MAJOR_VERSION e3;
           (minor, e5) = getIntegerv_info drv GL_MINOR_VERSION e4;
           (dbl, e6) = getIntegerv_info drv GL_DOUBLEBUFFER e5;
           (maxTex, e7) = getIntegerv_info drv GL_MAX_TEXTURE_SIZE e6;
           (stereo, e8) = getIntegerv_info drv GL_STEREO e7;
           (maxSamples, e9) = getIntegerv_info drv GL_MAX_SAMPLES e8
       in case getString drv GL_EXTENSIONS e9 of (Inl x, e10) \<Rightarrow> (Inl x, e10) | (Inr ext, e10) \<Rightarrow>
          (Inr \<lparr>gi_vendor = vendor, gi_renderer = renderer, gi_version = version, gi_majorVersion = major,
                gi_minorVersion = minor, gi_doubleBuffer = dbl, gi_maxTextureSize = maxTex, gi_stereo = stereo,
                gi_maxSamples = maxSamples, gi_extensions = split_on CHR '' '' ext, gi_userData = []\<rparr>, e10)))"

section \<open>Examples\<close>

text \<open>A compatibility-profile driver and the same driver in a core-profile
  context, where \<open>GL_EXTENSIONS\<close> is no \<open>glGetString\<close> name.\<close>

definition demo_info_driver :: info_driver where
  "demo_info_driver = \<lparr>gl_string = (\<lambda>p. if p = GL_VENDOR then Some ''Mesa'' else if p = GL_RENDERER then Some ''llvmpipe''
       else if p = GL_VERSION then Some ''3.3'' else if p = GL_EXTENSIONS then Some ''GL_ARB_a GL_ARB_b '' else None),
     gl_integer = (\<lambda>p. if p = GL_MAJOR_VERSION then Some 3 else if p = GL_MINOR_VERSION then Some 3 else Some 0),
     gl_float = (\<lambda>p. None)\<rparr>"

definition demo_core_driver :: info_driver where
  "demo_core_driver = demo_info_driver\<lparr>gl_string := (gl_string demo_info_driver)(GL_EXTENSIONS := None)\<rparr>"

text \<open>What \<open>getOpenGLInfo\<close> returns for the compatibility driver: the
  trailing space of its extension string gives an empty last name.\<close>

definition demo_info :: opengl_info where
  "demo_info = \<lparr>gi_vendor = ''Mesa'', gi_renderer = ''llvmpipe'', gi_version = ''3.3'', gi_majorVersion = 3,
     gi_minorVersion = 3, gi_doubleBuffer = 0, gi_maxTextureSize = 0, gi_stereo = 0, gi_maxSamples = 0,
     gi_extensions = [''GL_ARB_a'', ''GL_ARB_b'', ''''], gi_userData = []\<rparr>"

section \<open>Lemmas\<close>

text \<open>\<open>getOpenGLInfo\<close> returns only when every string query succeeds, and
  then its \<open>extensions\<close> field splits the decoded \<open>GL_EXTENSIONS\<close> string at
  each space (so a trailing space gives an empty last name).\<close>

lemma getOpenGLInfo_Inr:
  "getOpenGLInfo drv e = (Inr info, e') \<Longrightarrow>
   \<exists>bs ext. gl_string drv GL_EXTENSIONS = Some bs \<and> utf8_decode bs = Inr ext \<and>
     gi_extensions info = split_on CHR '' '' ext"
  by (auto simp: getOpenGLInfo_def getString_def Let_def split: option.splits sum.splits prod.splits)

text \<open>C17: when \<open>getOpenGLInfo\<close> returns, \<open>GL_EXTENSIONS\<close> was a string and
  joining the \<open>extensions\<close> list with spaces gives back exactly its decoded
  text: the list is a lossless split of it.\<close>

theorem getOpenGLInfo_extensions_roundtrip:
  "getOpenGLInfo drv e = (Inr info, e') \<Longrightarrow>
   \<exists>bs. gl_string drv GL_EXTENSIONS = Some bs \<and> utf8_decode bs = Inr (join_on CHR '' '' (gi_extensions info))"
  using getOpenGLInfo_Inr [of drv e info e'] by (auto simp: join_on_split_on)

text \<open>In a core-profile context \<open>glGetString(GL_EXTENSIONS)\<close> is NULL, so
  \<open>getOpenGLInfo\<close> raises \<open>AttributeError\<close> after all other queries.\<close>

lemma getOpenGLInfo_core_profile:
  "fst (getOpenGLInfo demo_core_driver None) = Inl (AttributeError ''decode'')"
  by code_simp

theorem getOpenGLInfo_extensions_roundtrip_witness:
  "\<exists>bs. gl_string demo_info_driver GL_EXTENSIONS = Some bs \<and>
     utf8_decode bs = Inr (join_on CHR '' '' (gi_extensions demo_info))"
proof -
  have h: "getOpenGLInfo demo_info_driver None = (Inr demo_info, None)"
    by code_simp
  show ?thesis using getOpenGLInfo_extensions_roundtrip [OF h] by simp
qed

end
