(* ===== verification/AlertTools.thy ===== *)
theory AlertTools
  imports Builder_Params
begin

text \<open>
  \<open>psychopy/alerts/AlertTools.py\<close>: the size and position checks that write
  alerts for a Builder component.  The window is the record \<open>test_win\<close>
  (\<open>TestWin\<close>); the routines the module calls outside the excerpt are the
  record \<open>alert_env\<close>: the monitor's size in pixels (\<open>Monitor(m).getSizePix()\<close>),
  \<open>ast.literal_eval\<close>, and \<open>monitorunittools.convertToPix(array(v),
  array([0, 0]), units, win)\<close> with its numpy result as a list of reals.  A
  check returns its result and the component, whose \<open>c_alerts\<close> lists the
  codes written with \<open>component.alerts.write\<close>, oldest first.
\<close>

record test_win =
  tw_useRetina :: bool
  tw_exp :: builder_exp
  tw_monitor :: pyobj
  tw_size :: "real list"

record alert_env =
  monitor_size_pix :: "pyobj \<Rightarrow> real list"
  literal_eval :: "string \<Rightarrow> pyobj py_result"
  convert_to_pix :: "pyobj \<Rightarrow> pyobj \<Rightarrow> test_win \<Rightarrow> real list py_result"

definition TestWin :: "alert_env \<Rightarrow> builder_exp \<Rightarrow> pyobj \<Rightarrow> test_win" where
  "TestWin env exp' monitor =
     \<lparr>tw_useRetina = True, tw_exp = exp', tw_monitor = monitor, tw_size = monitor_size_pix env monitor\<rparr>"

text \<open>\<open>array(ast.literal_eval(value))\<close> for a \<open>str\<close>, \<open>array(value)\<close>
  otherwise.\<close>

definition param_array :: "alert_env \<Rightarrow> pyobj \<Rightarrow> pyobj py_result" where
  "param_array env value = (case value of PyStr s \<Rightarrow> literal_eval env s | _ \<Rightarrow> Inr value)"

text \<open>The array converted to pixels and doubled.\<close>

definition convertParamToPix :: "alert_env \<Rightarrow> pyobj \<Rightarrow> test_win \<Rightarrow> pyobj \<Rightarrow> real list py_result" where
  "convertParamToPix env value win units =
     py_bind (param_array env value)
       (\<lambda>v. py_bind (convert_to_pix env v units win) (\<lambda>p. Inr (map (\<lambda>x. x * 2) p)))"

definition alert_write :: "int \<Rightarrow> component \<Rightarrow> component" where
  "alert_write code c = c\<lparr>c_alerts := c_alerts c @ [code]\<rparr>"

text \<open>\<open>v[i] > win.size[i]\<close>, the left operand first.\<close>

definition exceeds :: "real list \<Rightarrow> test_win \<Rightarrow> int \<Rightarrow> bool py_result" where
  "exceeds v win i = py_bind (py_index v i) (\<lambda>x. py_bind (py_index (tw_size win) i) (\<lambda>w. Inr (w < x)))"

text \<open>The common body of \<open>testSize\<close> and \<open>testPos\<close>: return at once when the
  parameter is absent, else test X, then Y; an exception in the Y test
  leaves the X alert written.\<close>

definition bounds_check :: "alert_env \<Rightarrow> string \<Rightarrow> int \<Rightarrow> int \<Rightarrow> component \<Rightarrow> test_win \<Rightarrow> pyobj \<Rightarrow>
    unit py_result \<times> component" where
  "bounds_check env key codeX codeY component win units =
     (case map_of (c_params component) key of
        None \<Rightarrow> (Inr (), component)
      | Some p \<Rightarrow>
          (case convertParamToPix env (val p) win units of
             Inl e \<Rightarrow> (Inl e, component)
           | Inr v \<Rightarrow>
               (case exceeds v win 0 of
                  Inl e \<Rightarrow> (Inl e, component)
                | Inr bx \<Rightarrow>
                    (let c1 = (if bx then alert_write codeX component else component) in
                     case exceeds v win 1 of
                       Inl e \<Rightarrow> (Inl e, c1)
                     | Inr by \<Rightarrow> (Inr (), if by then alert_write codeY c1 else c1)))))"

definition testSize :: "alert_env \<Rightarrow> component \<Rightarrow> test_win \<Rightarrow> pyobj \<Rightarrow> unit py_result \<times> component" where
  "testSize env component win units = bounds_check env ''size'' 1001 1002 component win units"

definition testPos :: "alert_env \<Rightarrow> component \<Rightarrow> test_win \<Rightarrow> pyobj \<Rightarrow> unit py_result \<times> component" where
  "testPos env component win units = bounds_check env ''pos'' 1003 1004 component win units"

definition runTest :: "alert_env \<Rightarrow> component \<Rightarrow> unit py_result \<times> component" where
  "runTest env component =
     (case dict_get (exp_settings (c_exp component)) ''Monitor'' of
        Inl e \<Rightarrow> (Inl e, component)
      | Inr mp \<Rightarrow>
          (let win = TestWin env (c_exp component) (val mp) in
           case dict_get (exp_settings (c_exp component)) ''Units'' of
             Inl e \<Rightarrow> (Inl e, component)
           | Inr up \<Rightarrow>
               (case testSize env component win (val up) of
                  (Inl e, c1) \<Rightarrow> (Inl e, c1)
                | (Inr _, c1) \<Rightarrow> testPos env c1 win (val up))))"

text \<open>The codes a check writes for a value \<open>v\<close> in pixels against the window
  size \<open>w\<close>, when both have an X and a Y entry.\<close>

definition bound_alerts :: "int \<Rightarrow> int \<Rightarrow> real list \<Rightarrow> real list \<Rightarrow> int list" where
  "bound_alerts codeX codeY v w =
     (if w ! 0 < v ! 0 then [codeX] else []) @ (if w ! 1 < v ! 1 then [codeY] else [])"

section \<open>Example values\<close>

definition demo_alert_env :: alert_env where
  "demo_alert_env =
     \<lparr>monitor_size_pix = (\<lambda>_. [1920, 1080]),
      literal_eval = (\<lambda>_. Inl (ValueError ''malformed node or string'')),
      convert_to_pix = (\<lambda>v _ _. case v of PyTuple [PyFloat a, PyFloat b] \<Rightarrow> Inr [a, b]
                                       | _ \<Rightarrow> Inl (TypeError ''unsupported operand''))\<rparr>"

definition demo_exp :: builder_exp where
  "demo_exp = \<lparr>exp_settings = [(''Monitor'', code_param (PyStr ''testMonitor'')), (''Units'', code_param (PyStr ''pix''))],
     exp_libs = []\<rparr>"

definition demo_stim :: component where
  "demo_stim = \<lparr>c_exp = demo_exp, c_parentName = ''trial'',
     c_params = [(''size'', code_param (PyTuple [PyFloat 1200, PyFloat 100])),
                 (''pos'', code_param (PyTuple [PyFloat (-5000), PyFloat 0]))],
     c_type = ''Polygon'', c_url = '''', c_order = [], c_alerts = []\<rparr>"

section \<open>Lemmas\<close>

lemma alert_write_fields [simp]:
  "c_params (alert_write code c) = c_params c" "c_exp (alert_write code c) = c_exp c"
  "c_alerts (alert_write code c) = c_alerts c @ [code]"
  by (simp_all add: alert_write_def)

lemma exceeds_01:
  assumes "2 \<le> length v" "2 \<le> length (tw_size win)"
  shows "exceeds v win 0 = Inr (tw_size win ! 0 < v ! 0)" "exceeds v win 1 = Inr (tw_size win ! 1 < v ! 1)"
  using assms by (auto simp: exceeds_def py_index_def)

lemma bounds_check_ok:
  assumes "map_of (c_params c) key = Some p" "convertParamToPix env (val p) win units = Inr v"
    and "2 \<le> length v" "2 \<le> length (tw_size win)"
  shows "bounds_check env key codeX codeY c win units =
           (Inr (), c\<lparr>c_alerts := c_alerts c @ bound_alerts codeX codeY v (tw_size win)\<rparr>)"
  using assms by (simp add: bounds_check_def exceeds_01 bound_alerts_def alert_write_def Let_def)

lemma bounds_check_absent:
  "map_of (c_params c) key = None \<Longrightarrow> bounds_check env key codeX codeY c win units = (Inr (), c)"
  by (simp add: bounds_check_def)

lemma convertParamToPix_ok:
  "param_array env value = Inr a \<Longrightarrow> convert_to_pix env a units win = Inr p \<Longrightarrow>
   convertParamToPix env value win units = Inr (map (\<lambda>x. x * 2) p)"
  by (simp add: convertParamToPix_def)

text \<open>C35: When the settings name a monitor and units, and the component's size and pos are arrays that convertToPix turns into pixel pairs ps and pp, runTest appends to the component's alerts the size codes then the position codes: 1001 (1002) when twice ps's width (height) exceeds the window's, then 1003 (1004) likewise for twice pp, and returns normally.\<close>

theorem runTest_alerts:
  assumes mon: "dict_get (exp_settings (c_exp c)) ''Monitor'' = Inr mp"
    and uni: "dict_get (exp_settings (c_exp c)) ''Units'' = Inr up"
    and sz: "map_of (c_params c) ''size'' = Some ps" "param_array env (val ps) = Inr sa"
      "convert_to_pix env sa (val up) (TestWin env (c_exp c) (val mp)) = Inr vs"
    and po: "map_of (c_params c) ''pos'' = Some pp" "param_array env (val pp) = Inr pa"
      "convert_to_pix env pa (val up) (TestWin env (c_exp c) (val mp)) = Inr vp"
    and len: "2 \<le> length vs" "2 \<le> length vp" "2 \<le> length (monitor_size_pix env (val mp))"
  shows "runTest env c =
     (Inr (), c\<lparr>c_alerts := c_alerts c @ bound_alerts 1001 1002 (map (\<lambda>x. 2 * x) vs) (monitor_size_pix env (val mp))
                                      @ bound_alerts 1003 1004 (map (\<lambda>x. 2 * x) vp) (monitor_size_pix env (val mp))\<rparr>)"
proof -
  let ?win = "TestWin env (c_exp c) (val mp)"
  have w: "tw_size ?win = monitor_size_pix env (val mp)" by (simp add: TestWin_def)
  have cs: "convertParamToPix env (val ps) ?win (val up) = Inr (map (\<lambda>x. 2 * x) vs)"
    and cp: "convertParamToPix env (val pp) ?win (val up) = Inr (map (\<lambda>x. 2 * x) vp)"
    using convertParamToPix_ok [OF sz(2,3)] convertParamToPix_ok [OF po(2,3)] by (simp_all add: mult.commute)
  let ?c1 = "c\<lparr>c_alerts := c_alerts c @ bound_alerts 1001 1002 (map (\<lambda>x. 2 * x) vs) (monitor_size_pix env (val mp))\<rparr>"
  have s: "testSize env c ?win (val up) = (Inr (), ?c1)"
    unfolding testSize_def using sz(1) cs len w by (simp add: bounds_check_ok)
  have "testPos env ?c1 ?win (val up) =
          (Inr (), ?c1\<lparr>c_alerts := c_alerts ?c1 @ bound_alerts 1003 1004 (map (\<lambda>x. 2 * x) vp) (monitor_size_pix env (val mp))\<rparr>)"
    unfolding testPos_def using po(1) cp len w by (simp add: bounds_check_ok)
  then show ?thesis using mon uni s by (simp add: runTest_def Let_def)
qed

text \<open>C36: TestPos writes no alert for a position whose converted coordinates are both at most 0, however far the stimulus lies beyond the left or bottom edge of the window.\<close>

theorem testPos_unflagged_left_below:
  assumes "map_of (c_params c) ''pos'' = Some p" "convertParamToPix env (val p) win units = Inr v"
    and "2 \<le> length v" "2 \<le> length (tw_size win)"
    and "v ! 0 \<le> 0" "v ! 1 \<le> 0" "0 \<le> tw_size win ! 0" "0 \<le> tw_size win ! 1"
  shows "testPos env c win units = (Inr (), c)"
  using assms by (simp add: testPos_def bounds_check_ok bound_alerts_def)

text \<open>C37: When the converted size has a single entry exceeding the window width, testSize writes alert 1001 and then raises IndexError on the Y test: the alert written before the exception stays.\<close>

theorem testSize_partial_write:
  assumes "map_of (c_params c) ''size'' = Some p" "convertParamToPix env (val p) win units = Inr [x]"
    and "tw_size win \<noteq> []" "tw_size win ! 0 < x"
  shows "testSize env c win units = (Inl IndexError, alert_write 1001 c)"
  using assms by (simp add: testSize_def bounds_check_def exceeds_def py_index_def)

section \<open>Witnesses\<close>

lemma runTest_alerts_witness: "runTest demo_alert_env demo_stim = (Inr (), demo_stim\<lparr>c_alerts := [1001]\<rparr>)"
  using runTest_alerts [of demo_stim "code_param (PyStr ''testMonitor'')" "code_param (PyStr ''pix'')"
      "code_param (PyTuple [PyFloat 1200, PyFloat 100])" demo_alert_env "PyTuple [PyFloat 1200, PyFloat 100]"
      "[1200, 100]" "code_param (PyTuple [PyFloat (-5000), PyFloat 0])" "PyTuple [PyFloat (-5000), PyFloat 0]"
      "[-5000, 0]"]
  by (simp add: demo_stim_def demo_exp_def dict_get_def code_param_def demo_alert_env_def
      param_array_def bound_alerts_def)

lemma testPos_unflagged_left_below_witness:
  "testPos demo_alert_env demo_stim (TestWin demo_alert_env demo_exp (PyStr ''testMonitor'')) (PyStr ''pix'') =
     (Inr (), demo_stim)"
  by (rule testPos_unflagged_left_below [where p = "code_param (PyTuple [PyFloat (-5000), PyFloat 0])"
        and v = "[-10000, 0]"])
     (simp_all add: demo_stim_def code_param_def demo_alert_env_def convertParamToPix_def param_array_def TestWin_def)

lemma testSize_partial_write_witness:
  "testSize (demo_alert_env\<lparr>convert_to_pix := (\<lambda>_ _ _. Inr [1000])\<rparr>) demo_stim
     (TestWin demo_alert_env demo_exp (PyStr ''testMonitor'')) (PyStr ''pix'') =
   (Inl IndexError, alert_write 1001 demo_stim)"
  by (rule testSize_partial_write [where p = "code_param (PyTuple [PyFloat 1200, PyFloat 100])" and x = 2000])
     (simp_all add: demo_stim_def code_param_def demo_alert_env_def convertParamToPix_def param_array_def TestWin_def)

end
