(* ===== verification/Polygon.thy ===== *)
theory Polygon
  imports Builder_Params
begin

text \<open>
  \<open>psychopy/app/builder/components/polygon.py\<close>: the Builder component
  \<open>PolygonComponent\<close>, its constructor and \<open>writeInitCode\<close>, which writes the
  Python text creating the stimulus.  What the module calls outside the
  excerpt is the record \<open>builder_env\<close>: the base class constructor, the
  experiment's \<open>requirePsychopyLibs\<close>, \<open>getInitVals\<close>, \<open>str\<close> of a \<open>Param\<close>,
  \<open>repr\<close> of a float, \<open>getPosInRoutine\<close> and \<open>_translate\<close>.  \<open>getInitVals\<close>
  returns fresh \<open>Param\<close> objects, so the assignment to \<open>inits['size'].val\<close>
  changes \<open>inits\<close> only.  The output buffer is the list of the texts given to
  \<open>buff.writeIndentedLines\<close>; the indentation it adds is the buffer's.
\<close>

abbreviation nl :: string where "nl \<equiv> [CHR 0x0A]"

record visual_args =
  va_name :: pyobj
  va_units :: pyobj
  va_pos :: pyobj
  va_size :: pyobj
  va_ori :: pyobj
  va_startType :: pyobj
  va_startVal :: pyobj
  va_stopType :: pyobj
  va_stopVal :: pyobj
  va_startEstim :: pyobj
  va_durationEstim :: pyobj

record builder_env =
  base_visual_init :: "builder_exp \<Rightarrow> string \<Rightarrow> visual_args \<Rightarrow> component"
  require_psychopy_libs :: "string list \<Rightarrow> builder_exp \<Rightarrow> builder_exp"
  get_init_vals :: "params \<Rightarrow> params"
  param_str :: "param \<Rightarrow> string"
  float_repr :: "real \<Rightarrow> string"
  pos_in_routine :: "component \<Rightarrow> int"
  translate :: "string \<Rightarrow> string"

section \<open>The constructor\<close>

text \<open>The keyword arguments of \<open>PolygonComponent.__init__\<close> after \<open>exp\<close> and
  \<open>parentName\<close>, and their defaults.\<close>

record polygon_args =
  pa_name :: pyobj
  pa_interpolate :: pyobj
  pa_units :: pyobj
  pa_lineColor :: pyobj
  pa_lineColorSpace :: pyobj
  pa_lineWidth :: pyobj
  pa_fillColor :: pyobj
  pa_fillColorSpace :: pyobj
  pa_nVertices :: pyobj
  pa_pos :: pyobj
  pa_size :: pyobj
  pa_ori :: pyobj
  pa_startType :: pyobj
  pa_startVal :: pyobj
  pa_stopType :: pyobj
  pa_stopVal :: pyobj
  pa_startEstim :: pyobj
  pa_durationEstim :: pyobj

definition polygon_defaults :: polygon_args where
  "polygon_defaults =
     \<lparr>pa_name = PyStr ''polygon'', pa_interpolate = PyStr ''linear'', pa_units = PyStr ''from exp settings'',
      pa_lineColor = PyStr ''$[1,1,1]'', pa_lineColorSpace = PyStr ''rgb'', pa_lineWidth = PyInt 1,
      pa_fillColor = PyStr ''$[1,1,1]'', pa_fillColorSpace = PyStr ''rgb'', pa_nVertices = PyInt 4,
      pa_pos = PyTuple [PyInt 0, PyInt 0], pa_size = PyTuple [PyFloat 0.5, PyFloat 0.5], pa_ori = PyInt 0,
      pa_startType = PyStr ''time (s)'', pa_startVal = PyFloat 0, pa_stopType = PyStr ''duration (s)'',
      pa_stopVal = PyFloat 1, pa_startEstim = PyStr '''', pa_durationEstim = PyStr ''''\<rparr>"

text \<open>The module's \<open>_localized\<close> labels.\<close>

definition polygon_localized :: "(string \<Rightarrow> string) \<Rightarrow> (string \<times> string) list" where
  "polygon_localized tr =
     [(''nVertices'', tr ''Num. vertices''), (''fillColorSpace'', tr ''Fill color-space''),
      (''fillColor'', tr ''Fill color''), (''lineColorSpace'', tr ''Line color-space''),
      (''lineColor'', tr ''Line color''), (''lineWidth'', tr ''Line width''),
      (''interpolate'', tr ''Interpolate''), (''size'', tr ''Size [w,h]'')]"

definition color_spaces :: "pyobj list" where
  "color_spaces = [PyStr ''rgb'', PyStr ''dkl'', PyStr ''lms'', PyStr ''hsv'']"

definition every_update :: "string list" where
  "every_update = [''constant'', ''set every repeat'', ''set every frame'']"

text \<open>The eight \<open>Param\<close>s the constructor assigns, in the code's order.\<close>

definition polygon_params :: "(string \<Rightarrow> string) \<Rightarrow> polygon_args \<Rightarrow> params" where
  "polygon_params tr a =
     (let loc = (\<lambda>k. the (map_of (polygon_localized tr) k)) in
     [(''nVertices'', \<lparr>val = pa_nVertices a, valType = ''int'', allowedVals = None, allowedTypes = None,
        updates = Some ''constant'', allowedUpdates = Some [''constant''],
        hint = tr ''How many vertices? 2=line, 3=triangle... (90 approximates a circle)'',
        label = loc ''nVertices'', categ = None\<rparr>),
      (''fillColorSpace'', \<lparr>val = pa_fillColorSpace a, valType = ''str'', allowedVals = Some color_spaces,
        allowedTypes = None, updates = Some ''constant'', allowedUpdates = None,
        hint = tr ''Choice of color space for the fill color (rgb, dkl, lms, hsv)'',
        label = loc ''fillColorSpace'', categ = Some ''Advanced''\<rparr>),
      (''fillColor'', \<lparr>val = pa_fillColor a, valType = ''str'', allowedVals = None, allowedTypes = Some [],
        updates = Some ''constant'', allowedUpdates = Some every_update,
        hint = tr ''Fill color of this shape; Right-click to bring up a color-picker (rgb only)'',
        label = loc ''fillColor'', categ = Some ''Advanced''\<rparr>),
      (''lineColorSpace'', \<lparr>val = pa_lineColorSpace a, valType = ''str'', allowedVals = Some color_spaces,
        allowedTypes = None, updates = Some ''constant'', allowedUpdates = None,
        hint = tr ''Choice of color space for the fill color (rgb, dkl, lms, hsv)'',
        label = loc ''lineColorSpace'', categ = Some ''Advanced''\<rparr>),
      (''lineColor'', \<lparr>val = pa_lineColor a, valType = ''str'', allowedVals = None, allowedTypes = Some [],
        updates = Some ''constant'', allowedUpdates = Some every_update,
        hint = tr ''Line color of this shape; Right-click to bring up a color-picker (rgb only)'',
        label = loc ''lineColor'', categ = Some ''Advanced''\<rparr>),
      (''lineWidth'', \<lparr>val = pa_lineWidth a, valType = ''code'', allowedVals = None, allowedTypes = Some [],
        updates = Some ''constant'', allowedUpdates = Some every_update,
        hint = tr ''Width of the shape's line (always in pixels - this does NOT use 'units')'',
        label = loc ''lineWidth'', categ = None\<rparr>),
      (''interpolate'', \<lparr>val = pa_interpolate a, valType = ''str'',
        allowedVals = Some [PyStr ''linear'', PyStr ''nearest''], allowedTypes = None,
        updates = Some ''constant'', allowedUpdates = Some [],
        hint = tr ''How should the image be interpolated if/when rescaled'',
        label = loc ''interpolate'', categ = Some ''Advanced''\<rparr>),
      (''size'', \<lparr>val = pa_size a, valType = ''code'', allowedVals = None, allowedTypes = Some [],
        updates = Some ''constant'', allowedUpdates = Some every_update,
        hint = tr (''Size of this stimulus [w,h]. Note that for a line only the first value is used, ''
                   @ ''for triangle and rect the [w,h] is as expected,'' @ nl
                   @ '' but for higher-order polygons it represents the [w,h] of the ellipse that ''
                   @ ''the polygon sits on!! ''),
        label = loc ''size'', categ = None\<rparr>)])"

text \<open>The keyword arguments given to \<open>super().__init__\<close>.\<close>

definition polygon_base_args :: "polygon_args \<Rightarrow> visual_args" where
  "polygon_base_args a =
     \<lparr>va_name = pa_name a, va_units = pa_units a, va_pos = pa_pos a, va_size = pa_size a,
      va_ori = pa_ori a, va_startType = pa_startType a, va_startVal = pa_startVal a,
      va_stopType = pa_stopType a, va_stopVal = pa_stopVal a, va_startEstim = pa_startEstim a,
      va_durationEstim = pa_durationEstim a\<rparr>"

text \<open>\<open>super().__init__(...)\<close>, the attributes, the eight assignments
  \<open>self.params[k] = Param(...)\<close>, then \<open>del self.params['color']\<close> and
  \<open>del self.params['colorSpace']\<close>, each raising \<open>KeyError\<close> when absent.\<close>

definition PolygonComponent :: "builder_env \<Rightarrow> builder_exp \<Rightarrow> string \<Rightarrow> polygon_args \<Rightarrow> component py_result" where
  "PolygonComponent env exp' parentName a =
     (let c0 = base_visual_init env exp' parentName (polygon_base_args a);
          c1 = c0\<lparr>c_type := ''Polygon'', c_url := ''http://www.psychopy.org/builder/components/polygon.html'',
                  c_exp := require_psychopy_libs env [''visual''] (c_exp c0), c_order := [''nVertices'']\<rparr>;
          ps = fold (\<lambda>(k, p) d. dict_set d k p) (polygon_params (translate env) a) (c_params c1)
      in py_bind (dict_del ps ''color'') (\<lambda>ps1.
         py_bind (dict_del ps1 ''colorSpace'') (\<lambda>ps2. Inr (c1\<lparr>c_params := ps2\<rparr>))))"

section \<open>The generated code\<close>

text \<open>\<open>d[k].val == s\<close>, and \<open>'%(k)s' % d\<close>, that is \<open>str(d[k])\<close>.\<close>

definition val_is :: "params \<Rightarrow> string \<Rightarrow> string \<Rightarrow> bool py_result" where
  "val_is d k s = py_bind (dict_get d k) (\<lambda>p. Inr (val p = PyStr s))"

definition fmt :: "builder_env \<Rightarrow> params \<Rightarrow> string \<Rightarrow> string py_result" where
  "fmt env d k = py_bind (dict_get d k) (\<lambda>p. Inr (param_str env p))"

text \<open>A text built from pieces left to right; the first failing piece raises.\<close>

fun cat_res :: "string py_result list \<Rightarrow> string py_result" where
  "cat_res [] = Inr []"
| "cat_res (r # rs) = py_bind r (\<lambda>s. py_bind (cat_res rs) (\<lambda>t. Inr (s @ t)))"

text \<open>The first lines, by \<open>nVertices\<close>: a line, a triangle, a rectangle, or a
  regular polygon.\<close>

definition shape_code :: "builder_env \<Rightarrow> params \<Rightarrow> params \<Rightarrow> string \<Rightarrow> string py_result" where
  "shape_code env params inits unitsStr =
     (let head = (\<lambda>cls. [fmt env inits ''name'', Inr ('' = visual.'' @ cls @ ''('' @ nl),
                          Inr ''    win=win, name='', Inr [CHR 0x27], fmt env inits ''name'', Inr [CHR 0x27],
                          Inr '','', Inr unitsStr, Inr nl]);
          sz = fmt env inits ''size''
      in py_bind (val_is params ''nVertices'' ''2'') (\<lambda>b2. if b2 then
           cat_res (head ''Line'' @ [Inr ''    start=(-'', sz, Inr ''[0]/2.0, 0), end=(+'', sz,
                                     Inr (''[0]/2.0, 0),'' @ nl)])
         else py_bind (val_is params ''nVertices'' ''3'') (\<lambda>b3. if b3 then
           cat_res (head ''ShapeStim'' @ [Inr ''    vertices=[[-'', sz, Inr ''[0]/2.0,-'', sz,
                                          Inr ''[1]/2.0], [+'', sz, Inr ''[0]/2.0,-'', sz,
                                          Inr ''[1]/2.0], [0,'', sz, Inr (''[1]/2.0]],'' @ nl)])
         else py_bind (val_is params ''nVertices'' ''4'') (\<lambda>b4. if b4 then
           cat_res (head ''Rect'' @ [Inr ''    width='', sz, Inr ''[0], height='', sz, Inr (''[1],'' @ nl)])
         else
           cat_res (head ''Polygon'' @
                    [Inr ''    edges='',
                     py_bind (dict_get inits ''nVertices'') (\<lambda>p. Inr (py_str (float_repr env) (val p))),
                     Inr '','', Inr '' size='', sz, Inr ('','' @ nl)])))))"

definition common_code :: "builder_env \<Rightarrow> params \<Rightarrow> string py_result" where
  "common_code env inits =
     cat_res [Inr ''    ori='', fmt env inits ''ori'', Inr '', pos='', fmt env inits ''pos'', Inr ('','' @ nl),
              Inr ''    lineWidth='', fmt env inits ''lineWidth'', Inr '', lineColor='', fmt env inits ''lineColor'',
              Inr '', lineColorSpace='', fmt env inits ''lineColorSpace'', Inr ('','' @ nl),
              Inr ''    fillColor='', fmt env inits ''fillColor'', Inr '', fillColorSpace='',
              fmt env inits ''fillColorSpace'', Inr ('','' @ nl),
              Inr ''    opacity='', fmt env inits ''opacity'', Inr '', '']"

text \<open>\<open>'depth=%.1f, ' % depth\<close> for the integer \<open>depth\<close>.\<close>

definition depth_code :: "int \<Rightarrow> string" where
  "depth_code depth = ''depth='' @ int_str depth @ ''.0, ''"

definition writeInitCode :: "builder_env \<Rightarrow> component \<Rightarrow> string list \<Rightarrow> string list py_result" where
  "writeInitCode env c buff =
     py_bind (val_is (c_params c) ''units'' ''from exp settings'') (\<lambda>fromExp.
     py_bind (if fromExp then Inr ''''
              else cat_res [Inr ''units='', fmt env (c_params c) ''units'', Inr '', '']) (\<lambda>unitsStr.
     (let inits0 = get_init_vals env (c_params c) in
      py_bind (dict_get inits0 ''size'') (\<lambda>sp.
      (let inits = (if val sp = PyStr ''1.0'' then dict_set inits0 ''size'' (sp\<lparr>val := PyStr ''[1.0, 1.0]''\<rparr>)
                    else inits0) in
       py_bind (shape_code env (c_params c) inits unitsStr) (\<lambda>code1.
       py_bind (common_code env inits) (\<lambda>code2.
       (let code3 = depth_code (- pos_in_routine env c) in
        py_bind (val_is (c_params c) ''interpolate'' ''linear'') (\<lambda>lin.
        Inr (buff @ [code1 @ code2 @ code3 @
                     (if lin then ''interpolate=True)'' @ nl else ''interpolate=False)'' @ nl)]))))))))))"

text \<open>The keys of \<open>inits\<close> that the generated code reads.\<close>

definition init_keys :: "string list" where
  "init_keys = [''name'', ''size'', ''ori'', ''pos'', ''lineWidth'', ''lineColor'', ''lineColorSpace'',
                ''fillColor'', ''fillColorSpace'', ''opacity'']"

section \<open>Example values\<close>

definition demo_builder_env :: builder_env where
  "demo_builder_env =
     \<lparr>base_visual_init = (\<lambda>e p va. \<lparr>c_exp = e, c_parentName = p,
        c_params = [(''name'', code_param (va_name va)), (''units'', code_param (va_units va)),
                    (''pos'', code_param (va_pos va)), (''size'', code_param (va_size va)),
                    (''ori'', code_param (va_ori va)), (''color'', code_param (PyStr ''$[1,1,1]'')),
                    (''colorSpace'', code_param (PyStr ''rgb'')), (''opacity'', code_param (PyInt 1))],
        c_type = '''', c_url = '''', c_order = [], c_alerts = []\<rparr>),
      require_psychopy_libs = (\<lambda>ls e. e\<lparr>exp_libs := exp_libs e @ ls\<rparr>),
      get_init_vals = (\<lambda>ps. ps),
      param_str = (\<lambda>p. py_str (\<lambda>_. ''0.5'') (val p)),
      float_repr = (\<lambda>_. ''0.5''),
      pos_in_routine = (\<lambda>_. 2),
      translate = (\<lambda>s. s)\<rparr>"

definition demo_poly :: "pyobj \<Rightarrow> component" where
  "demo_poly nv = \<lparr>c_exp = \<lparr>exp_settings = [], exp_libs = []\<rparr>, c_parentName = ''trial'',
     c_params = [(''name'', code_param (PyStr ''polygon'')), (''units'', code_param (PyStr ''from exp settings'')),
                 (''nVertices'', code_param nv), (''interpolate'', code_param (PyStr ''linear'')),
                 (''size'', code_param (PyStr ''(0.5, 0.5)'')), (''ori'', code_param (PyStr ''0'')),
                 (''pos'', code_param (PyStr ''(0, 0)'')), (''lineWidth'', code_param (PyStr ''1'')),
                 (''lineColor'', code_param (PyStr ''$[1,1,1]'')), (''lineColorSpace'', code_param (PyStr ''rgb'')),
                 (''fillColor'', code_param (PyStr ''$[1,1,1]'')), (''fillColorSpace'', code_param (PyStr ''rgb'')),
                 (''opacity'', code_param (PyStr ''1''))],
     c_type = ''Polygon'', c_url = '''', c_order = [''nVertices''], c_alerts = []\<rparr>"

section \<open>Lemmas\<close>

lemma val_is_ok: "map_of d k = Some p \<Longrightarrow> val_is d k s = Inr (val p = PyStr s)"
  by (simp add: val_is_def dict_get_def)

lemma fmt_the: "map_of d k \<noteq> None \<Longrightarrow> fmt env d k = Inr (param_str env (the (map_of d k)))"
  by (auto simp: fmt_def dict_get_def)

lemma fmt_Some: "map_of d k = Some p \<Longrightarrow> fmt env d k = Inr (param_str env p)"
  by (simp add: fmt_def dict_get_def)

lemma dict_get_the: "map_of d k \<noteq> None \<Longrightarrow> dict_get d k = Inr (the (map_of d k))"
  by (auto simp: dict_get_def)

lemma init_keys_fmt:
  assumes "\<forall>k\<in>set init_keys. map_of I k \<noteq> None"
  shows "fmt env I ''name'' = Inr (param_str env (the (map_of I ''name'')))"
    "fmt env I ''size'' = Inr (param_str env (the (map_of I ''size'')))"
    "fmt env I ''ori'' = Inr (param_str env (the (map_of I ''ori'')))"
    "fmt env I ''pos'' = Inr (param_str env (the (map_of I ''pos'')))"
    "fmt env I ''lineWidth'' = Inr (param_str env (the (map_of I ''lineWidth'')))"
    "fmt env I ''lineColor'' = Inr (param_str env (the (map_of I ''lineColor'')))"
    "fmt env I ''lineColorSpace'' = Inr (param_str env (the (map_of I ''lineColorSpace'')))"
    "fmt env I ''fillColor'' = Inr (param_str env (the (map_of I ''fillColor'')))"
    "fmt env I ''fillColorSpace'' = Inr (param_str env (the (map_of I ''fillColorSpace'')))"
    "fmt env I ''opacity'' = Inr (param_str env (the (map_of I ''opacity'')))"
  using assms by (simp_all add: init_keys_def fmt_the)

text \<open>C38: For nVertices '4' and any units and interpolate values, writeInitCode appends to the buffer exactly the text creating a visual.Rect: the name, the units argument (none for 'from exp settings', else units= and the units parameter), width and height taken from the size's entries 0 and 1, the common attributes, the depth, and interpolate=True exactly when interpolate is 'linear' (a size of '1.0' excepted, which the code first replaces).\<close>

theorem writeInitCode_rect:
  assumes "map_of (c_params c) ''units'' = Some pu"
    and "map_of (c_params c) ''nVertices'' = Some pn" "val pn = PyStr ''4''"
    and "map_of (c_params c) ''interpolate'' = Some pint"
    and keys: "\<forall>k\<in>set init_keys. map_of (get_init_vals env (c_params c)) k \<noteq> None"
    and "val (the (map_of (get_init_vals env (c_params c)) ''size'')) \<noteq> PyStr ''1.0''"
  shows "writeInitCode env c buff = Inr (buff @
     [let S = (\<lambda>k. param_str env (the (map_of (get_init_vals env (c_params c)) k)));
          U = (if val pu = PyStr ''from exp settings'' then [] else ''units='' @ param_str env pu @ '', '') in
      S ''name'' @ '' = visual.Rect('' @ nl @ ''    win=win, name='' @ [CHR 0x27] @ S ''name'' @ [CHR 0x27] @ '','' @
      U @ nl @
      ''    width='' @ S ''size'' @ ''[0], height='' @ S ''size'' @ ''[1],'' @ nl @
      ''    ori='' @ S ''ori'' @ '', pos='' @ S ''pos'' @ '','' @ nl @
      ''    lineWidth='' @ S ''lineWidth'' @ '', lineColor='' @ S ''lineColor'' @
      '', lineColorSpace='' @ S ''lineColorSpace'' @ '','' @ nl @
      ''    fillColor='' @ S ''fillColor'' @ '', fillColorSpace='' @ S ''fillColorSpace'' @ '','' @ nl @
      ''    opacity='' @ S ''opacity'' @ '', depth='' @ int_str (- pos_in_routine env c) @
      (if val pint = PyStr ''linear'' then ''.0, interpolate=True)'' else ''.0, interpolate=False)'') @ nl])"
proof -
  have sz: "map_of (get_init_vals env (c_params c)) ''size'' \<noteq> None" using keys by (simp add: init_keys_def)
  show ?thesis
    unfolding writeInitCode_def
    using assms by (simp add: dict_get_the [OF sz] val_is_ok init_keys_fmt [OF keys] shape_code_def
        common_code_def depth_code_def Let_def fmt_Some)
qed

text \<open>C39: When nVertices holds an int (as the constructor's default 4 does), for any units and interpolate values none of the string comparisons with '2', '3', '4' holds, and writeInitCode writes a visual.Polygon with the name, the units argument (none for 'from exp settings', else units= and the units parameter), edges=str(n) and size= the size, whatever n is (a size of '1.0' excepted, which the code first replaces).\<close>

theorem writeInitCode_int_vertices:
  assumes "map_of (c_params c) ''units'' = Some pu"
    and "map_of (c_params c) ''nVertices'' = Some pn" "val pn = PyInt n"
    and "map_of (c_params c) ''interpolate'' = Some pint"
    and keys: "\<forall>k\<in>set init_keys. map_of (get_init_vals env (c_params c)) k \<noteq> None"
    and "val (the (map_of (get_init_vals env (c_params c)) ''size'')) \<noteq> PyStr ''1.0''"
    and "map_of (get_init_vals env (c_params c)) ''nVertices'' = Some pn'" "val pn' = PyInt n"
  shows "writeInitCode env c buff = Inr (buff @
     [let S = (\<lambda>k. param_str env (the (map_of (get_init_vals env (c_params c)) k)));
          U = (if val pu = PyStr ''from exp settings'' then [] else ''units='' @ param_str env pu @ '', '') in
      S ''name'' @ '' = visual.Polygon('' @ nl @ ''    win=win, name='' @ [CHR 0x27] @ S ''name'' @ [CHR 0x27] @
      '','' @ U @ nl @ ''    edges='' @ int_str n @ '', size='' @ S ''size'' @ '','' @ nl @
      ''    ori='' @ S ''ori'' @ '', pos='' @ S ''pos'' @ '','' @ nl @
      ''    lineWidth='' @ S ''lineWidth'' @ '', lineColor='' @ S ''lineColor'' @
      '', lineColorSpace='' @ S ''lineColorSpace'' @ '','' @ nl @
      ''    fillColor='' @ S ''fillColor'' @ '', fillColorSpace='' @ S ''fillColorSpace'' @ '','' @ nl @
      ''    opacity='' @ S ''opacity'' @ '', depth='' @ int_str (- pos_in_routine env c) @
      (if val pint = PyStr ''linear'' then ''.0, interpolate=True)'' else ''.0, interpolate=False)'') @ nl])"
proof -
  have sz: "map_of (get_init_vals env (c_params c)) ''size'' \<noteq> None" using keys by (simp add: init_keys_def)
  show ?thesis
    unfolding writeInitCode_def
    using assms by (simp add: dict_get_the [OF sz] val_is_ok init_keys_fmt [OF keys] shape_code_def
        common_code_def depth_code_def Let_def dict_get_the py_str_def fmt_Some)
qed

lemma polygon_params_keys:
  "map fst (polygon_params tr a) = [''nVertices'', ''fillColorSpace'', ''fillColor'', ''lineColorSpace'',
     ''lineColor'', ''lineWidth'', ''interpolate'', ''size'']"
  by (simp add: polygon_params_def Let_def)

text \<open>The constructor succeeds exactly when the base class defined color and colorSpace; the params are then those of the base class overridden by the eight Polygon parameters, without color and colorSpace, the type is 'Polygon' and the visual library is required; otherwise it raises KeyError.\<close>

theorem PolygonComponent_params:
  fixes env exp' parentName a
  defines "c0 \<equiv> base_visual_init env exp' parentName (polygon_base_args a)"
  shows "(''color'' \<in> fst ` set (c_params c0) \<and> ''colorSpace'' \<in> fst ` set (c_params c0) \<longrightarrow>
            (\<exists>c. PolygonComponent env exp' parentName a = Inr c \<and> c_type c = ''Polygon'' \<and>
                 c_order c = [''nVertices''] \<and> c_exp c = require_psychopy_libs env [''visual''] (c_exp c0) \<and>
                 map_of (c_params c) = (map_of (c_params c0) ++ map_of (polygon_params (translate env) a))
                                         (''color'' := None, ''colorSpace'' := None))) \<and>
         (\<not> (''color'' \<in> fst ` set (c_params c0) \<and> ''colorSpace'' \<in> fst ` set (c_params c0)) \<longrightarrow>
            PolygonComponent env exp' parentName a = Inl KeyError)"
proof -
  let ?ps = "fold (\<lambda>(k, p) d. dict_set d k p) (polygon_params (translate env) a) (c_params c0)"
  have keys: "fst ` set ?ps = fst ` set (c_params c0) \<union> set (map fst (polygon_params (translate env) a))"
    using keys_fold_dict_set by simp
  have new: "''color'' \<notin> set (map fst (polygon_params (translate env) a))"
    "''colorSpace'' \<notin> set (map fst (polygon_params (translate env) a))"
    by (simp_all add: polygon_params_keys)
  have m: "map_of ?ps = map_of (c_params c0) ++ map_of (polygon_params (translate env) a)"
    by (simp add: map_of_fold_dict_set map_of_rev_distinct polygon_params_keys)
  have def: "PolygonComponent env exp' parentName a =
      py_bind (dict_del ?ps ''color'') (\<lambda>ps1. py_bind (dict_del ps1 ''colorSpace'')
        (\<lambda>ps2. Inr (c0\<lparr>c_type := ''Polygon'', c_url := ''http://www.psychopy.org/builder/components/polygon.html'',
                    c_exp := require_psychopy_libs env [''visual''] (c_exp c0), c_order := [''nVertices''],
                    c_params := ps2\<rparr>)))"
    by (simp add: PolygonComponent_def c0_def Let_def)
  show ?thesis
  proof (intro conjI impI)
    assume k0: "''color'' \<in> fst ` set (c_params c0) \<and> ''colorSpace'' \<in> fst ` set (c_params c0)"
    let ?ps1 = "filter (\<lambda>(k', _). k' \<noteq> ''color'') ?ps"
    let ?ps2 = "filter (\<lambda>(k', _). k' \<noteq> ''colorSpace'') ?ps1"
    have d1: "dict_del ?ps ''color'' = Inr ?ps1" using k0 keys by (simp add: dict_del_ok)
    have d2: "dict_del ?ps1 ''colorSpace'' = Inr ?ps2" by (rule dict_del_ok) (simp only: set_map keys_filter_key keys, use k0 in simp)
    have "map_of ?ps2 = (map_of (c_params c0) ++ map_of (polygon_params (translate env) a))
                          (''color'' := None, ''colorSpace'' := None)" by (simp only: map_of_filter_key m)
    then show "\<exists>c. PolygonComponent env exp' parentName a = Inr c \<and> c_type c = ''Polygon'' \<and>
                 c_order c = [''nVertices''] \<and> c_exp c = require_psychopy_libs env [''visual''] (c_exp c0) \<and>
                 map_of (c_params c) = (map_of (c_params c0) ++ map_of (polygon_params (translate env) a))
                                         (''color'' := None, ''colorSpace'' := None)"
      by (simp add: def d1 d2)
  next
    assume nk: "\<not> (''color'' \<in> fst ` set (c_params c0) \<and> ''colorSpace'' \<in> fst ` set (c_params c0))"
    let ?ps1 = "filter (\<lambda>(k', _). k' \<noteq> ''color'') ?ps"
    show "PolygonComponent env exp' parentName a = Inl KeyError"
    proof (cases "''color'' \<in> fst ` set (c_params c0)")
      case True
      have d1: "dict_del ?ps ''color'' = Inr ?ps1" using True keys by (simp add: dict_del_ok)
      have "dict_del ?ps1 ''colorSpace'' = Inl KeyError"
        by (rule dict_del_missing) (simp only: set_map keys_filter_key keys, use nk True new in simp)
      then show ?thesis by (simp add: def d1)
    next
      case False
      have "dict_del ?ps ''color'' = Inl KeyError"
        by (rule dict_del_missing) (simp only: set_map keys, use False new in simp)
      then show ?thesis by (simp add: def)
    qed
  qed
qed

section \<open>Witnesses\<close>

lemma writeInitCode_rect_witness:
  "writeInitCode demo_builder_env (demo_poly (PyStr ''4'')) [] = Inr
     [''polygon = visual.Rect('' @ nl @ ''    win=win, name='' @ [CHR 0x27] @ ''polygon'' @ [CHR 0x27] @ '','' @ nl @
      ''    width=(0.5, 0.5)[0], height=(0.5, 0.5)[1],'' @ nl @ ''    ori=0, pos=(0, 0),'' @ nl @
      ''    lineWidth=1, lineColor=$[1,1,1], lineColorSpace=rgb,'' @ nl @
      ''    fillColor=$[1,1,1], fillColorSpace=rgb,'' @ nl @
      ''    opacity=1, depth='' @ int_str (- 2) @ ''.0, interpolate=True)'' @ nl]"
  using writeInitCode_rect [of "demo_poly (PyStr ''4'')" "code_param (PyStr ''from exp settings'')"
      "code_param (PyStr ''4'')" "code_param (PyStr ''linear'')" demo_builder_env "[]"]
  by (simp add: demo_poly_def demo_builder_env_def code_param_def init_keys_def py_str_def)

lemma writeInitCode_int_vertices_witness:
  "writeInitCode demo_builder_env (demo_poly (PyInt 4)) [] = Inr
     [''polygon = visual.Polygon('' @ nl @ ''    win=win, name='' @ [CHR 0x27] @ ''polygon'' @ [CHR 0x27] @ '','' @ nl @
      ''    edges='' @ int_str 4 @ '', size=(0.5, 0.5),'' @ nl @ ''    ori=0, pos=(0, 0),'' @ nl @
      ''    lineWidth=1, lineColor=$[1,1,1], lineColorSpace=rgb,'' @ nl @
      ''    fillColor=$[1,1,1], fillColorSpace=rgb,'' @ nl @
      ''    opacity=1, depth='' @ int_str (- 2) @ ''.0, interpolate=True)'' @ nl]"
  using writeInitCode_int_vertices [of "demo_poly (PyInt 4)" "code_param (PyStr ''from exp settings'')"
      "code_param (PyInt 4)" 4 "code_param (PyStr ''linear'')" demo_builder_env "code_param (PyInt 4)" "[]"]
  by (simp add: demo_poly_def demo_builder_env_def code_param_def init_keys_def py_str_def)

lemma PolygonComponent_params_witness:
  "\<exists>c. PolygonComponent demo_builder_env \<lparr>exp_settings = [], exp_libs = []\<rparr> ''trial'' polygon_defaults = Inr c \<and>
       map_option val (map_of (c_params c) ''nVertices'') = Some (PyInt 4) \<and> map_of (c_params c) ''color'' = None"
  using PolygonComponent_params [of demo_builder_env "\<lparr>exp_settings = [], exp_libs = []\<rparr>" "''trial''" polygon_defaults]
  by (auto simp: demo_builder_env_def polygon_base_args_def polygon_defaults_def polygon_params_def Let_def)

end
