(* ===== verification/Spec2Isabelle.thy ===== *)
theory Spec2Isabelle
  imports Shaders Shader_Defs Framebuffers Vertex_Buffers Materials Wavefront GL_Info AlertTools Polygon
begin

text \<open>
  \<^bold>\<open>A verification library for PsychoPy's OpenGL helpers.\<close>

  \<^bold>\<open>The program.\<close>  The repository excerpt holds three Python files, all modelled.
  \<^item> \<open>src/psychopy/tools/gltools.py\<close>: a procedural layer over \<open>pyglet.gl\<close>
    that creates, checks, uses and deletes OpenGL objects (shader programs,
    framebuffers, renderbuffers, textures, vertex buffers and arrays), sets
    up materials and lights, and loads Wavefront OBJ/MTL models.  Every helper
    is a short sequence of GL calls with Python-side guards that raise
    \<open>ValueError\<close>, \<open>RuntimeError\<close>, \<open>IndexError\<close> or \<open>TypeError\<close>.  The helpers
    interact only through the GL context they share (object names, bindings,
    the current program) and through the descriptors they return.
  \<^item> \<open>src/psychopy/app/builder/components/polygon.py\<close>: a Builder component
    that writes the Python code creating a polygon stimulus.
  \<^item> \<open>src/psychopy/alerts/AlertTools.py\<close>: checks that a component's size
    and position fit the window and writes alerts.

  \<^bold>\<open>Layout.\<close>
  \<^item> \<open>Py_Prelude\<close>: Python exceptions as the datatype \<open>py_error\<close> (a raise is
    \<open>Inl\<close>), and the built-ins the code calls: \<open>str.find\<close>, \<open>startswith\<close>,
    \<open>split(' ')\<close>, \<open>strip\<close>, \<open>readlines\<close>, \<open>str(int)\<close>, \<open>int(str)\<close>,
    negative list indexing, insertion-ordered dicts as association lists;
    with their lemmas (find is the first occurrence, split/join and
    readlines/concat round trips, \<open>int(str(i)) = i\<close>, dict lookup after
    assignment).
  \<^item> \<open>GL_Context\<close>: the environment, not repository code.  The OpenGL
    context as a record \<open>gl_state\<close> (object tables for shaders and programs,
    the current program, the sticky error flag, the Python process's
    stderr) and one function per GL entry point, following the OpenGL 3.3
    specification: misuse sets \<open>GL_INVALID_ENUM\<close>/\<open>VALUE\<close>/\<open>OPERATION\<close> and
    changes nothing; deleting an attached shader or the current program only
    flags it, and the object goes when the last attachment or the
    installation ends.  What the specification leaves to the implementation
    (compile and link outcomes, logs, active uniforms, limits) is the record
    \<open>gl_driver\<close>, a parameter of every theorem.  Names come from a counter.
    The invariant \<open>gl_wf\<close> (object tables consistent, attachments live,
    flags only on held shaders and on the current program) is kept by every
    entry point (\<open>gl_wf_intros\<close>).
  \<^item> \<open>Shaders\<close>: \<open>gltools.py\<close> lines 50-864, one definition per function
    (\<open>createProgram\<close>, \<open>compileShader\<close>, \<open>deleteObject\<close>, \<open>attachShader\<close>,
    \<open>detachShader\<close>, \<open>linkProgram\<close>, \<open>validateProgram\<close>, \<open>useProgram\<close>,
    \<open>getInfoLog\<close>, \<open>getUniformLocations\<close>, \<open>getAttribLocations\<close> and their ARB
    variants).  A helper maps a context to its result and the context at the
    return or the raise (\<open>'a gl_call\<close>).  The datatype \<open>shader_call\<close> lists the
    public helpers and \<open>shader_reachable\<close> is the set of contexts reachable by
    any sequence of them from a fresh context.

  \<^item> \<open>Shader_Defs\<close>: \<open>embedShaderSourceDefs\<close> (lines 272-383): the
    conversion of each dict entry to a \<open>#define\<close> line (\<open>define_entry\<close>,
    \<open>def_value\<close>), the loop over the dict (\<open>glsl_defs\<close>) and the insertion
    after the \<open>#version\<close> line.
  \<^item> \<open>GL_Images\<close>: the environment again, for framebuffers, renderbuffers
    and textures (OpenGL 3.3, section 4.4): the record \<open>img_state\<close> (object
    tables with deletion flags, the draw and read framebuffer bindings, the
    renderbuffer and per-target texture bindings, enabled capabilities, the
    unpack alignment, the error flag), the driver limits \<open>img_driver\<close>, one
    function per GL entry point the helpers call, framebuffer completeness
    (\<open>fb_status\<close>), and the invariant \<open>img_wf\<close> (names below the counter,
    bindings to live objects of the right target, attachments to existing
    images), kept by every entry point (\<open>img_wf_intros\<close>).
  \<^item> \<open>Framebuffers\<close>: \<open>gltools.py\<close> lines 866-1494 and \<open>getIntegerv\<close>
    (2482-2498): the descriptors (\<open>Framebuffer\<close>, \<open>Renderbuffer\<close>,
    \<open>TexImage2D\<close>, \<open>TexImage2DMultisample\<close>) as records, \<open>createFBO\<close>,
    \<open>attach\<close>, \<open>isComplete\<close>, \<open>deleteFBO\<close>, \<open>blitFBO\<close>, the context manager
    \<open>useFBO\<close> (a function of its body; the \<open>finally\<close> clause runs whether the
    body returned or raised), \<open>createRenderbuffer\<close>, \<open>createTexImage2D\<close>,
    \<open>createTexImage2DMultisample\<close> and the delete helpers, each as
    \<open>'a img_call\<close>.  The \<open>ctypes\<close> conversions are explicit: an \<open>int\<close> given
    for a \<open>GLuint\<close> wraps modulo \<open>2^32\<close> (\<open>ctypes_uint\<close>), an \<open>int\<close> given for
    a \<open>POINTER(GLuint)\<close> raises \<open>ArgumentError\<close>.  The datatype \<open>img_op\<close>
    lists the helpers and \<open>img_reachable\<close> the contexts they reach.

  \<^item> \<open>GL_Buffers\<close>: the environment for buffer objects and vertex array
    objects (OpenGL 3.3 compatibility profile, 2.8-2.10): names reserved by
    \<open>glGen*\<close> and objects created by the first bind, buffer size and usage,
    per-VAO element binding, generic and client attribute arrays, the draw
    calls issued; the invariant \<open>buf_wf\<close>, kept by every entry point
    (\<open>buf_wf_intros\<close>).
  \<^item> \<open>Vertex_Buffers\<close>: \<open>gltools.py\<close> lines 1502-1969: \<open>VertexBufferInfo\<close>
    (constructor, \<open>hasBuffer\<close>, \<open>validate\<close>), \<open>createVBO\<close> (an array is its
    numpy shape), \<open>setVertexAttribPointer\<close>, \<open>deleteVBO\<close>, \<open>createVAO\<close> with
    its loop \<open>vao_attribs\<close>, \<open>drawVAO\<close> and \<open>deleteVAO\<close>; the datatype
    \<open>vbuf_op\<close> and \<open>vbuf_reachable\<close> for sequences of them.
  \<^item> \<open>GL_Lighting\<close>: the environment for the fixed-function state the
    material and light helpers set (OpenGL 3.3 compatibility profile, 2.13
    and 3.9): front and back material parameters, per-light parameters, the
    light model's ambient colour, enabled capabilities, the per-unit
    \<open>GL_TEXTURE_2D\<close> enable and binding, the active texture unit, the
    current colour and colour mask; range checks of \<open>glMaterialfv\<close> and
    \<open>glLightfv\<close>; the invariant \<open>ls_wf\<close> (active unit valid, no light
    above \<open>GL_MAX_LIGHTS\<close> enabled), kept by every entry point
    (\<open>ls_wf_intros\<close>).
  \<^item> \<open>Materials\<close>: \<open>gltools.py\<close> lines 1981-2236 and 2601-2748: the ctypes
    conversions \<open>(GLfloat * n)(*v)\<close> (\<open>c_float_array\<close>: items in order,
    zero padding, \<open>IndexError\<close> past \<open>n\<close>, \<open>TypeError\<close> for a non-number)
    and \<open>GLfloat(v)\<close>; \<open>Material\<close> and \<open>Light\<close> as records whose parameter
    dicts are association lists; \<open>createMaterial\<close> (split at its texture
    loop into \<open>new_material\<close> and \<open>set_material_textures\<close>),
    \<open>useMaterial\<close> (its three loops \<open>apply_material_params\<close>,
    \<open>reset_material_params\<close>, \<open>bind_material_textures\<close>), \<open>createLight\<close>,
    \<open>useLights\<close> (loop \<open>setup_lights\<close>), \<open>setAmbientLight\<close>,
    \<open>defaultMaterial\<close> and the four material libraries; the datatype
    \<open>light_op\<close> and \<open>light_reachable\<close> for sequences of the helpers.
  \<^item> \<open>Wavefront\<close>: \<open>gltools.py\<close> lines 2239-2475: \<open>loadObjFile\<close>
    (first pass \<open>scan_line\<close>; second pass \<open>obj_lines\<close>, one \<open>obj_line\<close> per
    line over the record \<open>obj_parse\<close> of the parser's locals, the face loop
    \<open>face_corners\<close>/\<open>new_corner\<close>; the uploads through \<open>createVBO\<close> and the
    VAO loop \<open>obj_vaos\<close>) and \<open>loadMtlFile\<close> (\<open>mtl_lines\<close>/\<open>mtl_line\<close>,
    colours through the ctypes conversion of \<open>Materials\<close>, textures through
    \<open>createTexImage2D\<close>).  The file's text is an argument; Python's
    \<open>float()\<close> and PIL's image loading are the parameters \<open>file_env\<close>.
  \<^item> \<open>GL_Info\<close>: \<open>gltools.py\<close> lines 2482-2582: \<open>getIntegerv\<close>,
    \<open>getFloatv\<close>, \<open>getString\<close> and \<open>getOpenGLInfo\<close> (its arguments
    queried left to right, the first exception ending the call) over the
    record \<open>info_driver\<close> of what the driver answers: the bytes
    \<open>glGetString\<close> points to (\<open>None\<close> for NULL) and the integer and float
    values; the context's part is its error flag.
  \<^item> \<open>Builder_Params\<close>: Python values as the datatype \<open>pyobj\<close> (with
    \<open>str\<close>/\<open>repr\<close>), the \<open>Param\<close> objects of a component's \<open>params\<close> dict, the
    experiment and the component (records holding the attributes the
    Builder code reads and writes), \<open>del d[k]\<close>, and the dict lemmas the two
    Builder theories share.
  \<^item> \<open>AlertTools\<close>: \<open>src/psychopy/alerts/AlertTools.py\<close>: \<open>TestWin\<close>,
    \<open>convertParamToPix\<close>, \<open>testSize\<close> and \<open>testPos\<close> (one shared body,
    \<open>bounds_check\<close>) and \<open>runTest\<close>; a check maps the component to its
    result and the component with the alert codes it wrote.  The monitor
    table, \<open>ast.literal_eval\<close> and \<open>monitorunittools.convertToPix\<close> are
    outside the excerpt and are the parameters \<open>alert_env\<close>.
  \<^item> \<open>Polygon\<close>: \<open>src/psychopy/app/builder/components/polygon.py\<close>: the
    constructor \<open>PolygonComponent\<close> (its eight \<open>Param\<close>s, the deletions of
    \<open>color\<close> and \<open>colorSpace\<close>) and \<open>writeInitCode\<close>, whose text is built
    piece by piece in Python's evaluation order (\<open>shape_code\<close>,
    \<open>common_code\<close>, \<open>depth_code\<close>), every dict lookup a possible
    \<open>KeyError\<close>.  The base class, \<open>getInitVals\<close>, \<open>str(Param)\<close>,
    \<open>requirePsychopyLibs\<close> and \<open>getPosInRoutine\<close> are the parameters
    \<open>builder_env\<close>.

  \<^bold>\<open>What is proved.\<close>
  \<^item> No leak: along any sequence of shader helper calls, returning or
    raising, every live shader and program is a name some call returned to
    its caller (\<open>Shaders.shader_run\<close>, a run that records the names handed
    out; \<open>Shaders.shader_run_no_leak\<close>, by rule induction over it, on top of
    the well-formedness invariant \<open>gl_wf\<close> of every reachable context).
  \<^item> Functional behaviour of \<open>compileShader\<close> on each branch, with the exact
    resulting context: success, failed compilation (log written, shader
    deleted, so nothing leaks), invalid shader type (a \<open>ValueError\<close> from the
    error path's \<open>getInfoLog(0)\<close>); equivalence of the ARB variant.
  \<^item> Defects: \<open>getInfoLog\<close> reads a program's log with
    \<open>glGetShaderInfoLog\<close>, so it is always empty and a link failure prints
    only a newline; \<open>useProgram\<close> accepts an unlinked program; and
    \<open>getUniformLocations\<close> returns \<open>None\<close> rather than an empty dict, and
    otherwise refines the reference \<open>locations_spec\<close>.
  \<^item> Deletion semantics of \<open>deleteObject\<close> and its error case.
  \<^item> \<open>embedShaderSourceDefs\<close>: the block lands after the newline ending the
    \<open>#version\<close> line, before a \<open>#version\<close> line without newline (a defect),
    at the front without one; the error is that of the first bad entry;
    values are quoted and floats truncated.
  \<^item> Every context reachable by framebuffer, renderbuffer and texture
    helpers satisfies \<open>img_wf\<close>, the invariant the helper lemmas assume.
  \<^item> Exact results of \<open>createFBO\<close> (which silently drops an attachment
    that is no descriptor, leaving an incomplete framebuffer), \<open>createRenderbuffer\<close>, \<open>createTexImage2D\<close>
    and \<open>attach\<close>; \<open>useFBO\<close> restores the draw binding but replaces the read
    binding; the error paths: \<open>createRenderbuffer\<close> leaks a bound
    renderbuffer on a bad sample count, \<open>createTexImage2D\<close> and
    \<open>createTexImage2DMultisample\<close> raise before any GL call, \<open>deleteFBO\<close>
    refuses an \<open>int\<close> and \<open>useFBO\<close> binds one modulo \<open>2^32\<close>, \<open>blitFBO\<close> raises \<open>IndexError\<close> on a short rectangle;
    the sample-count test \<open>n AND (n - 1) = 0\<close> is the power-of-two test for
    positive \<open>n\<close>, and which counts \<open>createTexImage2DMultisample\<close> accepts.

  \<^item> Vertex buffers: every reachable context satisfies \<open>buf_wf\<close> (the
    invariant the helper lemmas assume);
    \<open>createVBO\<close>'s exact result; \<open>validate\<close> never returns \<open>True\<close>;
    \<open>createVAO\<close> never returns normally (it reads attributes the
    descriptors do not have and returns an undefined class) and leaks a
    bound vertex array object.
  \<^item> Materials and lights: \<open>createMaterial\<close>'s result is well typed;
    its texture check has an upper bound only, so a unit below
    \<open>GL_TEXTURE0\<close> is accepted and \<open>useMaterial\<close> then binds the texture on
    the previously active unit with \<open>GL_INVALID_ENUM\<close>; \<open>useMaterial\<close>
    enables \<open>GL_TEXTURE_2D\<close> only on the unit active on entry, and
    \<open>useMaterial(None)\<close> resets only \<open>GL_TEXTURE0\<close>, so textures bound on
    other units stay bound; a colour with fewer than four components is
    zero padded (alpha 0); the arrays \<open>createMaterial\<close> stores read back
    exactly through \<open>glGetMaterialfv\<close> on both faces after \<open>useMaterial\<close>;
    \<open>useLights\<close> raises past \<open>GL_MAX_LIGHTS\<close> and otherwise enables exactly
    the lights given, and \<open>useLights(None)\<close> disables every light on a
    well-formed context; all predefined materials are created well typed;
    every reachable context satisfies \<open>ls_wf\<close>.
  \<^item> Model loaders: \<open>loadObjFile\<close> never returns and never changes the GL
    context (its first \<open>createVBO\<close> gets a flat list and fails on
    \<open>shape[1]\<close>); its duplicate test reads a dict that is never written,
    so every face corner gets a fresh index (a multiset invariant of the
    parser); \<open>loadMtlFile\<close> copies \<open>Ns\<close> unscaled, so a material with an
    exponent above 128 loads and then fails in \<open>useMaterial\<close>.
  \<^item> Driver queries: when \<open>getOpenGLInfo\<close> returns, joining its
    \<open>extensions\<close> with spaces gives back the decoded driver string (a
    lossless split; a trailing space gives an empty last name); in a
    core-profile context, where \<open>glGetString(GL_EXTENSIONS)\<close> is NULL, it
    raises \<open>AttributeError\<close>.
  \<^item> Alerts: \<open>runTest\<close> writes the size codes then the position codes, and
    the size test compares twice the stimulus size with the window (a
    defect); a position beyond the left or bottom edge is never reported;
    an exception in the Y test leaves the X alert written.
  \<^item> Polygon: the exact text written for a rectangle, for every units and
    interpolate value; an \<open>int\<close>
    \<open>nVertices\<close>, the constructor's default, is never recognised as 2, 3 or
    4 and is written as a \<open>visual.Polygon\<close>; the constructor's parameters and
    its \<open>KeyError\<close> when the base class lacks \<open>color\<close> or \<open>colorSpace\<close>.

  \<^bold>\<open>Bounds and fuel.\<close>  Every loop of the modelled code runs over a list or
  an index range, so every definition is structurally recursive and total; no
  fuel is needed.  Python integers are \<open>int\<close>, floats the exact \<open>real\<close> they
  denote (the checks compare, never round), numpy arrays lists; GL object
  names are \<open>nat\<close>.

  \<^bold>\<open>What is not modelled.\<close>  Every function of the excerpt's
  \<open>gltools.py\<close>, \<open>AlertTools.py\<close> and the Polygon component has a
  definition.  No property is a termination or liveness claim: every loop
  of the code runs over a finite list or range and every definition is
  structurally recursive (HOL checks its termination), and no helper waits
  for an event.
  A GL call never raises a Python exception: a misuse only sets the
  context's error flag.  This is pyglet's behaviour with its error checking
  off (\<open>pyglet.options['debug_gl'] = False\<close>); with it on, the first GL
  error would raise \<open>GLException\<close> at that call, which the model does not
  cover.
  A \<open>GLfloat\<close> is the real it is given, not its single-precision rounding
  (so the read-back theorem of \<open>Materials\<close> is stated against the array
  \<open>createMaterial\<close> stored, which is what the driver returns whatever the
  rounding);
  light positions are not transformed by a modelview matrix (the helpers
  never set one).
  Texel data is not modelled: an image is its size, format and sample count.
  Of the Builder code, the modules outside the excerpt (\<open>_base.py\<close>,
  \<open>experiment.py\<close>, \<open>monitorunittools\<close>, \<open>psychopy.monitors\<close>) are
  parameters, not definitions: a theorem about them holds for every
  implementation.  The escapes of Python's \<open>repr\<close> of a string are not
  modelled.
  Descriptor ids are the \<open>GLuint\<close> objects the helpers store; a descriptor
  built by hand around a Python \<open>int\<close> is outside the model.  The
  \<open>userData\<close> dict of the descriptors is omitted (no helper reads it).
  Not modelled: the pixel data of textures and images (PIL), floating-point
  arithmetic of colours, the GUI base classes the Builder component extends,
  and \<open>monitorunittools\<close>, which are not part of the excerpt.
\<close>

end
